(* ===== verification/Prelude.thy ===== *)
theory Prelude
  imports Complex_Main
begin

text \<open>
  Vocabulary shared by all components: the HTTP exceptions of NestJS as values, tables as
  lists of rows with the Prisma query forms the services use (\<open>findFirst\<close>, \<open>updateMany\<close>,
  \<open>count\<close>, \<open>aggregate\<close>, \<open>orderBy\<close>), the database transaction that rolls back on an exception,
  and the few JavaScript library functions the services call on strings and numbers.
  The collections \<open>table_simps\<close> and \<open>js_simps\<close> carry the automation.
\<close>

named_theorems table_simps \<open>rewriting for tables\<close>
named_theorems js_simps \<open>rewriting for the JavaScript library\<close>

section \<open>Exceptions\<close>

text \<open>
  The exceptions the services throw, one constructor per HTTP status. The argument is the
  message: the English code where the source has one, an ASCII tag where the source has an
  Arabic sentence. \<open>Internal\<close> is an exception that is no HTTP exception: Prisma's
  record-not-found, a missing configuration value.
\<close>

datatype http_error =
    BadRequest string
  | Unauthorized string
  | Forbidden string
  | NotFound string
  | Conflict string
  | TooManyRequests int
  | QuotaExhausted string int
  | Internal string

text \<open>An operation returns a value or an exception and, in both cases, the state it leaves.\<close>

type_synonym ('a, 's) outcome = "(http_error + 'a) \<times> 's"

text \<open>\<open>prisma.$transaction\<close>: an exception inside the body undoes every write of the body.\<close>

definition transaction :: "('s \<Rightarrow> ('a, 's) outcome) \<Rightarrow> 's \<Rightarrow> ('a, 's) outcome" where
  "transaction body s = (case body s of (Inl e, s') \<Rightarrow> (Inl e, s) | (Inr x, s') \<Rightarrow> (Inr x, s'))"

lemma transaction_error: "fst (transaction body s) = Inl e \<Longrightarrow> snd (transaction body s) = s"
  by (auto simp: transaction_def split: prod.splits sum.splits)

lemma transaction_Inl [simp]: "body s = (Inl e, s') \<Longrightarrow> transaction body s = (Inl e, s)"
  by (simp add: transaction_def)

lemma transaction_Inr [simp]: "body s = (Inr x, s') \<Longrightarrow> transaction body s = (Inr x, s')"
  by (simp add: transaction_def)

lemma transaction_invariant:
  assumes "I s" and "\<And>x s'. body s = (Inr x, s') \<Longrightarrow> I s'"
  shows "I (snd (transaction body s))"
  using assms by (auto simp: transaction_def split: prod.splits sum.splits)

section \<open>Tables\<close>

text \<open>
  A table is the list of its rows in insertion order. A query with no \<open>orderBy\<close> may return
  any matching row in SQL; the model takes the first in insertion order. \<open>List.find\<close> is
  \<open>findFirst\<close> and \<open>findUnique\<close>.
\<close>

definition update_where :: "('r \<Rightarrow> bool) \<Rightarrow> ('r \<Rightarrow> 'r) \<Rightarrow> 'r list \<Rightarrow> 'r list" where
  "update_where P f t = map (\<lambda>r. if P r then f r else r) t"

definition count_where :: "('r \<Rightarrow> bool) \<Rightarrow> 'r list \<Rightarrow> int" where
  "count_where P t = int (length (filter P t))"

text \<open>\<open>aggregate\<close> with \<open>_sum\<close>, whose null on no row the source replaces by 0.\<close>

definition sum_where :: "('r \<Rightarrow> bool) \<Rightarrow> ('r \<Rightarrow> int) \<Rightarrow> 'r list \<Rightarrow> int" where
  "sum_where P v t = sum_list (map v (filter P t))"

text \<open>\<open>findFirst\<close> with \<open>orderBy: asc\<close> and \<open>desc\<close> on an integer column.\<close>

definition first_asc :: "('r \<Rightarrow> int) \<Rightarrow> ('r \<Rightarrow> bool) \<Rightarrow> 'r list \<Rightarrow> 'r option" where
  "first_asc k P t = (case sort_key k (filter P t) of [] \<Rightarrow> None | r # _ \<Rightarrow> Some r)"

definition first_desc :: "('r \<Rightarrow> int) \<Rightarrow> ('r \<Rightarrow> bool) \<Rightarrow> 'r list \<Rightarrow> 'r option" where
  "first_desc k P t = first_asc (\<lambda>r. - k r) P t"

lemma update_where_simps [simp, table_simps]:
  "update_where P f [] = []"
  "update_where P f (r # t) = (if P r then f r else r) # update_where P f t"
  by (simp_all add: update_where_def)

lemma length_update_where [simp, table_simps]: "length (update_where P f t) = length t"
  by (simp add: update_where_def)

lemma set_update_where: "set (update_where P f t) = (\<lambda>r. if P r then f r else r) ` set t"
  by (simp add: update_where_def)

lemma in_update_whereE:
  assumes "r \<in> set (update_where P f t)"
  obtains (kept) "r \<in> set t" "\<not> P r" | (changed) q where "q \<in> set t" "P q" "r = f q"
  using assms by (auto simp: set_update_where split: if_splits)

lemma ball_update_where: "(\<forall>r \<in> set (update_where P f t). Q r) \<longleftrightarrow> (\<forall>r \<in> set t. Q (if P r then f r else r))"
  by (auto simp: set_update_where)

lemma in_update_whereI: "r \<in> set t \<Longrightarrow> P r \<Longrightarrow> q = f r \<Longrightarrow> q \<in> set (update_where P f t)"
  by (auto simp: set_update_where)

lemma update_where_none [table_simps]: "count_where P t = 0 \<Longrightarrow> update_where P f t = t"
  by (induction t) (auto simp: count_where_def split: if_splits)

lemma update_where_idem: "(\<And>r. r \<in> set t \<Longrightarrow> P r \<Longrightarrow> f r = r) \<Longrightarrow> update_where P f t = t"
  by (induction t) auto

lemma map_update_where [table_simps]:
  "(\<And>r. P r \<Longrightarrow> k (f r) = k r) \<Longrightarrow> map k (update_where P f t) = map k t"
  by (induction t) auto

lemma count_where_simps [simp, table_simps]:
  "count_where P [] = 0"
  "count_where P (r # t) = (if P r then 1 else 0) + count_where P t"
  by (simp_all add: count_where_def)

lemma count_where_nonneg [simp]: "0 \<le> count_where P t"
  by (simp add: count_where_def)

lemma count_where_zero_iff: "count_where P t = 0 \<longleftrightarrow> (\<forall>r \<in> set t. \<not> P r)"
  by (induction t) (auto simp: count_where_def)

lemma count_where_append [simp, table_simps]:
  "count_where P (t @ u) = count_where P t + count_where P u"
  by (simp add: count_where_def)

lemma count_where_unique:
  assumes "distinct (map k t)" and "\<And>r. P r \<Longrightarrow> k r = c"
  shows "count_where P t \<le> 1"
  using assms(1)
proof (induction t)
  case (Cons r t)
  show ?case
  proof (cases "P r")
    case True
    with Cons.prems assms(2) have "\<forall>q \<in> set t. \<not> P q"
      by (metis distinct.simps(2) image_eqI list.set_map list.simps(9))
    then have "count_where P t = 0" by (simp add: count_where_zero_iff)
    then show ?thesis by simp
  qed (use Cons in simp)
qed simp

lemma sum_where_simps [simp, table_simps]:
  "sum_where P v [] = 0"
  "sum_where P v (r # t) = (if P r then v r else 0) + sum_where P v t"
  by (simp_all add: sum_where_def)

lemma sum_where_append [simp, table_simps]:
  "sum_where P v (t @ u) = sum_where P v t + sum_where P v u"
  by (simp add: sum_where_def)

lemma sum_where_nonneg: "(\<And>r. r \<in> set t \<Longrightarrow> P r \<Longrightarrow> 0 \<le> v r) \<Longrightarrow> 0 \<le> sum_where P v t"
  by (induction t) (auto intro: add_nonneg_nonneg)

lemma sum_where_member_le:
  assumes "r \<in> set t" "P r" "\<And>q. q \<in> set t \<Longrightarrow> P q \<Longrightarrow> 0 \<le> v q"
  shows "v r \<le> sum_where P v t"
  using assms
proof (induction t)
  case (Cons q t)
  have nn: "0 \<le> sum_where P v t"
    by (rule sum_where_nonneg) (simp add: Cons.prems(3))
  show ?case
  proof (cases "r = q")
    case True
    with Cons.prems(2) nn show ?thesis by simp
  next
    case False
    with Cons have "v r \<le> sum_where P v t" by simp
    moreover have "0 \<le> (if P q then v q else 0)" using Cons.prems(3) by simp
    ultimately show ?thesis by simp
  qed
qed simp

lemma update_where_absent:
  "c \<notin> k ` set t \<Longrightarrow> (\<And>r. P r \<Longrightarrow> k r = c) \<Longrightarrow> update_where P f t = t"
  by (induction t) auto

text \<open>Changing the one row with a given key changes an aggregate by that row's difference.\<close>

lemma sum_where_update_key:
  assumes "distinct (map k t)" "q \<in> set t" "P q" "P (f q)"
    and "\<And>r. u r \<Longrightarrow> k r = k q" and "u q"
  shows "sum_where P v (update_where u f t) = sum_where P v t - v q + v (f q)"
  using assms(1,2)
proof (induction t)
  case (Cons r t)
  show ?case
  proof (cases "r = q")
    case True
    with Cons.prems(1) have "k q \<notin> k ` set t" by simp
    then have "update_where u f t = t" by (rule update_where_absent) (rule assms(5))
    with True assms(3,4,6) show ?thesis by simp
  next
    case False
    with Cons.prems have "q \<in> set t" by simp
    with Cons.prems(1) have "k r \<noteq> k q" by auto
    with assms(5) have "\<not> u r" by blast
    with Cons \<open>q \<in> set t\<close> show ?thesis by simp
  qed
qed simp

lemma sum_where_update_frame:
  "(\<And>r. r \<in> set t \<Longrightarrow> u r \<Longrightarrow> P (f r) = P r \<and> v (f r) = v r) \<Longrightarrow>
   sum_where P v (update_where u f t) = sum_where P v t"
  by (induction t) auto

lemma count_where_update_frame:
  "(\<And>r. r \<in> set t \<Longrightarrow> u r \<Longrightarrow> P (f r) = P r) \<Longrightarrow>
   count_where P (update_where u f t) = count_where P t"
  by (induction t) auto

lemma count_where_update_all:
  "(\<And>r. r \<in> set t \<Longrightarrow> P r \<Longrightarrow> u r) \<Longrightarrow> (\<And>r. r \<in> set t \<Longrightarrow> u r \<Longrightarrow> \<not> P (f r)) \<Longrightarrow>
   count_where P (update_where u f t) = 0"
  by (induction t) auto

lemma find_SomeD: "find P t = Some r \<Longrightarrow> r \<in> set t \<and> P r"
  by (auto simp: find_Some_iff)

lemma find_unique:
  "distinct (map k t) \<Longrightarrow> r \<in> set t \<Longrightarrow> find (\<lambda>q. k q = k r) t = Some r"
  by (induction t) (auto simp: image_iff)

lemma distinct_keyD:
  "distinct (map k t) \<Longrightarrow> r \<in> set t \<Longrightarrow> q \<in> set t \<Longrightarrow> k r = k q \<Longrightarrow> r = q"
  by (induction t) (auto simp: image_iff)

lemma find_update_where_key:
  assumes "\<And>r. k (f r) = k r" and "find (\<lambda>r. k r = c) t = Some q"
  shows "find (\<lambda>r. k r = c) (update_where (\<lambda>r. k r = c) f t) = Some (f q)"
  using assms(2) by (induction t) (auto simp: assms(1) split: if_splits)

lemma find_update_key:
  "(\<And>r. k (f r) = k r) \<Longrightarrow>
   find (\<lambda>r. k r = c) (update_where (\<lambda>r. k r = c) f t) = map_option f (find (\<lambda>r. k r = c) t)"
  by (induction t) auto

lemma find_update_other_key:
  "c \<noteq> d \<Longrightarrow> (\<And>r. k (f r) = k r) \<Longrightarrow> (\<And>r. u r \<Longrightarrow> k r = d) \<Longrightarrow>
   find (\<lambda>r. k r = c) (update_where u f t) = find (\<lambda>r. k r = c) t"
  by (induction t) auto

lemma find_update_where_other:
  assumes "\<And>r. P r \<Longrightarrow> \<not> u r" and "\<And>r. u r \<Longrightarrow> \<not> P (f r)"
  shows "find P (update_where u f t) = find P t"
  by (induction t) (use assms in auto)

lemma find_append: "find P (t @ u) = (case find P t of None \<Rightarrow> find P u | Some r \<Rightarrow> Some r)"
  by (induction t) auto

lemma first_asc_None [table_simps]: "first_asc k P t = None \<longleftrightarrow> (\<forall>r \<in> set t. \<not> P r)"
proof -
  have "first_asc k P t = None \<longleftrightarrow> filter P t = []"
    unfolding first_asc_def
    by (metis (no_types, lifting) length_0_conv length_sort list.case_eq_if list.sel(1) option.distinct(1) option.simps(3))
  then show ?thesis by (simp add: filter_empty_conv)
qed

lemma first_asc_SomeD:
  assumes "first_asc k P t = Some r"
  shows "r \<in> set t" "P r" "\<And>q. q \<in> set t \<Longrightarrow> P q \<Longrightarrow> k r \<le> k q"
proof -
  from assms obtain rs where s: "sort_key k (filter P t) = r # rs"
    by (auto simp: first_asc_def split: list.splits)
  then have "set (r # rs) = set (filter P t)" by (metis set_sort)
  then have S: "insert r (set rs) = {x \<in> set t. P x}" by auto
  then show "r \<in> set t" "P r" by auto
  have "sorted (map k (r # rs))" by (metis s sorted_sort_key)
  with S show "\<And>q. q \<in> set t \<Longrightarrow> P q \<Longrightarrow> k r \<le> k q"
    by (auto simp: set_eq_iff)
qed

lemma first_desc_None [table_simps]: "first_desc k P t = None \<longleftrightarrow> (\<forall>r \<in> set t. \<not> P r)"
  by (simp add: first_desc_def first_asc_None)

lemma first_desc_SomeD:
  assumes "first_desc k P t = Some r"
  shows "r \<in> set t" "P r" "\<And>q. q \<in> set t \<Longrightarrow> P q \<Longrightarrow> k q \<le> k r"
  using first_asc_SomeD[OF assms[unfolded first_desc_def]] by auto

section \<open>Strings and numbers of JavaScript\<close>

text \<open>
  A \<open>char\<close> is read as the code point 0 to 255. White space as \<open>String.prototype.trim\<close>
  strips it, within that range.
\<close>

definition js_space :: "char \<Rightarrow> bool" where
  "js_space c \<longleftrightarrow> (of_char c :: nat) \<in> {9, 10, 11, 12, 13, 32, 160}"

definition js_trim :: "string \<Rightarrow> string" where
  "js_trim s = rev (dropWhile js_space (rev (dropWhile js_space s)))"

definition js_lower_char :: "char \<Rightarrow> char" where
  "js_lower_char c =
     (let n = (of_char c :: nat)
      in if 65 \<le> n \<and> n \<le> 90 \<or> 192 \<le> n \<and> n \<le> 222 \<and> n \<noteq> 215 then char_of (n + 32) else c)"

definition js_lower :: "string \<Rightarrow> string" where
  "js_lower s = map js_lower_char s"

lemma js_trim_ends:
  assumes "js_trim s \<noteq> []"
  shows "\<not> js_space (hd (js_trim s))" and "\<not> js_space (last (js_trim s))"
proof -
  let ?d = "dropWhile js_space s"
  have e: "dropWhile js_space (rev ?d) \<noteq> []" using assms by (simp add: js_trim_def)
  from hd_dropWhile[OF e] show "\<not> js_space (last (js_trim s))"
    by (simp add: js_trim_def last_rev)
  have ne: "?d \<noteq> []" using e by (metis dropWhile.simps(1) rev.simps(1))
  have nsp: "\<not> js_space (hd ?d)" using hd_dropWhile[OF ne] .
  obtain p where p: "rev ?d = p @ dropWhile js_space (rev ?d)"
    by (metis takeWhile_dropWhile_id)
  then have "?d = js_trim s @ rev p"
    by (metis js_trim_def rev_append rev_rev_ident)
  with assms nsp show "\<not> js_space (hd (js_trim s))"
    by (metis hd_append2)
qed

lemma js_trim_idem [js_simps]: "js_trim (js_trim s) = js_trim s"
proof (cases "js_trim s = []")
  case True
  show ?thesis unfolding True by (simp add: js_trim_def)
next
  case False
  have a: "dropWhile js_space (js_trim s) = js_trim s"
    using js_trim_ends(1)[OF False] False by (metis dropWhile_eq_self_iff)
  have "dropWhile js_space (rev (js_trim s)) = rev (js_trim s)"
    using js_trim_ends(2)[OF False] False by (simp add: dropWhile_eq_self_iff hd_rev)
  with a show ?thesis by (metis js_trim_def rev_rev_ident)
qed

lemma of_char_char_of_small: "n < 256 \<Longrightarrow> (of_char (char_of n) :: nat) = n"
  by simp

lemma js_lower_char_idem: "js_lower_char (js_lower_char c) = js_lower_char c"
proof -
  have "(of_char c :: nat) < 256" by simp
  then show ?thesis by (auto simp: js_lower_char_def Let_def)
qed

lemma js_lower_idem [js_simps]: "js_lower (js_lower s) = js_lower s"
  by (simp add: js_lower_def js_lower_char_idem)

lemma js_space_lower: "js_space (js_lower_char c) = js_space c"
proof -
  have "(of_char c :: nat) < 256" by simp
  then show ?thesis by (auto simp: js_lower_char_def js_space_def Let_def)
qed

lemma dropWhile_lower: "dropWhile js_space (js_lower s) = js_lower (dropWhile js_space s)"
  by (induction s) (auto simp: js_lower_def js_space_lower)

lemma js_trim_lower [js_simps]: "js_trim (js_lower s) = js_lower (js_trim s)"
proof -
  have r: "rev (js_lower x) = js_lower (rev x)" for x by (simp add: js_lower_def rev_map)
  show ?thesis by (simp add: js_trim_def dropWhile_lower r)
qed

text \<open>\<open>Math.round\<close>: the nearest integer, a half rounds towards plus infinity.\<close>

definition js_round :: "real \<Rightarrow> int" where
  "js_round x = \<lfloor>x + 1 / 2\<rfloor>"

lemma js_round_of_int [simp, js_simps]: "js_round (of_int n) = n"
  unfolding js_round_def by linarith

text \<open>\<open>String(n)\<close> of an integer and of a boolean.\<close>

fun digits :: "nat \<Rightarrow> string" where
  "digits n = (if n < 10 then [char_of (48 + n)] else digits (n div 10) @ [char_of (48 + n mod 10)])"

declare digits.simps [simp del]

definition js_num :: "int \<Rightarrow> string" where
  "js_num n = (if n < 0 then ''-'' @ digits (nat (- n)) else digits (nat n))"

fun js_bool :: "bool \<Rightarrow> string" where
  "js_bool True = ''true''"
| "js_bool False = ''false''"

fun js_str :: "string option \<Rightarrow> string" where
  "js_str None = ''undefined''"
| "js_str (Some s) = s"

text \<open>\<open>a || b\<close> on strings: the empty string and undefined are false.\<close>

fun js_or :: "string option \<Rightarrow> string option \<Rightarrow> string option" where
  "js_or (Some (c # cs)) b = Some (c # cs)"
| "js_or _ b = b"

text \<open>
  \<open>toUpperCase\<close>; the sharp s becomes two letters, and the two small letters whose capital lies
  beyond the range stay.
\<close>

definition js_upper_char :: "char \<Rightarrow> string" where
  "js_upper_char c =
     (let n = (of_char c :: nat)
      in if n = 223 then ''SS''
         else if 97 \<le> n \<and> n \<le> 122 \<or> 224 \<le> n \<and> n \<le> 254 \<and> n \<noteq> 247 then [char_of (n - 32)] else [c])"

definition js_upper :: "string \<Rightarrow> string" where
  "js_upper s = concat (map js_upper_char s)"

text \<open>\<open>String.prototype.includes\<close>, and Prisma's \<open>contains\<close> in the mode that ignores case.\<close>

fun js_includes :: "string \<Rightarrow> string \<Rightarrow> bool" where
  "js_includes [] x \<longleftrightarrow> x = []"
| "js_includes (c # cs) x \<longleftrightarrow> take (length x) (c # cs) = x \<or> js_includes cs x"

definition includes_nocase :: "string \<Rightarrow> string \<Rightarrow> bool" where
  "includes_nocase t x \<longleftrightarrow> js_includes (js_lower t) (js_lower x)"

lemma js_includes_iff: "js_includes t x \<longleftrightarrow> (\<exists>a b. t = a @ x @ b)"
proof (induction t)
  case (Cons c t)
  have "take (length x) (c # t) = x \<longleftrightarrow> (\<exists>b. c # t = x @ b)" by (metis append_eq_conv_conj append_take_drop_id)
  moreover have "(\<exists>a b. c # t = a @ x @ b) \<longleftrightarrow> (\<exists>b. c # t = x @ b) \<or> (\<exists>a b. t = a @ x @ b)"
    by (auto simp: Cons_eq_append_conv)
  ultimately show ?case using Cons.IH by simp
qed simp

text \<open>The length in bytes of \<open>Buffer.from\<close>, which encodes in UTF-8.\<close>

definition utf8_length :: "string \<Rightarrow> nat" where
  "utf8_length s = sum_list (map (\<lambda>c. if (of_char c :: nat) < 128 then 1 else 2) s)"

lemma utf8_length_ascii: "(\<forall>c \<in> set s. (of_char c :: nat) < 128) \<Longrightarrow> utf8_length s = length s"
  by (induction s) (simp_all add: utf8_length_def)

lemma utf8_length_ge: "length s + length (filter (\<lambda>c. 128 \<le> (of_char c :: nat)) s) = utf8_length s"
  by (induction s) (auto simp: utf8_length_def)

lemma js_round_mono: "x \<le> y \<Longrightarrow> js_round x \<le> js_round y"
  unfolding js_round_def by (simp add: floor_mono)

text \<open>\<open>Number(x.toFixed(n))\<close>: the nearest multiple of a tenth, hundredth and so on, the larger of two.\<close>

definition to_fixed :: "nat \<Rightarrow> real \<Rightarrow> real" where
  "to_fixed n x = of_int (js_round (10 ^ n * x)) / 10 ^ n"

lemma to_fixed_bounds:
  assumes "of_int a \<le> x" "x \<le> of_int b"
  shows "of_int a \<le> to_fixed n x" "to_fixed n x \<le> of_int b"
proof -
  have p: "js_round (10 ^ n * of_int c) = 10 ^ n * c" for c :: int
    using js_round_of_int[of "10 ^ n * c"] by simp
  have "10 ^ n * a \<le> js_round (10 ^ n * x)"
    using js_round_mono[of "10 ^ n * of_int a" "10 ^ n * x"] assms(1) unfolding p by simp
  then have "of_int (10 ^ n * a) \<le> (of_int (js_round (10 ^ n * x)) :: real)" by (simp only: of_int_le_iff)
  then show "of_int a \<le> to_fixed n x" by (simp add: to_fixed_def field_simps)
  have "js_round (10 ^ n * x) \<le> 10 ^ n * b"
    using js_round_mono[of "10 ^ n * x" "10 ^ n * of_int b"] assms(2) unfolding p by simp
  then have "(of_int (js_round (10 ^ n * x)) :: real) \<le> of_int (10 ^ n * b)" by (simp only: of_int_le_iff)
  then show "to_fixed n x \<le> of_int b" by (simp add: to_fixed_def field_simps)
qed

section \<open>Pages\<close>

text \<open>
  \<open>Math.max(1, Number(page) || 1)\<close> and \<open>Math.min(50, Math.max(1, Number(size) || 20))\<close>, the same in
  every paginated list; None stands for an absent or non-numeric parameter.
\<close>

definition page_number :: "int option \<Rightarrow> int" where
  "page_number p = max 1 (case p of None \<Rightarrow> 1 | Some n \<Rightarrow> if n = 0 then 1 else n)"

definition page_size :: "int option \<Rightarrow> int" where
  "page_size p = min 50 (max 1 (case p of None \<Rightarrow> 20 | Some n \<Rightarrow> if n = 0 then 20 else n))"

definition page_slice :: "int \<Rightarrow> int \<Rightarrow> 'r list \<Rightarrow> 'r list" where
  "page_slice page sz t = take (nat sz) (drop (nat ((page - 1) * sz)) t)"

lemma page_bounds: "1 \<le> page_number p" "1 \<le> page_size q" "page_size q \<le> 50"
  by (simp_all add: page_number_def page_size_def)

lemma pages_cover:
  assumes "0 < sz"
  shows "concat (map (\<lambda>k. page_slice (int k) sz t) [1..<Suc n]) = take (n * nat sz) t"
proof (induction n)
  case (Suc n)
  have m: "nat ((int (Suc n) - 1) * sz) = n * nat sz" using assms by (simp add: nat_mult_distrib)
  have "take (Suc n * nat sz) t = take (n * nat sz) t @ take (nat sz) (drop (n * nat sz) t)"
    using take_add[of "n * nat sz" "nat sz" t] by (simp only: mult_Suc add.commute)
  moreover have "[1..<Suc (Suc n)] = [1..<Suc n] @ [Suc n]" by simp
  ultimately show ?case using Suc.IH m by (simp only: map_append concat_append list.map concat.simps append_Nil2 page_slice_def)
qed simp

section \<open>Interfaces\<close>

text \<open>Calling a consumer \<open>n\<close> times, counting the calls that got a unit.\<close>

fun spend_many :: "('s \<Rightarrow> bool \<times> 's) \<Rightarrow> nat \<Rightarrow> 's \<Rightarrow> nat \<times> 's" where
  "spend_many consume 0 s = (0, s)"
| "spend_many consume (Suc n) s =
     (let (b, s1) = consume s; (k, s2) = spend_many consume n s1
      in ((if b then Suc k else k), s2))"

text \<open>
  A pool of credits: a call takes exactly one unit while there is one and changes nothing
  afterwards. It is what the offer, optimizer and boost endpoints rely on.
\<close>

locale credit_pool =
  fixes inv :: "'s \<Rightarrow> bool" and avail :: "'s \<Rightarrow> int" and consume :: "'s \<Rightarrow> bool \<times> 's"
  assumes avail_nonneg: "inv s \<Longrightarrow> 0 \<le> avail s"
    and consume_inv: "inv s \<Longrightarrow> inv (snd (consume s))"
    and consume_some: "inv s \<Longrightarrow> 0 < avail s \<Longrightarrow> fst (consume s) \<and> avail (snd (consume s)) = avail s - 1"
    and consume_none: "inv s \<Longrightarrow> avail s = 0 \<Longrightarrow> \<not> fst (consume s) \<and> snd (consume s) = s"
begin

lemma consume_step:
  assumes "inv s"
  shows "avail (snd (consume s)) = avail s - (if fst (consume s) then 1 else 0)"
    and "fst (consume s) \<longleftrightarrow> 0 < avail s"
  using assms avail_nonneg[OF assms] consume_some[OF assms] consume_none[OF assms]
  by (cases "0 < avail s"; simp)+

lemma spend_many_exact:
  "inv s \<Longrightarrow> fst (spend_many consume n s) = min n (nat (avail s))
     \<and> avail (snd (spend_many consume n s)) = max 0 (avail s - int n)
     \<and> inv (snd (spend_many consume n s))"
proof (induction n arbitrary: s)
  case 0
  with avail_nonneg[of s] show ?case by simp
next
  case (Suc n)
  note IH = Suc.IH[OF consume_inv[OF Suc.prems]] and st = consume_step[OF Suc.prems]
  from IH st avail_nonneg[OF Suc.prems] show ?case
    by (auto simp: Let_def split_beta)
qed

end

text \<open>
  A component whose steps keep an invariant and never touch a settled fact: what was settled
  once stays settled along every run.
\<close>

locale settled_machine =
  fixes inv :: "'s \<Rightarrow> bool" and step :: "'s \<Rightarrow> 's \<Rightarrow> bool" and settled :: "'s \<Rightarrow> 'r \<Rightarrow> bool"
  assumes step_inv: "inv s \<Longrightarrow> step s t \<Longrightarrow> inv t"
    and step_settled: "inv s \<Longrightarrow> step s t \<Longrightarrow> settled s r \<Longrightarrow> settled t r"
begin

lemma run_inv: "step\<^sup>*\<^sup>* s t \<Longrightarrow> inv s \<Longrightarrow> inv t"
  by (induction rule: rtranclp_induct) (auto intro: step_inv)

lemma settled_forever: "step\<^sup>*\<^sup>* s t \<Longrightarrow> inv s \<Longrightarrow> settled s r \<Longrightarrow> settled t r"
  by (induction rule: rtranclp_induct) (auto intro: step_settled run_inv)

end

end
