(* ===== verification/JsDate.thy ===== *)
theory JsDate
  imports Prelude
begin

text \<open>
  The UTC calendar of ECMAScript \<open>Date\<close>, as far as the services use it. A \<open>Date\<close> is its time
  value, the milliseconds since 1970-01-01T00:00Z, an integer. \<open>day_from_year\<close>,
  \<open>make_day\<close> and the getters follow the specification of \<open>Date\<close>; the setters normalise
  an overflowing month or day the way \<open>setUTCMonth\<close> does. The lemmas show that the getters
  invert \<open>make_day\<close> on calendar dates and that a month or a year is a positive step of
  bounded length.
\<close>

type_synonym time = int

definition day_ms :: int where
  "day_ms = 24 * 60 * 60 * 1000"

section \<open>Years\<close>

definition leap_year :: "int \<Rightarrow> bool" where
  "leap_year y \<longleftrightarrow> y mod 4 = 0 \<and> (y mod 100 \<noteq> 0 \<or> y mod 400 = 0)"

definition day_from_year :: "int \<Rightarrow> int" where
  "day_from_year y =
     365 * (y - 1970) + (y - 1969) div 4 - (y - 1901) div 100 + (y - 1601) div 400"

text \<open>The year of a day: the quotient by the mean year, corrected by at most one.\<close>

definition year_of_day :: "int \<Rightarrow> int" where
  "year_of_day d =
     (let e = 1970 + (400 * d) div 146097
      in if d < day_from_year e then e - 1
         else if day_from_year (e + 1) \<le> d then e + 1 else e)"

lemma div_Suc:
  fixes x :: int assumes n: "0 < n"
  shows "(x + 1) div n - x div n = (if (x + 1) mod n = 0 then 1 else 0)"
proof (cases "(x + 1) mod n = 0")
  case True
  then have "x + 1 = n * ((x + 1) div n)" by auto
  then have "x = n * ((x + 1) div n - 1) + (n - 1)" by (simp add: right_diff_distrib)
  then have "x div n = (x + 1) div n - 1" by (rule int_div_pos_eq) (use n in auto)
  with True show ?thesis by simp
next
  case False
  have "0 \<le> (x + 1) mod n" "(x + 1) mod n < n" using n by simp_all
  moreover have "x = n * ((x + 1) div n) + ((x + 1) mod n - 1)"
    using mult_div_mod_eq[of n "x + 1"] by linarith
  ultimately have "x div n = (x + 1) div n"
    by (intro int_div_pos_eq[where r = "(x + 1) mod n - 1"]) (use False in linarith)+
  with False show ?thesis by simp
qed

lemma mod_shift: "(y - n * k) mod n = y mod (n::int)"
  by (metis diff_conv_add_uminus mod_mult_self2 mult_minus_right)

lemma div_next:
  fixes y :: int
  assumes "0 < n" and "k = n * j + 1"
  shows "(y - (k - 1)) div n - (y - k) div n = (if y mod n = 0 then 1 else 0)"
proof -
  have "y - (k - 1) = (y - k) + 1" by simp
  moreover have "y - k + 1 = y - n * j" using assms(2) by simp
  ultimately show ?thesis using div_Suc[OF assms(1), of "y - k"] mod_shift[of y n j] by metis
qed

lemma day_from_year_Suc: "day_from_year (y + 1) - day_from_year y = (if leap_year y then 366 else 365)"
proof -
  define a a' b b' c c' where "a = (y - 1969) div 4" and "a' = (y - (1969 - 1)) div 4"
    and "b = (y - 1901) div 100" and "b' = (y - (1901 - 1)) div 100"
    and "c = (y - 1601) div 400" and "c' = (y - (1601 - 1)) div 400"
  have A: "a' - a = (if y mod 4 = 0 then 1 else 0)"
    unfolding a_def a'_def by (rule div_next[where j = 492]) simp_all
  have B: "b' - b = (if y mod 100 = 0 then 1 else 0)"
    unfolding b_def b'_def by (rule div_next[where j = 19]) simp_all
  have C: "c' - c = (if y mod 400 = 0 then 1 else 0)"
    unfolding c_def c'_def by (rule div_next[where j = 4]) simp_all
  have D: "y mod 400 = 0 \<Longrightarrow> y mod 100 = 0" "y mod 100 = 0 \<Longrightarrow> y mod 4 = 0"
    using mod_mod_cancel[of 100 400 y] mod_mod_cancel[of 4 100 y] by simp_all
  have "y + 1 - 1969 = y - (1969 - 1)" "y + 1 - 1901 = y - (1901 - 1)" "y + 1 - 1601 = y - (1601 - 1)"
    "y + 1 - 1970 = y - 1970 + 1" by simp_all
  then have "day_from_year (y + 1) = 365 * (y - 1970 + 1) + a' - b' + c'"
    unfolding day_from_year_def a'_def b'_def c'_def by (simp only:)
  moreover have "day_from_year y = 365 * (y - 1970) + a - b + c"
    unfolding day_from_year_def a_def b_def c_def ..
  ultimately have "day_from_year (y + 1) - day_from_year y = 365 + (a' - a) - (b' - b) + (c' - c)"
    by (simp only: distrib_left right_diff_distrib)
  also have "\<dots> = (if leap_year y then 366 else 365)"
    unfolding A B C leap_year_def using D
    by (cases "y mod 4 = 0"; cases "y mod 100 = 0"; cases "y mod 400 = 0") simp_all
  finally show ?thesis .
qed

lemma day_from_year_step: "365 \<le> day_from_year (y + 1) - day_from_year y"
  by (simp add: day_from_year_Suc)

lemma div_bounds:
  fixes x :: int assumes "0 < n" shows "n * (x div n) \<le> x" and "x < n * (x div n) + n"
proof -
  have "x = n * (x div n) + x mod n" by simp
  moreover have "0 \<le> x mod n" "x mod n < n" using assms by simp_all
  ultimately show "n * (x div n) \<le> x" "x < n * (x div n) + n" by linarith+
qed

lemma day_from_year_bounds:
  "146097 * y - 287811890 \<le> 400 * day_from_year y"
  "400 * day_from_year y \<le> 146097 * y - 287810290"
proof -
  define a b c where "a = (y - 1969) div 4" and "b = (y - 1901) div 100" and "c = (y - 1601) div 400"
  have bs: "4 * a \<le> y - 1969" "y - 1969 < 4 * a + 4" "100 * b \<le> y - 1901" "y - 1901 < 100 * b + 100"
    "400 * c \<le> y - 1601" "y - 1601 < 400 * c + 400"
    unfolding a_def b_def c_def by (rule div_bounds, simp)+
  have "day_from_year y = 365 * (y - 1970) + a - b + c"
    by (simp add: day_from_year_def a_def b_def c_def)
  then have e: "day_from_year y = 365 * y - 719050 + a - b + c" by simp
  show "146097 * y - 287811890 \<le> 400 * day_from_year y" using bs e by linarith
  show "400 * day_from_year y \<le> 146097 * y - 287810290" using bs e by linarith
qed

lemma year_of_day_correct:
  "day_from_year (year_of_day d) \<le> d \<and> d < day_from_year (year_of_day d + 1)"
proof -
  define e where "e = 1970 + (400 * d) div 146097"
  define q where "q = (400 * d) div 146097"
  have "146097 * q \<le> 400 * d" "400 * d < 146097 * q + 146097"
    unfolding q_def by (rule div_bounds, simp)+
  moreover have "e = 1970 + q" by (simp add: e_def q_def)
  ultimately have b: "146097 * e - 287811090 \<le> 400 * d" "400 * d < 146097 * e - 287664993"
    by simp_all
  have "day_from_year (e - 1) \<le> d"
    using b day_from_year_bounds(2)[of "e - 1"] by simp
  moreover have "d < day_from_year (2 + e)"
    using b day_from_year_bounds(1)[of "2 + e"] by simp
  ultimately show ?thesis
    unfolding year_of_day_def e_def[symmetric] Let_def by auto
qed

lemma day_from_year_strict:
  assumes "y < z" shows "day_from_year (y + 1) \<le> day_from_year z"
proof -
  have "day_from_year (y + 1) \<le> day_from_year (y + 1 + int n)" for n
  proof (induction n)
    case (Suc n)
    with day_from_year_step[of "y + 1 + int n"] show ?case by (simp add: algebra_simps)
  qed simp
  from this[of "nat (z - y - 1)"] assms show ?thesis by simp
qed

lemma year_of_day_unique:
  assumes "day_from_year y \<le> d" "d < day_from_year (y + 1)"
  shows "year_of_day d = y"
proof (rule ccontr)
  assume "year_of_day d \<noteq> y"
  then consider "year_of_day d < y" | "y < year_of_day d" by linarith
  then show False
    using assms year_of_day_correct[of d] day_from_year_strict by cases force+
qed

section \<open>Months\<close>

definition month_start :: "bool \<Rightarrow> int \<Rightarrow> int" where
  "month_start leap m =
     (if m \<le> 0 then 0 else if m = 1 then 31
      else (if leap then 1 else 0) +
       (if m = 2 then 59 else if m = 3 then 90 else if m = 4 then 120 else if m = 5 then 151
        else if m = 6 then 181 else if m = 7 then 212 else if m = 8 then 243
        else if m = 9 then 273 else if m = 10 then 304 else if m = 11 then 334 else 365))"

definition month_length :: "bool \<Rightarrow> int \<Rightarrow> int" where
  "month_length leap m = month_start leap (m + 1) - month_start leap m"

definition month_of_yday :: "bool \<Rightarrow> int \<Rightarrow> int" where
  "month_of_yday leap d =
     (if d < month_start leap 1 then 0 else if d < month_start leap 2 then 1
      else if d < month_start leap 3 then 2 else if d < month_start leap 4 then 3
      else if d < month_start leap 5 then 4 else if d < month_start leap 6 then 5
      else if d < month_start leap 7 then 6 else if d < month_start leap 8 then 7
      else if d < month_start leap 9 then 8 else if d < month_start leap 10 then 9
      else if d < month_start leap 11 then 10 else 11)"

lemma month_cases:
  assumes "0 \<le> (m::int)" "m \<le> 11"
  obtains "m = 0" | "m = 1" | "m = 2" | "m = 3" | "m = 4" | "m = 5" | "m = 6" | "m = 7"
    | "m = 8" | "m = 9" | "m = 10" | "m = 11"
proof -
  have "m = 0 \<or> m = 1 \<or> m = 2 \<or> m = 3 \<or> m = 4 \<or> m = 5 \<or> m = 6 \<or> m = 7 \<or> m = 8 \<or> m = 9
      \<or> m = 10 \<or> m = 11" using assms by arith
  then show thesis using that by blast
qed

lemma month_length_bounds:
  "0 \<le> m \<Longrightarrow> m \<le> 11 \<Longrightarrow> 28 \<le> month_length l m \<and> month_length l m \<le> 31"
  by (erule (1) month_cases) (simp_all add: month_length_def month_start_def)

lemma month_of_yday_range: "0 \<le> month_of_yday l d \<and> month_of_yday l d \<le> 11"
  by (simp add: month_of_yday_def)

lemma month_of_yday_start:
  assumes "0 \<le> d" "d < (if l then 366 else 365)"
  shows "month_start l (month_of_yday l d) \<le> d \<and> d < month_start l (month_of_yday l d + 1)"
  using assms by (cases l) (simp_all add: month_of_yday_def month_start_def)

lemma month_of_yday_inv:
  "0 \<le> m \<Longrightarrow> m \<le> 11 \<Longrightarrow> 1 \<le> dt \<Longrightarrow> dt \<le> month_length l m \<Longrightarrow>
   month_of_yday l (month_start l m + dt - 1) = m"
  by (erule (1) month_cases; cases l)
    (simp_all add: month_length_def month_start_def month_of_yday_def)

lemma month_day_in_year:
  "0 \<le> m \<Longrightarrow> m \<le> 11 \<Longrightarrow> 1 \<le> dt \<Longrightarrow> dt \<le> month_length l m \<Longrightarrow>
   0 \<le> month_start l m + dt - 1 \<and> month_start l m + dt - 1 < (if l then 366 else 365)"
  by (erule (1) month_cases; cases l) (simp_all add: month_length_def month_start_def)

section \<open>Getters, setters and constructors of \<open>Date\<close>\<close>

definition make_day :: "int \<Rightarrow> int \<Rightarrow> int \<Rightarrow> int" where
  "make_day y m dt =
     (let ym = y + m div 12 in day_from_year ym + month_start (leap_year ym) (m mod 12) + dt - 1)"

definition yday :: "int \<Rightarrow> int" where
  "yday d = d - day_from_year (year_of_day d)"

definition month_of_day :: "int \<Rightarrow> int" where
  "month_of_day d = month_of_yday (leap_year (year_of_day d)) (yday d)"

definition date_of_day :: "int \<Rightarrow> int" where
  "date_of_day d = yday d - month_start (leap_year (year_of_day d)) (month_of_day d) + 1"

definition getUTCFullYear :: "time \<Rightarrow> int" where "getUTCFullYear t = year_of_day (t div day_ms)"
definition getUTCMonth :: "time \<Rightarrow> int" where "getUTCMonth t = month_of_day (t div day_ms)"
definition getUTCDate :: "time \<Rightarrow> int" where "getUTCDate t = date_of_day (t div day_ms)"

definition setUTCMonth :: "time \<Rightarrow> int \<Rightarrow> time" where
  "setUTCMonth t m = make_day (getUTCFullYear t) m (getUTCDate t) * day_ms + t mod day_ms"

definition setUTCFullYear :: "time \<Rightarrow> int \<Rightarrow> time" where
  "setUTCFullYear t y = make_day y (getUTCMonth t) (getUTCDate t) * day_ms + t mod day_ms"

text \<open>\<open>Date.UTC\<close> reads the years 0 to 99 as 1900 to 1999.\<close>

definition date_UTC :: "int \<Rightarrow> int \<Rightarrow> int \<Rightarrow> time" where
  "date_UTC y m dt = make_day (if 0 \<le> y \<and> y \<le> 99 then 1900 + y else y) m dt * day_ms"

definition valid_date :: "int \<Rightarrow> int \<Rightarrow> int \<Rightarrow> bool" where
  "valid_date y m dt \<longleftrightarrow> 0 \<le> m \<and> m \<le> 11 \<and> 1 \<le> dt \<and> dt \<le> month_length (leap_year y) m"

lemma yday_range: "0 \<le> yday d \<and> yday d < (if leap_year (year_of_day d) then 366 else 365)"
  using year_of_day_correct[of d] day_from_year_Suc[of "year_of_day d"]
  by (auto simp: yday_def split: if_splits)

lemma fields_valid: "valid_date (year_of_day d) (month_of_day d) (date_of_day d)"
proof -
  let ?l = "leap_year (year_of_day d)"
  have "month_start ?l (month_of_day d) \<le> yday d \<and> yday d < month_start ?l (month_of_day d + 1)"
    unfolding month_of_day_def using yday_range[of d] by (intro month_of_yday_start) auto
  with month_of_yday_range[of ?l "yday d"] show ?thesis
    by (simp add: valid_date_def date_of_day_def month_length_def month_of_day_def)
qed

lemma make_day_fields: "make_day (year_of_day d) (month_of_day d) (date_of_day d) = d"
proof -
  have "0 \<le> month_of_day d" "month_of_day d \<le> 11"
    using fields_valid[of d] by (simp_all add: valid_date_def)
  then have "month_of_day d div 12 = 0" "month_of_day d mod 12 = month_of_day d" by simp_all
  then show ?thesis by (simp add: make_day_def date_of_day_def yday_def)
qed

lemma fields_make_day:
  assumes "valid_date y m dt"
  shows "year_of_day (make_day y m dt) = y" "month_of_day (make_day y m dt) = m"
    "date_of_day (make_day y m dt) = dt"
proof -
  let ?l = "leap_year y" and ?d = "make_day y m dt"
  have m: "0 \<le> m" "m \<le> 11" "1 \<le> dt" "dt \<le> month_length ?l m"
    using assms by (simp_all add: valid_date_def)
  then have d: "?d = day_from_year y + (month_start ?l m + dt - 1)" by (simp add: make_day_def)
  show y: "year_of_day ?d = y"
    using month_day_in_year[OF m] day_from_year_Suc[of y]
    by (intro year_of_day_unique) (auto simp: d split: if_splits)
  have "yday ?d = month_start ?l m + dt - 1" by (simp only: yday_def y) (simp add: d)
  with month_of_yday_inv[OF m] show mm: "month_of_day ?d = m" by (simp add: month_of_day_def y)
  show "date_of_day ?d = dt" by (simp only: date_of_day_def y mm yday_def) (simp add: d)
qed

lemma time_mod: "t mod day_ms - t = - (t div day_ms * day_ms)"
  using div_mult_mod_eq[of t day_ms] by linarith

lemma make_day_next_month:
  assumes "valid_date y m dt"
  shows "28 \<le> make_day y (m + 1) dt - make_day y m dt"
    "make_day y (m + 1) dt - make_day y m dt \<le> 31"
proof -
  have m: "0 \<le> m" "m \<le> 11" using assms by (simp_all add: valid_date_def)
  have "28 \<le> make_day y (m + 1) dt - make_day y m dt \<and> make_day y (m + 1) dt - make_day y m dt \<le> 31"
  proof (cases "m = 11")
    case True
    with day_from_year_Suc[of y] show ?thesis by (auto simp: make_day_def month_start_def)
  next
    case False
    with m have "(m + 1) div 12 = 0" "(m + 1) mod 12 = m + 1" "m div 12 = 0" "m mod 12 = m"
      by simp_all
    then have "make_day y (m + 1) dt - make_day y m dt = month_length (leap_year y) m"
      by (simp add: make_day_def month_length_def)
    with month_length_bounds[OF m] show ?thesis by simp
  qed
  then show "28 \<le> make_day y (m + 1) dt - make_day y m dt"
    "make_day y (m + 1) dt - make_day y m dt \<le> 31" by blast+
qed

lemma next_month_bounds:
  "28 * day_ms \<le> setUTCMonth t (getUTCMonth t + 1) - t \<and>
   setUTCMonth t (getUTCMonth t + 1) - t \<le> 31 * day_ms"
proof -
  let ?d = "t div day_ms"
  let ?n = "make_day (year_of_day ?d) (month_of_day ?d + 1) (date_of_day ?d)"
  have "28 \<le> ?n - ?d" "?n - ?d \<le> 31"
    using make_day_next_month[OF fields_valid[of ?d]] by (simp_all add: make_day_fields)
  moreover have "setUTCMonth t (getUTCMonth t + 1) - t = (?n - ?d) * day_ms"
    using time_mod[of t]
    by (simp add: setUTCMonth_def getUTCFullYear_def getUTCMonth_def getUTCDate_def left_diff_distrib)
  ultimately show ?thesis by (simp add: day_ms_def)
qed

lemma month_start_leap: "month_start l m \<le> month_start l' m + 1"
  by (simp add: month_start_def)

lemma next_year_bounds:
  "364 * day_ms \<le> setUTCFullYear t (getUTCFullYear t + 1) - t"
proof -
  let ?d = "t div day_ms"
  let ?y = "year_of_day ?d" and ?m = "month_of_day ?d"
  let ?n = "make_day (?y + 1) ?m (date_of_day ?d)"
  have m: "?m div 12 = 0" "?m mod 12 = ?m"
    using fields_valid[of ?d] by (simp_all add: valid_date_def)
  have "?n - make_day ?y ?m (date_of_day ?d) \<ge> 364"
    using month_start_leap[of "leap_year ?y" ?m "leap_year (?y + 1)"] day_from_year_step[of ?y]
    by (simp add: make_day_def m Let_def)
  then have "364 \<le> ?n - ?d" by (simp add: make_day_fields)
  moreover have "setUTCFullYear t (getUTCFullYear t + 1) - t = (?n - ?d) * day_ms"
    using time_mod[of t]
    by (simp add: setUTCFullYear_def getUTCFullYear_def getUTCMonth_def getUTCDate_def
        left_diff_distrib)
  ultimately show ?thesis by (simp add: day_ms_def)
qed

end
