(* ===== verification/Schema.thy ===== *)
theory Schema
  imports JsDate
begin

text \<open>
  The database of \<open>prisma/schema.prisma\<close> as the services see it: one record per model with
  the columns the modelled operations read or write, one datatype per enum, and the state
  \<open>db\<close> that holds every table, the source of fresh identifiers and the log of effects that
  leave the process (socket events, mails, queue jobs). A nullable column is an option, a
  \<open>DateTime\<close> its time value, an \<open>Int\<close> an \<open>int\<close>, a \<open>Float\<close> a \<open>real\<close>.
\<close>

section \<open>Identifiers and enums\<close>

text \<open>
  UUIDs are numbers: the database draws a fresh one for each created row from the counter
  \<open>db_seq\<close>. A missing identifier is \<open>None\<close>.
\<close>

type_synonym uuid = nat

text \<open>A link is its path and the identifier spliced in at the end, if there is one.\<close>

type_synonym link = "string \<times> uuid option"

datatype user_role = TENANT | LANDLORD | ADMIN

datatype admin_role =
  SUPER_ADMIN | LISTINGS_MANAGER | KYC_REVIEWER | FINANCE_ADMIN | REVIEWS_MANAGER
  | CUSTOMER_SUPPORT | READ_ONLY

datatype verification_status = VS_PENDING | VS_APPROVED | VS_REJECTED | VS_RESUBMISSION_REQUIRED

datatype property_type = APARTMENT | VILLA | STUDIO
datatype property_status = P_PENDING | P_APPROVED | P_REJECTED | P_ARCHIVED
datatype connection_status = INTERESTED | CONNECTED | CONN_REJECTED

datatype payment_type =
  OWNER_PLUS_MONTHLY | OWNER_PLUS_YEARLY | PREMIUM_MONTHLY | PREMIUM_YEARLY
  | EXTRA_LISTING_60D | OFFERS_10_60D | BOOST_7D | BOOST_14D | BOOST_30D | AI_USES_10_90D
  | PREMIUM_OWNER | PT_OWNER_PLUS | SINGLE_LISTING | SINGLE_OFFER | BOOST_LISTING | AI_ADDON
  | DOCS_PACK | LEGACY_OWNER_PLUS | LEGACY_NEW_LISTING | LEGACY_BOOST_LISTING
  | LEGACY_REFILL_MATCHES | LEGACY_OFFER_PACK

datatype payment_status = PAY_PENDING | PAY_SUCCESS | PAY_FAILED
datatype owner_plan = FREE | OWNER_PLUS | PREMIUM
datatype billing_interval = MONTHLY | YEARLY
datatype entitlement_type = ACTIVE_LISTING | MATCHED_OFFER | AI_OPTIMIZER_USE
datatype boost_status = SCHEDULED | ACTIVE | EXPIRED | CANCELLED

datatype request_status =
  TR_PENDING | TR_APPROVED | TR_REJECTED | TR_FULFILLED | TR_CLOSED | TR_ARCHIVED

datatype owner_offer_status = SENT | VIEWED | OO_ACCEPTED | OO_REJECTED
datatype tenant_offer_status = TO_PENDING | COUNTERED | TO_ACCEPTED | DECLINED | WITHDRAWN

datatype lease_status = DRAFTING | PENDING_TENANT_APPROVAL | LC_APPROVED
datatype review_status = PENDING_REVIEW | CHANGES_REQUESTED | REVIEW_CONFIRMED

datatype activation_status = AR_PENDING | AR_APPROVED | AR_REJECTED
datatype ticket_status = TK_NEW | TK_ASSIGNED | TK_IN_PROGRESS | TK_WAITING | TK_CLOSED
datatype support_author = AUTHOR_AI | AUTHOR_USER | AUTHOR_ADMIN
datatype support_priority = LOW | NORMAL | HIGH | URGENT | CRITICAL
datatype attachment_type = IMAGE | VIDEO | AUDIO

datatype review_direction = TENANT_TO_LANDLORD | LANDLORD_TO_TENANT
datatype partner_service = MOVING | INSURANCE
datatype lead_status = LEAD_PENDING | LEAD_SENT | LEAD_CONVERTED
datatype traffic_source = ORGANIC | BOOSTED

datatype notification_type =
  EKYC_APPROVED | EKYC_RESUBMISSION_REQUIRED | PROPERTY_APPROVED | PROPERTY_REJECTED | NEW_MATCH
  | PAYMENT_SUCCESS | NEW_REVIEW_SUBMITTED | REVIEW_APPROVED | REVIEW_REJECTED
  | NEW_TENANT_REQUEST | TENANT_REQUEST_APPROVED | TENANT_REQUEST_REJECTED | NEW_OFFER_RECEIVED
  | NEW_MESSAGE | CONTRACT_READY_FOR_REVIEW | CONTRACT_APPROVED | CONTRACT_REJECTED
  | USER_REVIEW_RECEIVED | HIGH_MATCH_TENANT_REQUEST | ACCOUNT_REACTIVATED
  | ACCOUNT_REACTIVATION_REJECTED | REACTIVATION_REQUEST | SUPPORT_TICKET_ESCALATED

text \<open>Plans are ordered by the rank \<open>processSuccessfulPayment\<close> gives them.\<close>

fun plan_rank :: "owner_plan \<Rightarrow> nat" where
  "plan_rank FREE = 0" | "plan_rank OWNER_PLUS = 1" | "plan_rank PREMIUM = 2"

instantiation owner_plan :: linorder
begin

definition less_eq_owner_plan :: "owner_plan \<Rightarrow> owner_plan \<Rightarrow> bool" where
  "less_eq_owner_plan a b \<longleftrightarrow> plan_rank a \<le> plan_rank b"

definition less_owner_plan :: "owner_plan \<Rightarrow> owner_plan \<Rightarrow> bool" where
  "less_owner_plan a b \<longleftrightarrow> plan_rank a < plan_rank b"

instance
proof
  fix a b :: owner_plan
  show "a \<le> b \<Longrightarrow> b \<le> a \<Longrightarrow> a = b"
    by (cases a; cases b) (simp_all add: less_eq_owner_plan_def)
qed (auto simp: less_eq_owner_plan_def less_owner_plan_def)

end

section \<open>Rows\<close>

record user =
  u_id :: uuid
  u_fullName :: string
  u_email :: string
  u_phoneNumber :: string
  u_passwordHash :: string
  u_role :: user_role
  u_avatarUrl :: "string option"
  u_adminRole :: "admin_role option"
  u_isActive :: bool
  u_lastLoginAt :: "time option"
  u_createdAt :: time
  u_updatedAt :: time
  u_deletedAt :: "time option"
  u_tokenVersion :: int
  u_suspendedAt :: "time option"
  u_suspendedUntil :: "time option"
  u_suspensionReason :: "string option"
  u_suspensionNote :: "string option"
  u_suspendedById :: "uuid option"
  u_resetToken :: "string option"
  u_resetTokenExpiry :: "time option"
  u_emailVerifiedAt :: "time option"
  u_emailOtpHash :: "string option"
  u_emailOtpExpiresAt :: "time option"
  u_emailOtpAttempts :: int
  u_emailOtpSentAt :: "time option"

record identity_verification =
  iv_id :: uuid
  iv_userId :: uuid
  iv_nationalId :: "string option"
  iv_status :: verification_status
  iv_reviewedBy :: "uuid option"
  iv_rejectionReason :: "string option"
  iv_reviewedAt :: "time option"
  iv_nationalIdFrontUrl :: string
  iv_nationalIdBackUrl :: string
  iv_selfieUrl :: string
  iv_submittedAt :: time

record user_quota =
  uq_id :: uuid
  uq_userId :: uuid
  uq_planType :: owner_plan
  uq_planExpiresAt :: "time option"
  uq_maxActiveListings :: int
  uq_optimizerUsesLeft :: int
  uq_freeOffersLeft :: int
  uq_billingInterval :: "billing_interval option"
  uq_currentPeriodStartsAt :: "time option"
  uq_currentPeriodEndsAt :: "time option"
  uq_boostCreditsLeft :: int
  uq_listingGraceEndsAt :: "time option"
  uq_pendingPlanType :: "owner_plan option"
  uq_pendingBillingInterval :: "billing_interval option"
  uq_pendingPlanStartsAt :: "time option"
  uq_pendingPlanExpiresAt :: "time option"
  uq_lastResetDate :: time

record property =
  p_id :: uuid
  p_ownerId :: uuid
  p_title :: string
  p_description :: string
  p_district :: string
  p_manualAddress :: string
  p_propertyType :: property_type
  p_aroundServices :: "string option"
  p_rentAmount :: real
  p_bedrooms :: int
  p_isFurnished :: bool
  p_status :: property_status
  p_rejectionReason :: "string option"
  p_isBoosted :: bool
  p_boostedUntil :: "time option"
  p_embedding :: "real list"
  p_approvedBy :: "uuid option"
  p_approvedAt :: "time option"
  p_createdAt :: time
  p_countryId :: uuid
  p_governorateId :: uuid
  p_cityId :: uuid
  p_areaM2 :: real
  p_bathrooms :: int
  p_hasElevator :: bool
  p_hasParking :: bool

record property_image =
  pi_id :: uuid
  pi_propertyId :: uuid
  pi_imageUrl :: string
  pi_displayOrder :: int
  pi_isCover :: bool

record governorate =
  gv_id :: uuid
  gv_countryId :: uuid
  gv_nameAr :: string
  gv_nameEn :: string
  gv_status :: bool

record city =
  ct_id :: uuid
  ct_governorateId :: uuid
  ct_nameAr :: string
  ct_nameEn :: string
  ct_status :: bool

record country =
  cn_id :: uuid
  cn_nameAr :: string
  cn_nameEn :: string
  cn_code :: string
  cn_image :: string
  cn_status :: bool

record district =
  ds_id :: uuid
  ds_cityId :: uuid
  ds_nameAr :: string
  ds_nameEn :: string
  ds_status :: bool

record tenant_request =
  tr_id :: uuid
  tr_tenantId :: uuid
  tr_minBudget :: real
  tr_maxBudget :: real
  tr_preferredLocations :: string
  tr_propertyType :: property_type
  tr_requiredBedrooms :: int
  tr_needsFurnished :: bool
  tr_flexibilityScore :: int
  tr_lifestyleRequirements :: string
  tr_status :: request_status
  tr_approvedBy :: "uuid option"
  tr_createdAt :: time
  tr_embedding :: "real list"

record owner_offer =
  oo_id :: uuid
  oo_ownerId :: uuid
  oo_tenantRequestId :: uuid
  oo_propertyId :: "uuid option"
  oo_pitchMessage :: string
  oo_proposedPrice :: real
  oo_status :: owner_offer_status
  oo_createdAt :: time

record tenant_offer =
  to_id :: uuid
  to_tenantId :: uuid
  to_propertyId :: uuid
  to_ownerId :: uuid
  to_message :: string
  to_proposedPrice :: real
  to_counterPrice :: "real option"
  to_counterMessage :: "string option"
  to_status :: tenant_offer_status
  to_createdAt :: time

record match_connection =
  mc_id :: uuid
  mc_tenantId :: uuid
  mc_propertyId :: uuid
  mc_ownerId :: uuid
  mc_tenantRequestId :: "uuid option"
  mc_matchScore :: real
  mc_status :: connection_status
  mc_agreementReachedAt :: "time option"
  mc_createdAt :: time

record message =
  m_id :: uuid
  m_matchConnectionId :: uuid
  m_senderId :: uuid
  m_body :: string
  m_attachmentUrl :: "string option"
  m_attachmentType :: "attachment_type option"
  m_attachmentName :: "string option"
  m_attachmentDurationMs :: "int option"
  m_createdAt :: time
  m_editedAt :: "time option"

record lease_contract =
  lc_id :: uuid
  lc_matchConnectionId :: uuid
  lc_generatedByUserId :: uuid
  lc_ownerName :: string
  lc_ownerNationalId :: "string option"
  lc_tenantName :: string
  lc_tenantNationalId :: "string option"
  lc_propertyAddress :: string
  lc_customClauses :: "string list"
  lc_witness1Name :: "string option"
  lc_witness1NationalId :: "string option"
  lc_witness2Name :: "string option"
  lc_witness2NationalId :: "string option"
  lc_pdfUrl :: "string option"
  lc_startDate :: time
  lc_endDate :: time
  lc_rentAmount :: real
  lc_status :: lease_status
  lc_tenantReviewStatus :: review_status
  lc_tenantChangeRequest :: "string option"
  lc_tenantChangeRequestedAt :: "time option"
  lc_tenantReviewConfirmedAt :: "time option"
  lc_draftRevision :: int
  lc_tenantReviewedRevision :: "int option"
  lc_changeRequestNote :: "string option"
  lc_createdAt :: time
  lc_updatedAt :: time

record entitlement_grant =
  g_id :: uuid
  g_userId :: uuid
  g_paymentTransactionId :: "uuid option"
  g_type :: entitlement_type
  g_productSku :: string
  g_grantedQuantity :: int
  g_remainingQuantity :: int
  g_startsAt :: time
  g_expiresAt :: time

record boost_campaign =
  bc_id :: uuid
  bc_propertyId :: uuid
  bc_userId :: uuid
  bc_paymentTransactionId :: "uuid option"
  bc_productSku :: string
  bc_durationDays :: int
  bc_startsAt :: time
  bc_endsAt :: time
  bc_status :: boost_status

record product_configuration =
  pc_id :: uuid
  pc_paymentType :: payment_type
  pc_priceEgp :: int
  pc_quantity :: "int option"
  pc_validityDays :: "int option"
  pc_durationDays :: "int option"
  pc_enabled :: bool
  pc_updatedById :: "uuid option"

record plan_configuration =
  plc_id :: uuid
  plc_planType :: owner_plan
  plc_activeListings :: int
  plc_offersPerPeriod :: int
  plc_aiUsesPerPeriod :: int
  plc_boostCreditsPerPeriod :: int
  plc_boostDurationDays :: int
  plc_updatedById :: "uuid option"

text \<open>The JSON of a catalog snapshot, with the fields the services write and read back.\<close>

datatype product_kind = SUBSCRIPTION | ENTITLEMENT | BOOST
datatype billing = BILL_MONTHLY | BILL_YEARLY | ONE_TIME

record plan_allowances =
  pa_activeListings :: int
  pa_offers :: int
  pa_aiUses :: int
  pa_boostCredits :: int
  pa_boostDurationDays :: int

record resolved_product =
  rp_paymentType :: payment_type
  rp_priceEgp :: int
  rp_enabled :: bool
  rp_billing :: billing
  rp_kind :: product_kind
  rp_planType :: "owner_plan option"
  rp_entitlementType :: "entitlement_type option"
  rp_quantity :: "int option"
  rp_validityDays :: "int option"
  rp_durationDays :: "int option"

record catalog_snapshot =
  cs_product :: resolved_product
  cs_planAllowances :: "plan_allowances option"

record payment_transaction =
  pt_id :: uuid
  pt_userId :: uuid
  pt_providerOrderId :: string
  pt_providerTransactionId :: "string option"
  pt_amount :: real
  pt_currency :: string
  pt_paymentType :: payment_type
  pt_targetPropertyId :: "uuid option"
  pt_productSku :: "string option"
  pt_billingInterval :: "billing_interval option"
  pt_catalogSnapshot :: "catalog_snapshot option"
  pt_status :: payment_status
  pt_paidAt :: "time option"
  pt_createdAt :: time

record notification =
  n_id :: uuid
  n_userId :: uuid
  n_type :: notification_type
  n_link :: "link option"
  n_isRead :: bool
  n_createdAt :: time

record login_attempt =
  la_id :: uuid
  la_userId :: uuid
  la_ip :: string
  la_success :: bool
  la_createdAt :: time

record audit_entry =
  ae_id :: uuid
  ae_actorId :: uuid
  ae_action :: string
  ae_subjectId :: uuid
  ae_at :: time

record activation_request =
  ar_id :: uuid
  ar_userId :: uuid
  ar_status :: activation_status
  ar_createdAt :: time

record property_review =
  pr_id :: uuid
  pr_reviewerId :: uuid
  pr_propertyId :: uuid
  pr_rating :: int
  pr_comment :: "string option"
  pr_status :: verification_status
  pr_reviewedBy :: "uuid option"
  pr_createdAt :: time

record user_review =
  ux_id :: uuid
  ux_leaseContractId :: uuid
  ux_reviewerId :: uuid
  ux_revieweeId :: uuid
  ux_direction :: review_direction
  ux_overallRating :: int
  ux_communicationRating :: int
  ux_responsivenessRating :: int
  ux_propertyAccuracyRating :: "int option"
  ux_commitmentRating :: "int option"
  ux_createdAt :: time

record favorite =
  fv_id :: uuid
  fv_tenantId :: uuid
  fv_propertyId :: uuid
  fv_createdAt :: time

record partner_lead =
  pl_id :: uuid
  pl_userId :: uuid
  pl_serviceType :: partner_service
  pl_consentedAt :: "time option"
  pl_status :: lead_status
  pl_createdAt :: time

text \<open>The hashes of visitors and of their half hours are strings.\<close>

record view_event =
  ve_id :: uuid
  ve_propertyId :: uuid
  ve_viewerId :: "uuid option"
  ve_visitorHash :: string
  ve_dedupeKey :: string
  ve_trafficSource :: traffic_source
  ve_boostCampaignId :: "uuid option"
  ve_occurredAt :: time

record analytics_daily =
  ad_propertyId :: uuid
  ad_date :: time
  ad_views :: int
  ad_uniqueViews :: int
  ad_organicViews :: int
  ad_boostedViews :: int
  ad_favoritesAdded :: int
  ad_favoritesRemoved :: int
  ad_tenantOffers :: int
  ad_ownerOffers :: int
  ad_matches :: int

record support_message =
  sm_id :: uuid
  sm_ticketId :: uuid
  sm_authorType :: support_author
  sm_authorName :: string
  sm_authorId :: "uuid option"
  sm_content :: string
  sm_attachmentUrl :: "string option"
  sm_attachmentType :: "attachment_type option"
  sm_attachmentName :: "string option"
  sm_attachmentDurationMs :: "int option"
  sm_internal :: bool
  sm_createdAt :: time

record support_ticket =
  st_id :: uuid
  st_userId :: uuid
  st_status :: ticket_status
  st_assignedAdminId :: "uuid option"
  st_lastMessageAt :: time
  st_escalationReason :: "string option"
  st_agentEscalationKey :: "uuid option"
  st_priority :: support_priority
  st_aiSummary :: "string option"
  st_createdAt :: time
  st_updatedAt :: time

section \<open>Effects and the state\<close>

text \<open>
  What leaves the process: socket events and mails, best-effort deliveries of what the tables
  already hold, and jobs for other workers. The Arabic texts they carry are not kept.
\<close>

datatype effect =
    SocketNotification uuid notification_type
  | SocketPaymentUpdated uuid string payment_status
  | SocketMessage uuid uuid string
  | SocketMessageEdited uuid uuid string
  | SocketMessageDeleted uuid uuid
  | SocketForceLogout uuid
  | SocketAccountSuspended uuid
  | SocketSupportToUser uuid uuid bool string
  | SocketSupportToAdmins uuid string
  | SocketTicketCreated uuid
  | SocketReactivationRequested uuid uuid
  | Mail string string
  | SocketQueueItem string uuid
  | RemoveVectors uuid
  | IndexProperty uuid
  | MatchJob uuid
  | StoreUpload string
  | DeleteUpload "string option"
  | AnalyticsCounter uuid string

record db =
  db_seq :: nat
  db_users :: "user list"
  db_identityVerifications :: "identity_verification list"
  db_userQuotas :: "user_quota list"
  db_properties :: "property list"
  db_propertyImages :: "property_image list"
  db_governorates :: "governorate list"
  db_cities :: "city list"
  db_tenantRequests :: "tenant_request list"
  db_ownerOffers :: "owner_offer list"
  db_tenantOffers :: "tenant_offer list"
  db_matchConnections :: "match_connection list"
  db_messages :: "message list"
  db_leaseContracts :: "lease_contract list"
  db_grants :: "entitlement_grant list"
  db_campaigns :: "boost_campaign list"
  db_productConfigs :: "product_configuration list"
  db_planConfigs :: "plan_configuration list"
  db_payments :: "payment_transaction list"
  db_notifications :: "notification list"
  db_loginAttempts :: "login_attempt list"
  db_auditLog :: "audit_entry list"
  db_activationRequests :: "activation_request list"
  db_propertyReviews :: "property_review list"
  db_tickets :: "support_ticket list"
  db_supportMessages :: "support_message list"
  db_countries :: "country list"
  db_districts :: "district list"
  db_userReviews :: "user_review list"
  db_favorites :: "favorite list"
  db_partnerLeads :: "partner_lead list"
  db_viewEvents :: "view_event list"
  db_analyticsDaily :: "analytics_daily list"
  db_effects :: "effect list"

definition empty_db :: db where
  "empty_db = \<lparr>db_seq = 1, db_users = [], db_identityVerifications = [], db_userQuotas = [],
     db_properties = [], db_propertyImages = [], db_governorates = [], db_cities = [], db_tenantRequests = [], db_ownerOffers = [], db_tenantOffers = [],
     db_matchConnections = [], db_messages = [], db_leaseContracts = [], db_grants = [],
     db_campaigns = [], db_productConfigs = [], db_planConfigs = [], db_payments = [],
     db_notifications = [], db_loginAttempts = [], db_auditLog = [], db_activationRequests = [],
     db_propertyReviews = [], db_tickets = [], db_supportMessages = [],
     db_countries = [], db_districts = [], db_userReviews = [], db_favorites = [], db_partnerLeads = [], db_viewEvents = [], db_analyticsDaily = [], db_effects = []\<rparr>"

type_synonym 'a result = "('a, db) outcome"

definition emit :: "effect \<Rightarrow> db \<Rightarrow> db" where
  "emit e s = s\<lparr>db_effects := db_effects s @ [e]\<rparr>"

text \<open>
  \<open>RealtimeService.notifyUser\<close>: the notification row is written first, then pushed to the
  user's sockets; the mobile push that follows is fire-and-forget. \<open>notifyUsers\<close> writes all
  rows before the pushes.
\<close>

definition notification_row :: "db \<Rightarrow> uuid \<Rightarrow> notification_type \<Rightarrow> link option \<Rightarrow> time \<Rightarrow> notification" where
  "notification_row s uid ty lnk now =
     \<lparr>n_id = db_seq s, n_userId = uid, n_type = ty, n_link = lnk, n_isRead = False, n_createdAt = now\<rparr>"

definition create_notification :: "uuid \<Rightarrow> notification_type \<Rightarrow> link option \<Rightarrow> time \<Rightarrow> db \<Rightarrow> db" where
  "create_notification uid ty lnk now s =
     s\<lparr>db_seq := db_seq s + 1,
       db_notifications := db_notifications s @ [notification_row s uid ty lnk now]\<rparr>"

definition notifyUser :: "uuid \<Rightarrow> notification_type \<Rightarrow> link option \<Rightarrow> time \<Rightarrow> db \<Rightarrow> db" where
  "notifyUser uid ty lnk now s =
     emit (SocketNotification uid ty) (create_notification uid ty lnk now s)"

definition notifyUsers :: "uuid list \<Rightarrow> notification_type \<Rightarrow> link option \<Rightarrow> time \<Rightarrow> db \<Rightarrow> db" where
  "notifyUsers uids ty lnk now s =
     fold (\<lambda>uid. emit (SocketNotification uid ty)) uids
       (fold (\<lambda>uid. create_notification uid ty lnk now) uids s)"

definition audit :: "uuid \<Rightarrow> string \<Rightarrow> uuid \<Rightarrow> time \<Rightarrow> db \<Rightarrow> db" where
  "audit actor action subject now s =
     s\<lparr>db_seq := db_seq s + 1,
       db_auditLog := db_auditLog s @ [\<lparr>ae_id = db_seq s, ae_actorId = actor, ae_action = action, ae_subjectId = subject,
                                        ae_at = now\<rparr>]\<rparr>"

text \<open>
  Notifying, auditing and emitting touch no table but their own; the frame facts below carry
  the table equations through them.
\<close>

named_theorems frame_simps \<open>tables that an operation leaves alone\<close>

lemma emit_simps [simp, frame_simps]:
  "db_seq (emit e s) = db_seq s" "db_users (emit e s) = db_users s"
  "db_identityVerifications (emit e s) = db_identityVerifications s"
  "db_userQuotas (emit e s) = db_userQuotas s" "db_properties (emit e s) = db_properties s"
  "db_tenantRequests (emit e s) = db_tenantRequests s"
  "db_ownerOffers (emit e s) = db_ownerOffers s" "db_tenantOffers (emit e s) = db_tenantOffers s"
  "db_matchConnections (emit e s) = db_matchConnections s" "db_messages (emit e s) = db_messages s"
  "db_leaseContracts (emit e s) = db_leaseContracts s" "db_grants (emit e s) = db_grants s"
  "db_campaigns (emit e s) = db_campaigns s" "db_productConfigs (emit e s) = db_productConfigs s"
  "db_planConfigs (emit e s) = db_planConfigs s" "db_payments (emit e s) = db_payments s"
  "db_notifications (emit e s) = db_notifications s" "db_loginAttempts (emit e s) = db_loginAttempts s"
  "db_auditLog (emit e s) = db_auditLog s" "db_activationRequests (emit e s) = db_activationRequests s"
  "db_propertyImages (emit e s) = db_propertyImages s" "db_governorates (emit e s) = db_governorates s" "db_cities (emit e s) = db_cities s"
  "db_propertyReviews (emit e s) = db_propertyReviews s" "db_tickets (emit e s) = db_tickets s"
  "db_supportMessages (emit e s) = db_supportMessages s"
  "db_countries (emit e s) = db_countries s" "db_districts (emit e s) = db_districts s" "db_userReviews (emit e s) = db_userReviews s"
  "db_favorites (emit e s) = db_favorites s" "db_partnerLeads (emit e s) = db_partnerLeads s" "db_viewEvents (emit e s) = db_viewEvents s"
  "db_analyticsDaily (emit e s) = db_analyticsDaily s"
  "db_effects (emit e s) = db_effects s @ [e]"
  by (simp_all add: emit_def)

lemma notifyUser_simps [simp, frame_simps]:
  "db_seq (notifyUser u y l t s) = db_seq s + 1" "db_users (notifyUser u y l t s) = db_users s"
  "db_identityVerifications (notifyUser u y l t s) = db_identityVerifications s"
  "db_userQuotas (notifyUser u y l t s) = db_userQuotas s"
  "db_properties (notifyUser u y l t s) = db_properties s"
  "db_tenantRequests (notifyUser u y l t s) = db_tenantRequests s"
  "db_ownerOffers (notifyUser u y l t s) = db_ownerOffers s"
  "db_tenantOffers (notifyUser u y l t s) = db_tenantOffers s"
  "db_matchConnections (notifyUser u y l t s) = db_matchConnections s"
  "db_messages (notifyUser u y l t s) = db_messages s"
  "db_leaseContracts (notifyUser u y l t s) = db_leaseContracts s"
  "db_grants (notifyUser u y l t s) = db_grants s" "db_campaigns (notifyUser u y l t s) = db_campaigns s"
  "db_productConfigs (notifyUser u y l t s) = db_productConfigs s"
  "db_planConfigs (notifyUser u y l t s) = db_planConfigs s"
  "db_payments (notifyUser u y l t s) = db_payments s"
  "db_notifications (notifyUser u y l t s) = db_notifications s @ [notification_row s u y l t]"
  "db_loginAttempts (notifyUser u y l t s) = db_loginAttempts s"
  "db_auditLog (notifyUser u y l t s) = db_auditLog s"
  "db_activationRequests (notifyUser u y l t s) = db_activationRequests s"
  "db_propertyImages (notifyUser u y l t s) = db_propertyImages s" "db_governorates (notifyUser u y l t s) = db_governorates s" "db_cities (notifyUser u y l t s) = db_cities s"
  "db_propertyReviews (notifyUser u y l t s) = db_propertyReviews s"
  "db_tickets (notifyUser u y l t s) = db_tickets s"
  "db_supportMessages (notifyUser u y l t s) = db_supportMessages s"
  "db_countries (notifyUser u y l t s) = db_countries s" "db_districts (notifyUser u y l t s) = db_districts s" "db_userReviews (notifyUser u y l t s) = db_userReviews s"
  "db_favorites (notifyUser u y l t s) = db_favorites s" "db_partnerLeads (notifyUser u y l t s) = db_partnerLeads s" "db_viewEvents (notifyUser u y l t s) = db_viewEvents s"
  "db_analyticsDaily (notifyUser u y l t s) = db_analyticsDaily s"
  "db_effects (notifyUser u y l t s) = db_effects s @ [SocketNotification u y]"
  by (simp_all add: notifyUser_def create_notification_def)

lemma audit_simps [simp, frame_simps]:
  "db_seq (audit a c b n s) = db_seq s + 1"
  "db_users (audit a c b n s) = db_users s"
  "db_identityVerifications (audit a c b n s) = db_identityVerifications s"
  "db_userQuotas (audit a c b n s) = db_userQuotas s"
  "db_properties (audit a c b n s) = db_properties s"
  "db_tenantRequests (audit a c b n s) = db_tenantRequests s"
  "db_ownerOffers (audit a c b n s) = db_ownerOffers s"
  "db_tenantOffers (audit a c b n s) = db_tenantOffers s"
  "db_matchConnections (audit a c b n s) = db_matchConnections s"
  "db_messages (audit a c b n s) = db_messages s"
  "db_leaseContracts (audit a c b n s) = db_leaseContracts s"
  "db_grants (audit a c b n s) = db_grants s"
  "db_campaigns (audit a c b n s) = db_campaigns s"
  "db_productConfigs (audit a c b n s) = db_productConfigs s"
  "db_planConfigs (audit a c b n s) = db_planConfigs s"
  "db_payments (audit a c b n s) = db_payments s"
  "db_notifications (audit a c b n s) = db_notifications s"
  "db_loginAttempts (audit a c b n s) = db_loginAttempts s"
  "db_activationRequests (audit a c b n s) = db_activationRequests s"
  "db_propertyImages (audit a c b n s) = db_propertyImages s" "db_governorates (audit a c b n s) = db_governorates s" "db_cities (audit a c b n s) = db_cities s"
  "db_propertyReviews (audit a c b n s) = db_propertyReviews s"
  "db_tickets (audit a c b n s) = db_tickets s"
  "db_supportMessages (audit a c b n s) = db_supportMessages s"
  "db_countries (audit a c b n s) = db_countries s" "db_districts (audit a c b n s) = db_districts s" "db_userReviews (audit a c b n s) = db_userReviews s"
  "db_favorites (audit a c b n s) = db_favorites s" "db_partnerLeads (audit a c b n s) = db_partnerLeads s" "db_viewEvents (audit a c b n s) = db_viewEvents s"
  "db_analyticsDaily (audit a c b n s) = db_analyticsDaily s"
  "db_effects (audit a c b n s) = db_effects s"
  "db_auditLog (audit a c b n s) = db_auditLog s @ [\<lparr>ae_id = db_seq s, ae_actorId = a, ae_action = c, ae_subjectId = b, ae_at = n\<rparr>]"
  by (simp_all add: audit_def)

text \<open>Many recipients: the rows are those of the recipients in order, and no other table changes.\<close>

lemma notifyUsers_split:
  "\<exists>n ns es. notifyUsers us y l t s = s\<lparr>db_seq := n, db_notifications := db_notifications s @ ns, db_effects := es\<rparr>
     \<and> map n_userId ns = us \<and> (\<forall>x \<in> set ns. n_type x = y \<and> n_link x = l)"
proof -
  have a: "\<exists>n ns. fold (\<lambda>u. create_notification u y l t) us s = s\<lparr>db_seq := n, db_notifications := db_notifications s @ ns\<rparr>
      \<and> map n_userId ns = us \<and> (\<forall>x \<in> set ns. n_type x = y \<and> n_link x = l)" for s
  proof (induction us arbitrary: s)
    case Nil
    show ?case by (rule exI[of _ "db_seq s"], rule exI[of _ "[]"]) simp
  next
    case (Cons u us)
    obtain n ns where e: "fold (\<lambda>u. create_notification u y l t) us (create_notification u y l t s)
        = (create_notification u y l t s)\<lparr>db_seq := n, db_notifications := db_notifications (create_notification u y l t s) @ ns\<rparr>"
      and m: "map n_userId ns = us" "\<forall>x \<in> set ns. n_type x = y \<and> n_link x = l"
      using Cons.IH[of "create_notification u y l t s"] by (elim exE conjE)
    show ?case
      by (rule exI[of _ n], rule exI[of _ "notification_row s u y l t # ns"])
        (unfold fold_simps e, simp add: m, simp add: create_notification_def notification_row_def)
  qed
  have b: "\<exists>es. fold (\<lambda>u. emit (SocketNotification u y)) us s = s\<lparr>db_effects := es\<rparr>" for s
  proof (induction us arbitrary: s)
    case Nil
    show ?case by (rule exI[of _ "db_effects s"]) simp
  next
    case (Cons u us)
    obtain es where "fold (\<lambda>u. emit (SocketNotification u y)) us (emit (SocketNotification u y) s)
        = (emit (SocketNotification u y) s)\<lparr>db_effects := es\<rparr>"
      using Cons.IH[of "emit (SocketNotification u y) s"] by (elim exE)
    then show ?case unfolding fold_simps by (intro exI[of _ es]) (simp add: emit_def)
  qed
  obtain n ns where e: "fold (\<lambda>u. create_notification u y l t) us s = s\<lparr>db_seq := n, db_notifications := db_notifications s @ ns\<rparr>"
    and m: "map n_userId ns = us" "\<forall>x \<in> set ns. n_type x = y \<and> n_link x = l"
    using a[of s] by (elim exE conjE)
  obtain es where "fold (\<lambda>u. emit (SocketNotification u y)) us (fold (\<lambda>u. create_notification u y l t) us s)
      = (fold (\<lambda>u. create_notification u y l t) us s)\<lparr>db_effects := es\<rparr>"
    using b[of "fold (\<lambda>u. create_notification u y l t) us s"] by (elim exE)
  then show ?thesis
    by (intro exI[of _ n], intro exI[of _ ns], intro exI[of _ es]) (simp add: notifyUsers_def e m)
qed

lemma notifyUsers_simps [simp, frame_simps]:
  "db_users (notifyUsers us y l t s) = db_users s"
  "db_identityVerifications (notifyUsers us y l t s) = db_identityVerifications s"
  "db_userQuotas (notifyUsers us y l t s) = db_userQuotas s"
  "db_properties (notifyUsers us y l t s) = db_properties s"
  "db_propertyImages (notifyUsers us y l t s) = db_propertyImages s"
  "db_governorates (notifyUsers us y l t s) = db_governorates s"
  "db_cities (notifyUsers us y l t s) = db_cities s"
  "db_tenantRequests (notifyUsers us y l t s) = db_tenantRequests s"
  "db_ownerOffers (notifyUsers us y l t s) = db_ownerOffers s"
  "db_tenantOffers (notifyUsers us y l t s) = db_tenantOffers s"
  "db_matchConnections (notifyUsers us y l t s) = db_matchConnections s"
  "db_messages (notifyUsers us y l t s) = db_messages s"
  "db_leaseContracts (notifyUsers us y l t s) = db_leaseContracts s"
  "db_grants (notifyUsers us y l t s) = db_grants s"
  "db_campaigns (notifyUsers us y l t s) = db_campaigns s"
  "db_productConfigs (notifyUsers us y l t s) = db_productConfigs s"
  "db_planConfigs (notifyUsers us y l t s) = db_planConfigs s"
  "db_payments (notifyUsers us y l t s) = db_payments s"
  "db_loginAttempts (notifyUsers us y l t s) = db_loginAttempts s"
  "db_auditLog (notifyUsers us y l t s) = db_auditLog s"
  "db_activationRequests (notifyUsers us y l t s) = db_activationRequests s"
  "db_propertyReviews (notifyUsers us y l t s) = db_propertyReviews s"
  "db_tickets (notifyUsers us y l t s) = db_tickets s"
  "db_supportMessages (notifyUsers us y l t s) = db_supportMessages s"
  "db_countries (notifyUsers us y l t s) = db_countries s" "db_districts (notifyUsers us y l t s) = db_districts s" "db_userReviews (notifyUsers us y l t s) = db_userReviews s"
  "db_favorites (notifyUsers us y l t s) = db_favorites s" "db_partnerLeads (notifyUsers us y l t s) = db_partnerLeads s" "db_viewEvents (notifyUsers us y l t s) = db_viewEvents s"
  "db_analyticsDaily (notifyUsers us y l t s) = db_analyticsDaily s"
  using notifyUsers_split[of us y l t s] by (elim exE conjE, simp)+

section \<open>Fresh rows and identifiers\<close>

text \<open>The relation \<open>user.fullName\<close> of a row with a user id.\<close>

definition user_name :: "uuid \<Rightarrow> db \<Rightarrow> string" where
  "user_name uid s = (case find (\<lambda>u. u_id u = uid) (db_users s) of None \<Rightarrow> '''' | Some u \<Rightarrow> u_fullName u)"

definition user_email :: "uuid \<Rightarrow> db \<Rightarrow> string" where
  "user_email uid s = (case find (\<lambda>u. u_id u = uid) (db_users s) of None \<Rightarrow> '''' | Some u \<Rightarrow> u_email u)"


text \<open>A user row as \<open>prisma.user.create\<close> makes it: the columns left out take their defaults.\<close>

definition new_user :: "uuid \<Rightarrow> string \<Rightarrow> string \<Rightarrow> string \<Rightarrow> string \<Rightarrow> user_role \<Rightarrow> time \<Rightarrow> user" where
  "new_user uid fullName email phoneNumber passwordHash role now =
     \<lparr>u_id = uid, u_fullName = fullName, u_email = email, u_phoneNumber = phoneNumber, u_passwordHash = passwordHash,
      u_role = role, u_avatarUrl = None, u_adminRole = None, u_isActive = True, u_lastLoginAt = None,
      u_createdAt = now, u_updatedAt = now, u_deletedAt = None,
      u_tokenVersion = 0, u_suspendedAt = None, u_suspendedUntil = None, u_suspensionReason = None,
      u_suspensionNote = None, u_suspendedById = None, u_resetToken = None, u_resetTokenExpiry = None,
      u_emailVerifiedAt = None, u_emailOtpHash = None, u_emailOtpExpiresAt = None, u_emailOtpAttempts = 0,
      u_emailOtpSentAt = None\<rparr>"


text \<open>Primary keys are unique and below the counter they are drawn from.\<close>

definition keys_ok :: "nat \<Rightarrow> uuid list \<Rightarrow> bool" where
  "keys_ok n ks \<longleftrightarrow> distinct ks \<and> (\<forall>k \<in> set ks. k < n)"

lemma keys_okD: "keys_ok n ks \<Longrightarrow> distinct ks"
  by (simp add: keys_ok_def)

lemma keys_ok_snoc [simp]: "keys_ok n ks \<Longrightarrow> keys_ok (Suc n) (ks @ [n])"
  by (auto simp: keys_ok_def)

lemma keys_ok_mono: "keys_ok n ks \<Longrightarrow> n \<le> m \<Longrightarrow> keys_ok m ks"
  by (auto simp: keys_ok_def)

end
