(* ===== verification/Catalog.thy ===== *)
theory Catalog
  imports Schema
begin

text \<open>
  The price catalog of \<open>payments/pricing.catalog.ts\<close> and the configurable layer over it,
  \<open>commercial-config/commercial-config.service.ts\<close>: products and plan allowances an admin
  can reprice, whose meaning stays the catalog's.
\<close>

section \<open>pricing.catalog.ts\<close>

definition sold :: "int \<Rightarrow> billing \<Rightarrow> product_kind \<Rightarrow> owner_plan option \<Rightarrow> entitlement_type option \<Rightarrow>
    int option \<Rightarrow> int option \<Rightarrow> int option \<Rightarrow> payment_type \<Rightarrow> resolved_product" where
  "sold price bill kind plan ent qty val dur t =
     \<lparr>rp_paymentType = t, rp_priceEgp = price, rp_enabled = True, rp_billing = bill, rp_kind = kind,
      rp_planType = plan, rp_entitlementType = ent, rp_quantity = qty, rp_validityDays = val,
      rp_durationDays = dur\<rparr>"

text \<open>
  \<open>PRICING_CATALOG\<close>, already in the shape \<open>defaultProduct\<close> gives an entry: enabled, and every
  field the entry lacks undefined.
\<close>

fun PRICING_CATALOG :: "payment_type \<Rightarrow> resolved_product option" where
  "PRICING_CATALOG OWNER_PLUS_MONTHLY =
     Some (sold 299 BILL_MONTHLY SUBSCRIPTION (Some OWNER_PLUS) None None None None OWNER_PLUS_MONTHLY)"
| "PRICING_CATALOG OWNER_PLUS_YEARLY =
     Some (sold 2990 BILL_YEARLY SUBSCRIPTION (Some OWNER_PLUS) None None None None OWNER_PLUS_YEARLY)"
| "PRICING_CATALOG PREMIUM_MONTHLY =
     Some (sold 699 BILL_MONTHLY SUBSCRIPTION (Some PREMIUM) None None None None PREMIUM_MONTHLY)"
| "PRICING_CATALOG PREMIUM_YEARLY =
     Some (sold 6990 BILL_YEARLY SUBSCRIPTION (Some PREMIUM) None None None None PREMIUM_YEARLY)"
| "PRICING_CATALOG EXTRA_LISTING_60D =
     Some (sold 99 ONE_TIME ENTITLEMENT None (Some ACTIVE_LISTING) (Some 1) (Some 60) None EXTRA_LISTING_60D)"
| "PRICING_CATALOG OFFERS_10_60D =
     Some (sold 49 ONE_TIME ENTITLEMENT None (Some MATCHED_OFFER) (Some 10) (Some 60) None OFFERS_10_60D)"
| "PRICING_CATALOG BOOST_7D =
     Some (sold 79 ONE_TIME BOOST None None None None (Some 7) BOOST_7D)"
| "PRICING_CATALOG BOOST_14D =
     Some (sold 149 ONE_TIME BOOST None None None None (Some 14) BOOST_14D)"
| "PRICING_CATALOG BOOST_30D =
     Some (sold 249 ONE_TIME BOOST None None None None (Some 30) BOOST_30D)"
| "PRICING_CATALOG AI_USES_10_90D =
     Some (sold 39 ONE_TIME ENTITLEMENT None (Some AI_OPTIMIZER_USE) (Some 10) (Some 90) None AI_USES_10_90D)"
| "PRICING_CATALOG _ = None"

text \<open>\<open>allowedRoles\<close> of every entry.\<close>

definition allowedRoles :: "payment_type \<Rightarrow> user_role list" where
  "allowedRoles t = (if PRICING_CATALOG t \<noteq> None then [LANDLORD] else [])"

definition BILLABLE_PAYMENT_TYPES :: "payment_type list" where
  "BILLABLE_PAYMENT_TYPES =
     [OWNER_PLUS_MONTHLY, OWNER_PLUS_YEARLY, PREMIUM_MONTHLY, PREMIUM_YEARLY, EXTRA_LISTING_60D,
      OFFERS_10_60D, BOOST_7D, BOOST_14D, BOOST_30D, AI_USES_10_90D]"

definition isBillablePaymentType :: "payment_type \<Rightarrow> bool" where
  "isBillablePaymentType t \<longleftrightarrow> t \<in> set BILLABLE_PAYMENT_TYPES"

definition PLAN_BOOST_DURATION_DAYS :: int where "PLAN_BOOST_DURATION_DAYS = 7"
definition LISTING_CAPACITY_GRACE_DAYS :: int where "LISTING_CAPACITY_GRACE_DAYS = 7"

text \<open>
  \<open>planAllowances\<close>; the boost duration, which the catalog function leaves out, is the 7 that
  \<open>getPlanAllowances\<close> adds to it.
\<close>

fun planAllowances :: "owner_plan \<Rightarrow> plan_allowances" where
  "planAllowances PREMIUM = \<lparr>pa_activeListings = 10, pa_offers = 100, pa_aiUses = 30,
     pa_boostCredits = 2, pa_boostDurationDays = 7\<rparr>"
| "planAllowances OWNER_PLUS = \<lparr>pa_activeListings = 3, pa_offers = 30, pa_aiUses = 10,
     pa_boostCredits = 1, pa_boostDurationDays = 7\<rparr>"
| "planAllowances FREE = \<lparr>pa_activeListings = 1, pa_offers = 5, pa_aiUses = 5,
     pa_boostCredits = 0, pa_boostDurationDays = 7\<rparr>"

section \<open>Names of the enums\<close>

fun payment_type_name :: "payment_type \<Rightarrow> string" where
  "payment_type_name OWNER_PLUS_MONTHLY = ''OWNER_PLUS_MONTHLY''"
| "payment_type_name OWNER_PLUS_YEARLY = ''OWNER_PLUS_YEARLY''"
| "payment_type_name PREMIUM_MONTHLY = ''PREMIUM_MONTHLY''"
| "payment_type_name PREMIUM_YEARLY = ''PREMIUM_YEARLY''"
| "payment_type_name EXTRA_LISTING_60D = ''EXTRA_LISTING_60D''"
| "payment_type_name OFFERS_10_60D = ''OFFERS_10_60D''"
| "payment_type_name BOOST_7D = ''BOOST_7D''"
| "payment_type_name BOOST_14D = ''BOOST_14D''"
| "payment_type_name BOOST_30D = ''BOOST_30D''"
| "payment_type_name AI_USES_10_90D = ''AI_USES_10_90D''"
| "payment_type_name PREMIUM_OWNER = ''PREMIUM_OWNER''"
| "payment_type_name PT_OWNER_PLUS = ''OWNER_PLUS''"
| "payment_type_name SINGLE_LISTING = ''SINGLE_LISTING''"
| "payment_type_name SINGLE_OFFER = ''SINGLE_OFFER''"
| "payment_type_name BOOST_LISTING = ''BOOST_LISTING''"
| "payment_type_name AI_ADDON = ''AI_ADDON''"
| "payment_type_name DOCS_PACK = ''DOCS_PACK''"
| "payment_type_name LEGACY_OWNER_PLUS = ''LEGACY_OWNER_PLUS''"
| "payment_type_name LEGACY_NEW_LISTING = ''LEGACY_NEW_LISTING''"
| "payment_type_name LEGACY_BOOST_LISTING = ''LEGACY_BOOST_LISTING''"
| "payment_type_name LEGACY_REFILL_MATCHES = ''LEGACY_REFILL_MATCHES''"
| "payment_type_name LEGACY_OFFER_PACK = ''LEGACY_OFFER_PACK''"

fun plan_name :: "owner_plan \<Rightarrow> string" where
  "plan_name FREE = ''FREE''"
| "plan_name OWNER_PLUS = ''OWNER_PLUS''"
| "plan_name PREMIUM = ''PREMIUM''"

definition billable_of_name :: "string \<Rightarrow> payment_type option" where
  "billable_of_name s = find (\<lambda>t. payment_type_name t = s) BILLABLE_PAYMENT_TYPES"

definition plan_of_name :: "string \<Rightarrow> owner_plan option" where
  "plan_of_name s = find (\<lambda>p. plan_name p = s) [FREE, OWNER_PLUS, PREMIUM]"

section \<open>commercial-config.service.ts\<close>

text \<open>\<open>a ?? b\<close> on a nullable column.\<close>

fun orElse :: "'a option \<Rightarrow> 'a option \<Rightarrow> 'a option" where
  "orElse (Some x) _ = Some x"
| "orElse None y = y"

text \<open>A number is true in a condition when it is neither undefined nor zero.\<close>

fun truthy :: "int option \<Rightarrow> bool" where
  "truthy None = False"
| "truthy (Some n) = (n \<noteq> 0)"

text \<open>Only called on billable types; the last branch is never reached.\<close>

definition defaultProduct :: "payment_type \<Rightarrow> resolved_product" where
  "defaultProduct t = (case PRICING_CATALOG t of Some p \<Rightarrow> p
     | None \<Rightarrow> sold 0 ONE_TIME ENTITLEMENT None None None None None t)"

definition getProduct :: "payment_type \<Rightarrow> db \<Rightarrow> resolved_product" where
  "getProduct t s =
     (let defaults = defaultProduct t
      in case find (\<lambda>c. pc_paymentType c = t) (db_productConfigs s) of
           None \<Rightarrow> defaults
         | Some saved \<Rightarrow> defaults\<lparr>
             rp_priceEgp := pc_priceEgp saved,
             rp_enabled := pc_enabled saved,
             rp_quantity := (if rp_kind defaults = ENTITLEMENT
                             then orElse (pc_quantity saved) (rp_quantity defaults) else None),
             rp_validityDays := (if rp_kind defaults = ENTITLEMENT
                             then orElse (pc_validityDays saved) (rp_validityDays defaults) else None),
             rp_durationDays := (if rp_kind defaults = BOOST
                             then orElse (pc_durationDays saved) (rp_durationDays defaults) else None)\<rparr>)"

definition getPlanAllowances :: "owner_plan \<Rightarrow> db \<Rightarrow> plan_allowances" where
  "getPlanAllowances p s =
     (case find (\<lambda>c. plc_planType c = p) (db_planConfigs s) of
        None \<Rightarrow> planAllowances p
      | Some saved \<Rightarrow> \<lparr>pa_activeListings = plc_activeListings saved,
          pa_offers = plc_offersPerPeriod saved, pa_aiUses = plc_aiUsesPerPeriod saved,
          pa_boostCredits = plc_boostCreditsPerPeriod saved,
          pa_boostDurationDays = plc_boostDurationDays saved\<rparr>)"

definition getCatalog :: "db \<Rightarrow> (owner_plan \<times> plan_allowances) list \<times> (payment_type \<times> resolved_product) list" where
  "getCatalog s =
     (map (\<lambda>p. (p, getPlanAllowances p s)) [FREE, OWNER_PLUS, PREMIUM],
      map (\<lambda>t. (rp_paymentType (getProduct t s), getProduct t s)) BILLABLE_PAYMENT_TYPES)"

definition snapshot_of :: "payment_type \<Rightarrow> db \<Rightarrow> catalog_snapshot" where
  "snapshot_of t s =
     (let product = getProduct t s
      in \<lparr>cs_product = product,
          cs_planAllowances = map_option (\<lambda>p. getPlanAllowances p s) (rp_planType product)\<rparr>)"

definition checkoutSnapshot :: "payment_type \<Rightarrow> db \<Rightarrow> http_error + catalog_snapshot" where
  "checkoutSnapshot t s =
     (if \<not> rp_enabled (getProduct t s) then Inl (BadRequest ''This product is currently unavailable'')
      else Inr (snapshot_of t s))"

text \<open>
  The column is written by \<open>checkout\<close> alone, with a value of the snapshot's shape, so the
  checks on the JSON's shape are those of the type; the two checks on its values are here.
\<close>

definition parseSnapshot :: "catalog_snapshot option \<Rightarrow> catalog_snapshot option" where
  "parseSnapshot value =
     (case value of
        None \<Rightarrow> None
      | Some v \<Rightarrow>
          if \<not> isBillablePaymentType (rp_paymentType (cs_product v)) then None
          else if rp_kind (cs_product v) \<noteq> rp_kind (defaultProduct (rp_paymentType (cs_product v))) then None
          else Some v)"

record update_product_dto =
  upd_priceEgp :: int
  upd_enabled :: bool
  upd_quantity :: "int option"
  upd_validityDays :: "int option"
  upd_durationDays :: "int option"

text \<open>\<open>upsert\<close>: update the matching row or create it; the identifier of the row is returned.\<close>

definition updateProduct :: "uuid \<Rightarrow> string \<Rightarrow> update_product_dto \<Rightarrow> time \<Rightarrow> db \<Rightarrow> resolved_product result" where
  "updateProduct actorId paymentTypeValue dto now s =
     (case billable_of_name paymentTypeValue of
        None \<Rightarrow> (Inl (NotFound ''PRODUCT_NOT_FOUND''), s)
      | Some t \<Rightarrow>
        let kind = rp_kind (defaultProduct t);
            quantity = (if kind = ENTITLEMENT then upd_quantity dto else None);
            validity = (if kind = ENTITLEMENT then upd_validityDays dto else None);
            duration = (if kind = BOOST then upd_durationDays dto else None)
        in if kind = ENTITLEMENT \<and> (\<not> truthy quantity \<or> \<not> truthy validity)
           then (Inl (BadRequest ''Quantity and validity are required for add-ons''), s)
           else if kind = BOOST \<and> \<not> truthy duration
           then (Inl (BadRequest ''Duration is required for boost products''), s)
           else
             let set_data = (\<lambda>c. c\<lparr>pc_priceEgp := upd_priceEgp dto, pc_enabled := upd_enabled dto,
                   pc_quantity := quantity, pc_validityDays := validity, pc_durationDays := duration,
                   pc_updatedById := Some actorId\<rparr>);
                 created = \<lparr>pc_id = db_seq s, pc_paymentType = t, pc_priceEgp = upd_priceEgp dto,
                   pc_quantity = quantity, pc_validityDays = validity, pc_durationDays = duration,
                   pc_enabled = upd_enabled dto, pc_updatedById = Some actorId\<rparr>;
                 s' = (case find (\<lambda>c. pc_paymentType c = t) (db_productConfigs s) of
                   Some c \<Rightarrow> audit actorId (''commercial.product.update:'' @ payment_type_name t) (pc_id c) now
                     (s\<lparr>db_productConfigs :=
                        update_where (\<lambda>c. pc_paymentType c = t) set_data (db_productConfigs s)\<rparr>)
                 | None \<Rightarrow> audit actorId (''commercial.product.update:'' @ payment_type_name t) (db_seq s) now
                     (s\<lparr>db_seq := db_seq s + 1, db_productConfigs := db_productConfigs s @ [created]\<rparr>))
             in (Inr (getProduct t s'), s'))"

text \<open>What a plan change does to the quota of an owner on the plan: the used part stays used.\<close>

definition rebase_quota :: "plan_allowances \<Rightarrow> plan_allowances \<Rightarrow> user_quota \<Rightarrow> user_quota" where
  "rebase_quota previous next q =
     (let usedOffers = max 0 (pa_offers previous - uq_freeOffersLeft q);
          usedAi = max 0 (pa_aiUses previous - uq_optimizerUsesLeft q);
          usedBoosts = max 0 (pa_boostCredits previous - uq_boostCreditsLeft q)
      in q\<lparr>uq_maxActiveListings := pa_activeListings next,
           uq_freeOffersLeft := max 0 (pa_offers next - usedOffers),
           uq_optimizerUsesLeft := max 0 (pa_aiUses next - usedAi),
           uq_boostCreditsLeft := max 0 (pa_boostCredits next - usedBoosts)\<rparr>)"

definition updatePlan :: "uuid \<Rightarrow> string \<Rightarrow> plan_allowances \<Rightarrow> time \<Rightarrow> db \<Rightarrow> plan_allowances result" where
  "updatePlan actorId planTypeValue next now s =
     (case plan_of_name planTypeValue of
        None \<Rightarrow> (Inl (NotFound ''PLAN_NOT_FOUND''), s)
      | Some p \<Rightarrow>
        let previous = getPlanAllowances p s;
            set_data = (\<lambda>c. c\<lparr>plc_activeListings := pa_activeListings next,
              plc_offersPerPeriod := pa_offers next, plc_aiUsesPerPeriod := pa_aiUses next,
              plc_boostCreditsPerPeriod := pa_boostCredits next,
              plc_boostDurationDays := pa_boostDurationDays next, plc_updatedById := Some actorId\<rparr>);
            created = \<lparr>plc_id = db_seq s, plc_planType = p, plc_activeListings = pa_activeListings next,
              plc_offersPerPeriod = pa_offers next, plc_aiUsesPerPeriod = pa_aiUses next,
              plc_boostCreditsPerPeriod = pa_boostCredits next,
              plc_boostDurationDays = pa_boostDurationDays next, plc_updatedById = Some actorId\<rparr>;
            (s1, rowId) = (case find (\<lambda>c. plc_planType c = p) (db_planConfigs s) of
              Some c \<Rightarrow> (s\<lparr>db_planConfigs :=
                 update_where (\<lambda>c. plc_planType c = p) set_data (db_planConfigs s)\<rparr>, plc_id c)
            | None \<Rightarrow> (s\<lparr>db_seq := db_seq s + 1, db_planConfigs := db_planConfigs s @ [created]\<rparr>, db_seq s));
            s2 = s1\<lparr>db_userQuotas :=
              update_where (\<lambda>q. uq_planType q = p) (rebase_quota previous next) (db_userQuotas s1)\<rparr>
        in (Inr next, audit actorId (''commercial.plan.update:'' @ plan_name p) rowId now s2))"

section \<open>Lemmas\<close>

lemma isBillable_iff: "isBillablePaymentType t \<longleftrightarrow> PRICING_CATALOG t \<noteq> None"
  by (cases t) (simp_all add: isBillablePaymentType_def BILLABLE_PAYMENT_TYPES_def)

lemma billable_of_name_iff: "billable_of_name (payment_type_name t) = (if isBillablePaymentType t then Some t else None)"
  by (cases t) (simp_all add: billable_of_name_def isBillablePaymentType_def BILLABLE_PAYMENT_TYPES_def)

lemma plan_of_name_name [simp]: "plan_of_name (plan_name p) = Some p"
  by (cases p) (simp_all add: plan_of_name_def)

lemma billable_of_nameD: "billable_of_name n = Some t \<Longrightarrow> isBillablePaymentType t \<and> payment_type_name t = n"
  by (auto simp: billable_of_name_def isBillablePaymentType_def dest: find_SomeD)

lemma plan_of_nameD: "plan_of_name n = Some p \<Longrightarrow> plan_name p = n"
  unfolding plan_of_name_def by (drule find_SomeD) blast

text \<open>An admin's configuration never changes what a product is.\<close>

lemma getProduct_semantics:
  "rp_paymentType (getProduct t s) = rp_paymentType (defaultProduct t)"
  "rp_kind (getProduct t s) = rp_kind (defaultProduct t)"
  "rp_billing (getProduct t s) = rp_billing (defaultProduct t)"
  "rp_planType (getProduct t s) = rp_planType (defaultProduct t)"
  "rp_entitlementType (getProduct t s) = rp_entitlementType (defaultProduct t)"
  by (simp_all add: getProduct_def Let_def split: option.splits)

lemma defaultProduct_type [simp]: "rp_paymentType (defaultProduct t) = t"
  by (cases t) (simp_all add: defaultProduct_def sold_def)

text \<open>A product is well formed when settling a payment for it cannot fail on its configuration.\<close>

definition settleable :: "resolved_product \<Rightarrow> bool" where
  "settleable p \<longleftrightarrow>
     (case rp_kind p of
        SUBSCRIPTION \<Rightarrow> rp_billing p \<noteq> ONE_TIME \<and> rp_planType p \<in> {Some OWNER_PLUS, Some PREMIUM}
      | ENTITLEMENT \<Rightarrow> rp_entitlementType p \<noteq> None \<and> truthy (rp_validityDays p) \<and> truthy (rp_quantity p)
      | BOOST \<Rightarrow> truthy (rp_durationDays p))"

definition config_ok :: "product_configuration \<Rightarrow> bool" where
  "config_ok c \<longleftrightarrow> pc_quantity c \<noteq> Some 0 \<and> pc_validityDays c \<noteq> Some 0 \<and> pc_durationDays c \<noteq> Some 0"

definition configs_ok :: "db \<Rightarrow> bool" where
  "configs_ok s \<longleftrightarrow> (\<forall>c \<in> set (db_productConfigs s). config_ok c)"

lemma truthy_orElse: "x \<noteq> Some 0 \<Longrightarrow> truthy y \<Longrightarrow> truthy (orElse x y)"
  by (cases x) auto

lemma settleable_default: "isBillablePaymentType t \<Longrightarrow> settleable (defaultProduct t)"
  by (cases t) (simp_all add: isBillable_iff defaultProduct_def sold_def settleable_def)

lemma getProduct_settleable:
  assumes "isBillablePaymentType t" "configs_ok s"
  shows "settleable (getProduct t s)"
proof (cases "find (\<lambda>c. pc_paymentType c = t) (db_productConfigs s)")
  case None
  then show ?thesis using settleable_default[OF assms(1)] by (simp add: getProduct_def)
next
  case (Some c)
  then have "config_ok c" using assms(2) by (auto simp: configs_ok_def dest: find_SomeD)
  with Some settleable_default[OF assms(1)] show ?thesis
    by (auto simp: getProduct_def settleable_def config_ok_def Let_def truthy_orElse
        split: product_kind.splits)
qed

lemma updateProduct_configs_ok:
  assumes "configs_ok s"
  shows "configs_ok (snd (updateProduct actor name dto now s))"
proof (cases "billable_of_name name")
  case None
  then show ?thesis using assms by (simp add: updateProduct_def)
next
  case (Some t)
  have tr: "truthy x \<Longrightarrow> x \<noteq> Some 0" for x by (cases x) auto
  show ?thesis
    using assms Some unfolding updateProduct_def
    by (cases "rp_kind (defaultProduct t)")
      (auto simp: Let_def configs_ok_def config_ok_def tr elim!: in_update_whereE
        split: option.splits)
qed

lemma rebase_quota_nonneg:
  "0 \<le> uq_freeOffersLeft (rebase_quota a b q)" "0 \<le> uq_optimizerUsesLeft (rebase_quota a b q)"
  "0 \<le> uq_boostCreditsLeft (rebase_quota a b q)"
  by (simp_all add: rebase_quota_def Let_def)

lemma rebase_quota_frame [simp]:
  "uq_id (rebase_quota a b q) = uq_id q" "uq_userId (rebase_quota a b q) = uq_userId q"
  "uq_planType (rebase_quota a b q) = uq_planType q"
  by (simp_all add: rebase_quota_def Let_def)

end
