(* ===== verification/Paymob.thy ===== *)
theory Paymob
  imports Catalog
begin

text \<open>
  \<open>payments/providers/paymob.service.ts\<close>: the payment gateway. The HTTP endpoints of Paymob
  are the fields of \<open>paymob_api\<close>, functions from the request to the answer, None when the call
  fails; SHA-512 HMAC is the argument \<open>hmac\<close>, from key and message to the hexadecimal digest.
  Identifiers are printed in decimal where a request carries them as text.
\<close>

section \<open>Configuration and provider\<close>

record paymob_env =
  PAYMOB_BASE_URL :: "string option"
  PAYMOB_SECRET_KEY :: "string option"
  PAYMOB_PUBLIC_KEY :: "string option"
  PAYMOB_HMAC_SECRET :: "string option"
  PAYMOB_WALLET_INTEGRATION_ID :: "string option"
  PAYMOB_INTEGRATION_ID_WALLET :: "string option"
  PAYMOB_INTEGRATION_ID_CARD :: "string option"
  PAYMOB_INTEGRATION_ID :: "string option"
  PAYMOB_IFRAME_ID :: "string option"
  PAYMOB_WALLET_IFRAME_ID :: "string option"

datatype pay_method = CARD | WALLET

record intention_request =
  ir_amount :: int
  ir_payment_method :: string
  ir_special_reference :: string
  ir_first_name :: string
  ir_email :: string
  ir_phone_number :: string

record payment_key_request =
  kr_auth_token :: string
  kr_amount_cents :: int
  kr_order_id :: int
  kr_email :: string
  kr_first_name :: string
  kr_phone_number :: string
  kr_integration_id :: string

record wallet_response =
  wr_redirect_url :: "string option"
  wr_iframe_redirection_url :: "string option"
  wr_iframe_redirection_token :: "string option"
  wr_message :: "string option"

record lookup_transaction =
  lt_id :: string
  lt_order_id :: "string option"
  lt_success :: bool
  lt_pending :: bool
  lt_is_voided :: bool
  lt_is_refunded :: bool

text \<open>\<open>api_intention\<close> answers with the identifier and the client secret of the intention.\<close>

record paymob_api =
  api_intention :: "intention_request \<Rightarrow> (string \<times> string) option"
  api_auth_token :: "string option"
  api_order :: "string \<Rightarrow> int \<Rightarrow> int option"
  api_payment_key :: "payment_key_request \<Rightarrow> string option"
  api_wallet_pay :: "string \<Rightarrow> string \<Rightarrow> wallet_response option"
  api_transactions :: "string \<Rightarrow> string \<Rightarrow> lookup_transaction list option"

section \<open>Operations\<close>

definition starts_with :: "string \<Rightarrow> string \<Rightarrow> bool" where
  "starts_with p s \<longleftrightarrow> take (length p) s = p"

definition compact_phone :: "string \<Rightarrow> string" where
  "compact_phone phone = filter (\<lambda>c. \<not> js_space c \<and> c \<noteq> CHR ''-'') phone"

definition normalizeEgyptianPhone :: "string \<Rightarrow> string" where
  "normalizeEgyptianPhone phone =
     (let compact = compact_phone phone
      in if starts_with ''+20'' compact then ''0'' @ drop 3 compact
         else if starts_with ''0020'' compact then ''0'' @ drop 4 compact
         else compact)"

definition BASE_URL :: "paymob_env \<Rightarrow> string" where
  "BASE_URL env = js_str (js_or (PAYMOB_BASE_URL env) (Some ''https://accept.paymob.com''))"

definition amount_cents :: "real \<Rightarrow> int" where
  "amount_cents amount = js_round (amount * 100)"

text \<open>The wallet request of the legacy API, with its own error handling.\<close>

definition wallet_checkout :: "paymob_env \<Rightarrow> paymob_api \<Rightarrow> string \<Rightarrow> string \<Rightarrow> int \<Rightarrow> http_error + (string \<times> string)" where
  "wallet_checkout env api paymentToken walletPhone orderId =
     (case api_wallet_pay api paymentToken (normalizeEgyptianPhone walletPhone) of
        None \<Rightarrow> Inl (BadRequest ''WALLET_UNAVAILABLE_MESSAGE'')
      | Some payRes \<Rightarrow>
        (case js_or (js_or (wr_redirect_url payRes) (wr_iframe_redirection_url payRes)) None of
           Some url \<Rightarrow> Inr (url, js_num orderId)
         | None \<Rightarrow>
           (case js_or (wr_iframe_redirection_token payRes) None of
              Some token \<Rightarrow>
                (case js_or (PAYMOB_WALLET_IFRAME_ID env) None of
                   None \<Rightarrow> Inl (BadRequest ''WALLET_UNAVAILABLE_MESSAGE'')
                 | Some walletIframeId \<Rightarrow>
                     Inr (BASE_URL env @ ''/api/acceptance/iframes/'' @ walletIframeId
                          @ ''?payment_token='' @ token, js_num orderId))
            | None \<Rightarrow>
                if map_option js_lower (wr_message payRes) = Some ''receiver is not registered''
                then Inl (BadRequest ''RECEIVER_NOT_REGISTERED'')
                else Inl (BadRequest ''WALLET_NOT_PREPARED''))))"

text \<open>The last failure is the one of the outer \<open>catch\<close>: every error that is no 400 becomes it.\<close>

definition checkout_failed :: "http_error + 'a" where
  "checkout_failed = Inl (BadRequest ''CHECKOUT_FAILED'')"

definition legacy_checkout ::
    "paymob_env \<Rightarrow> paymob_api \<Rightarrow> user \<Rightarrow> real \<Rightarrow> pay_method option \<Rightarrow> string option \<Rightarrow> http_error + (string \<times> string)" where
  "legacy_checkout env api u amount payMethod walletPhone =
     (let walletIntegrationId = js_or (js_or (PAYMOB_WALLET_INTEGRATION_ID env) (PAYMOB_INTEGRATION_ID_WALLET env)) None;
          cardIntegrationId = js_or (js_or (PAYMOB_INTEGRATION_ID_CARD env) (PAYMOB_INTEGRATION_ID env)) None
      in if payMethod = Some WALLET \<and> walletIntegrationId = None
         then Inl (BadRequest ''WALLET_UNAVAILABLE_MESSAGE'')
         else if payMethod = Some WALLET \<and> js_or walletPhone None = None
         then Inl (BadRequest ''WALLET_PHONE_REQUIRED'')
         else if cardIntegrationId = None \<and> payMethod \<noteq> Some WALLET
         then Inl (BadRequest ''CARD_UNAVAILABLE_MESSAGE'')
         else
           case api_auth_token api of None \<Rightarrow> checkout_failed
         | Some token \<Rightarrow>
           (case api_order api token (amount_cents amount) of None \<Rightarrow> checkout_failed
            | Some orderId \<Rightarrow>
              (case api_payment_key api
                 \<lparr>kr_auth_token = token, kr_amount_cents = amount_cents amount, kr_order_id = orderId,
                  kr_email = u_email u, kr_first_name = js_str (js_or (Some (u_fullName u)) (Some ''NA'')),
                  kr_phone_number = js_str (js_or (js_or walletPhone (Some (u_phoneNumber u))) (Some ''NA'')),
                  kr_integration_id = js_str (if payMethod = Some WALLET then walletIntegrationId else cardIntegrationId)\<rparr> of
                 None \<Rightarrow> checkout_failed
               | Some paymentToken \<Rightarrow>
                   if payMethod = Some WALLET
                   then wallet_checkout env api paymentToken (js_str walletPhone) orderId
                   else case js_or (PAYMOB_IFRAME_ID env) None of
                          None \<Rightarrow> Inl (BadRequest ''CARD_UNAVAILABLE_MESSAGE'')
                        | Some iframeId \<Rightarrow>
                            Inr (BASE_URL env @ ''/api/acceptance/iframes/'' @ iframeId
                                 @ ''?payment_token='' @ paymentToken, js_num orderId))))"

definition generatePaymentUrl ::
    "paymob_env \<Rightarrow> paymob_api \<Rightarrow> uuid \<Rightarrow> string \<Rightarrow> real \<Rightarrow> pay_method option \<Rightarrow> string option \<Rightarrow>
     time \<Rightarrow> db \<Rightarrow> http_error + (string \<times> string)" where
  "generatePaymentUrl env api userId paymentType amount payMethod walletPhone now s =
     (case find (\<lambda>u. u_id u = userId) (db_users s) of
        None \<Rightarrow> checkout_failed
      | Some u \<Rightarrow>
        (case js_or (PAYMOB_SECRET_KEY env) None of
           Some _ \<Rightarrow>
             (case (if payMethod = Some WALLET
                    then js_or (js_or (PAYMOB_WALLET_INTEGRATION_ID env) (PAYMOB_INTEGRATION_ID_WALLET env)) None
                    else js_or (js_or (PAYMOB_INTEGRATION_ID_CARD env) (PAYMOB_INTEGRATION_ID env)) None) of
                None \<Rightarrow> Inl (BadRequest (if payMethod = Some WALLET
                               then ''WALLET_UNAVAILABLE_MESSAGE'' else ''CARD_UNAVAILABLE_MESSAGE''))
              | Some selectedIntegrationId \<Rightarrow>
                  (case api_intention api
                     \<lparr>ir_amount = amount_cents amount, ir_payment_method = selectedIntegrationId,
                      ir_special_reference = paymentType @ ''_'' @ digits userId @ ''_'' @ js_num now,
                      ir_first_name = js_str (js_or (Some (u_fullName u)) (Some ''NA'')),
                      ir_email = u_email u,
                      ir_phone_number = js_str (js_or (js_or walletPhone (Some (u_phoneNumber u))) (Some ''NA''))\<rparr> of
                     None \<Rightarrow> checkout_failed
                   | Some (intentionId, clientSecret) \<Rightarrow>
                       Inr (BASE_URL env @ ''/unifiedcheckout/?publicKey='' @ js_str (PAYMOB_PUBLIC_KEY env)
                            @ ''&clientSecret='' @ clientSecret, intentionId)))
         | None \<Rightarrow> legacy_checkout env api u amount payMethod walletPhone))"

text \<open>
  A webhook body, with the types of \<open>PaymobWebhookTransaction\<close> but the date, which is kept as
  its text; the parts the code reads with
  \<open>?.\<close> may be missing. \<open>we_userId\<close> is the identifier the metadata claims.
\<close>

record webhook_extra =
  we_userId :: "uuid option"
  we_paymentType :: "string option"

record webhook_order =
  wo_id :: int
  wo_data :: "webhook_extra option"

record source_data =
  sd_pan :: string
  sd_sub_type :: string
  sd_type :: string

record webhook_transaction =
  wt_amount_cents :: int
  wt_created_at :: string
  wt_currency :: string
  wt_error_occured :: bool
  wt_has_parent_transaction :: bool
  wt_id :: int
  wt_integration_id :: int
  wt_is_3d_secure :: bool
  wt_is_auth :: bool
  wt_is_capture :: bool
  wt_is_refunded :: bool
  wt_is_standalone_payment :: bool
  wt_is_voided :: bool
  wt_order :: "webhook_order option"
  wt_owner :: int
  wt_pending :: bool
  wt_source_data :: "source_data option"
  wt_success :: bool
  wt_extra :: "webhook_extra option"

record webhook_result =
  wr_isValid :: bool
  wr_success :: bool
  wr_isFinal :: bool
  wr_transactionId :: string
  wr_paymentType :: "string option"
  wr_userId :: "uuid option"
  wr_providerOrderId :: "string option"
  wr_amountCents :: "int option"
  wr_currency :: "string option"

definition invalid_webhook :: webhook_result where
  "invalid_webhook = \<lparr>wr_isValid = False, wr_success = False, wr_isFinal = False, wr_transactionId = '''',
     wr_paymentType = None, wr_userId = None, wr_providerOrderId = None, wr_amountCents = None,
     wr_currency = None\<rparr>"

definition order_id :: "webhook_transaction \<Rightarrow> string" where
  "order_id obj = js_str (map_option (js_num \<circ> wo_id) (wt_order obj))"

definition hmacString :: "webhook_transaction \<Rightarrow> string" where
  "hmacString obj = concat
     [js_num (wt_amount_cents obj), wt_created_at obj, wt_currency obj, js_bool (wt_error_occured obj),
      js_bool (wt_has_parent_transaction obj), js_num (wt_id obj), js_num (wt_integration_id obj),
      js_bool (wt_is_3d_secure obj), js_bool (wt_is_auth obj), js_bool (wt_is_capture obj),
      js_bool (wt_is_refunded obj), js_bool (wt_is_standalone_payment obj), js_bool (wt_is_voided obj),
      order_id obj, js_num (wt_owner obj), js_bool (wt_pending obj),
      js_str (map_option sd_pan (wt_source_data obj)), js_str (map_option sd_sub_type (wt_source_data obj)),
      js_str (map_option sd_type (wt_source_data obj)), js_bool (wt_success obj)]"

text \<open>
  \<open>crypto.timingSafeEqual\<close> throws when its buffers differ in length; it is reached only when the
  strings have the same length.
\<close>

definition processWebhook ::
    "(string \<Rightarrow> string \<Rightarrow> string) \<Rightarrow> paymob_env \<Rightarrow> string option \<Rightarrow> webhook_transaction option \<Rightarrow>
     http_error + webhook_result" where
  "processWebhook hmac env queryHmac body =
     (case PAYMOB_HMAC_SECRET env of
        None \<Rightarrow> Inr invalid_webhook
      | Some secret \<Rightarrow>
        if js_trim secret = [] then Inr invalid_webhook
        else case body of
          None \<Rightarrow> Inr invalid_webhook
        | Some obj \<Rightarrow>
          let computed = hmac secret (hmacString obj);
              receivedHmac = js_str (js_or queryHmac (Some ''''))
          in if length computed \<noteq> length receivedHmac then Inr invalid_webhook
             else if utf8_length computed \<noteq> utf8_length receivedHmac
             then Inl (Internal ''ERR_CRYPTO_TIMING_SAFE_EQUAL_LENGTH'')
             else if computed \<noteq> receivedHmac then Inr invalid_webhook
             else
               let extras = (case wt_extra obj of Some e \<Rightarrow> Some e
                    | None \<Rightarrow> Option.bind (wt_order obj) wo_data)
               in Inr \<lparr>wr_isValid = True, wr_success = (wt_success obj \<and> \<not> wt_pending obj),
                    wr_isFinal = (\<not> wt_pending obj), wr_transactionId = js_num (wt_id obj),
                    wr_paymentType = Option.bind extras we_paymentType,
                    wr_userId = Option.bind extras we_userId,
                    wr_providerOrderId = Some (order_id obj),
                    wr_amountCents = Some (wt_amount_cents obj),
                    wr_currency = Some (wt_currency obj)\<rparr>)"

definition checkTransactionStatus :: "paymob_api \<Rightarrow> string \<Rightarrow> bool \<times> string option" where
  "checkTransactionStatus api providerOrderId =
     (case api_auth_token api of
        None \<Rightarrow> (False, None)
      | Some token \<Rightarrow>
        (case api_transactions api providerOrderId token of
           None \<Rightarrow> (False, None)
         | Some results \<Rightarrow>
           (case find (\<lambda>t. js_str (lt_order_id t) = providerOrderId \<and> lt_success t \<and> \<not> lt_pending t
                          \<and> \<not> lt_is_voided t \<and> \<not> lt_is_refunded t) results of
              None \<Rightarrow> (False, None)
            | Some t \<Rightarrow> (True, Some (lt_id t)))))"

section \<open>Lemmas\<close>

text \<open>A result counts as valid only for a configured key and the exact digest of the fields.\<close>

lemma processWebhook_valid:
  assumes "processWebhook hmac env queryHmac body = Inr r" "wr_isValid r"
  obtains secret obj where "PAYMOB_HMAC_SECRET env = Some secret" "body = Some obj"
    "hmac secret (hmacString obj) = js_str (js_or queryHmac (Some ''''))"
    "wr_success r \<longleftrightarrow> wt_success obj \<and> \<not> wt_pending obj" "wr_isFinal r \<longleftrightarrow> \<not> wt_pending obj"
    "wr_providerOrderId r = Some (order_id obj)" "wr_amountCents r = Some (wt_amount_cents obj)"
    "wr_currency r = Some (wt_currency obj)" "wr_transactionId r = js_num (wt_id obj)"
  using assms
  by (auto simp: processWebhook_def invalid_webhook_def Let_def split: option.splits if_splits)

lemma digits_not_Nil [simp]: "digits n \<noteq> []"
  by (subst digits.simps) simp

lemma js_num_not_Nil [simp]: "js_num n \<noteq> []"
  by (simp add: js_num_def)

lemma order_id_not_Nil [simp]: "order_id obj \<noteq> []"
  by (cases "wt_order obj") (simp_all add: order_id_def)

text \<open>The three spellings of an Egyptian mobile number normalise to the same eleven digits.\<close>

lemma normalize_spellings:
  assumes "\<forall>c \<in> set d. \<not> js_space c \<and> c \<noteq> CHR ''-''" "d \<noteq> []" "hd d = CHR ''1''"
  shows "normalizeEgyptianPhone (''+20'' @ d) = ''0'' @ d"
    and "normalizeEgyptianPhone (''0020'' @ d) = ''0'' @ d"
    and "normalizeEgyptianPhone (''0'' @ d) = ''0'' @ d"
proof -
  have f: "filter (\<lambda>c. \<not> js_space c \<and> c \<noteq> CHR ''-'') d = d" using assms(1) by (simp add: filter_id_conv)
  obtain e where "d = CHR ''1'' # e" using assms(2,3) by (cases d) auto
  with f show "normalizeEgyptianPhone (''+20'' @ d) = ''0'' @ d"
    "normalizeEgyptianPhone (''0020'' @ d) = ''0'' @ d" "normalizeEgyptianPhone (''0'' @ d) = ''0'' @ d"
    by (auto simp: normalizeEgyptianPhone_def compact_phone_def starts_with_def js_space_def Let_def)
qed

end
