(* ===== verification/Quota.thy ===== *)
theory Quota
  imports Catalog
begin

text \<open>
  \<open>quota/quota.service.ts\<close>: the monthly plan allowances of an owner, the add-on grants that
  are consumed soonest-expiring-first beside them, listing capacity with its grace period and
  boost campaigns. A call reads the clock several times; the model gives it one \<open>now\<close>.
\<close>

section \<open>Operations\<close>

definition addDays :: "time \<Rightarrow> int \<Rightarrow> time" where
  "addDays value days = value + days * day_ms"

definition addMonth :: "time \<Rightarrow> time" where
  "addMonth value = setUTCMonth value (getUTCMonth value + 1)"

definition quota_of :: "uuid \<Rightarrow> db \<Rightarrow> user_quota option" where
  "quota_of uid s = find (\<lambda>q. uq_userId q = uid) (db_userQuotas s)"

definition update_quota :: "uuid \<Rightarrow> (user_quota \<Rightarrow> user_quota) \<Rightarrow> db \<Rightarrow> db" where
  "update_quota uid f s =
     s\<lparr>db_userQuotas := update_where (\<lambda>q. uq_userId q = uid) f (db_userQuotas s)\<rparr>"

definition quotaExhausted :: "payment_type \<Rightarrow> db \<Rightarrow> http_error" where
  "quotaExhausted t s = QuotaExhausted (payment_type_name t) (rp_priceEgp (getProduct t s))"

definition fresh_quota :: "uuid \<Rightarrow> uuid \<Rightarrow> time \<Rightarrow> plan_allowances \<Rightarrow> user_quota" where
  "fresh_quota qid uid now a =
     \<lparr>uq_id = qid, uq_userId = uid, uq_planType = FREE, uq_planExpiresAt = None,
      uq_maxActiveListings = pa_activeListings a, uq_optimizerUsesLeft = pa_aiUses a,
      uq_freeOffersLeft = pa_offers a, uq_billingInterval = None,
      uq_currentPeriodStartsAt = Some now, uq_currentPeriodEndsAt = Some (addMonth now),
      uq_boostCreditsLeft = pa_boostCredits a, uq_listingGraceEndsAt = None,
      uq_pendingPlanType = None, uq_pendingBillingInterval = None,
      uq_pendingPlanStartsAt = None, uq_pendingPlanExpiresAt = None, uq_lastResetDate = now\<rparr>"

text \<open>The computed conditions of \<open>ensureCurrentPeriod\<close>. A null date counts as passed.\<close>

definition passed :: "time option \<Rightarrow> time \<Rightarrow> bool" where
  "passed d now \<longleftrightarrow> (case d of None \<Rightarrow> True | Some t \<Rightarrow> t \<le> now)"

definition planExpired :: "user_quota \<Rightarrow> time \<Rightarrow> bool" where
  "planExpired q now \<longleftrightarrow> uq_planType q \<noteq> FREE \<and> passed (uq_planExpiresAt q) now"

definition activatePendingPlan :: "user_quota \<Rightarrow> time \<Rightarrow> bool" where
  "activatePendingPlan q now \<longleftrightarrow>
     planExpired q now \<and> uq_pendingPlanType q \<noteq> None \<and>
     (case uq_pendingPlanStartsAt q of None \<Rightarrow> False | Some t \<Rightarrow> t \<le> now) \<and>
     (case uq_pendingPlanExpiresAt q of None \<Rightarrow> False | Some t \<Rightarrow> now < t)"

definition effectivePlan :: "user_quota \<Rightarrow> time \<Rightarrow> owner_plan" where
  "effectivePlan q now =
     (if activatePendingPlan q now then the (uq_pendingPlanType q)
      else if planExpired q now then FREE else uq_planType q)"

definition effectivePlanExpiresAt :: "user_quota \<Rightarrow> time \<Rightarrow> time option" where
  "effectivePlanExpiresAt q now =
     (if activatePendingPlan q now then uq_pendingPlanExpiresAt q
      else if planExpired q now then None else uq_planExpiresAt q)"

definition needs_reset :: "user_quota \<Rightarrow> time \<Rightarrow> bool" where
  "needs_reset q now \<longleftrightarrow>
     planExpired q now \<or> passed (uq_currentPeriodEndsAt q) now \<or> uq_currentPeriodStartsAt q = None"

definition period_end :: "user_quota \<Rightarrow> time \<Rightarrow> time" where
  "period_end q now =
     (case effectivePlanExpiresAt q now of
        Some e \<Rightarrow> if effectivePlan q now \<noteq> FREE \<and> e < addMonth now then e else addMonth now
      | None \<Rightarrow> addMonth now)"

definition reset_quota :: "plan_allowances \<Rightarrow> time \<Rightarrow> user_quota \<Rightarrow> user_quota" where
  "reset_quota a now q =
     (let act = activatePendingPlan q now
      in q\<lparr>uq_planType := effectivePlan q now,
           uq_planExpiresAt := effectivePlanExpiresAt q now,
           uq_billingInterval := (if act then uq_pendingBillingInterval q
             else if planExpired q now then None else uq_billingInterval q),
           uq_pendingPlanType := (if act then None else uq_pendingPlanType q),
           uq_pendingBillingInterval := (if act then None else uq_pendingBillingInterval q),
           uq_pendingPlanStartsAt := (if act then None else uq_pendingPlanStartsAt q),
           uq_pendingPlanExpiresAt := (if act then None else uq_pendingPlanExpiresAt q),
           uq_maxActiveListings := pa_activeListings a,
           uq_freeOffersLeft := pa_offers a,
           uq_optimizerUsesLeft := pa_aiUses a,
           uq_boostCreditsLeft := pa_boostCredits a,
           uq_currentPeriodStartsAt := Some now,
           uq_currentPeriodEndsAt := Some (period_end q now),
           uq_lastResetDate := now\<rparr>)"

definition ensureCurrentPeriod :: "uuid \<Rightarrow> time \<Rightarrow> db \<Rightarrow> user_quota \<times> db" where
  "ensureCurrentPeriod uid now s =
     (case quota_of uid s of
        None \<Rightarrow>
          let q = fresh_quota (db_seq s) uid now (getPlanAllowances FREE s)
          in (q, s\<lparr>db_seq := db_seq s + 1, db_userQuotas := db_userQuotas s @ [q]\<rparr>)
      | Some q \<Rightarrow>
          if needs_reset q now
          then let f = reset_quota (getPlanAllowances (effectivePlan q now) s) now
               in (f q, update_quota uid f s)
          else (q, s))"

definition grant_active :: "uuid \<Rightarrow> entitlement_type \<Rightarrow> time \<Rightarrow> entitlement_grant \<Rightarrow> bool" where
  "grant_active uid ty now g \<longleftrightarrow>
     g_userId g = uid \<and> g_type g = ty \<and> g_startsAt g \<le> now \<and> now < g_expiresAt g
     \<and> 0 < g_remainingQuantity g"

definition activeGrantQuantity :: "uuid \<Rightarrow> entitlement_type \<Rightarrow> time \<Rightarrow> db \<Rightarrow> int" where
  "activeGrantQuantity uid ty now s =
     sum_where (grant_active uid ty now) g_remainingQuantity (db_grants s)"

definition active_unit :: "uuid \<Rightarrow> property \<Rightarrow> bool" where
  "active_unit uid p \<longleftrightarrow> p_ownerId p = uid \<and> p_status p \<in> {P_PENDING, P_APPROVED}"

record listing_capacity =
  cap_planType :: owner_plan
  cap_activeUnitLimit :: int
  cap_activeUnitCount :: int
  cap_listingGraceEndsAt :: "time option"

definition getListingCapacity :: "uuid \<Rightarrow> time \<Rightarrow> db \<Rightarrow> listing_capacity \<times> db" where
  "getListingCapacity uid now s =
     (let (q, s1) = ensureCurrentPeriod uid now s;
          limit = uq_maxActiveListings q + activeGrantQuantity uid ACTIVE_LISTING now s1;
          n = count_where (active_unit uid) (db_properties s1);
          start = addDays now LISTING_CAPACITY_GRACE_DAYS;
          (grace, s2) =
            (if limit < n \<and> uq_listingGraceEndsAt q = None
             then (Some start, update_quota uid (\<lambda>q. q\<lparr>uq_listingGraceEndsAt := Some start\<rparr>) s1)
             else if n \<le> limit \<and> uq_listingGraceEndsAt q \<noteq> None
             then (None, update_quota uid (\<lambda>q. q\<lparr>uq_listingGraceEndsAt := None\<rparr>) s1)
             else (uq_listingGraceEndsAt q, s1))
      in (\<lparr>cap_planType = uq_planType q, cap_activeUnitLimit = limit, cap_activeUnitCount = n,
           cap_listingGraceEndsAt = grace\<rparr>, s2))"

record quota_view =
  qv_planType :: owner_plan
  qv_billingInterval :: "billing_interval option"
  qv_planExpiresAt :: "time option"
  qv_currentPeriodStartsAt :: "time option"
  qv_currentPeriodEndsAt :: "time option"
  qv_maxActiveListings :: int
  qv_activeUnitCount :: int
  qv_listingGraceEndsAt :: "time option"
  qv_freeListingsLeft :: int
  qv_optimizerUsesLeft :: int
  qv_freeOffersLeft :: int
  qv_boostCreditsLeft :: int
  qv_boostCreditDurationDays :: int
  qv_lastResetDate :: time

definition getQuota :: "uuid \<Rightarrow> time \<Rightarrow> db \<Rightarrow> quota_view \<times> db" where
  "getQuota uid now s =
     (let (q, s1) = ensureCurrentPeriod uid now s;
          (capacity, s2) = getListingCapacity uid now s1
      in (\<lparr>qv_planType = uq_planType q, qv_billingInterval = uq_billingInterval q,
           qv_planExpiresAt = uq_planExpiresAt q,
           qv_currentPeriodStartsAt = uq_currentPeriodStartsAt q,
           qv_currentPeriodEndsAt = uq_currentPeriodEndsAt q,
           qv_maxActiveListings = cap_activeUnitLimit capacity,
           qv_activeUnitCount = cap_activeUnitCount capacity,
           qv_listingGraceEndsAt = cap_listingGraceEndsAt capacity,
           qv_freeListingsLeft = max 0 (cap_activeUnitLimit capacity - cap_activeUnitCount capacity),
           qv_optimizerUsesLeft = uq_optimizerUsesLeft q + activeGrantQuantity uid AI_OPTIMIZER_USE now s2,
           qv_freeOffersLeft = uq_freeOffersLeft q + activeGrantQuantity uid MATCHED_OFFER now s2,
           qv_boostCreditsLeft = uq_boostCreditsLeft q,
           qv_boostCreditDurationDays = pa_boostDurationDays (getPlanAllowances (uq_planType q) s2),
           qv_lastResetDate = uq_lastResetDate q\<rparr>, s2))"

text \<open>The two counters of a quota row that a call may draw from.\<close>

datatype quota_field = FreeOffersLeft | OptimizerUsesLeft

fun get_field :: "quota_field \<Rightarrow> user_quota \<Rightarrow> int" where
  "get_field FreeOffersLeft q = uq_freeOffersLeft q"
| "get_field OptimizerUsesLeft q = uq_optimizerUsesLeft q"

fun decr_field :: "quota_field \<Rightarrow> user_quota \<Rightarrow> user_quota" where
  "decr_field FreeOffersLeft q = q\<lparr>uq_freeOffersLeft := uq_freeOffersLeft q - 1\<rparr>"
| "decr_field OptimizerUsesLeft q = q\<lparr>uq_optimizerUsesLeft := uq_optimizerUsesLeft q - 1\<rparr>"

definition decr_grant :: "entitlement_grant \<Rightarrow> entitlement_grant" where
  "decr_grant g = g\<lparr>g_remainingQuantity := g_remainingQuantity g - 1\<rparr>"

definition consume_grant_first :: "quota_field \<Rightarrow> time \<Rightarrow> user_quota \<Rightarrow> entitlement_grant option \<Rightarrow> bool" where
  "consume_grant_first fld now q grant \<longleftrightarrow>
     (case grant of
        None \<Rightarrow> False
      | Some g \<Rightarrow> get_field fld q \<le> 0 \<or>
          g_expiresAt g < (case uq_currentPeriodEndsAt q of None \<Rightarrow> now | Some e \<Rightarrow> e))"

text \<open>The two guarded writes: one unit of a grant, one unit of the plan's counter.\<close>

definition take_from_plan :: "uuid \<Rightarrow> quota_field \<Rightarrow> db \<Rightarrow> db" where
  "take_from_plan uid fld s = s\<lparr>db_userQuotas := update_where
     (\<lambda>q. uq_userId q = uid \<and> 0 < get_field fld q) (decr_field fld) (db_userQuotas s)\<rparr>"

definition take_from_grant :: "entitlement_grant \<Rightarrow> db \<Rightarrow> db" where
  "take_from_grant g s = s\<lparr>db_grants := update_where
     (\<lambda>h. g_id h = g_id g \<and> 0 < g_remainingQuantity h) decr_grant (db_grants s)\<rparr>"

definition consumeSoonestExpiringWithClient ::
    "uuid \<Rightarrow> entitlement_type \<Rightarrow> quota_field \<Rightarrow> time \<Rightarrow> db \<Rightarrow> int option result" where
  "consumeSoonestExpiringWithClient uid ty fld now s =
     (case quota_of uid s of
        None \<Rightarrow> (Inl (Internal ''P2025''), s)
      | Some q \<Rightarrow>
        let grant = first_asc g_expiresAt (grant_active uid ty now) (db_grants s);
            grantFirst = consume_grant_first fld now q grant;
            changed =
              (if grantFirst
               then count_where (\<lambda>g. g_id g = g_id (the grant) \<and> 0 < g_remainingQuantity g) (db_grants s)
               else count_where (\<lambda>q. uq_userId q = uid \<and> 0 < get_field fld q) (db_userQuotas s));
            s' = (if grantFirst then take_from_grant (the grant) s else take_from_plan uid fld s)
        in if changed \<noteq> 1 then (Inr None, s')
           else case quota_of uid s' of
                  None \<Rightarrow> (Inl (Internal ''P2025''), s')
                | Some updated \<Rightarrow> (Inr (Some (get_field fld updated + activeGrantQuantity uid ty now s')), s'))"

definition consumeSoonestExpiring :: "uuid \<Rightarrow> entitlement_type \<Rightarrow> quota_field \<Rightarrow> time \<Rightarrow> db \<Rightarrow> int result" where
  "consumeSoonestExpiring uid ty fld now s =
     (case transaction (consumeSoonestExpiringWithClient uid ty fld now)
             (snd (ensureCurrentPeriod uid now s)) of
        (Inl e, s') \<Rightarrow> (Inl e, s')
      | (Inr remaining, s') \<Rightarrow> (Inr (case remaining of None \<Rightarrow> -1 | Some r \<Rightarrow> r), s'))"

definition consumeOptimizer :: "uuid \<Rightarrow> time \<Rightarrow> db \<Rightarrow> int result" where
  "consumeOptimizer uid now s =
     (case consumeSoonestExpiring uid AI_OPTIMIZER_USE OptimizerUsesLeft now s of
        (Inl e, s') \<Rightarrow> (Inl e, s')
      | (Inr remaining, s') \<Rightarrow>
          if remaining < 0 then (Inl (quotaExhausted AI_USES_10_90D s'), s') else (Inr remaining, s'))"

definition consumeOffer :: "uuid \<Rightarrow> time \<Rightarrow> db \<Rightarrow> int result" where
  "consumeOffer uid now s =
     (case consumeSoonestExpiring uid MATCHED_OFFER FreeOffersLeft now s of
        (Inl e, s') \<Rightarrow> (Inl e, s')
      | (Inr remaining, s') \<Rightarrow>
          if remaining < 0 then (Inl (quotaExhausted OFFERS_10_60D s'), s') else (Inr remaining, s'))"

definition withConsumedOffer :: "uuid \<Rightarrow> (db \<Rightarrow> 'a result) \<Rightarrow> time \<Rightarrow> db \<Rightarrow> ('a \<times> int) result" where
  "withConsumedOffer uid operation now s =
     transaction (\<lambda>tx.
       case consumeSoonestExpiringWithClient uid MATCHED_OFFER FreeOffersLeft now tx of
         (Inl e, tx1) \<Rightarrow> (Inl e, tx1)
       | (Inr None, tx1) \<Rightarrow> (Inl (quotaExhausted OFFERS_10_60D tx1), tx1)
       | (Inr (Some remaining), tx1) \<Rightarrow>
           (case operation tx1 of
              (Inl e, tx2) \<Rightarrow> (Inl e, tx2)
            | (Inr value, tx2) \<Rightarrow> (Inr (value, remaining), tx2)))
       (snd (ensureCurrentPeriod uid now s))"

definition spend_boost_credit :: "uuid \<Rightarrow> db \<Rightarrow> int \<times> db" where
  "spend_boost_credit uid s =
     (count_where (\<lambda>q. uq_userId q = uid \<and> 0 < uq_boostCreditsLeft q) (db_userQuotas s),
      s\<lparr>db_userQuotas := update_where (\<lambda>q. uq_userId q = uid \<and> 0 < uq_boostCreditsLeft q)
          (\<lambda>q. q\<lparr>uq_boostCreditsLeft := uq_boostCreditsLeft q - 1\<rparr>) (db_userQuotas s)\<rparr>)"

definition consumeBoostCredit :: "uuid \<Rightarrow> time \<Rightarrow> db \<Rightarrow> int result" where
  "consumeBoostCredit uid now s =
     (let s1 = snd (ensureCurrentPeriod uid now s);
          (spent, s2) = spend_boost_credit uid s1
      in if spent \<noteq> 1 then (Inl (quotaExhausted BOOST_7D s1), s2)
         else case quota_of uid s2 of
                None \<Rightarrow> (Inl (Internal ''P2025''), s2)
              | Some q \<Rightarrow> (Inr (uq_boostCreditsLeft q), s2))"

definition live_campaign :: "boost_campaign \<Rightarrow> bool" where
  "live_campaign c \<longleftrightarrow> bc_status c \<in> {ACTIVE, SCHEDULED}"

text \<open>A new campaign of a property starts where its latest running or scheduled one ends.\<close>

definition boost_start :: "uuid \<Rightarrow> time \<Rightarrow> db \<Rightarrow> time" where
  "boost_start pid now s =
     (case first_desc bc_endsAt (\<lambda>c. bc_propertyId c = pid \<and> live_campaign c \<and> now < bc_endsAt c)
             (db_campaigns s) of
        None \<Rightarrow> now | Some c \<Rightarrow> bc_endsAt c)"

definition new_campaign :: "uuid \<Rightarrow> uuid \<Rightarrow> uuid \<Rightarrow> uuid option \<Rightarrow> string \<Rightarrow> int \<Rightarrow> time \<Rightarrow> time \<Rightarrow> boost_campaign" where
  "new_campaign cid pid uid txid sku days startsAt now =
     \<lparr>bc_id = cid, bc_propertyId = pid, bc_userId = uid, bc_paymentTransactionId = txid,
      bc_productSku = sku, bc_durationDays = days, bc_startsAt = startsAt,
      bc_endsAt = addDays startsAt days, bc_status = (if startsAt \<le> now then ACTIVE else SCHEDULED)\<rparr>"

record boost_receipt =
  br_campaignId :: uuid
  br_startsAt :: time
  br_endsAt :: time
  br_boostCreditsLeft :: int

definition activatePlanBoost :: "uuid \<Rightarrow> uuid \<Rightarrow> time \<Rightarrow> db \<Rightarrow> boost_receipt result" where
  "activatePlanBoost uid pid now s =
     (let (currentQuota, s1) = ensureCurrentPeriod uid now s;
          days = pa_boostDurationDays (getPlanAllowances (uq_planType currentQuota) s1)
      in transaction (\<lambda>tx.
        case find (\<lambda>p. p_id p = pid \<and> p_ownerId p = uid \<and> p_status p = P_APPROVED) (db_properties tx) of
          None \<Rightarrow> (Inl (Forbidden ''PROPERTY_NOT_ELIGIBLE''), tx)
        | Some _ \<Rightarrow>
          let (spent, tx1) = spend_boost_credit uid tx
          in if spent \<noteq> 1 then (Inl (quotaExhausted BOOST_7D s1), tx1)
             else
               let startsAt = boost_start pid now tx1;
                   c = new_campaign (db_seq tx1) pid uid None ''PLAN_BOOST_7D'' days startsAt now;
                   tx2 = tx1\<lparr>db_seq := db_seq tx1 + 1, db_campaigns := db_campaigns tx1 @ [c],
                     db_properties := update_where (\<lambda>p. p_id p = pid)
                       (\<lambda>p. p\<lparr>p_isBoosted := True, p_boostedUntil := Some (bc_endsAt c)\<rparr>) (db_properties tx1)\<rparr>
               in case quota_of uid tx2 of
                    None \<Rightarrow> (Inl (Internal ''P2025''), tx2)
                  | Some q \<Rightarrow> (Inr \<lparr>br_campaignId = bc_id c, br_startsAt = startsAt,
                       br_endsAt = bc_endsAt c, br_boostCreditsLeft = uq_boostCreditsLeft q\<rparr>, tx2)) s1)"

datatype commercial_tier = TIER_PREMIUM | TIER_OWNER_PLUS | TIER_FREEMIUM

definition getCommercialPriority :: "uuid \<Rightarrow> time \<Rightarrow> db \<Rightarrow> (commercial_tier \<times> int) \<times> db" where
  "getCommercialPriority uid now s =
     (let (q, s') = ensureCurrentPeriod uid now s
      in (if uq_planType q = PREMIUM then (TIER_PREMIUM, 2)
          else if uq_planType q = OWNER_PLUS then (TIER_OWNER_PLUS, 1) else (TIER_FREEMIUM, 0), s'))"

text \<open>One round of the hourly job, for one owner, and the job over the owners it read first.\<close>

definition enforceCapacity :: "time \<Rightarrow> uuid \<Rightarrow> db \<Rightarrow> db" where
  "enforceCapacity now uid s =
     (let (capacity, s1) = getListingCapacity uid now s
      in if (case cap_listingGraceEndsAt capacity of None \<Rightarrow> False | Some g \<Rightarrow> g \<le> now)
            \<and> cap_activeUnitLimit capacity < cap_activeUnitCount capacity
         then
           let excess = cap_activeUnitCount capacity - cap_activeUnitLimit capacity;
               newest = take (nat excess)
                 (sort_key (\<lambda>p. - p_createdAt p) (filter (active_unit uid) (db_properties s1)));
               s2 = s1\<lparr>db_properties := update_where (\<lambda>p. p_id p \<in> set (map p_id newest))
                      (\<lambda>p. p\<lparr>p_status := P_ARCHIVED\<rparr>) (db_properties s1)\<rparr>
           in update_quota uid (\<lambda>q. q\<lparr>uq_listingGraceEndsAt := None\<rparr>) s2
         else s1)"

definition expireEntitlementsAndEnforceCapacity :: "time \<Rightarrow> db \<Rightarrow> db" where
  "expireEntitlementsAndEnforceCapacity now s =
     fold (enforceCapacity now) (map uq_userId (db_userQuotas s)) s"

section \<open>Invariant\<close>

definition credits_ok :: "user_quota \<Rightarrow> bool" where
  "credits_ok q \<longleftrightarrow> 0 \<le> uq_freeOffersLeft q \<and> 0 \<le> uq_optimizerUsesLeft q \<and> 0 \<le> uq_boostCreditsLeft q"

definition allowances_ok :: "plan_allowances \<Rightarrow> bool" where
  "allowances_ok a \<longleftrightarrow> 0 \<le> pa_offers a \<and> 0 \<le> pa_aiUses a \<and> 0 \<le> pa_boostCredits a
     \<and> 0 \<le> pa_activeListings a \<and> 0 \<le> pa_boostDurationDays a"

text \<open>What the validated DTO of an admin guarantees of every saved plan.\<close>

definition plans_ok :: "db \<Rightarrow> bool" where
  "plans_ok s \<longleftrightarrow> (\<forall>c \<in> set (db_planConfigs s). 0 \<le> plc_activeListings c \<and> 0 \<le> plc_offersPerPeriod c
     \<and> 0 \<le> plc_aiUsesPerPeriod c \<and> 0 \<le> plc_boostCreditsPerPeriod c \<and> 0 \<le> plc_boostDurationDays c)"

definition quotas_ok :: "db \<Rightarrow> bool" where
  "quotas_ok s \<longleftrightarrow>
     distinct (map uq_userId (db_userQuotas s)) \<and> distinct (map g_id (db_grants s))
     \<and> (\<forall>q \<in> set (db_userQuotas s). credits_ok q)
     \<and> (\<forall>g \<in> set (db_grants s). 0 \<le> g_remainingQuantity g)"

text \<open>A quota row is current when its plan has not expired and its period has not ended.\<close>

definition current :: "time \<Rightarrow> user_quota \<Rightarrow> bool" where
  "current now q \<longleftrightarrow>
     (uq_planType q \<noteq> FREE \<longrightarrow> (\<exists>e. uq_planExpiresAt q = Some e \<and> now < e))
     \<and> uq_currentPeriodStartsAt q \<noteq> None
     \<and> (\<exists>e. uq_currentPeriodEndsAt q = Some e \<and> now < e)"

lemma addMonth_later: "now + 28 * day_ms \<le> addMonth now" "addMonth now \<le> now + 31 * day_ms"
  using next_month_bounds[of now] by (simp_all add: addMonth_def)

lemma addMonth_gt: "now < addMonth now"
  using addMonth_later(1)[of now] by (simp add: day_ms_def)

lemma getPlanAllowances_ok: "plans_ok s \<Longrightarrow> allowances_ok (getPlanAllowances p s)"
  by (cases p) (auto simp: getPlanAllowances_def plans_ok_def allowances_ok_def
      split: option.splits dest: find_SomeD)

lemma current_iff: "current now q \<longleftrightarrow> \<not> needs_reset q now"
  by (auto simp: current_def needs_reset_def planExpired_def passed_def split: option.splits)

lemma reset_quota_current: "current now (reset_quota a now q)"
proof -
  have "uq_currentPeriodEndsAt (reset_quota a now q) = Some (period_end q now)"
    by (simp add: reset_quota_def Let_def)
  moreover have "now < period_end q now"
    using addMonth_gt[of now]
    by (auto simp: period_end_def effectivePlanExpiresAt_def effectivePlan_def planExpired_def
        activatePendingPlan_def passed_def split: option.splits)
  ultimately show ?thesis
    by (auto simp: current_def reset_quota_def Let_def effectivePlan_def effectivePlanExpiresAt_def
        activatePendingPlan_def planExpired_def passed_def split: option.splits)
qed

lemma fresh_quota_current: "current now (fresh_quota i u now a)"
  using addMonth_gt[of now] by (simp add: current_def fresh_quota_def)

lemma reset_quota_userId [simp]: "uq_userId (reset_quota a now q) = uq_userId q"
  by (simp add: reset_quota_def Let_def)

lemma reset_quota_credits: "allowances_ok a \<Longrightarrow> credits_ok (reset_quota a now q)"
  by (simp add: reset_quota_def Let_def credits_ok_def allowances_ok_def)

section \<open>The quota table\<close>

lemma quota_ofD: "quota_of uid s = Some q \<Longrightarrow> q \<in> set (db_userQuotas s) \<and> uq_userId q = uid"
  by (auto simp: quota_of_def dest: find_SomeD)

lemma quota_of_update_quota:
  "(\<And>q. uq_userId (f q) = uq_userId q) \<Longrightarrow>
   quota_of uid (update_quota uid f s) = map_option f (quota_of uid s)"
  by (simp add: quota_of_def update_quota_def find_update_key)

lemma quota_of_fresh: "quota_of uid s = None \<Longrightarrow> uq_userId q = uid \<Longrightarrow>
    quota_of uid (s\<lparr>db_seq := n, db_userQuotas := db_userQuotas s @ [q]\<rparr>) = Some q"
  by (simp add: quota_of_def find_append)

lemma update_quota_simps [simp]:
  "db_grants (update_quota u f s) = db_grants s" "db_properties (update_quota u f s) = db_properties s"
  "db_campaigns (update_quota u f s) = db_campaigns s" "db_seq (update_quota u f s) = db_seq s"
  "db_planConfigs (update_quota u f s) = db_planConfigs s"
  "db_productConfigs (update_quota u f s) = db_productConfigs s"
  "db_payments (update_quota u f s) = db_payments s"
  "db_userQuotas (update_quota u f s) = update_where (\<lambda>q. uq_userId q = u) f (db_userQuotas s)"
  by (simp_all add: update_quota_def)

lemma quota_of_cong: "db_userQuotas s = db_userQuotas t \<Longrightarrow> quota_of u s = quota_of u t"
  by (simp add: quota_of_def)

lemma ensure_frame [simp]:
  "db_grants (snd (ensureCurrentPeriod u now s)) = db_grants s"
  "db_properties (snd (ensureCurrentPeriod u now s)) = db_properties s"
  "db_campaigns (snd (ensureCurrentPeriod u now s)) = db_campaigns s"
  "db_planConfigs (snd (ensureCurrentPeriod u now s)) = db_planConfigs s"
  "db_productConfigs (snd (ensureCurrentPeriod u now s)) = db_productConfigs s"
  "db_payments (snd (ensureCurrentPeriod u now s)) = db_payments s"
  "activeGrantQuantity v ty t (snd (ensureCurrentPeriod u now s)) = activeGrantQuantity v ty t s"
  by (simp_all add: ensureCurrentPeriod_def Let_def activeGrantQuantity_def split: option.splits)

lemma ensure_quota_of: "quota_of u (snd (ensureCurrentPeriod u now s)) = Some (fst (ensureCurrentPeriod u now s))"
proof (cases "quota_of u s")
  case None
  then show ?thesis
    by (simp add: ensureCurrentPeriod_def Let_def quota_of_fresh fresh_quota_def)
next
  case (Some q)
  then show ?thesis by (simp add: ensureCurrentPeriod_def Let_def quota_of_update_quota)
qed

lemma ensure_current: "current now (fst (ensureCurrentPeriod u now s))"
  using fresh_quota_current reset_quota_current
  by (auto simp: ensureCurrentPeriod_def Let_def current_iff[symmetric] split: option.splits)

lemma ensure_of_current:
  "quota_of u s = Some q \<Longrightarrow> current now q \<Longrightarrow> ensureCurrentPeriod u now s = (q, s)"
  by (simp add: ensureCurrentPeriod_def current_iff)

lemma quotas_ok_update_quota:
  assumes "quotas_ok s" "\<And>q. uq_userId (f q) = uq_userId q"
    "\<And>q. uq_userId q = u \<Longrightarrow> credits_ok q \<Longrightarrow> credits_ok (f q)"
  shows "quotas_ok (update_quota u f s)"
  using assms by (auto simp: quotas_ok_def map_update_where elim!: in_update_whereE)

lemma ensure_quotas_ok:
  assumes "quotas_ok s" "plans_ok s"
  shows "quotas_ok (snd (ensureCurrentPeriod u now s))"
proof (cases "quota_of u s")
  case None
  have "credits_ok (fresh_quota (db_seq s) u now (getPlanAllowances FREE s))"
    using getPlanAllowances_ok[OF assms(2), of FREE]
    by (simp add: fresh_quota_def credits_ok_def allowances_ok_def)
  moreover from None have "u \<notin> uq_userId ` set (db_userQuotas s)"
    by (auto simp: quota_of_def find_None_iff)
  ultimately show ?thesis using assms None
    by (auto simp: ensureCurrentPeriod_def Let_def quotas_ok_def fresh_quota_def)
next
  case (Some q)
  have "quotas_ok (update_quota u (reset_quota a now) s)" if "allowances_ok a" for a
    using assms(1) that by (intro quotas_ok_update_quota) (simp_all add: reset_quota_credits)
  with Some assms getPlanAllowances_ok[OF assms(2)] show ?thesis
    by (simp add: ensureCurrentPeriod_def Let_def)
qed

text \<open>No other owner's row is touched.\<close>

lemma ensure_other: "v \<noteq> u \<Longrightarrow> quota_of v (snd (ensureCurrentPeriod u now s)) = quota_of v s"
  by (auto simp: ensureCurrentPeriod_def Let_def quota_of_def update_quota_def find_append
      find_update_other_key[where d = u] fresh_quota_def split: option.splits)

section \<open>Consumption\<close>

text \<open>What an owner can still consume of one kind: the plan's counter and the running add-ons.\<close>

definition available :: "uuid \<Rightarrow> entitlement_type \<Rightarrow> quota_field \<Rightarrow> time \<Rightarrow> db \<Rightarrow> int" where
  "available uid ty fld now s =
     (case quota_of uid s of None \<Rightarrow> 0 | Some q \<Rightarrow> get_field fld q) + activeGrantQuantity uid ty now s"

lemma get_field_nonneg: "credits_ok q \<Longrightarrow> 0 \<le> get_field fld q"
  by (cases fld) (simp_all add: credits_ok_def)

lemma activeGrantQuantity_nonneg: "0 \<le> activeGrantQuantity uid ty now s"
  unfolding activeGrantQuantity_def
  by (rule sum_where_nonneg) (simp add: grant_active_def)

lemma available_nonneg: "quotas_ok s \<Longrightarrow> 0 \<le> available uid ty fld now s"
  by (auto simp: available_def quotas_ok_def split: option.splits dest!: quota_ofD
      intro!: add_nonneg_nonneg get_field_nonneg activeGrantQuantity_nonneg)

lemma count_where_key_one:
  assumes "distinct (map k t)" "r \<in> set t" "P r" "\<And>q. P q \<Longrightarrow> k q = k r"
  shows "count_where P t = 1"
proof -
  have "count_where P t \<le> 1" using assms(1,4) by (rule count_where_unique)
  moreover have "count_where P t \<noteq> 0" using assms(2,3) by (auto simp: count_where_zero_iff)
  moreover have "0 \<le> count_where P t" by simp
  ultimately show ?thesis by linarith
qed

lemma decr_field_simps [simp]:
  "uq_userId (decr_field fld q) = uq_userId q" "get_field fld (decr_field fld q) = get_field fld q - 1"
  "uq_planType (decr_field fld q) = uq_planType q" "uq_planExpiresAt (decr_field fld q) = uq_planExpiresAt q"
  "uq_currentPeriodEndsAt (decr_field fld q) = uq_currentPeriodEndsAt q"
  "uq_currentPeriodStartsAt (decr_field fld q) = uq_currentPeriodStartsAt q"
  by (cases fld; simp)+

lemma decr_grant_simps [simp]:
  "g_id (decr_grant g) = g_id g" "g_remainingQuantity (decr_grant g) = g_remainingQuantity g - 1"
  "g_userId (decr_grant g) = g_userId g" "g_type (decr_grant g) = g_type g"
  "g_expiresAt (decr_grant g) = g_expiresAt g" "g_startsAt (decr_grant g) = g_startsAt g"
  by (simp_all add: decr_grant_def)

text \<open>The aggregate over the running grants after one was drawn from, even when it is used up.\<close>

lemma activeGrantQuantity_take:
  assumes "quotas_ok s" "g \<in> set (db_grants s)" "grant_active uid ty now g"
  shows "activeGrantQuantity uid ty now (take_from_grant g s) = activeGrantQuantity uid ty now s - 1"
proof -
  let ?P = "\<lambda>h. g_userId h = uid \<and> g_type h = ty \<and> g_startsAt h \<le> now \<and> now < g_expiresAt h"
  have drop: "sum_where (grant_active uid ty now) g_remainingQuantity t = sum_where ?P g_remainingQuantity t"
    if "\<forall>h \<in> set t. 0 \<le> g_remainingQuantity h" for t
    using that by (induction t) (auto simp: grant_active_def)
  have nn: "\<forall>h \<in> set (db_grants s). 0 \<le> g_remainingQuantity h"
    and d: "distinct (map g_id (db_grants s))"
    using assms(1) by (simp_all add: quotas_ok_def)
  have nn': "\<forall>h \<in> set (db_grants (take_from_grant g s)). 0 \<le> g_remainingQuantity h"
    using nn by (auto simp: take_from_grant_def elim!: in_update_whereE)
  have "sum_where ?P g_remainingQuantity (db_grants (take_from_grant g s))
      = sum_where ?P g_remainingQuantity (db_grants s) - g_remainingQuantity g + g_remainingQuantity (decr_grant g)"
    using assms(3) by (simp add: take_from_grant_def,
      subst sum_where_update_key[OF d assms(2)]) (auto simp: grant_active_def)
  then show ?thesis using drop[OF nn] drop[OF nn'] by (simp add: activeGrantQuantity_def)
qed

lemma quota_of_take_from_plan:
  assumes "quota_of uid s = Some q" "0 < get_field fld q"
  shows "quota_of uid (take_from_plan uid fld s) = Some (decr_field fld q)"
proof -
  have "find (\<lambda>q. uq_userId q = uid) (update_where (\<lambda>q. uq_userId q = uid \<and> 0 < get_field fld q) (decr_field fld) t)
      = Some (decr_field fld q)" if "find (\<lambda>q. uq_userId q = uid) t = Some q" for t
    using that by (induction t) (auto simp: assms(2) split: if_splits)
  with assms show ?thesis by (simp add: quota_of_def take_from_plan_def)
qed

text \<open>
  The three outcomes of a consumption in a transaction: one unit of the soonest-expiring grant,
  one unit of the plan, or nothing because nothing is left.
\<close>

lemma consume_outcomes:
  fixes s :: db and uid :: uuid and ty :: entitlement_type and now :: time
  assumes ok: "quotas_ok s" and q: "quota_of uid s = Some q"
  defines "grant \<equiv> first_asc g_expiresAt (grant_active uid ty now) (db_grants s)"
  obtains (grant) g where "grant = Some g" "consume_grant_first fld now q grant"
      "consumeSoonestExpiringWithClient uid ty fld now s =
         (Inr (Some (available uid ty fld now s - 1)), take_from_grant g s)"
      "available uid ty fld now (take_from_grant g s) = available uid ty fld now s - 1"
  | (plan) "\<not> consume_grant_first fld now q grant" "0 < get_field fld q"
      "consumeSoonestExpiringWithClient uid ty fld now s =
         (Inr (Some (available uid ty fld now s - 1)), take_from_plan uid fld s)"
      "available uid ty fld now (take_from_plan uid fld s) = available uid ty fld now s - 1"
  | (none) "get_field fld q = 0" "grant = None" "available uid ty fld now s = 0"
      "consumeSoonestExpiringWithClient uid ty fld now s = (Inr None, s)"
proof (cases "consume_grant_first fld now q grant")
  case True
  then obtain g where g: "grant = Some g" by (auto simp: consume_grant_first_def split: option.splits)
  note gD = first_asc_SomeD[OF g[unfolded grant_def]]
  have d: "distinct (map g_id (db_grants s))" using ok by (simp add: quotas_ok_def)
  have one: "count_where (\<lambda>h. g_id h = g_id g \<and> 0 < g_remainingQuantity h) (db_grants s) = 1"
    by (rule count_where_key_one[OF d gD(1)]) (use gD(2) in \<open>auto simp: grant_active_def\<close>)
  have q': "quota_of uid (take_from_grant g s) = Some q"
    using q by (simp add: quota_of_def take_from_grant_def)
  have av: "available uid ty fld now (take_from_grant g s) = available uid ty fld now s - 1"
    using activeGrantQuantity_take[OF ok gD(1,2)] by (simp add: available_def q q')
  moreover have "consumeSoonestExpiringWithClient uid ty fld now s =
         (Inr (Some (available uid ty fld now s - 1)), take_from_grant g s)"
    using True g q one q' av
    by (simp add: consumeSoonestExpiringWithClient_def Let_def grant_def[symmetric] available_def)
  ultimately show thesis using g True by (rule_tac grant) auto
next
  case False
  have dq: "distinct (map uq_userId (db_userQuotas s))" using ok by (simp add: quotas_ok_def)
  have nn: "0 \<le> get_field fld q"
    using ok quota_ofD[OF q] by (auto simp: quotas_ok_def intro: get_field_nonneg)
  show thesis
  proof (cases "0 < get_field fld q")
    case True
    have one: "count_where (\<lambda>p. uq_userId p = uid \<and> 0 < get_field fld p) (db_userQuotas s) = 1"
      by (rule count_where_key_one[OF dq conjunct1[OF quota_ofD[OF q]]])
        (use quota_ofD[OF q] True in auto)
    note q' = quota_of_take_from_plan[OF q True]
    have gr: "activeGrantQuantity uid ty now (take_from_plan uid fld s) = activeGrantQuantity uid ty now s"
      by (simp add: activeGrantQuantity_def take_from_plan_def)
    have av: "available uid ty fld now (take_from_plan uid fld s) = available uid ty fld now s - 1"
      using gr q q' by (simp add: available_def)
    moreover have "consumeSoonestExpiringWithClient uid ty fld now s =
         (Inr (Some (available uid ty fld now s - 1)), take_from_plan uid fld s)"
      using False q one q' av
      by (simp add: consumeSoonestExpiringWithClient_def Let_def grant_def[symmetric] available_def)
    ultimately show thesis using False True by (rule_tac plan) auto
  next
    case f: False
    with nn have z: "get_field fld q = 0" by simp
    have gn: "grant = None" using False z by (auto simp: consume_grant_first_def split: option.splits)
    then have "\<forall>g \<in> set (db_grants s). \<not> grant_active uid ty now g"
      by (simp add: grant_def first_asc_None)
    then have ag: "activeGrantQuantity uid ty now s = 0"
      unfolding activeGrantQuantity_def sum_where_def
      by (metis (no_types, lifting) filter_False list.map(1) sum_list.Nil)
    have zero: "count_where (\<lambda>p. uq_userId p = uid \<and> 0 < get_field fld p) (db_userQuotas s) = 0"
      using distinct_keyD[OF dq] quota_ofD[OF q] z by (fastforce simp: count_where_zero_iff)
    have "consumeSoonestExpiringWithClient uid ty fld now s = (Inr None, s)"
      using False q zero
      by (simp add: consumeSoonestExpiringWithClient_def Let_def grant_def[symmetric]
          update_where_none take_from_plan_def)
    then show thesis using z gn ag q by (rule_tac none) (simp_all add: available_def)
  qed
qed

lemma take_from_grant_ok: "quotas_ok s \<Longrightarrow> quotas_ok (take_from_grant g s)"
  by (auto simp: quotas_ok_def take_from_grant_def map_update_where elim!: in_update_whereE)

lemma decr_credits_ok: "0 < get_field fld q \<Longrightarrow> credits_ok q \<Longrightarrow> credits_ok (decr_field fld q)"
  by (cases fld) (simp_all add: credits_ok_def)

lemma take_from_plan_ok: "quotas_ok s \<Longrightarrow> quotas_ok (take_from_plan uid fld s)"
  by (auto simp: quotas_ok_def take_from_plan_def map_update_where decr_credits_ok elim!: in_update_whereE)

lemma quota_of_take_from_grant [simp]: "quota_of u (take_from_grant g s) = quota_of u s"
  by (simp add: quota_of_def take_from_grant_def)

text \<open>A consumption leaves the period as it is.\<close>

lemma take_from_plan_current:
  assumes "quota_of uid s = Some q" "current now q"
  obtains q' where "quota_of uid (take_from_plan uid fld s) = Some q'" "current now q'"
proof (cases "0 < get_field fld q")
  case True
  with assms show thesis
    by (intro that[of "decr_field fld q"]) (simp_all add: quota_of_take_from_plan current_def)
next
  case False
  have "find (\<lambda>q. uq_userId q = uid) (update_where (\<lambda>q. uq_userId q = uid \<and> 0 < get_field fld q) (decr_field fld) t)
      = Some q" if "find (\<lambda>q. uq_userId q = uid) t = Some q" for t
    using that by (induction t) (auto simp: False split: if_splits)
  with assms show thesis by (intro that[of q]) (simp_all add: quota_of_def take_from_plan_def)
qed

text \<open>The invariant a pool of credits lives under: the tables are well formed, the row current.\<close>

definition pool_ok :: "uuid \<Rightarrow> time \<Rightarrow> db \<Rightarrow> bool" where
  "pool_ok uid now s \<longleftrightarrow> quotas_ok s \<and> (\<exists>q. quota_of uid s = Some q \<and> current now q)"

lemma ensure_pool_ok:
  "quotas_ok s \<Longrightarrow> plans_ok s \<Longrightarrow> pool_ok uid now (snd (ensureCurrentPeriod uid now s))"
  by (simp add: pool_ok_def ensure_quotas_ok ensure_quota_of ensure_current)

lemma ensure_of_pool_ok: "pool_ok uid now s \<Longrightarrow> snd (ensureCurrentPeriod uid now s) = s"
  by (auto simp: pool_ok_def ensure_of_current)

lemma consumeSoonestExpiring_spec:
  fixes s :: db and uid :: uuid and now :: time
  assumes ok: "quotas_ok s" "plans_ok s"
  defines "s0 \<equiv> snd (ensureCurrentPeriod uid now s)"
  obtains (some) s' where "consumeSoonestExpiring uid ty fld now s = (Inr (available uid ty fld now s'), s')"
      "available uid ty fld now s' = available uid ty fld now s0 - 1" "0 \<le> available uid ty fld now s'"
      "pool_ok uid now s'" "db_seq s' = db_seq s0"
  | (none) "consumeSoonestExpiring uid ty fld now s = (Inr (-1), s0)" "available uid ty fld now s0 = 0"
proof -
  have p: "pool_ok uid now s0" unfolding s0_def by (rule ensure_pool_ok[OF ok])
  then obtain q where q: "quota_of uid s0 = Some q" "current now q" and ok0: "quotas_ok s0"
    by (auto simp: pool_ok_def)
  show thesis
  proof (cases rule: consume_outcomes[OF ok0 q(1), of ty now fld, case_names grant plan none])
    case (grant g)
    have "pool_ok uid now (take_from_grant g s0)" using q take_from_grant_ok[OF ok0] by (simp add: pool_ok_def)
    moreover from this have "0 \<le> available uid ty fld now (take_from_grant g s0)"
      by (simp add: pool_ok_def available_nonneg)
    ultimately show ?thesis using grant(3,4)
      by (intro some[of "take_from_grant g s0"])
        (simp_all add: consumeSoonestExpiring_def s0_def[symmetric] take_from_grant_def)
  next
    case plan
    have "pool_ok uid now (take_from_plan uid fld s0)"
      using take_from_plan_ok[OF ok0, of uid fld] unfolding pool_ok_def
      by (metis take_from_plan_current[OF q])
    moreover from this have "0 \<le> available uid ty fld now (take_from_plan uid fld s0)"
      by (simp add: pool_ok_def available_nonneg)
    ultimately show ?thesis using plan(3,4)
      by (intro some[of "take_from_plan uid fld s0"])
        (simp_all add: consumeSoonestExpiring_def s0_def[symmetric] take_from_plan_def)
  next
    case none
    then show ?thesis
      by (intro that(2)) (simp_all add: consumeSoonestExpiring_def s0_def[symmetric])
  qed
qed

section \<open>Pools of credits\<close>

definition returned :: "'a result \<Rightarrow> bool \<times> db" where
  "returned r = (case r of (Inl e, s') \<Rightarrow> (False, s') | (Inr x, s') \<Rightarrow> (True, s'))"

lemma consumeOffer_spec:
  assumes "pool_ok uid now s" "plans_ok s"
  obtains (some) s' where "consumeOffer uid now s = (Inr (available uid MATCHED_OFFER FreeOffersLeft now s'), s')"
      "available uid MATCHED_OFFER FreeOffersLeft now s' = available uid MATCHED_OFFER FreeOffersLeft now s - 1"
      "0 < available uid MATCHED_OFFER FreeOffersLeft now s" "pool_ok uid now s'"
  | (none) "consumeOffer uid now s = (Inl (quotaExhausted OFFERS_10_60D s), s)"
      "available uid MATCHED_OFFER FreeOffersLeft now s = 0"
proof -
  from assms(1) have ok: "quotas_ok s" by (simp add: pool_ok_def)
  note e = ensure_of_pool_ok[OF assms(1)]
  show thesis
    by (rule consumeSoonestExpiring_spec[OF ok assms(2), of uid MATCHED_OFFER FreeOffersLeft now])
      (use that in \<open>auto simp: consumeOffer_def e\<close>)
qed

lemma consumeOptimizer_spec:
  assumes "pool_ok uid now s" "plans_ok s"
  obtains (some) s' where "consumeOptimizer uid now s = (Inr (available uid AI_OPTIMIZER_USE OptimizerUsesLeft now s'), s')"
      "available uid AI_OPTIMIZER_USE OptimizerUsesLeft now s' = available uid AI_OPTIMIZER_USE OptimizerUsesLeft now s - 1"
      "0 < available uid AI_OPTIMIZER_USE OptimizerUsesLeft now s" "pool_ok uid now s'"
  | (none) "consumeOptimizer uid now s = (Inl (quotaExhausted AI_USES_10_90D s), s)"
      "available uid AI_OPTIMIZER_USE OptimizerUsesLeft now s = 0"
proof -
  from assms(1) have ok: "quotas_ok s" by (simp add: pool_ok_def)
  note e = ensure_of_pool_ok[OF assms(1)]
  show thesis
    by (rule consumeSoonestExpiring_spec[OF ok assms(2), of uid AI_OPTIMIZER_USE OptimizerUsesLeft now])
      (use that in \<open>auto simp: consumeOptimizer_def e\<close>)
qed

lemma consumeClient_planConfigs:
  "db_planConfigs (snd (consumeSoonestExpiringWithClient uid ty fld now s)) = db_planConfigs s"
  by (simp add: consumeSoonestExpiringWithClient_def Let_def take_from_grant_def take_from_plan_def
      split: option.splits)

lemma consumeSoonestExpiring_planConfigs:
  "db_planConfigs (snd (consumeSoonestExpiring uid ty fld now s)) = db_planConfigs s"
  using consumeClient_planConfigs[of uid ty fld now "snd (ensureCurrentPeriod uid now s)"]
  by (auto simp: consumeSoonestExpiring_def transaction_def split: prod.splits sum.splits)

lemma consume_plans_ok:
  "plans_ok s \<Longrightarrow> plans_ok (snd (consumeOffer uid now s))"
  "plans_ok s \<Longrightarrow> plans_ok (snd (consumeOptimizer uid now s))"
proof -
  have "db_planConfigs (snd (consumeOffer uid now s)) = db_planConfigs s"
    using consumeSoonestExpiring_planConfigs[of uid MATCHED_OFFER FreeOffersLeft now s]
    by (auto simp: consumeOffer_def split: prod.splits sum.splits)
  then show "plans_ok s \<Longrightarrow> plans_ok (snd (consumeOffer uid now s))" by (simp add: plans_ok_def)
  have "db_planConfigs (snd (consumeOptimizer uid now s)) = db_planConfigs s"
    using consumeSoonestExpiring_planConfigs[of uid AI_OPTIMIZER_USE OptimizerUsesLeft now s]
    by (auto simp: consumeOptimizer_def split: prod.splits sum.splits)
  then show "plans_ok s \<Longrightarrow> plans_ok (snd (consumeOptimizer uid now s))" by (simp add: plans_ok_def)
qed

definition entitled :: "uuid \<Rightarrow> time \<Rightarrow> db \<Rightarrow> bool" where
  "entitled uid now s \<longleftrightarrow> pool_ok uid now s \<and> plans_ok s"

lemma entitled_after_ensure:
  "quotas_ok s \<Longrightarrow> plans_ok s \<Longrightarrow> entitled uid now (snd (ensureCurrentPeriod uid now s))"
  by (simp add: entitled_def ensure_pool_ok plans_ok_def)

interpretation offers: credit_pool "entitled uid now" "available uid MATCHED_OFFER FreeOffersLeft now"
  "\<lambda>s. returned (consumeOffer uid now s)" for uid now
proof
  fix s assume i: "entitled uid now s"
  then have p: "pool_ok uid now s" "plans_ok s" by (simp_all add: entitled_def)
  note sp = consumeOffer_spec[OF p] and pl = consume_plans_ok(1)[OF p(2), of uid now]
  show "0 \<le> available uid MATCHED_OFFER FreeOffersLeft now s"
    using p(1) by (simp add: pool_ok_def available_nonneg)
  show "entitled uid now (snd (returned (consumeOffer uid now s)))"
    by (rule sp) (use pl p in \<open>auto simp: returned_def entitled_def\<close>)
  show "0 < available uid MATCHED_OFFER FreeOffersLeft now s \<Longrightarrow>
      fst (returned (consumeOffer uid now s)) \<and>
      available uid MATCHED_OFFER FreeOffersLeft now (snd (returned (consumeOffer uid now s)))
        = available uid MATCHED_OFFER FreeOffersLeft now s - 1"
    by (rule sp) (auto simp: returned_def)
  show "available uid MATCHED_OFFER FreeOffersLeft now s = 0 \<Longrightarrow>
      \<not> fst (returned (consumeOffer uid now s)) \<and> snd (returned (consumeOffer uid now s)) = s"
    by (rule sp) (auto simp: returned_def)
qed

interpretation optimizer: credit_pool "entitled uid now" "available uid AI_OPTIMIZER_USE OptimizerUsesLeft now"
  "\<lambda>s. returned (consumeOptimizer uid now s)" for uid now
proof
  fix s assume i: "entitled uid now s"
  then have p: "pool_ok uid now s" "plans_ok s" by (simp_all add: entitled_def)
  note sp = consumeOptimizer_spec[OF p] and pl = consume_plans_ok(2)[OF p(2), of uid now]
  show "0 \<le> available uid AI_OPTIMIZER_USE OptimizerUsesLeft now s"
    using p(1) by (simp add: pool_ok_def available_nonneg)
  show "entitled uid now (snd (returned (consumeOptimizer uid now s)))"
    by (rule sp) (use pl p in \<open>auto simp: returned_def entitled_def\<close>)
  show "0 < available uid AI_OPTIMIZER_USE OptimizerUsesLeft now s \<Longrightarrow>
      fst (returned (consumeOptimizer uid now s)) \<and>
      available uid AI_OPTIMIZER_USE OptimizerUsesLeft now (snd (returned (consumeOptimizer uid now s)))
        = available uid AI_OPTIMIZER_USE OptimizerUsesLeft now s - 1"
    by (rule sp) (auto simp: returned_def)
  show "available uid AI_OPTIMIZER_USE OptimizerUsesLeft now s = 0 \<Longrightarrow>
      \<not> fst (returned (consumeOptimizer uid now s)) \<and> snd (returned (consumeOptimizer uid now s)) = s"
    by (rule sp) (auto simp: returned_def)
qed

section \<open>Properties\<close>

text \<open>\<open>ensureCurrentPeriod\<close> always returns the stored row of the owner, with an unexpired plan
  and a period that has started and not ended; a second call at the same time changes nothing.\<close>

theorem ensureCurrentPeriod_current:
  "\<exists>q s'. ensureCurrentPeriod uid now s = (q, s') \<and> quota_of uid s' = Some q \<and> current now q
     \<and> ensureCurrentPeriod uid now s' = (q, s')"
  using ensure_quota_of[of uid now s] ensure_current[of now uid s]
    ensure_of_current[OF ensure_quota_of[of uid now s] ensure_current[of now uid s]]
  by (cases "ensureCurrentPeriod uid now s") simp

text \<open>C5: Allowances never carry over: when the period or the plan of a row has run out, the
  counters are set to exactly the allowances of the plan that is then in force, a paid plan that
  ran out falls back to the pending plan that was bought for this time or to FREE, and the new
  period ends within 31 days and not after a paid plan's end. While neither has run out, nothing
  is replenished.\<close>

theorem ensureCurrentPeriod_reset:
  assumes "quota_of uid s = Some q"
  shows "if needs_reset q now
    then (let q' = fst (ensureCurrentPeriod uid now s); a = getPlanAllowances (uq_planType q') s in
      uq_freeOffersLeft q' = pa_offers a \<and> uq_optimizerUsesLeft q' = pa_aiUses a
      \<and> uq_boostCreditsLeft q' = pa_boostCredits a \<and> uq_maxActiveListings q' = pa_activeListings a
      \<and> uq_planType q' = (if \<not> planExpired q now then uq_planType q
           else if activatePendingPlan q now then the (uq_pendingPlanType q) else FREE)
      \<and> (\<exists>e. uq_currentPeriodEndsAt q' = Some e \<and> now < e \<and> e \<le> now + 31 * day_ms
           \<and> (uq_planType q' \<noteq> FREE \<longrightarrow> e \<le> the (uq_planExpiresAt q'))))
    else ensureCurrentPeriod uid now s = (q, s)"
proof (cases "needs_reset q now")
  case True
  let ?q = "reset_quota (getPlanAllowances (effectivePlan q now) s) now q"
  have e: "fst (ensureCurrentPeriod uid now s) = ?q"
    using assms True by (simp add: ensureCurrentPeriod_def Let_def)
  have c: "current now ?q" by (rule reset_quota_current)
  have "period_end q now \<le> now + 31 * day_ms"
    using addMonth_later(2)[of now] by (auto simp: period_end_def split: option.splits)
  moreover have "effectivePlan q now \<noteq> FREE \<longrightarrow> period_end q now \<le> the (effectivePlanExpiresAt q now)"
    using c by (auto simp: current_def reset_quota_def Let_def period_end_def)
  ultimately show ?thesis using True c e
    by (auto simp: Let_def reset_quota_def effectivePlan_def activatePendingPlan_def current_def)
next
  case False
  then show ?thesis using assms by (simp add: ensureCurrentPeriod_def)
qed

text \<open>C6: However often \<open>consumeOffer\<close> is called in a period, exactly as many calls succeed as the
  plan and the running add-ons hold together, each takes one unit, and the balance never goes
  below zero.\<close>

theorem consumeOffer_exact:
  assumes "quotas_ok s" "plans_ok s"
  shows "let s0 = snd (ensureCurrentPeriod uid now s);
             balance = available uid MATCHED_OFFER FreeOffersLeft now;
             (k, s1) = spend_many (\<lambda>s. returned (consumeOffer uid now s)) n s0
         in k = min n (nat (balance s0)) \<and> balance s1 = max 0 (balance s0 - int n)"
  using offers.spend_many_exact[OF entitled_after_ensure[OF assms, of uid now], of n]
  by (auto simp: Let_def split: prod.splits)

text \<open>The same for the description optimizer's uses.\<close>

theorem consumeOptimizer_exact:
  assumes "quotas_ok s" "plans_ok s"
  shows "let s0 = snd (ensureCurrentPeriod uid now s);
             balance = available uid AI_OPTIMIZER_USE OptimizerUsesLeft now;
             (k, s1) = spend_many (\<lambda>s. returned (consumeOptimizer uid now s)) n s0
         in k = min n (nat (balance s0)) \<and> balance s1 = max 0 (balance s0 - int n)"
  using optimizer.spend_many_exact[OF entitled_after_ensure[OF assms, of uid now], of n]
  by (auto simp: Let_def split: prod.splits)

text \<open>Soonest-expiring first: a successful consumption takes one unit either of a running grant
  that no other running grant expires before, and that expires before the plan's period unless
  the plan has nothing left, or of the plan, and then no running grant expires before the
  period ends.\<close>

theorem consume_soonest_expiring_first:
  assumes "quotas_ok s" "quota_of uid s = Some q"
    and "uq_currentPeriodEndsAt q = Some e"
    and "consumeSoonestExpiringWithClient uid ty fld now s = (Inr (Some r), s')"
  shows "(\<exists>g \<in> set (db_grants s). grant_active uid ty now g \<and> s' = take_from_grant g s
            \<and> (\<forall>h \<in> set (db_grants s). grant_active uid ty now h \<longrightarrow> g_expiresAt g \<le> g_expiresAt h)
            \<and> (0 < get_field fld q \<longrightarrow> g_expiresAt g < e))
       \<or> s' = take_from_plan uid fld s \<and> 0 < get_field fld q
            \<and> (\<forall>h \<in> set (db_grants s). grant_active uid ty now h \<longrightarrow> e \<le> g_expiresAt h)"
proof (cases rule: consume_outcomes[OF assms(1,2), of ty now fld, case_names grant plan none])
  case (grant g)
  with assms(3,4) first_asc_SomeD[OF grant(1)] show ?thesis
    by (auto simp: consume_grant_first_def)
next
  case plan
  have "\<forall>h \<in> set (db_grants s). grant_active uid ty now h \<longrightarrow> e \<le> g_expiresAt h"
  proof (cases "first_asc g_expiresAt (grant_active uid ty now) (db_grants s)")
    case None
    then show ?thesis by (simp add: first_asc_None)
  next
    case (Some g)
    with plan(1,2) assms(3) have "e \<le> g_expiresAt g" by (simp add: consume_grant_first_def)
    with first_asc_SomeD(3)[OF Some] show ?thesis by fastforce
  qed
  with plan assms(4) show ?thesis by simp
next
  case none
  with assms(4) show ?thesis by simp
qed

text \<open>\<open>withConsumedOffer\<close> is one transaction: when the wrapped operation throws, or no unit is
  left, every write of the call but the period reset is undone, the consumed unit included;
  when it returns, exactly one unit less is available than before, provided the operation leaves
  quotas and grants alone.\<close>

theorem withConsumedOffer_atomic:
  assumes "quotas_ok s" "plans_ok s"
    and "\<And>t. db_userQuotas (snd (operation t)) = db_userQuotas t \<and> db_grants (snd (operation t)) = db_grants t"
  shows "let s0 = snd (ensureCurrentPeriod uid now s);
             balance = available uid MATCHED_OFFER FreeOffersLeft now
         in case withConsumedOffer uid operation now s of
              (Inl _, s') \<Rightarrow> s' = s0
            | (Inr (_, remaining), s') \<Rightarrow> 0 < balance s0 \<and> balance s' = balance s0 - 1 \<and> remaining = balance s'"
proof -
  define s0 where "s0 = snd (ensureCurrentPeriod uid now s)"
  have p: "pool_ok uid now s0" unfolding s0_def by (rule ensure_pool_ok[OF assms(1,2)])
  then obtain q where q: "quota_of uid s0 = Some q" and ok0: "quotas_ok s0" by (auto simp: pool_ok_def)
  let ?bal = "available uid MATCHED_OFFER FreeOffersLeft now"
  have op: "?bal (snd (operation t)) = ?bal t" for t
    using assms(3)[of t] by (simp add: available_def activeGrantQuantity_def quota_of_def)
  have wrapped: "case withConsumedOffer uid operation now s of
              (Inl _, s') \<Rightarrow> s' = s0
            | (Inr (_, remaining), s') \<Rightarrow> 0 < ?bal s0 \<and> ?bal s' = ?bal s0 - 1 \<and> remaining = ?bal s'"
    if "consumeSoonestExpiringWithClient uid MATCHED_OFFER FreeOffersLeft now s0 = (Inr (Some (?bal s0 - 1)), t)"
      "?bal t = ?bal s0 - 1" "quotas_ok t" for t
  proof -
    have "0 \<le> ?bal t" using that(3) by (rule available_nonneg)
    with that(1,2) op[of t] show ?thesis
      by (cases "operation t"; cases "fst (operation t)")
        (simp_all add: withConsumedOffer_def s0_def[symmetric] transaction_def)
  qed
  have "case withConsumedOffer uid operation now s of
              (Inl _, s') \<Rightarrow> s' = s0
            | (Inr (_, remaining), s') \<Rightarrow> 0 < ?bal s0 \<and> ?bal s' = ?bal s0 - 1 \<and> remaining = ?bal s'"
  proof (cases rule: consume_outcomes[OF ok0 q, of MATCHED_OFFER now FreeOffersLeft, case_names grant plan none])
    case (grant g)
    show ?thesis by (rule wrapped[OF grant(3,4) take_from_grant_ok[OF ok0]])
  next
    case plan
    show ?thesis by (rule wrapped[OF plan(3,4) take_from_plan_ok[OF ok0]])
  next
    case none
    then show ?thesis by (simp add: withConsumedOffer_def s0_def[symmetric])
  qed
  then show ?thesis unfolding Let_def s0_def .
qed

subsection \<open>Boost campaigns\<close>

text \<open>In the order they were created, no two live campaigns of a property overlap.\<close>

definition campaigns_stacked :: "boost_campaign list \<Rightarrow> bool" where
  "campaigns_stacked cs \<longleftrightarrow>
     sorted_wrt (\<lambda>c d. bc_propertyId c = bc_propertyId d \<and> live_campaign c \<longrightarrow> bc_endsAt c \<le> bc_startsAt d) cs"

lemma boost_start_after:
  assumes "c \<in> set (db_campaigns s)" "bc_propertyId c = pid" "live_campaign c"
  shows "bc_endsAt c \<le> boost_start pid now s"
proof (cases "first_desc bc_endsAt (\<lambda>c. bc_propertyId c = pid \<and> live_campaign c \<and> now < bc_endsAt c) (db_campaigns s)")
  case None
  then have "\<not> now < bc_endsAt c" using assms by (auto simp: first_desc_None)
  then show ?thesis by (simp add: boost_start_def None)
next
  case (Some d)
  note dD = first_desc_SomeD[OF Some]
  show ?thesis
  proof (cases "now < bc_endsAt c")
    case True
    with dD(3)[OF assms(1)] assms show ?thesis by (simp add: boost_start_def Some)
  next
    case False
    with dD(2) show ?thesis by (simp add: boost_start_def Some)
  qed
qed

lemma boost_start_ge: "now \<le> boost_start pid now s"
proof (cases "first_desc bc_endsAt (\<lambda>c. bc_propertyId c = pid \<and> live_campaign c \<and> now < bc_endsAt c) (db_campaigns s)")
  case (Some d)
  with first_desc_SomeD(2)[OF Some] show ?thesis by (simp add: boost_start_def)
qed (simp add: boost_start_def)

lemma boost_start_cong: "db_campaigns s = db_campaigns t \<Longrightarrow> boost_start pid now s = boost_start pid now t"
  by (simp add: boost_start_def)

lemma campaigns_stacked_snoc:
  assumes "campaigns_stacked (db_campaigns s)"
  shows "campaigns_stacked (db_campaigns s @ [new_campaign cid pid u tx sku days (boost_start pid now s) now])"
  using assms boost_start_after[of _ s pid now]
  by (auto simp: campaigns_stacked_def sorted_wrt_append new_campaign_def)

lemma campaigns_stacked_update:
  assumes "campaigns_stacked cs"
    and "\<And>c. bc_propertyId (f c) = bc_propertyId c \<and> bc_startsAt (f c) = bc_startsAt c \<and> bc_endsAt (f c) = bc_endsAt c"
    and "\<And>c. P c \<Longrightarrow> live_campaign (f c) \<Longrightarrow> live_campaign c"
  shows "campaigns_stacked (update_where P f cs)"
  using assms(1) unfolding campaigns_stacked_def update_where_def sorted_wrt_map
  by (rule sorted_wrt_mono_rel[rotated]) (use assms(2,3) in \<open>auto split: if_splits\<close>)

lemma spend_boost_credit_simps [simp]:
  "db_campaigns (snd (spend_boost_credit u s)) = db_campaigns s"
  "db_properties (snd (spend_boost_credit u s)) = db_properties s"
  "db_seq (snd (spend_boost_credit u s)) = db_seq s"
  by (simp_all add: spend_boost_credit_def)

text \<open>What a successful activation leaves behind.\<close>

lemma activatePlanBoost_Inr:
  assumes "activatePlanBoost uid pid now s = (Inr r, s')"
  obtains days p where
    "p \<in> set (db_properties s)" "p_id p = pid" "p_ownerId p = uid" "p_status p = P_APPROVED"
    "db_campaigns s' = db_campaigns s @
       [new_campaign (br_campaignId r) pid uid None ''PLAN_BOOST_7D'' days (boost_start pid now s) now]"
    "br_startsAt r = boost_start pid now s" "br_endsAt r = addDays (boost_start pid now s) days"
    "db_properties s' = update_where (\<lambda>p. p_id p = pid)
       (\<lambda>p. p\<lparr>p_isBoosted := True, p_boostedUntil := Some (br_endsAt r)\<rparr>) (db_properties s)"
proof -
  let ?s1 = "snd (ensureCurrentPeriod uid now s)" and ?q = "fst (ensureCurrentPeriod uid now s)"
  let ?tx1 = "snd (spend_boost_credit uid ?s1)"
  have st: "boost_start pid now ?tx1 = boost_start pid now s" by (rule boost_start_cong) simp
  from assms show thesis
    unfolding activatePlanBoost_def
    by (auto simp: Let_def split_beta transaction_def st new_campaign_def split: option.splits if_splits
        dest!: find_SomeD intro!: that)
qed

lemma activatePlanBoost_campaigns:
  "db_campaigns (snd (activatePlanBoost uid pid now s)) = db_campaigns s \<or>
   (\<exists>r. fst (activatePlanBoost uid pid now s) = Inr r)"
  by (cases "fst (activatePlanBoost uid pid now s)")
    (auto simp: activatePlanBoost_def Let_def split_beta dest: transaction_error)

text \<open>Boosts queue up instead of overlapping: activating a plan boost keeps every two live
  campaigns of a property disjoint, and a successful activation is for an approved listing of the
  caller and starts no earlier than the end of every live campaign the listing had.\<close>

theorem activatePlanBoost_stacked:
  assumes "campaigns_stacked (db_campaigns s)"
  shows "campaigns_stacked (db_campaigns (snd (activatePlanBoost uid pid now s)))
    \<and> (\<forall>r. fst (activatePlanBoost uid pid now s) = Inr r \<longrightarrow>
         now \<le> br_startsAt r
         \<and> (\<exists>p \<in> set (db_properties s). p_id p = pid \<and> p_ownerId p = uid \<and> p_status p = P_APPROVED)
         \<and> (\<forall>c \<in> set (db_campaigns s). bc_propertyId c = pid \<and> live_campaign c \<longrightarrow> bc_endsAt c \<le> br_startsAt r))"
proof (cases "fst (activatePlanBoost uid pid now s)")
  case (Inl e)
  with activatePlanBoost_campaigns[of uid pid now s] assms show ?thesis by auto
next
  case (Inr r)
  then obtain s' where r: "activatePlanBoost uid pid now s = (Inr r, s')"
    by (cases "activatePlanBoost uid pid now s") simp
  show ?thesis
    by (rule activatePlanBoost_Inr[OF r])
      (use r campaigns_stacked_snoc[OF assms] boost_start_after[of _ s pid now] boost_start_ge in auto)
qed

subsection \<open>Listing capacity\<close>

lemma quota_of_grants_cong [simp]:
  "activeGrantQuantity u ty t (update_quota v f s) = activeGrantQuantity u ty t s"
  by (simp add: activeGrantQuantity_def)

lemma getListingCapacity_frame [simp]:
  "db_properties (snd (getListingCapacity uid now s)) = db_properties s"
  "db_grants (snd (getListingCapacity uid now s)) = db_grants s"
  by (simp_all add: getListingCapacity_def Let_def split_beta)

lemma getListingCapacity_count:
  "cap_activeUnitCount (fst (getListingCapacity uid now s)) = count_where (active_unit uid) (db_properties s)"
  by (simp add: getListingCapacity_def Let_def split_beta)

text \<open>The grace period runs exactly while an owner has more active listings than the plan and the
  add-ons allow: the reported end is unset if and only if the count is within the limit, it is
  what the row then stores, and a running grace period is never moved.\<close>

theorem getListingCapacity_grace:
  "case getListingCapacity uid now s of (c, s') \<Rightarrow>
     (cap_listingGraceEndsAt c = None \<longleftrightarrow> cap_activeUnitCount c \<le> cap_activeUnitLimit c)
     \<and> map_option uq_listingGraceEndsAt (quota_of uid s') = Some (cap_listingGraceEndsAt c)
     \<and> (let before = uq_listingGraceEndsAt (fst (ensureCurrentPeriod uid now s))
        in cap_listingGraceEndsAt c = None \<or> cap_listingGraceEndsAt c = before
           \<or> before = None \<and> cap_listingGraceEndsAt c = Some (now + LISTING_CAPACITY_GRACE_DAYS * day_ms))"
  by (auto simp: getListingCapacity_def Let_def split_beta quota_of_update_quota ensure_quota_of addDays_def)

lemma filter_update_archive:
  "filter (active_unit u) (update_where Q (\<lambda>p. p\<lparr>p_status := P_ARCHIVED\<rparr>) t)
   = filter (\<lambda>p. active_unit u p \<and> \<not> Q p) t"
  by (induction t) (auto simp: active_unit_def)

text \<open>Archiving the \<open>k\<close> newest of the active listings leaves \<open>k\<close> fewer of them.\<close>

lemma count_after_archive:
  fixes t :: "property list"
  assumes "distinct (map p_id t)" "k \<le> length (filter (active_unit u) t)"
  defines "newest \<equiv> take k (sort_key (\<lambda>p. - p_createdAt p) (filter (active_unit u) t))"
  shows "length (filter (\<lambda>p. active_unit u p \<and> p_id p \<notin> set (map p_id newest)) t)
       = length (filter (active_unit u) t) - k"
proof -
  let ?A = "{p \<in> set t. active_unit u p}"
  have dt: "distinct t" using assms(1) by (simp add: distinct_map)
  have sub: "set newest \<subseteq> ?A" unfolding newest_def using set_take_subset by fastforce
  have cn: "card (set newest) = k"
    unfolding newest_def using assms(2) dt by (simp add: distinct_card)
  have inj: "inj_on p_id (set t)" using assms(1) by (simp add: distinct_map)
  have mem: "x \<in> set t \<Longrightarrow> p_id x \<in> p_id ` set newest \<longleftrightarrow> x \<in> set newest" for x
    by (rule inj_on_image_mem_iff[OF inj]) (use sub in auto)
  have keep: "set (filter (\<lambda>p. active_unit u p \<and> p_id p \<notin> set (map p_id newest)) t) = ?A - set newest"
    unfolding set_filter set_map using mem by blast
  have len: "length (filter P t) = card (set (filter P t))" for P
    by (rule distinct_card[symmetric]) (simp add: dt)
  have "length (filter (\<lambda>p. active_unit u p \<and> p_id p \<notin> set (map p_id newest)) t) = card (?A - set newest)"
    unfolding len keep ..
  also have "\<dots> = card ?A - k" using sub cn by (simp add: card_Diff_subset)
  also have "card ?A = length (filter (active_unit u) t)"
    unfolding len by simp
  finally show ?thesis .
qed

lemma newest_first:
  fixes p q :: property
  assumes "p \<in> set (take k (sort_key (\<lambda>p. - p_createdAt p) xs))" "q \<in> set xs"
    "q \<notin> set (take k (sort_key (\<lambda>p. - p_createdAt p) xs))"
  shows "p_createdAt q \<le> p_createdAt p"
proof -
  let ?s = "sort_key (\<lambda>p. - p_createdAt p) xs"
  have "q \<in> set (take k ?s @ drop k ?s)" using assms(2) by simp
  with assms(3) have "q \<in> set (drop k ?s)" by (metis Un_iff set_append)
  moreover have "sorted (map (\<lambda>p. - p_createdAt p) (take k ?s @ drop k ?s))" by simp
  ultimately show ?thesis using assms(1) unfolding map_append sorted_append by fastforce
qed

text \<open>When the grace period of an owner over the limit has ended, the hourly job archives exactly
  the excess: as many active listings remain as the limit allows, none but the owner's active
  listings change, and every archived listing is at least as new as every one that stays.
  Otherwise it archives nothing.\<close>

theorem enforceCapacity_exact:
  assumes "distinct (map p_id (db_properties s))"
    and "getListingCapacity uid now s = (c, s1)" "0 \<le> cap_activeUnitLimit c"
  shows "if (\<exists>g. cap_listingGraceEndsAt c = Some g \<and> g \<le> now)
    then count_where (active_unit uid) (db_properties (enforceCapacity now uid s)) = cap_activeUnitLimit c
      \<and> (\<exists>archived. db_properties (enforceCapacity now uid s)
           = update_where archived (\<lambda>p. p\<lparr>p_status := P_ARCHIVED\<rparr>) (db_properties s)
         \<and> (\<forall>p \<in> set (db_properties s). archived p \<longrightarrow> active_unit uid p)
         \<and> (\<forall>p \<in> set (db_properties s). \<forall>q \<in> set (db_properties s).
              archived p \<and> active_unit uid q \<and> \<not> archived q \<longrightarrow> p_createdAt q \<le> p_createdAt p))
    else db_properties (enforceCapacity now uid s) = db_properties s"
proof (cases "\<exists>g. cap_listingGraceEndsAt c = Some g \<and> g \<le> now")
  case True
  let ?t = "db_properties s" and ?a = "\<lambda>p::property. p\<lparr>p_status := P_ARCHIVED\<rparr>"
  have over: "cap_activeUnitLimit c < cap_activeUnitCount c"
    using True getListingCapacity_grace[of uid now s] assms(2) by auto
  have s1: "db_properties s1 = ?t" and n: "cap_activeUnitCount c = count_where (active_unit uid) ?t"
    using assms(2) getListingCapacity_frame(1)[of uid now s] getListingCapacity_count[of uid now s] by simp_all
  define k where "k = nat (cap_activeUnitCount c - cap_activeUnitLimit c)"
  define newest where "newest = take k (sort_key (\<lambda>p. - p_createdAt p) (filter (active_unit uid) ?t))"
  define Q where "Q = (\<lambda>p::property. p_id p \<in> set (map p_id newest))"
  have props: "db_properties (enforceCapacity now uid s) = update_where Q ?a ?t"
    using True over s1
    by (auto simp: enforceCapacity_def assms(2) Let_def Q_def newest_def k_def)
  have k: "k \<le> length (filter (active_unit uid) ?t)"
    using n assms(3) by (simp add: k_def count_where_def)
  have sub: "set newest \<subseteq> set (filter (active_unit uid) ?t)"
    unfolding newest_def using set_take_subset by fastforce
  have inj: "inj_on p_id (set ?t)" using assms(1) by (simp add: distinct_map)
  have Qn: "p \<in> set ?t \<Longrightarrow> Q p \<longleftrightarrow> p \<in> set newest" for p
    unfolding Q_def set_map by (rule inj_on_image_mem_iff[OF inj]) (use sub in auto)
  have "count_where (active_unit uid) (update_where Q ?a ?t)
      = int (length (filter (\<lambda>p. active_unit uid p \<and> \<not> Q p) ?t))"
    by (simp only: count_where_def filter_update_archive)
  also have "\<dots> = int (length (filter (active_unit uid) ?t) - k)"
    unfolding Q_def newest_def by (subst count_after_archive[OF assms(1) k]) simp
  also have "\<dots> = cap_activeUnitLimit c"
    using k n over by (simp add: k_def count_where_def)
  finally have cnt: "count_where (active_unit uid) (update_where Q ?a ?t) = cap_activeUnitLimit c" .
  moreover have "\<forall>p \<in> set ?t. Q p \<longrightarrow> active_unit uid p" using Qn sub by auto
  moreover have "\<forall>p \<in> set ?t. \<forall>q \<in> set ?t. Q p \<and> active_unit uid q \<and> \<not> Q q \<longrightarrow> p_createdAt q \<le> p_createdAt p"
  proof (intro ballI impI)
    fix p q assume "p \<in> set ?t" "q \<in> set ?t" "Q p \<and> active_unit uid q \<and> \<not> Q q"
    then have "p \<in> set newest" "q \<in> set (filter (active_unit uid) ?t)" "q \<notin> set newest"
      using Qn by auto
    then show "p_createdAt q \<le> p_createdAt p" unfolding newest_def by (rule newest_first)
  qed
  ultimately show ?thesis unfolding props using True by (simp only: if_True) blast
next
  case False
  moreover have "db_properties s1 = db_properties s"
    using assms(2) getListingCapacity_frame(1)[of uid now s] by simp
  ultimately show ?thesis
    by (auto simp: enforceCapacity_def assms(2) split: option.splits)
qed

section \<open>Witnesses\<close>

text \<open>An owner on OWNER_PLUS with two offers left and one running add-on, and one listing boosted.\<close>

definition quota_example :: user_quota where
  "quota_example =
     \<lparr>uq_id = 1, uq_userId = 7, uq_planType = OWNER_PLUS, uq_planExpiresAt = Some 9000,
      uq_maxActiveListings = 0, uq_optimizerUsesLeft = 1, uq_freeOffersLeft = 2, uq_billingInterval = Some MONTHLY,
      uq_currentPeriodStartsAt = Some 0, uq_currentPeriodEndsAt = Some 9000,
      uq_boostCreditsLeft = 1, uq_listingGraceEndsAt = Some 50,
      uq_pendingPlanType = None, uq_pendingBillingInterval = None,
      uq_pendingPlanStartsAt = None, uq_pendingPlanExpiresAt = None, uq_lastResetDate = 0\<rparr>"

definition grant_example :: entitlement_grant where
  "grant_example =
     \<lparr>g_id = 2, g_userId = 7, g_paymentTransactionId = None, g_type = MATCHED_OFFER,
      g_productSku = ''OFFERS_10_60D'', g_grantedQuantity = 10, g_remainingQuantity = 3,
      g_startsAt = 0, g_expiresAt = 500\<rparr>"

definition campaign_example :: boost_campaign where
  "campaign_example =
     \<lparr>bc_id = 3, bc_propertyId = 4, bc_userId = 7, bc_paymentTransactionId = None,
      bc_productSku = ''BOOST_7D'', bc_durationDays = 7, bc_startsAt = 0, bc_endsAt = 700, bc_status = ACTIVE\<rparr>"

definition quota_db :: db where
  "quota_db = empty_db\<lparr>db_seq := 10, db_userQuotas := [quota_example], db_grants := [grant_example],
     db_campaigns := [campaign_example]\<rparr>"

lemmas quota_db_defs = quota_db_def quota_example_def grant_example_def campaign_example_def empty_db_def

lemma quota_db_ok [simp]: "quotas_ok quota_db" "plans_ok quota_db"
  by (simp_all add: quotas_ok_def plans_ok_def credits_ok_def quota_db_defs)

lemma quota_db_row: "quota_of 7 quota_db = Some quota_example"
  by (simp add: quota_of_def quota_db_defs)

lemma quota_db_current: "ensureCurrentPeriod 7 100 quota_db = (quota_example, quota_db)"
  by (rule ensure_of_current[OF quota_db_row]) (simp add: current_def quota_example_def)

lemma quota_db_available: "available 7 MATCHED_OFFER FreeOffersLeft 100 quota_db = 5"
  "available 7 AI_OPTIMIZER_USE OptimizerUsesLeft 100 quota_db = 1"
  by (simp_all add: available_def quota_db_row activeGrantQuantity_def)
    (simp_all add: grant_active_def quota_db_defs)

theorem ensureCurrentPeriod_reset_witness:
  "quota_of 7 quota_db = Some quota_example \<and> needs_reset quota_example 9000
   \<and> uq_planType (fst (ensureCurrentPeriod 7 9000 quota_db)) = FREE
   \<and> uq_freeOffersLeft (fst (ensureCurrentPeriod 7 9000 quota_db)) = 5"
proof -
  have n: "needs_reset quota_example 9000" "planExpired quota_example 9000" "\<not> activatePendingPlan quota_example 9000"
    by (simp_all add: needs_reset_def planExpired_def passed_def activatePendingPlan_def quota_example_def)
  have a: "pa_offers (getPlanAllowances FREE quota_db) = 5"
    by (simp add: getPlanAllowances_def quota_db_defs)
  show ?thesis
    using ensureCurrentPeriod_reset[OF quota_db_row, of 9000] n a quota_db_row
    by (simp add: Let_def)
qed

theorem consumeOffer_exact_witness:
  "fst (spend_many (\<lambda>s. returned (consumeOffer 7 100 s)) 8 quota_db) = 5"
  using consumeOffer_exact[OF quota_db_ok, of 7 100 8]
  by (simp add: Let_def split_beta quota_db_current quota_db_available)

theorem consumeOptimizer_exact_witness:
  "fst (spend_many (\<lambda>s. returned (consumeOptimizer 7 100 s)) 3 quota_db) = 1"
  using consumeOptimizer_exact[OF quota_db_ok, of 7 100 3]
  by (simp add: Let_def split_beta quota_db_current quota_db_available)

lemma quota_db_consume:
  "consumeSoonestExpiringWithClient 7 MATCHED_OFFER FreeOffersLeft 100 quota_db
   = (Inr (Some 4), take_from_grant grant_example quota_db)"
proof -
  have f: "first_asc g_expiresAt (grant_active 7 MATCHED_OFFER 100) (db_grants quota_db) = Some grant_example"
    by (simp add: first_asc_def grant_active_def quota_db_defs)
  show ?thesis
    by (rule consume_outcomes[OF quota_db_ok(1) quota_db_row, of MATCHED_OFFER 100 FreeOffersLeft])
      (simp_all add: f quota_db_available, simp_all add: consume_grant_first_def quota_example_def grant_example_def)
qed

theorem consume_soonest_expiring_first_witness:
  "consumeSoonestExpiringWithClient 7 MATCHED_OFFER FreeOffersLeft 100 quota_db
     = (Inr (Some 4), take_from_grant grant_example quota_db)
   \<and> (\<exists>g \<in> set (db_grants quota_db). grant_active 7 MATCHED_OFFER 100 g
        \<and> take_from_grant grant_example quota_db = take_from_grant g quota_db \<and> g_expiresAt g < 9000)"
proof -
  have "take_from_grant grant_example quota_db \<noteq> take_from_plan 7 FreeOffersLeft quota_db"
    by (simp add: take_from_grant_def take_from_plan_def quota_db_defs decr_grant_def)
  then show ?thesis
    using consume_soonest_expiring_first[OF quota_db_ok(1) quota_db_row _ quota_db_consume, of 9000]
      quota_db_consume by (auto simp: quota_example_def)
qed

theorem withConsumedOffer_atomic_witness:
  "snd (withConsumedOffer 7 (\<lambda>s. (Inl (Conflict ''DUPLICATE'') :: http_error + unit, s)) 100 quota_db) = quota_db
   \<and> withConsumedOffer 7 (\<lambda>s. (Inl (Conflict ''DUPLICATE'') :: http_error + unit, s)) 100 quota_db \<noteq> (Inr ((), 4), quota_db)"
proof -
  have w: "withConsumedOffer 7 (\<lambda>s. (Inl (Conflict ''DUPLICATE'') :: http_error + unit, s)) 100 quota_db
    = (Inl (Conflict ''DUPLICATE''), quota_db)"
    by (simp add: withConsumedOffer_def quota_db_current quota_db_consume transaction_def)
  show ?thesis
    using withConsumedOffer_atomic[OF quota_db_ok, of "\<lambda>s. (Inl (Conflict ''DUPLICATE'') :: http_error + unit, s)" 7 100]
    by (simp add: w quota_db_current)
qed


definition property_example :: property where
  "property_example =
     \<lparr>p_id = 4, p_ownerId = 7, p_title = ''Flat'', p_description = ''Two rooms'', p_district = ''Maadi'',
      p_manualAddress = ''9 Street'', p_propertyType = APARTMENT, p_aroundServices = None,
      p_rentAmount = 5000, p_bedrooms = 2, p_isFurnished = True, p_status = P_APPROVED,
      p_rejectionReason = None, p_isBoosted = True, p_boostedUntil = Some 700, p_embedding = [],
      p_approvedBy = None, p_approvedAt = None, p_createdAt = 0, p_countryId = 2,
      p_governorateId = 3, p_cityId = 4, p_areaM2 = 90, p_bathrooms = 2, p_hasElevator = True, p_hasParking = False\<rparr>"

definition boost_db :: db where
  "boost_db = quota_db\<lparr>db_properties := [property_example]\<rparr>"

lemma boost_db_row: "quota_of 7 boost_db = Some quota_example"
  by (simp add: boost_db_def quota_of_def quota_db_defs)

lemma boost_db_current: "ensureCurrentPeriod 7 100 boost_db = (quota_example, boost_db)"
  by (rule ensure_of_current[OF boost_db_row]) (simp add: current_def quota_example_def)

theorem activatePlanBoost_stacked_witness:
  "campaigns_stacked (db_campaigns boost_db)
   \<and> (\<exists>r. fst (activatePlanBoost 7 4 100 boost_db) = Inr r \<and> 700 \<le> br_startsAt r)"
proof -
  have st: "campaigns_stacked (db_campaigns boost_db)"
    by (simp add: campaigns_stacked_def boost_db_def quota_db_defs)
  have "\<exists>r. fst (activatePlanBoost 7 4 100 boost_db) = Inr r"
    unfolding activatePlanBoost_def boost_db_current
    by (simp add: Let_def split_beta spend_boost_credit_def
        transaction_def boost_db_def quota_db_defs property_example_def quota_of_def)
  then obtain r where r: "fst (activatePlanBoost 7 4 100 boost_db) = Inr r" ..
  have "\<forall>c \<in> set (db_campaigns boost_db). bc_propertyId c = 4 \<and> live_campaign c \<longrightarrow> bc_endsAt c \<le> br_startsAt r"
    using activatePlanBoost_stacked[OF st, of 7 4 100] r by blast
  then have "700 \<le> br_startsAt r"
    by (simp add: boost_db_def quota_db_defs live_campaign_def)
  with st r show ?thesis by blast
qed

theorem enforceCapacity_exact_witness:
  "\<exists>c s1. getListingCapacity 7 100 boost_db = (c, s1) \<and> cap_activeUnitLimit c = 0
     \<and> count_where (active_unit 7) (db_properties boost_db) = 1
     \<and> count_where (active_unit 7) (db_properties (enforceCapacity 100 7 boost_db)) = 0"
proof -
  have n: "count_where (active_unit 7) (db_properties boost_db) = 1"
    by (simp add: boost_db_def property_example_def active_unit_def)
  have g: "activeGrantQuantity 7 ACTIVE_LISTING 100 boost_db = 0"
    by (simp add: activeGrantQuantity_def grant_active_def boost_db_def quota_db_defs)
  obtain c s1 where c: "getListingCapacity 7 100 boost_db = (c, s1)" by fastforce
  have l: "cap_activeUnitLimit c = 0" and e: "cap_listingGraceEndsAt c = Some 50"
    using c unfolding getListingCapacity_def boost_db_current
    by (auto simp: Let_def split_beta g n quota_example_def)
  have d: "distinct (map p_id (db_properties boost_db))" by (simp add: boost_db_def)
  show ?thesis using enforceCapacity_exact[OF d c] l e n c by auto
qed

end
