(* ===== verification/Payments.thy ===== *)
theory Payments
  imports Paymob Quota
begin

text \<open>
  \<open>payments/payments.service.ts\<close>: checkout, the provider's webhook, the settlement of a payment
  and the hourly reconciliation. A payment type is text where the code reads it from a webhook
  and the name of an enum constant where it reads it from a row.
\<close>

section \<open>Operations\<close>

definition SETTLEMENT_COMPATIBILITY :: "(string \<times> payment_type) list" where
  "SETTLEMENT_COMPATIBILITY =
     [(''PREMIUM_OWNER'', PREMIUM_MONTHLY), (''OWNER_PLUS'', OWNER_PLUS_MONTHLY),
      (''SINGLE_LISTING'', EXTRA_LISTING_60D), (''SINGLE_OFFER'', OFFERS_10_60D),
      (''BOOST_LISTING'', BOOST_30D), (''AI_ADDON'', AI_USES_10_90D)]"

definition catalogPaymentType :: "string \<Rightarrow> payment_type option" where
  "catalogPaymentType paymentType =
     (case billable_of_name paymentType of
        Some t \<Rightarrow> Some t | None \<Rightarrow> map_of SETTLEMENT_COMPATIBILITY paymentType)"

record checkout_dto =
  cd_paymentType :: string
  cd_propertyId :: "uuid option"
  cd_method :: "pay_method option"
  cd_walletPhone :: "string option"

record checkout_receipt =
  cr_providerOrderId :: string
  cr_amount :: int
  cr_paymentType :: payment_type
  cr_checkoutUrl :: string

fun interval_of :: "billing \<Rightarrow> billing_interval option" where
  "interval_of BILL_MONTHLY = Some MONTHLY"
| "interval_of BILL_YEARLY = Some YEARLY"
| "interval_of ONE_TIME = None"

definition payment_of :: "string \<Rightarrow> db \<Rightarrow> payment_transaction option" where
  "payment_of ord s = find (\<lambda>p. pt_providerOrderId p = ord) (db_payments s)"

definition new_payment :: "uuid \<Rightarrow> uuid \<Rightarrow> string \<Rightarrow> payment_type \<Rightarrow> uuid option \<Rightarrow> catalog_snapshot \<Rightarrow> time \<Rightarrow> payment_transaction" where
  "new_payment pid userId ord t propertyId snapshot now =
     \<lparr>pt_id = pid, pt_userId = userId, pt_providerOrderId = ord, pt_providerTransactionId = None,
      pt_amount = real_of_int (rp_priceEgp (cs_product snapshot)), pt_currency = ''EGP'', pt_paymentType = t,
      pt_targetPropertyId = propertyId, pt_productSku = Some (payment_type_name t),
      pt_billingInterval = interval_of (rp_billing (cs_product snapshot)),
      pt_catalogSnapshot = Some snapshot, pt_status = PAY_PENDING, pt_paidAt = None, pt_createdAt = now\<rparr>"

text \<open>The provider's order number is a unique column.\<close>

definition checkout :: "paymob_env \<Rightarrow> paymob_api \<Rightarrow> uuid \<Rightarrow> checkout_dto \<Rightarrow> time \<Rightarrow> db \<Rightarrow> checkout_receipt result" where
  "checkout env api userId dto now s =
     (case billable_of_name (cd_paymentType dto) of
        None \<Rightarrow> (Inl (BadRequest ''Unsupported payment type''), s)
      | Some t \<Rightarrow>
        (case checkoutSnapshot t s of
           Inl e \<Rightarrow> (Inl e, s)
         | Inr snapshot \<Rightarrow>
           let product = cs_product snapshot
           in if (case find (\<lambda>u. u_id u = userId) (db_users s) of
                    None \<Rightarrow> True | Some u \<Rightarrow> u_role u \<notin> set (allowedRoles t))
              then (Inl (Forbidden ''This product is not available to this role''), s)
              else if rp_kind product = BOOST \<and> cd_propertyId dto = None
              then (Inl (BadRequest ''propertyId is required for a boost''), s)
              else if rp_kind product = BOOST \<and>
                find (\<lambda>p. Some (p_id p) = cd_propertyId dto \<and> p_ownerId p = userId \<and> p_status p = P_APPROVED)
                  (db_properties s) = None
              then (Inl (NotFound ''PROPERTY_NOT_ELIGIBLE''), s)
              else case generatePaymentUrl env api userId (cd_paymentType dto) (real_of_int (rp_priceEgp product))
                     (cd_method dto) (cd_walletPhone dto) now s of
                Inl e \<Rightarrow> (Inl e, s)
              | Inr (checkoutUrl, ord) \<Rightarrow>
                  if payment_of ord s \<noteq> None then (Inl (Internal ''P2002''), s)
                  else (Inr \<lparr>cr_providerOrderId = ord, cr_amount = rp_priceEgp product,
                          cr_paymentType = t, cr_checkoutUrl = checkoutUrl\<rparr>,
                        s\<lparr>db_seq := db_seq s + 1, db_payments := db_payments s @
                            [new_payment (db_seq s) userId ord t (cd_propertyId dto) snapshot now]\<rparr>)))"

definition getTransaction :: "uuid \<Rightarrow> string \<Rightarrow> db \<Rightarrow> http_error + payment_transaction" where
  "getTransaction userId ord s =
     (case find (\<lambda>p. pt_userId p = userId \<and> pt_providerOrderId p = ord) (db_payments s) of
        None \<Rightarrow> Inl (NotFound ''PAYMENT_NOT_FOUND'') | Some p \<Rightarrow> Inr p)"

text \<open>The guarded write every transition of a payment goes through.\<close>

definition update_pending :: "string \<Rightarrow> (payment_transaction \<Rightarrow> payment_transaction) \<Rightarrow> db \<Rightarrow> db" where
  "update_pending ord f s = s\<lparr>db_payments := update_where
     (\<lambda>p. pt_providerOrderId p = ord \<and> pt_status p = PAY_PENDING) f (db_payments s)\<rparr>"

definition mark_failed :: "string \<Rightarrow> payment_transaction \<Rightarrow> payment_transaction" where
  "mark_failed txid p = p\<lparr>pt_status := PAY_FAILED, pt_providerTransactionId := Some txid\<rparr>"

definition mark_success :: "string \<Rightarrow> time \<Rightarrow> payment_transaction \<Rightarrow> payment_transaction" where
  "mark_success txid paidAt p =
     p\<lparr>pt_status := PAY_SUCCESS, pt_providerTransactionId := Some txid, pt_paidAt := Some paidAt\<rparr>"

definition amount_mismatch :: "payment_transaction \<Rightarrow> int option \<Rightarrow> string option \<Rightarrow> bool" where
  "amount_mismatch p paidAmountCents paidCurrency \<longleftrightarrow>
     (paidAmountCents \<noteq> None \<or> paidCurrency \<noteq> None) \<and>
     (case paidAmountCents of
        None \<Rightarrow> True
      | Some a \<Rightarrow> a \<noteq> js_round (pt_amount p * 100)
          \<or> map_option (\<lambda>c. js_upper (js_trim c)) paidCurrency \<noteq> Some (pt_currency p))"

definition durationEnd :: "billing_interval \<Rightarrow> time \<Rightarrow> time" where
  "durationEnd i start = (case i of YEARLY \<Rightarrow> setUTCFullYear start (getUTCFullYear start + 1)
     | MONTHLY \<Rightarrow> setUTCMonth start (getUTCMonth start + 1))"

definition pend_plan :: "owner_plan \<Rightarrow> billing_interval \<Rightarrow> user_quota \<Rightarrow> user_quota" where
  "pend_plan targetPlan i q = q\<lparr>uq_pendingPlanType := Some targetPlan, uq_pendingBillingInterval := Some i,
     uq_pendingPlanStartsAt := uq_planExpiresAt q,
     uq_pendingPlanExpiresAt := map_option (durationEnd i) (uq_planExpiresAt q)\<rparr>"

definition extend_plan :: "billing_interval \<Rightarrow> user_quota \<Rightarrow> user_quota" where
  "extend_plan i q = q\<lparr>uq_planExpiresAt := map_option (durationEnd i) (uq_planExpiresAt q),
     uq_billingInterval := Some i\<rparr>"

definition start_plan :: "owner_plan \<Rightarrow> billing_interval \<Rightarrow> plan_allowances \<Rightarrow> time \<Rightarrow> user_quota \<Rightarrow> user_quota" where
  "start_plan targetPlan i a paidAt q = q\<lparr>uq_planType := targetPlan, uq_billingInterval := Some i,
     uq_planExpiresAt := Some (durationEnd i paidAt), uq_currentPeriodStartsAt := Some paidAt,
     uq_currentPeriodEndsAt := Some (addMonth paidAt), uq_lastResetDate := paidAt,
     uq_maxActiveListings := pa_activeListings a, uq_optimizerUsesLeft := pa_aiUses a,
     uq_freeOffersLeft := pa_offers a, uq_boostCreditsLeft := pa_boostCredits a,
     uq_pendingPlanType := None, uq_pendingBillingInterval := None, uq_pendingPlanStartsAt := None,
     uq_pendingPlanExpiresAt := None\<rparr>"

text \<open>The row \<open>upsert\<close> creates: the columns it does not name take their defaults.\<close>

definition blank_quota :: "uuid \<Rightarrow> uuid \<Rightarrow> time \<Rightarrow> user_quota" where
  "blank_quota qid uid now =
     \<lparr>uq_id = qid, uq_userId = uid, uq_planType = FREE, uq_planExpiresAt = None,
      uq_maxActiveListings = 1, uq_optimizerUsesLeft = 0, uq_freeOffersLeft = 5, uq_billingInterval = None,
      uq_currentPeriodStartsAt = None, uq_currentPeriodEndsAt = None, uq_boostCreditsLeft = 0,
      uq_listingGraceEndsAt = None, uq_pendingPlanType = None, uq_pendingBillingInterval = None,
      uq_pendingPlanStartsAt = None, uq_pendingPlanExpiresAt = None, uq_lastResetDate = now\<rparr>"

definition currentRank :: "user_quota option \<Rightarrow> nat" where
  "currentRank row = (case row of None \<Rightarrow> 0 | Some q \<Rightarrow> plan_rank (uq_planType q))"

definition currentIsActive :: "user_quota option \<Rightarrow> time \<Rightarrow> bool" where
  "currentIsActive row paidAt = (case row of None \<Rightarrow> False
     | Some q \<Rightarrow> (case uq_planExpiresAt q of None \<Rightarrow> False | Some e \<Rightarrow> paidAt < e))"

definition settle_subscription :: "uuid \<Rightarrow> catalog_snapshot \<Rightarrow> time \<Rightarrow> db \<Rightarrow> bool result" where
  "settle_subscription userId snapshot paidAt s =
     (case (interval_of (rp_billing (cs_product snapshot)), rp_planType (cs_product snapshot)) of
        (Some i, Some targetPlan) \<Rightarrow>
          let row = quota_of userId s;
              targetRank = (if targetPlan = PREMIUM then 2 else 1)
          in if currentIsActive row paidAt \<and> targetRank < currentRank row
             then (Inr True, update_quota userId (pend_plan targetPlan i) s)
             else if currentIsActive row paidAt \<and> targetRank = currentRank row
             then (Inr True, update_quota userId (extend_plan i) s)
             else
               let a = (case cs_planAllowances snapshot of Some a \<Rightarrow> a | None \<Rightarrow> getPlanAllowances targetPlan s)
               in case row of
                    Some _ \<Rightarrow> (Inr True, update_quota userId (start_plan targetPlan i a paidAt) s)
                  | None \<Rightarrow> (Inr True, s\<lparr>db_seq := db_seq s + 1, db_userQuotas := db_userQuotas s @
                       [start_plan targetPlan i a paidAt (blank_quota (db_seq s) userId paidAt)]\<rparr>)
      | _ \<Rightarrow> (Inl (BadRequest ''Invalid subscription configuration''), s))"

definition new_grant :: "uuid \<Rightarrow> uuid \<Rightarrow> payment_transaction \<Rightarrow> entitlement_type \<Rightarrow> string \<Rightarrow> int \<Rightarrow> time \<Rightarrow> time \<Rightarrow> entitlement_grant" where
  "new_grant gid userId p ty sku quantity paidAt expiresAt =
     \<lparr>g_id = gid, g_userId = userId, g_paymentTransactionId = Some (pt_id p), g_type = ty, g_productSku = sku,
      g_grantedQuantity = quantity, g_remainingQuantity = quantity, g_startsAt = paidAt, g_expiresAt = expiresAt\<rparr>"

definition settle_entitlement ::
    "uuid \<Rightarrow> string \<Rightarrow> payment_transaction \<Rightarrow> resolved_product \<Rightarrow> time \<Rightarrow> db \<Rightarrow> bool result" where
  "settle_entitlement userId paymentType p product paidAt s =
     (case rp_entitlementType product of
        None \<Rightarrow> (Inl (BadRequest ''Invalid entitlement configuration''), s)
      | Some ty \<Rightarrow>
          if \<not> truthy (rp_validityDays product) \<or> \<not> truthy (rp_quantity product)
          then (Inl (BadRequest ''Invalid entitlement configuration''), s)
          else (Inr True, s\<lparr>db_seq := db_seq s + 1, db_grants := db_grants s @
            [new_grant (db_seq s) userId p ty paymentType
               (if paymentType = ''SINGLE_OFFER'' then 1 else the (rp_quantity product)) paidAt
               (addDays paidAt (the (rp_validityDays product)))]\<rparr>))"

text \<open>Without a duration the end is an invalid date, which the database client rejects.\<close>

definition settle_boost ::
    "uuid \<Rightarrow> string \<Rightarrow> payment_transaction \<Rightarrow> resolved_product \<Rightarrow> time \<Rightarrow> db \<Rightarrow> bool result" where
  "settle_boost userId paymentType p product paidAt s =
     (case pt_targetPropertyId p of
        None \<Rightarrow> (Inl (BadRequest ''Boost payment has no target property''), s)
      | Some pid \<Rightarrow>
        (case rp_durationDays product of
           None \<Rightarrow> (Inl (Internal ''INVALID_DATE''), s)
         | Some days \<Rightarrow>
           let startsAt = boost_start pid paidAt s;
               boostedUntil = addDays startsAt days;
               mine = (\<lambda>q. p_id q = pid \<and> p_ownerId q = userId);
               s1 = s\<lparr>db_properties := update_where mine
                      (\<lambda>q. q\<lparr>p_isBoosted := True, p_boostedUntil := Some boostedUntil\<rparr>) (db_properties s)\<rparr>
           in if count_where mine (db_properties s) \<noteq> 1
              then (Inl (NotFound ''BOOST_TARGET_NOT_FOUND''), s1)
              else (Inr True, s1\<lparr>db_seq := db_seq s1 + 1, db_campaigns := db_campaigns s1 @
                [new_campaign (db_seq s1) pid userId (Some (pt_id p)) paymentType days startsAt paidAt]\<rparr>)))"

definition settlement_snapshot :: "payment_transaction \<Rightarrow> payment_type \<Rightarrow> db \<Rightarrow> catalog_snapshot" where
  "settlement_snapshot p t s =
     (case parseSnapshot (pt_catalogSnapshot p) of Some snapshot \<Rightarrow> snapshot | None \<Rightarrow> snapshot_of t s)"

text \<open>The body of the settlement transaction; a bare \<open>return\<close> is false as a condition.\<close>

definition settle ::
    "uuid \<Rightarrow> string \<Rightarrow> string \<Rightarrow> string \<Rightarrow> int option \<Rightarrow> string option \<Rightarrow> time \<Rightarrow> db \<Rightarrow> bool result" where
  "settle userId paymentType transactionId ord paidAmountCents paidCurrency paidAt tx =
     (case payment_of ord tx of
        None \<Rightarrow> (Inr False, tx)
      | Some p \<Rightarrow>
        if pt_status p \<noteq> PAY_PENDING then (Inr False, tx)
        else if amount_mismatch p paidAmountCents paidCurrency
        then (Inr False, update_pending ord (mark_failed transactionId) tx)
        else
          let claimed = count_where (\<lambda>p. pt_providerOrderId p = ord \<and> pt_status p = PAY_PENDING) (db_payments tx);
              tx1 = update_pending ord (mark_success transactionId paidAt) tx
          in if claimed = 0 then (Inr False, tx1)
             else case catalogPaymentType paymentType of
               None \<Rightarrow> (Inr False, tx1)
             | Some t \<Rightarrow>
               let snapshot = settlement_snapshot p t tx1; product = cs_product snapshot
               in case rp_kind product of
                    SUBSCRIPTION \<Rightarrow> settle_subscription userId snapshot paidAt tx1
                  | ENTITLEMENT \<Rightarrow> settle_entitlement userId paymentType p product paidAt tx1
                  | BOOST \<Rightarrow> settle_boost userId paymentType p product paidAt tx1)"

definition processSuccessfulPayment ::
    "uuid \<Rightarrow> string \<Rightarrow> string \<Rightarrow> string option \<Rightarrow> int option \<Rightarrow> string option \<Rightarrow> time \<Rightarrow> db \<Rightarrow> unit result" where
  "processSuccessfulPayment userId paymentType transactionId providerOrderId paidAmountCents paidCurrency now s =
     (case js_or providerOrderId None of
        None \<Rightarrow> (Inr (), s)
      | Some ord \<Rightarrow>
        (case transaction (settle userId paymentType transactionId ord paidAmountCents paidCurrency now) s of
           (Inl e, s') \<Rightarrow> (Inl e, s')
         | (Inr applied, s') \<Rightarrow>
             (Inr (), if applied then emit (SocketPaymentUpdated userId ord PAY_SUCCESS) s' else s')))"

definition handleWebhook ::
    "(string \<Rightarrow> string \<Rightarrow> string) \<Rightarrow> paymob_env \<Rightarrow> string option \<Rightarrow> webhook_transaction option \<Rightarrow> time \<Rightarrow> db \<Rightarrow> unit result" where
  "handleWebhook hmac env queryHmac body now s =
     (case processWebhook hmac env queryHmac body of
        Inl e \<Rightarrow> (Inl e, s)
      | Inr r \<Rightarrow>
        if \<not> wr_isValid r then (Inl (BadRequest ''Invalid signature''), s)
        else
          let saved = (case js_or (wr_providerOrderId r) None of None \<Rightarrow> None | Some ord \<Rightarrow> payment_of ord s);
              userId = (case saved of Some p \<Rightarrow> Some (pt_userId p) | None \<Rightarrow> wr_userId r);
              paymentType = (case saved of Some p \<Rightarrow> Some (payment_type_name (pt_paymentType p))
                 | None \<Rightarrow> js_or (wr_paymentType r) None)
          in if wr_success r \<and> userId \<noteq> None \<and> paymentType \<noteq> None
             then processSuccessfulPayment (the userId) (the paymentType) (wr_transactionId r)
                    (wr_providerOrderId r) (wr_amountCents r) (wr_currency r) now s
             else case js_or (wr_providerOrderId r) None of
                    Some ord \<Rightarrow>
                      if wr_isFinal r
                      then let updated = count_where (\<lambda>p. pt_providerOrderId p = ord \<and> pt_status p = PAY_PENDING) (db_payments s);
                               s1 = update_pending ord (mark_failed (wr_transactionId r)) s
                           in (Inr (), case saved of
                                Some p \<Rightarrow> if updated = 1
                                  then emit (SocketPaymentUpdated (pt_userId p) (pt_providerOrderId p) PAY_FAILED) s1
                                  else s1
                              | None \<Rightarrow> s1)
                      else (Inr (), s)
                  | None \<Rightarrow> (Inr (), s))"

fun reconcile_each :: "paymob_api \<Rightarrow> time \<Rightarrow> payment_transaction list \<Rightarrow> db \<Rightarrow> unit result" where
  "reconcile_each api now [] s = (Inr (), s)"
| "reconcile_each api now (p # ps) s =
     (case checkTransactionStatus api (pt_providerOrderId p) of
        (True, Some (c # cs)) \<Rightarrow>
          (case processSuccessfulPayment (pt_userId p) (payment_type_name (pt_paymentType p)) (c # cs)
                  (Some (pt_providerOrderId p)) None None now s of
             (Inl e, s') \<Rightarrow> (Inl e, s')
           | (Inr _, s') \<Rightarrow> reconcile_each api now ps s')
      | _ \<Rightarrow> reconcile_each api now ps s)"

definition expire_boosts :: "time \<Rightarrow> db \<Rightarrow> db" where
  "expire_boosts now s =
     s\<lparr>db_properties := update_where
         (\<lambda>p. p_isBoosted p \<and> (case p_boostedUntil p of None \<Rightarrow> False | Some t \<Rightarrow> t \<le> now))
         (\<lambda>p. p\<lparr>p_isBoosted := False, p_boostedUntil := None\<rparr>) (db_properties s),
       db_campaigns := update_where (\<lambda>c. bc_status c = SCHEDULED \<and> bc_startsAt c \<le> now \<and> now < bc_endsAt c)
         (\<lambda>c. c\<lparr>bc_status := ACTIVE\<rparr>)
         (update_where (\<lambda>c. live_campaign c \<and> bc_endsAt c \<le> now) (\<lambda>c. c\<lparr>bc_status := EXPIRED\<rparr>) (db_campaigns s))\<rparr>"

definition pending_batch :: "time \<Rightarrow> db \<Rightarrow> payment_transaction list" where
  "pending_batch now s = take 100 (sort_key pt_createdAt
     (filter (\<lambda>p. pt_status p = PAY_PENDING \<and> pt_createdAt p \<le> now - 30 * 60000) (db_payments s)))"

definition reconcilePendingTransactions :: "paymob_api \<Rightarrow> time \<Rightarrow> db \<Rightarrow> unit result" where
  "reconcilePendingTransactions api now s =
     (let s1 = expire_boosts now s in reconcile_each api now (pending_batch now s1) s1)"

section \<open>Frames\<close>

lemma update_pending_simps [simp]:
  "db_users (update_pending o' f s) = db_users s" "db_userQuotas (update_pending o' f s) = db_userQuotas s"
  "db_properties (update_pending o' f s) = db_properties s" "db_grants (update_pending o' f s) = db_grants s"
  "db_campaigns (update_pending o' f s) = db_campaigns s"
  "db_productConfigs (update_pending o' f s) = db_productConfigs s"
  "db_planConfigs (update_pending o' f s) = db_planConfigs s" "db_seq (update_pending o' f s) = db_seq s"
  "db_effects (update_pending o' f s) = db_effects s"
  by (simp_all add: update_pending_def)

lemma mark_simps [simp]:
  "pt_providerOrderId (mark_failed t p) = pt_providerOrderId p" "pt_status (mark_failed t p) = PAY_FAILED"
  "pt_providerOrderId (mark_success t n p) = pt_providerOrderId p" "pt_status (mark_success t n p) = PAY_SUCCESS"
  "pt_paidAt (mark_success t n p) = Some n"
  by (simp_all add: mark_failed_def mark_success_def)

lemma payment_of_cong: "db_payments s = db_payments t \<Longrightarrow> payment_of ord s = payment_of ord t"
  by (simp add: payment_of_def)

lemma settle_subscription_frame [simp]:
  "db_payments (snd (settle_subscription u sn t s)) = db_payments s"
  "db_properties (snd (settle_subscription u sn t s)) = db_properties s"
  "db_campaigns (snd (settle_subscription u sn t s)) = db_campaigns s"
  "db_grants (snd (settle_subscription u sn t s)) = db_grants s"
  "db_productConfigs (snd (settle_subscription u sn t s)) = db_productConfigs s"
  by (auto simp: settle_subscription_def Let_def split: option.splits)

lemma settle_entitlement_frame [simp]:
  "db_payments (snd (settle_entitlement u y p pr t s)) = db_payments s"
  "db_properties (snd (settle_entitlement u y p pr t s)) = db_properties s"
  "db_campaigns (snd (settle_entitlement u y p pr t s)) = db_campaigns s"
  "db_userQuotas (snd (settle_entitlement u y p pr t s)) = db_userQuotas s"
  "db_productConfigs (snd (settle_entitlement u y p pr t s)) = db_productConfigs s"
  by (auto simp: settle_entitlement_def split: option.splits)

lemma settle_boost_frame [simp]:
  "db_payments (snd (settle_boost u y p pr t s)) = db_payments s"
  "db_grants (snd (settle_boost u y p pr t s)) = db_grants s"
  "db_userQuotas (snd (settle_boost u y p pr t s)) = db_userQuotas s"
  "db_productConfigs (snd (settle_boost u y p pr t s)) = db_productConfigs s"
  by (auto simp: settle_boost_def Let_def split: option.splits)

text \<open>What a property keeps through a settlement: who owns it.\<close>

lemma settle_boost_owners:
  "map (\<lambda>q. (p_id q, p_ownerId q)) (db_properties (snd (settle_boost u y p pr t s)))
   = map (\<lambda>q. (p_id q, p_ownerId q)) (db_properties s)"
  by (auto simp: settle_boost_def Let_def map_update_where split: option.splits)

lemma claimed_pos:
  "payment_of ord s = Some p \<Longrightarrow> pt_status p = PAY_PENDING \<Longrightarrow>
   count_where (\<lambda>p. pt_providerOrderId p = ord \<and> pt_status p = PAY_PENDING) (db_payments s) \<noteq> 0"
  by (auto simp: count_where_zero_iff payment_of_def dest!: find_SomeD)

text \<open>The whole settlement, as the case of the payment it finds.\<close>

lemma settle_cases [consumes 1, case_names none settled mismatch unknown applied]:
  assumes "settle u y tid ord a c now s = (r, s')"
  obtains "payment_of ord s = None" "r = Inr False" "s' = s"
  | p where "payment_of ord s = Some p" "pt_status p \<noteq> PAY_PENDING" "r = Inr False" "s' = s"
  | p where "payment_of ord s = Some p" "pt_status p = PAY_PENDING" "amount_mismatch p a c"
      "r = Inr False" "s' = update_pending ord (mark_failed tid) s"
  | p where "payment_of ord s = Some p" "pt_status p = PAY_PENDING" "\<not> amount_mismatch p a c"
      "catalogPaymentType y = None" "r = Inr False" "s' = update_pending ord (mark_success tid now) s"
  | p t sn where "payment_of ord s = Some p" "pt_status p = PAY_PENDING" "\<not> amount_mismatch p a c"
      "catalogPaymentType y = Some t"
      "sn = settlement_snapshot p t (update_pending ord (mark_success tid now) s)"
      "(r, s') = (case rp_kind (cs_product sn) of
         SUBSCRIPTION \<Rightarrow> settle_subscription u sn now (update_pending ord (mark_success tid now) s)
       | ENTITLEMENT \<Rightarrow> settle_entitlement u y p (cs_product sn) now (update_pending ord (mark_success tid now) s)
       | BOOST \<Rightarrow> settle_boost u y p (cs_product sn) now (update_pending ord (mark_success tid now) s))"
proof -
  consider "payment_of ord s = None" | p where "payment_of ord s = Some p" by fastforce
  then show thesis
  proof cases
    case 1
    with assms have "r = Inr False" "s' = s" by (simp_all add: settle_def)
    with 1 show thesis by (rule that(1))
  next
    case (2 p)
    note d = assms[unfolded settle_def 2 option.case]
    note cl = claimed_pos[OF 2]
    show thesis
    proof (cases "pt_status p = PAY_PENDING")
      case False
      with d have "r = Inr False" "s' = s" by simp_all
      with 2 False show thesis by (rule that(2))
    next
      case pending: True
      show thesis
      proof (cases "amount_mismatch p a c")
        case True
        with d pending have "r = Inr False" "s' = update_pending ord (mark_failed tid) s" by simp_all
        with 2 pending True show thesis by (rule that(3))
      next
        case False
        show thesis
        proof (cases "catalogPaymentType y")
          case None
          with d pending False cl have "r = Inr False" "s' = update_pending ord (mark_success tid now) s"
            by (simp_all add: Let_def)
          with 2 pending False None show thesis by (rule that(4))
        next
          case (Some t)
          from d show thesis
            by (intro that(5)[OF 2 pending False Some refl]) (simp add: pending False Some Let_def cl)
        qed
      qed
    qed
  qed
qed

lemma settle_payments:
  "db_payments (snd (settle u y tid ord a c now s)) \<in>
     {db_payments s, db_payments (update_pending ord (mark_failed tid) s),
      db_payments (update_pending ord (mark_success tid now) s)}"
proof (cases "settle u y tid ord a c now s")
  case (Pair r s')
  then show ?thesis
  proof (cases rule: settle_cases)
    case (applied p t sn)
    then have "db_payments s' = db_payments (update_pending ord (mark_success tid now) s)"
      by (cases "rp_kind (cs_product sn)")
        (simp_all, (metis settle_subscription_frame(1) settle_entitlement_frame(1) settle_boost_frame(1) snd_conv)+)
    with Pair show ?thesis by simp
  qed (use Pair in auto)
qed

lemma settle_owners:
  "map (\<lambda>q. (p_id q, p_ownerId q)) (db_properties (snd (settle u y tid ord a c now s)))
   = map (\<lambda>q. (p_id q, p_ownerId q)) (db_properties s)
   \<and> db_productConfigs (snd (settle u y tid ord a c now s)) = db_productConfigs s"
proof (cases "settle u y tid ord a c now s")
  case (Pair r s')
  then show ?thesis
  proof (cases rule: settle_cases)
    case (applied p t sn)
    let ?s = "update_pending ord (mark_success tid now) s"
    from applied(6) consider "s' = snd (settle_subscription u sn now ?s)"
      | "s' = snd (settle_entitlement u y p (cs_product sn) now ?s)"
      | "s' = snd (settle_boost u y p (cs_product sn) now ?s)"
      by (cases "rp_kind (cs_product sn)"; simp) (metis snd_conv)+
    then show ?thesis by cases (simp_all add: Pair settle_boost_owners)
  qed (use Pair in auto)
qed

text \<open>A settlement leaves a row it has finished, whichever way, finished; it starts none.\<close>

definition settled_payment :: "db \<Rightarrow> payment_transaction \<Rightarrow> bool" where
  "settled_payment s p \<longleftrightarrow> p \<in> set (db_payments s) \<and> pt_status p \<noteq> PAY_PENDING"

lemma settled_update_pending: "settled_payment s p \<Longrightarrow> settled_payment (update_pending ord f s) p"
  by (force simp: settled_payment_def update_pending_def set_update_where)

lemma settled_cong: "db_payments s = db_payments t \<Longrightarrow> settled_payment s p = settled_payment t p"
  by (simp add: settled_payment_def)

lemma process_cases:
  obtains "processSuccessfulPayment u y tid o' a c now s = (Inr (), s)"
  | ord r s1 where "o' = Some ord" "transaction (settle u y tid ord a c now) s = (r, s1)"
      "db_payments (snd (processSuccessfulPayment u y tid o' a c now s)) = db_payments s1"
      "db_properties (snd (processSuccessfulPayment u y tid o' a c now s)) = db_properties s1"
      "db_productConfigs (snd (processSuccessfulPayment u y tid o' a c now s)) = db_productConfigs s1"
      "db_campaigns (snd (processSuccessfulPayment u y tid o' a c now s)) = db_campaigns s1"
proof (cases "js_or o' None")
  case None
  then show thesis by (intro that(1)) (simp add: processSuccessfulPayment_def)
next
  case (Some ord)
  then have o: "o' = Some ord" by (cases o') (auto elim: js_or.elims)
  obtain r s1 where t: "transaction (settle u y tid ord a c now) s = (r, s1)" by fastforce
  show thesis by (rule that(2)[OF o t]; cases r)
      (simp_all add: processSuccessfulPayment_def Some t)
qed

lemma transaction_payments:
  "transaction (settle u y tid ord a c now) s = (r, s1) \<Longrightarrow>
   db_payments s1 \<in> {db_payments s, db_payments (update_pending ord (mark_failed tid) s),
      db_payments (update_pending ord (mark_success tid now) s)}"
  using settle_payments[of u y tid ord a c now s]
  by (auto simp: transaction_def split: prod.splits sum.splits)

lemma transaction_owners:
  "transaction (settle u y tid ord a c now) s = (r, s1) \<Longrightarrow>
   map (\<lambda>q. (p_id q, p_ownerId q)) (db_properties s1) = map (\<lambda>q. (p_id q, p_ownerId q)) (db_properties s)
   \<and> db_productConfigs s1 = db_productConfigs s"
  using settle_owners[of u y tid ord a c now s]
  by (auto simp: transaction_def split: prod.splits sum.splits)

section \<open>What a step does to the payments\<close>

text \<open>One of the three guarded writes: none, the failure, the success.\<close>

definition pending_write :: "string \<Rightarrow> time \<Rightarrow> db \<Rightarrow> db \<Rightarrow> bool" where
  "pending_write tid now s t \<longleftrightarrow> (\<exists>ord f. f \<in> {id, mark_failed tid, mark_success tid now}
     \<and> db_payments t = db_payments (update_pending ord f s))
     \<and> map (\<lambda>q. (p_id q, p_ownerId q)) (db_properties t) = map (\<lambda>q. (p_id q, p_ownerId q)) (db_properties s)
     \<and> db_productConfigs t = db_productConfigs s"

lemma update_pending_id: "db_payments (update_pending ord id s) = db_payments s"
  by (simp add: update_pending_def update_where_idem)

lemma pending_write_refl: "pending_write tid now s s"
  unfolding pending_write_def
  by (intro conjI exI[of _ "''''"] exI[of _ id]) (simp_all add: update_pending_id)

lemma process_pending_write: "pending_write tid now s (snd (processSuccessfulPayment u y tid o' a c now s))"
proof (cases rule: process_cases[of u y tid o' a c now s])
  case 1
  then show ?thesis by (simp add: pending_write_refl)
next
  case (2 ord r s1)
  from transaction_payments[OF 2(2)] have "\<exists>f \<in> {id, mark_failed tid, mark_success tid now}.
      db_payments s1 = db_payments (update_pending ord f s)"
    by (auto simp: update_pending_id)
  with 2 transaction_owners[OF 2(2)] show ?thesis unfolding pending_write_def by auto
qed

lemma handleWebhook_pending_write:
  "\<exists>tid. pending_write tid now s (snd (handleWebhook hmac env h body now s))"
proof (cases "processWebhook hmac env h body")
  case (Inl e)
  then show ?thesis by (auto simp: handleWebhook_def intro: pending_write_refl)
next
  case (Inr r)
  have w: "pending_write tid now s (update_pending ord (mark_failed tid) s)"
    "pending_write tid now s (emit e (update_pending ord (mark_failed tid) s))" for tid ord e
    unfolding pending_write_def by auto
  show ?thesis
    unfolding handleWebhook_def Inr
    by (auto simp: Let_def intro: pending_write_refl process_pending_write w split: option.splits)
qed

lemma settled_pending_write: "pending_write tid now s t \<Longrightarrow> settled_payment s p \<Longrightarrow> settled_payment t p"
  unfolding pending_write_def using settled_update_pending settled_cong by blast

lemma pending_write_orders:
  "pending_write tid now s t \<Longrightarrow> map pt_providerOrderId (db_payments t) = map pt_providerOrderId (db_payments s)"
  by (auto simp: pending_write_def update_pending_def map_update_where)

text \<open>
  A pending payment can be settled: its snapshot is a complete product of the catalog and the
  listing it boosts is still the payer's.
\<close>

definition owned :: "uuid \<Rightarrow> uuid \<Rightarrow> property list \<Rightarrow> bool" where
  "owned pid u ps \<longleftrightarrow> (pid, u) \<in> set (map (\<lambda>q. (p_id q, p_ownerId q)) ps)"

definition payable :: "property list \<Rightarrow> payment_transaction \<Rightarrow> bool" where
  "payable ps p \<longleftrightarrow> (\<exists>sn. pt_catalogSnapshot p = Some sn
     \<and> isBillablePaymentType (pt_paymentType p) \<and> rp_paymentType (cs_product sn) = pt_paymentType p
     \<and> rp_kind (cs_product sn) = rp_kind (defaultProduct (pt_paymentType p))
     \<and> rp_planType (cs_product sn) = rp_planType (defaultProduct (pt_paymentType p))
     \<and> settleable (cs_product sn)
     \<and> (rp_kind (cs_product sn) = BOOST \<longrightarrow> (\<exists>pid. pt_targetPropertyId p = Some pid \<and> owned pid (pt_userId p) ps)))"

definition payments_inv :: "db \<Rightarrow> bool" where
  "payments_inv s \<longleftrightarrow> distinct (map pt_providerOrderId (db_payments s)) \<and> distinct (map p_id (db_properties s))
     \<and> configs_ok s
     \<and> (\<forall>p \<in> set (db_payments s). pt_status p = PAY_PENDING \<longrightarrow> payable (db_properties s) p)"

lemma owned_cong:
  "map (\<lambda>q. (p_id q, p_ownerId q)) ps = map (\<lambda>q. (p_id q, p_ownerId q)) qs \<Longrightarrow> owned pid u ps = owned pid u qs"
  by (simp only: owned_def)

lemma payable_cong:
  "map (\<lambda>q. (p_id q, p_ownerId q)) ps = map (\<lambda>q. (p_id q, p_ownerId q)) qs \<Longrightarrow> payable ps p = payable qs p"
  by (simp only: payable_def owned_def)

lemma ids_cong:
  "map (\<lambda>q. (p_id q, p_ownerId q)) ps = map (\<lambda>q. (p_id q, p_ownerId q)) qs \<Longrightarrow> map p_id ps = map p_id qs"
  by (drule arg_cong[where f = "map fst"]) (simp add: comp_def)

lemma payments_inv_pending_write:
  assumes "payments_inv s" "pending_write tid now s t"
  shows "payments_inv t"
proof -
  from assms(2) obtain ord f where f: "f \<in> {id, mark_failed tid, mark_success tid now}"
    "db_payments t = db_payments (update_pending ord f s)"
    and o: "map (\<lambda>q. (p_id q, p_ownerId q)) (db_properties t) = map (\<lambda>q. (p_id q, p_ownerId q)) (db_properties s)"
    and c: "db_productConfigs t = db_productConfigs s"
    by (auto simp: pending_write_def)
  have "p \<in> set (db_payments s)" if "p \<in> set (db_payments t)" "pt_status p = PAY_PENDING" for p
    using that f by (auto simp: update_pending_def elim!: in_update_whereE)
  then show ?thesis
    using assms(1) pending_write_orders[OF assms(2)] payable_cong[OF o] ids_cong[OF o] c
    by (simp add: payments_inv_def configs_ok_def)
qed

lemma reconcile_each_Cons:
  "reconcile_each api now (p # ps) s =
     (let (b, tid) = checkTransactionStatus api (pt_providerOrderId p)
      in if b \<and> js_or tid None \<noteq> None
         then (case processSuccessfulPayment (pt_userId p) (payment_type_name (pt_paymentType p)) (the tid)
                  (Some (pt_providerOrderId p)) None None now s of
             (Inl e, s') \<Rightarrow> (Inl e, s')
           | (Inr _, s') \<Rightarrow> reconcile_each api now ps s')
         else reconcile_each api now ps s)"
proof (cases "checkTransactionStatus api (pt_providerOrderId p)")
  case (Pair b tid)
  show ?thesis
  proof (cases tid)
    case None
    with Pair show ?thesis by (cases b) simp_all
  next
    case (Some xs)
    with Pair show ?thesis by (cases b; cases xs) simp_all
  qed
qed

lemma reconcile_each_inv:
  assumes "\<And>tid s t. pending_write tid now s t \<Longrightarrow> P s \<Longrightarrow> P t"
  shows "P s \<Longrightarrow> P (snd (reconcile_each api now ps s))"
proof (induction ps arbitrary: s)
  case (Cons p ps)
  obtain b tid where st: "checkTransactionStatus api (pt_providerOrderId p) = (b, tid)" by fastforce
  obtain r s' where pr: "processSuccessfulPayment (pt_userId p) (payment_type_name (pt_paymentType p)) (the tid)
       (Some (pt_providerOrderId p)) None None now s = (r, s')" by fastforce
  have "P s'" using assms[OF process_pending_write Cons.prems] pr by (metis snd_conv)
  then show ?case
    unfolding reconcile_each_Cons st pr Let_def prod.case
    by (cases r) (simp_all add: Cons.IH Cons.prems)
qed simp

lemma expire_boosts_simps [simp]:
  "db_payments (expire_boosts now s) = db_payments s"
  "db_productConfigs (expire_boosts now s) = db_productConfigs s"
  "db_grants (expire_boosts now s) = db_grants s" "db_userQuotas (expire_boosts now s) = db_userQuotas s"
  "map (\<lambda>q. (p_id q, p_ownerId q)) (db_properties (expire_boosts now s))
   = map (\<lambda>q. (p_id q, p_ownerId q)) (db_properties s)"
  by (simp_all add: expire_boosts_def map_update_where)

lemma expire_boosts_pending_write: "pending_write tid now s (expire_boosts now s)"
  unfolding pending_write_def
  by (intro conjI exI[of _ "''''"] exI[of _ id]) (simp_all add: update_pending_id)

text \<open>A checkout appends a pending row that can be settled, or changes nothing.\<close>

lemma checkoutSnapshot_payable:
  assumes "checkoutSnapshot t s = Inr sn" "configs_ok s" "isBillablePaymentType t"
  shows "cs_product sn = getProduct t s" "rp_paymentType (cs_product sn) = t"
    "rp_kind (cs_product sn) = rp_kind (defaultProduct t)" "settleable (cs_product sn)"
    "rp_planType (cs_product sn) = rp_planType (defaultProduct t)"
    "cs_planAllowances sn = map_option (\<lambda>p. getPlanAllowances p s) (rp_planType (defaultProduct t))"
  using assms getProduct_settleable[OF assms(3,2)]
  by (auto simp: checkoutSnapshot_def snapshot_of_def Let_def getProduct_semantics split: if_splits)

lemma checkout_cases:
  obtains e where "checkout env api u dto now s = (Inl e, s)"
  | r t sn us where "checkout env api u dto now s = (Inr r, s\<lparr>db_seq := db_seq s + 1, db_payments := db_payments s @
        [new_payment (db_seq s) u (cr_providerOrderId r) t (cd_propertyId dto) sn now]\<rparr>)"
      "billable_of_name (cd_paymentType dto) = Some t" "checkoutSnapshot t s = Inr sn"
      "find (\<lambda>u'. u_id u' = u) (db_users s) = Some us" "u_role us \<in> set (allowedRoles t)"
      "payment_of (cr_providerOrderId r) s = None" "cr_amount r = rp_priceEgp (cs_product sn)"
      "cr_paymentType r = t"
      "rp_kind (cs_product sn) = BOOST \<Longrightarrow> \<exists>q \<in> set (db_properties s). cd_propertyId dto = Some (p_id q)
         \<and> p_ownerId q = u \<and> p_status q = P_APPROVED"
proof (cases "fst (checkout env api u dto now s)")
  case (Inl e)
  then have "checkout env api u dto now s = (Inl e, s)"
    by (auto simp: checkout_def Let_def split: option.splits sum.splits if_splits)
  then show thesis by (rule that(1))
next
  case (Inr r)
  from Inr obtain t where t: "billable_of_name (cd_paymentType dto) = Some t"
    by (auto simp: checkout_def split: option.splits)
  note d = Inr[unfolded checkout_def t option.case]
  from d obtain sn where sn: "checkoutSnapshot t s = Inr sn" by (auto split: sum.splits)
  note d = d[unfolded sn sum.case Let_def]
  have role: "\<not> (case find (\<lambda>u'. u_id u' = u) (db_users s) of None \<Rightarrow> True | Some u' \<Rightarrow> u_role u' \<notin> set (allowedRoles t))"
    using d by (auto split: if_splits)
  then obtain us where us: "find (\<lambda>u'. u_id u' = u) (db_users s) = Some us" "u_role us \<in> set (allowedRoles t)"
    by (auto split: option.splits)
  note d = d[unfolded if_not_P[OF role]]
  have b1: "\<not> (rp_kind (cs_product sn) = BOOST \<and> cd_propertyId dto = None)" using d by (auto split: if_splits)
  note d = d[unfolded if_not_P[OF b1]]
  let ?f = "find (\<lambda>p. Some (p_id p) = cd_propertyId dto \<and> p_ownerId p = u \<and> p_status p = P_APPROVED) (db_properties s)"
  have b2: "\<not> (rp_kind (cs_product sn) = BOOST \<and> ?f = None)" using d by (auto split: if_splits)
  note d = d[unfolded if_not_P[OF b2]]
  from d obtain url ord where g: "generatePaymentUrl env api u (cd_paymentType dto) (real_of_int (rp_priceEgp (cs_product sn)))
      (cd_method dto) (cd_walletPhone dto) now s = Inr (url, ord)"
    by (auto split: sum.splits)
  note d = d[unfolded g sum.case prod.case]
  from d have n: "payment_of ord s = None" by (auto split: if_splits)
  from d n have r: "r = \<lparr>cr_providerOrderId = ord, cr_amount = rp_priceEgp (cs_product sn),
      cr_paymentType = t, cr_checkoutUrl = url\<rparr>" by simp
  have c: "checkout env api u dto now s = (Inr r, s\<lparr>db_seq := db_seq s + 1, db_payments := db_payments s @
        [new_payment (db_seq s) u (cr_providerOrderId r) t (cd_propertyId dto) sn now]\<rparr>)"
    unfolding checkout_def t option.case sn sum.case Let_def if_not_P[OF role] if_not_P[OF b1] if_not_P[OF b2] g prod.case
    by (simp add: n r)
  have bo: "\<exists>q \<in> set (db_properties s). cd_propertyId dto = Some (p_id q) \<and> p_ownerId q = u \<and> p_status q = P_APPROVED"
    if "rp_kind (cs_product sn) = BOOST"
  proof -
    from that b2 have "?f \<noteq> None" by simp
    then obtain q where "?f = Some q" by auto
    from find_SomeD[OF this] show ?thesis by (intro bexI[of _ q]) simp_all
  qed
  show thesis by (rule that(2)[OF c t sn us _ _ _ bo]) (simp_all add: r n)
qed

lemma allowedRoles_LANDLORD: "r \<in> set (allowedRoles t) \<Longrightarrow> r = LANDLORD"
  by (auto simp: allowedRoles_def split: if_splits)

lemma checkout_settled: "settled_payment s p \<Longrightarrow> settled_payment (snd (checkout env api u dto now s)) p"
  by (cases rule: checkout_cases[of env api u dto now s]) (auto simp: settled_payment_def)

lemma checkout_inv:
  assumes "payments_inv s"
  shows "payments_inv (snd (checkout env api u dto now s))"
proof (cases rule: checkout_cases[of env api u dto now s])
  case (2 r t sn us)
  have b: "isBillablePaymentType t" using 2(2) by (simp add: billable_of_nameD)
  have c: "configs_ok s" using assms by (simp add: payments_inv_def)
  note sn = checkoutSnapshot_payable[OF 2(3) c b]
  have "payable (db_properties s) (new_payment (db_seq s) u (cr_providerOrderId r) t (cd_propertyId dto) sn now)"
    using sn b 2(9) by (force simp: payable_def new_payment_def owned_def)
  moreover have "cr_providerOrderId r \<notin> pt_providerOrderId ` set (db_payments s)"
    using 2(6) by (force simp: payment_of_def find_None_iff)
  moreover have "pt_providerOrderId (new_payment i u o' t pid sn now) = o'" for i o' pid
    by (simp add: new_payment_def)
  ultimately show ?thesis
    using assms 2(1) by (auto simp: payments_inv_def configs_ok_def)
qed (simp add: assms)

lemma reconcile_inv: "payments_inv s \<Longrightarrow> payments_inv (snd (reconcilePendingTransactions api now s))"
  unfolding reconcilePendingTransactions_def Let_def
  by (rule reconcile_each_inv) (blast intro: payments_inv_pending_write expire_boosts_pending_write)+

lemma reconcile_settled:
  "settled_payment s p \<Longrightarrow> settled_payment (snd (reconcilePendingTransactions api now s)) p"
  unfolding reconcilePendingTransactions_def Let_def
  by (rule reconcile_each_inv[where P = "\<lambda>s. settled_payment s p"])
    (blast intro: settled_pending_write expire_boosts_pending_write)+

lemma webhook_inv: "payments_inv s \<Longrightarrow> payments_inv (snd (handleWebhook hmac env h body now s))"
  using handleWebhook_pending_write payments_inv_pending_write by blast

lemma webhook_settled: "settled_payment s p \<Longrightarrow> settled_payment (snd (handleWebhook hmac env h body now s)) p"
  using handleWebhook_pending_write settled_pending_write by blast

section \<open>Runs of the service\<close>

text \<open>Any interleaving of the three operations, each at any time and with any answers from outside.\<close>

inductive payment_step :: "db \<Rightarrow> db \<Rightarrow> bool" where
  Checkout: "payment_step s (snd (checkout env api u dto now s))"
| Webhook: "payment_step s (snd (handleWebhook hmac env h body now s))"
| Reconcile: "payment_step s (snd (reconcilePendingTransactions api now s))"

inductive_cases payment_stepE: "payment_step s t"

interpretation payments: settled_machine payments_inv payment_step settled_payment
  by unfold_locales
    (auto elim!: payment_stepE intro: checkout_inv webhook_inv reconcile_inv
      checkout_settled webhook_settled reconcile_settled)

lemma payment_of_unique:
  "distinct (map pt_providerOrderId (db_payments s)) \<Longrightarrow> p \<in> set (db_payments s) \<Longrightarrow>
   payment_of ord s = Some p \<longleftrightarrow> pt_providerOrderId p = ord"
  unfolding payment_of_def using find_unique[of pt_providerOrderId "db_payments s" p]
  by (auto dest: find_SomeD)

section \<open>Properties\<close>

text \<open>C1: A settled payment is final: once a transaction is SUCCESS or FAILED, no sequence of
  checkouts, webhooks (genuine or forged, repeated or reordered) and reconciliation runs changes
  any column of its row, and the lookup by its order number keeps returning it. On the way, every
  payment that is still pending stays one that can be settled.\<close>

theorem settled_payment_final:
  assumes "payments_inv s" "payment_step\<^sup>*\<^sup>* s t"
    and "payment_of ord s = Some p" "pt_status p \<noteq> PAY_PENDING"
  shows "payment_of ord t = Some p \<and> payments_inv t"
proof -
  have t: "payments_inv t" by (rule payments.run_inv[OF assms(2,1)])
  have "settled_payment s p" "pt_providerOrderId p = ord"
    using assms(3,4) by (auto simp: settled_payment_def payment_of_def dest: find_SomeD)
  then have "settled_payment t p" using payments.settled_forever[OF assms(2,1)] by blast
  with t \<open>pt_providerOrderId p = ord\<close> show ?thesis
    by (simp add: payment_of_unique payments_inv_def settled_payment_def)
qed

text \<open>The call carries the provider's digest of its body under the configured key.\<close>

definition signed :: "(string \<Rightarrow> string \<Rightarrow> string) \<Rightarrow> paymob_env \<Rightarrow> string option \<Rightarrow> webhook_transaction option \<Rightarrow> bool" where
  "signed hmac env h body \<longleftrightarrow> (\<exists>secret obj. PAYMOB_HMAC_SECRET env = Some secret \<and> js_trim secret \<noteq> []
     \<and> body = Some obj \<and> hmac secret (hmacString obj) = js_str (js_or h (Some '''')))"

lemma signed_iff: "signed hmac env h body \<longleftrightarrow> (\<exists>r. processWebhook hmac env h body = Inr r \<and> wr_isValid r)"
  by (auto simp: signed_def processWebhook_def invalid_webhook_def Let_def split: option.splits)

lemma unsigned_rejected:
  "\<not> signed hmac env h body \<Longrightarrow> snd (handleWebhook hmac env h body now s) = s
     \<and> (\<exists>e. fst (handleWebhook hmac env h body now s) = Inl e)"
  using signed_iff[of hmac env h body] by (auto simp: handleWebhook_def split: sum.splits)

text \<open>Only the provider can move a payment: a webhook whose body does not carry the exact digest
  of its fields under the configured key is answered with an error and changes nothing, whatever
  it claims; without a configured key no webhook is accepted.\<close>

theorem unsigned_webhook_rejected:
  "if signed hmac env h body then \<exists>r. processWebhook hmac env h body = Inr r \<and> wr_isValid r
   else snd (handleWebhook hmac env h body now s) = s \<and> (\<exists>e. fst (handleWebhook hmac env h body now s) = Inl e)"
  using signed_iff[of hmac env h body] unsigned_rejected[of hmac env h body now s] by simp

text \<open>A forged digest of the right number of characters with a character outside ASCII is not
  answered with the 400 of an invalid signature: the constant-time comparison is reached with
  buffers of different lengths and throws, which the caller sees as a server error.\<close>

theorem forged_hmac_throws:
  assumes "PAYMOB_HMAC_SECRET env = Some secret" "js_trim secret \<noteq> []"
    and "\<forall>c \<in> set (hmac secret (hmacString obj)). (of_char c :: nat) < 128"
    and "length h = length (hmac secret (hmacString obj))" "\<exists>c \<in> set h. 128 \<le> (of_char c :: nat)"
  shows "handleWebhook hmac env (Some h) (Some obj) now s
    = (Inl (Internal ''ERR_CRYPTO_TIMING_SAFE_EQUAL_LENGTH''), s)"
proof -
  have "h \<noteq> []" using assms(5) by auto
  then have h: "js_str (js_or (Some h) (Some '''')) = h" by (cases h) simp_all
  have "filter (\<lambda>c. 128 \<le> (of_char c :: nat)) h \<noteq> []" using assms(5) by (simp add: filter_empty_conv not_less)
  then have "length h < utf8_length h" using utf8_length_ge[of h]
    by (metis add_diff_cancel_left' length_greater_0_conv less_add_same_cancel1)
  then have "utf8_length (hmac secret (hmacString obj)) \<noteq> utf8_length h"
    using utf8_length_ascii[OF assms(3)] assms(4) by simp
  then show ?thesis
    using assms(1,2,4) h by (simp add: handleWebhook_def processWebhook_def)
qed

text \<open>A final, signed webhook for a known order, on both of its branches.\<close>

lemma signed_result:
  assumes "signed hmac env h (Some obj)"
  obtains r where "processWebhook hmac env h (Some obj) = Inr r" "wr_isValid r"
    "wr_success r \<longleftrightarrow> wt_success obj \<and> \<not> wt_pending obj" "wr_isFinal r \<longleftrightarrow> \<not> wt_pending obj"
    "wr_providerOrderId r = Some (order_id obj)" "wr_amountCents r = Some (wt_amount_cents obj)"
    "wr_currency r = Some (wt_currency obj)" "wr_transactionId r = js_num (wt_id obj)"
proof -
  from assms obtain r where r: "processWebhook hmac env h (Some obj) = Inr r" "wr_isValid r"
    by (auto simp: signed_iff)
  show thesis by (rule processWebhook_valid[OF r]) (rule that[OF r]; simp)
qed

lemma js_or_not_Nil: "x \<noteq> [] \<Longrightarrow> js_or (Some x) b = Some x"
  by (cases x) simp_all

lemma webhook_success:
  assumes "signed hmac env h (Some obj)" "wt_success obj" "\<not> wt_pending obj" "payment_of (order_id obj) s = Some p"
  shows "handleWebhook hmac env h (Some obj) now s =
    processSuccessfulPayment (pt_userId p) (payment_type_name (pt_paymentType p)) (js_num (wt_id obj))
      (Some (order_id obj)) (Some (wt_amount_cents obj)) (Some (wt_currency obj)) now s"
proof (cases rule: signed_result[OF assms(1)])
  case (1 r)
  with assms(2-4) show ?thesis by (simp add: handleWebhook_def js_or_not_Nil Let_def)
qed

lemma update_pending_none:
  assumes "distinct (map pt_providerOrderId (db_payments s))" "payment_of ord s = Some p" "pt_status p \<noteq> PAY_PENDING"
  shows "update_pending ord f s = s"
    "count_where (\<lambda>p. pt_providerOrderId p = ord \<and> pt_status p = PAY_PENDING) (db_payments s) = 0"
proof -
  have n: "\<not> (pt_providerOrderId q = ord \<and> pt_status q = PAY_PENDING)" if "q \<in> set (db_payments s)" for q
    using payment_of_unique[OF assms(1) that, of ord] assms(2,3) by auto
  then have "update_where (\<lambda>p. pt_providerOrderId p = ord \<and> pt_status p = PAY_PENDING) f (db_payments s) = db_payments s"
    by (auto intro: update_where_idem)
  then show "update_pending ord f s = s" by (simp add: update_pending_def)
  show "count_where (\<lambda>p. pt_providerOrderId p = ord \<and> pt_status p = PAY_PENDING) (db_payments s) = 0"
    using n by (auto simp: count_where_zero_iff)
qed

lemma process_settled_noop:
  assumes "payment_of ord s = Some p" "pt_status p \<noteq> PAY_PENDING" "ord \<noteq> []"
  shows "processSuccessfulPayment u y tid (Some ord) a c now s = (Inr (), s)"
  using assms by (simp add: processSuccessfulPayment_def js_or_not_Nil settle_def)

text \<open>A repeated webhook changes nothing: once the payment of an order is settled, every further
  webhook for the order, the same or another, successful, failed or still pending, genuine or
  not, leaves the whole state as it is, so no entitlement is granted twice.\<close>

theorem webhook_idempotent:
  assumes "payments_inv s" "payment_of (order_id obj) s = Some p" "pt_status p \<noteq> PAY_PENDING"
  shows "snd (handleWebhook hmac env h (Some obj) now s) = s"
proof (cases "signed hmac env h (Some obj)")
  case False
  then show ?thesis using unsigned_rejected[of hmac env h "Some obj" now s] by simp
next
  case True
  have d: "distinct (map pt_providerOrderId (db_payments s))" using assms(1) by (simp add: payments_inv_def)
  note n = update_pending_none[OF d assms(2,3)]
  show ?thesis
  proof (cases "wt_success obj \<and> \<not> wt_pending obj")
    case True2: True
    then show ?thesis
      using webhook_success[OF True _ _ assms(2)] process_settled_noop[OF assms(2,3)] by simp
  next
    case False
    show ?thesis
      by (cases rule: signed_result[OF True])
        (use False assms(2) n in \<open>simp add: handleWebhook_def js_or_not_Nil Let_def\<close>)
  qed
qed

text \<open>A wrong amount or currency buys nothing: a genuine success webhook for a pending payment
  whose cents or trimmed, upper-cased currency differ from the row's fails the payment, and that
  write is the only change of the whole state.\<close>

theorem mismatch_fails_payment:
  assumes "signed hmac env h (Some obj)" "wt_success obj" "\<not> wt_pending obj"
    and "payment_of (order_id obj) s = Some p" "pt_status p = PAY_PENDING"
    and "wt_amount_cents obj \<noteq> js_round (pt_amount p * 100) \<or> js_upper (js_trim (wt_currency obj)) \<noteq> pt_currency p"
  shows "handleWebhook hmac env h (Some obj) now s
    = (Inr (), update_pending (order_id obj) (mark_failed (js_num (wt_id obj))) s)"
proof -
  have "amount_mismatch p (Some (wt_amount_cents obj)) (Some (wt_currency obj))"
    using assms(6) by (auto simp: amount_mismatch_def)
  then show ?thesis
    unfolding webhook_success[OF assms(1-4)]
    using assms(4,5) by (simp add: processSuccessfulPayment_def js_or_not_Nil transaction_def settle_def)
qed

text \<open>A paid legacy order of a type outside the compatibility table becomes SUCCESS, nothing is
  granted for it and the payer is not told: the status is the only change of the state.\<close>

theorem legacy_payment_without_value:
  assumes "payment_of ord s = Some p" "pt_status p = PAY_PENDING" "ord \<noteq> []" "\<not> amount_mismatch p a c"
    and "pt_paymentType p \<in> {DOCS_PACK, LEGACY_OWNER_PLUS, LEGACY_NEW_LISTING, LEGACY_BOOST_LISTING,
           LEGACY_REFILL_MATCHES, LEGACY_OFFER_PACK}"
  shows "processSuccessfulPayment (pt_userId p) (payment_type_name (pt_paymentType p)) tid (Some ord) a c now s
    = (Inr (), update_pending ord (mark_success tid now) s)"
proof -
  have "catalogPaymentType (payment_type_name (pt_paymentType p)) = None"
    using assms(5) by (auto simp: catalogPaymentType_def billable_of_name_iff isBillable_iff
        SETTLEMENT_COMPATIBILITY_def split: option.splits)
  then show ?thesis
    using assms(1-4) claimed_pos[OF assms(1,2)]
    by (simp add: processSuccessfulPayment_def js_or_not_Nil settle_def Let_def)
qed

subsection \<open>Fulfilment\<close>

lemma payment_of_update_pending:
  assumes "distinct (map pt_providerOrderId (db_payments s))" "payment_of ord s = Some p" "pt_status p = PAY_PENDING"
    and "\<And>q. pt_providerOrderId (f q) = pt_providerOrderId q"
  shows "payment_of ord (update_pending ord f s) = Some (f p)"
proof -
  have p: "p \<in> set (db_payments s)" "pt_providerOrderId p = ord"
    using assms(2) by (auto simp: payment_of_def dest: find_SomeD)
  have d: "distinct (map pt_providerOrderId (db_payments (update_pending ord f s)))"
    using assms(1,4) by (simp add: update_pending_def map_update_where)
  have "f p \<in> set (db_payments (update_pending ord f s))"
    using p assms(3) by (force simp: update_pending_def set_update_where)
  from payment_of_unique[OF d this] p(2) assms(4) show ?thesis by simp
qed

lemma owned_count:
  assumes "distinct (map p_id ps)" "owned pid u ps"
  shows "count_where (\<lambda>q. p_id q = pid \<and> p_ownerId q = u) ps = 1"
proof -
  from assms(2) obtain q where q: "q \<in> set ps" "p_id q = pid" "p_ownerId q = u" by (auto simp: owned_def)
  have "count_where (\<lambda>q. p_id q = pid \<and> p_ownerId q = u) ps \<noteq> 0"
    using q by (auto simp: count_where_zero_iff)
  moreover have "count_where (\<lambda>q. p_id q = pid \<and> p_ownerId q = u) ps \<le> 1"
    by (rule count_where_unique[OF assms(1)]) simp
  moreover have "0 \<le> count_where (\<lambda>q. p_id q = pid \<and> p_ownerId q = u) ps" by simp
  ultimately show ?thesis by linarith
qed

lemma parseSnapshot_payable:
  assumes "payable ps p"
  obtains sn where "parseSnapshot (pt_catalogSnapshot p) = Some sn" "settleable (cs_product sn)"
    "rp_kind (cs_product sn) = rp_kind (defaultProduct (pt_paymentType p))"
    "rp_planType (cs_product sn) = rp_planType (defaultProduct (pt_paymentType p))"
    "isBillablePaymentType (pt_paymentType p)"
    "rp_kind (cs_product sn) = BOOST \<Longrightarrow> \<exists>pid. pt_targetPropertyId p = Some pid \<and> owned pid (pt_userId p) ps"
  using assms by (auto simp: payable_def parseSnapshot_def)

lemma interval_of_subscription: "settleable pr \<Longrightarrow> rp_kind pr = SUBSCRIPTION \<Longrightarrow>
    \<exists>i pl. interval_of (rp_billing pr) = Some i \<and> rp_planType pr = Some pl \<and> pl \<noteq> FREE"
  by (cases "rp_billing pr") (auto simp: settleable_def)

lemma settle_subscription_returns:
  assumes "interval_of (rp_billing (cs_product sn)) = Some i" "rp_planType (cs_product sn) = Some pl"
  shows "fst (settle_subscription u sn now s) = Inr True"
  by (simp add: settle_subscription_def assms Let_def split: option.splits)

lemma settle_entitlement_returns:
  assumes "rp_entitlementType pr = Some ty" "truthy (rp_validityDays pr)" "truthy (rp_quantity pr)"
  shows "settle_entitlement u y p pr now s = (Inr True, s\<lparr>db_seq := db_seq s + 1, db_grants := db_grants s @
      [new_grant (db_seq s) u p ty y (if y = ''SINGLE_OFFER'' then 1 else the (rp_quantity pr)) now
         (addDays now (the (rp_validityDays pr)))]\<rparr>)"
  using assms by (simp add: settle_entitlement_def)

lemma settle_boost_returns:
  assumes "pt_targetPropertyId p = Some pid" "rp_durationDays pr = Some days" "owned pid u (db_properties s)"
    "distinct (map p_id (db_properties s))"
  shows "fst (settle_boost u y p pr now s) = Inr True"
    "db_campaigns (snd (settle_boost u y p pr now s)) = db_campaigns s @
       [new_campaign (db_seq s) pid u (Some (pt_id p)) y days (boost_start pid now s) now]"
  using owned_count[OF assms(4,3)] assms(1,2) by (simp_all add: settle_boost_def Let_def)

lemma name_not_single_offer: "isBillablePaymentType t \<Longrightarrow> payment_type_name t \<noteq> ''SINGLE_OFFER''"
  by (cases t) (simp_all add: isBillablePaymentType_def BILLABLE_PAYMENT_TYPES_def)

text \<open>What the payer of \<open>p\<close> gets from a settlement, per kind of product.\<close>

definition delivered :: "payment_transaction \<Rightarrow> resolved_product \<Rightarrow> time \<Rightarrow> db \<Rightarrow> db \<Rightarrow> bool" where
  "delivered p product now s s' \<longleftrightarrow> (case rp_kind product of
     SUBSCRIPTION \<Rightarrow> \<exists>q. quota_of (pt_userId p) s' = Some q
   | ENTITLEMENT \<Rightarrow> \<exists>g. db_grants s' = db_grants s @ [g] \<and> g_userId g = pt_userId p
        \<and> g_paymentTransactionId g = Some (pt_id p) \<and> Some (g_type g) = rp_entitlementType product
        \<and> Some (g_remainingQuantity g) = rp_quantity product \<and> g_startsAt g = now
        \<and> g_expiresAt g = now + the (rp_validityDays product) * day_ms
   | BOOST \<Rightarrow> \<exists>b. db_campaigns s' = db_campaigns s @ [b] \<and> Some (bc_propertyId b) = pt_targetPropertyId p
        \<and> bc_paymentTransactionId b = Some (pt_id p) \<and> now \<le> bc_startsAt b
        \<and> bc_endsAt b = bc_startsAt b + the (rp_durationDays product) * day_ms)"

lemma deliver_subscription:
  assumes "settleable (cs_product sn)" "rp_kind (cs_product sn) = SUBSCRIPTION"
  shows "\<exists>s'. settle_subscription (pt_userId p) sn now s = (Inr True, s') \<and> delivered p (cs_product sn) now s s'"
proof -
  from interval_of_subscription[OF assms] obtain i pl where
    ip: "interval_of (rp_billing (cs_product sn)) = Some i" "rp_planType (cs_product sn) = Some pl" by blast
  obtain s' where s': "settle_subscription (pt_userId p) sn now s = (Inr True, s')"
    using settle_subscription_returns[OF ip, of "pt_userId p" now s]
    by (cases "settle_subscription (pt_userId p) sn now s") auto
  moreover have "\<exists>q. quota_of (pt_userId p) s' = Some q"
    using s' ip by (auto simp: settle_subscription_def Let_def quota_of_update_quota quota_of_fresh
        start_plan_def blank_quota_def pend_plan_def extend_plan_def currentIsActive_def split: option.splits if_splits)
  ultimately show ?thesis using assms(2) by (simp add: delivered_def)
qed

lemma deliver_entitlement:
  assumes "settleable product" "rp_kind product = ENTITLEMENT" "y \<noteq> ''SINGLE_OFFER''"
  shows "\<exists>s'. settle_entitlement (pt_userId p) y p product now s = (Inr True, s') \<and> delivered p product now s s'"
proof -
  from assms(1,2) obtain ty where e: "rp_entitlementType product = Some ty" "truthy (rp_validityDays product)"
    "truthy (rp_quantity product)" by (auto simp: settleable_def)
  from e(3) obtain n where n: "rp_quantity product = Some n" by (cases "rp_quantity product") auto
  show ?thesis
    using assms(2,3) e(1) n by (simp add: settle_entitlement_returns[OF e] new_grant_def addDays_def delivered_def)
qed

lemma deliver_boost:
  assumes "settleable product" "rp_kind product = BOOST" "pt_targetPropertyId p = Some pid"
    "owned pid (pt_userId p) (db_properties s)" "distinct (map p_id (db_properties s))"
  shows "\<exists>s'. settle_boost (pt_userId p) y p product now s = (Inr True, s') \<and> delivered p product now s s'"
proof -
  from assms(1,2) obtain days where days: "rp_durationDays product = Some days"
    by (cases "rp_durationDays product") (auto simp: settleable_def)
  note bo = settle_boost_returns[OF assms(3) days assms(4,5), of y now]
  obtain s' where s': "settle_boost (pt_userId p) y p product now s = (Inr True, s')"
    using bo(1) by (cases "settle_boost (pt_userId p) y p product now s") auto
  with bo(2) assms(2,3) days boost_start_ge[of now pid s] show ?thesis
    by (auto simp: delivered_def new_campaign_def addDays_def)
qed

lemma delivered_cong:
  "db_grants s = db_grants t \<Longrightarrow> db_campaigns s = db_campaigns t \<Longrightarrow> delivered p pr now s s' = delivered p pr now t s'"
  "delivered p pr now s (emit e s') = delivered p pr now s s'"
  by (simp_all add: delivered_def quota_of_def split: product_kind.splits)


subsection \<open>Subscriptions\<close>

lemma durationEnd_later: "start + 28 * day_ms \<le> durationEnd i start"
  using next_month_bounds[of start] next_year_bounds[of start]
  by (cases i) (simp_all add: durationEnd_def day_ms_def)


text \<open>A paid downgrade is lost when the running plan is then renewed: after a lower plan was
  bought and queued, renewing the running plan for an interval at least as long leaves the queued
  plan with dates that have passed when the running one ends, so at no time is it activated; the
  next period reset after that end makes the owner FREE although the lower plan was paid for.\<close>

theorem queued_plan_lost_after_renewal:
  assumes "quota_of u s = Some q" "uq_planType q = PREMIUM" "uq_planExpiresAt q = Some e" "now < e"
    and "interval_of (rp_billing (cs_product low)) = Some i" "rp_planType (cs_product low) = Some OWNER_PLUS"
    and "interval_of (rp_billing (cs_product same)) = Some j" "rp_planType (cs_product same) = Some PREMIUM"
    and "durationEnd i e \<le> durationEnd j e"
  shows "\<exists>s1 s2 q2. settle_subscription u low now s = (Inr True, s1)
    \<and> settle_subscription u same now s1 = (Inr True, s2)
    \<and> quota_of u s2 = Some q2 \<and> uq_pendingPlanType q2 = Some OWNER_PLUS
    \<and> (\<forall>t. \<not> activatePendingPlan q2 t \<and> (durationEnd j e \<le> t \<longrightarrow>
         uq_planType (fst (ensureCurrentPeriod u t s2)) = FREE))"
proof -
  define s1 where "s1 = update_quota u (pend_plan OWNER_PLUS i) s"
  define s2 where "s2 = update_quota u (extend_plan j) s1"
  define q2 where "q2 = extend_plan j (pend_plan OWNER_PLUS i q)"
  have q1: "quota_of u s1 = Some (pend_plan OWNER_PLUS i q)"
    using assms(1) by (simp add: s1_def quota_of_update_quota pend_plan_def)
  have q2: "quota_of u s2 = Some q2"
    using q1 by (simp add: s2_def q2_def quota_of_update_quota extend_plan_def)
  have f: "uq_planType q2 = PREMIUM" "uq_planExpiresAt q2 = Some (durationEnd j e)" "uq_pendingPlanType q2 = Some OWNER_PLUS"
    "uq_pendingPlanExpiresAt q2 = Some (durationEnd i e)"
    by (simp_all add: q2_def extend_plan_def pend_plan_def assms(2,3))
  have na: "\<not> activatePendingPlan q2 t" for t
    using assms(9) by (auto simp: activatePendingPlan_def planExpired_def passed_def f)
  have "uq_planType (fst (ensureCurrentPeriod u t s2)) = FREE" if "durationEnd j e \<le> t" for t
  proof -
    have "planExpired q2 t" using that f by (simp add: planExpired_def passed_def)
    then show ?thesis
      using na[of t] q2 by (simp add: ensureCurrentPeriod_def needs_reset_def reset_quota_def effectivePlan_def Let_def)
  qed
  moreover have "settle_subscription u low now s = (Inr True, s1)"
    using assms(1-6) by (simp add: settle_subscription_def currentIsActive_def currentRank_def s1_def)
  moreover have "settle_subscription u same now s1 = (Inr True, s2)"
    using assms(2-4,7,8) q1 by (simp add: settle_subscription_def currentIsActive_def currentRank_def s2_def pend_plan_def)
  ultimately show ?thesis using q2 f(3) na by blast
qed

subsection \<open>Boosts\<close>

lemma settle_boost_stacked:
  "campaigns_stacked (db_campaigns s) \<Longrightarrow> campaigns_stacked (db_campaigns (snd (settle_boost u y p pr now s)))"
proof -
  assume c: "campaigns_stacked (db_campaigns s)"
  have b: "boost_start pid now (s\<lparr>db_properties := ps\<rparr>) = boost_start pid now s" for pid ps
    by (rule boost_start_cong) simp
  show ?thesis
    using c campaigns_stacked_snoc[OF c] by (auto simp: settle_boost_def Let_def split: option.splits)
qed

lemma transaction_stacked:
  assumes "campaigns_stacked (db_campaigns s)"
  shows "campaigns_stacked (db_campaigns (snd (transaction (settle u y tid ord a c now) s)))"
proof (rule transaction_invariant[where I = "\<lambda>s. campaigns_stacked (db_campaigns s)"])
  fix x s' assume "settle u y tid ord a c now s = (Inr x, s')"
  then show "campaigns_stacked (db_campaigns s')"
  proof (cases rule: settle_cases)
    case (applied p t sn)
    let ?s = "update_pending ord (mark_success tid now) s"
    have c: "campaigns_stacked (db_campaigns ?s)" using assms by simp
    from applied(6) consider "s' = snd (settle_subscription u sn now ?s)"
      | "s' = snd (settle_entitlement u y p (cs_product sn) now ?s)"
      | "s' = snd (settle_boost u y p (cs_product sn) now ?s)"
      by (cases "rp_kind (cs_product sn)"; simp) (metis snd_conv)+
    then show ?thesis by cases (use c settle_boost_stacked[OF c] in simp_all)
  qed (use assms in simp_all)
qed (rule assms)

lemma process_stacked:
  "campaigns_stacked (db_campaigns s) \<Longrightarrow>
   campaigns_stacked (db_campaigns (snd (processSuccessfulPayment u y tid o' a c now s)))"
  by (cases rule: process_cases[of u y tid o' a c now s]) (use transaction_stacked in \<open>auto, metis snd_conv\<close>)

lemma reconcile_each_stacked:
  "campaigns_stacked (db_campaigns s) \<Longrightarrow> campaigns_stacked (db_campaigns (snd (reconcile_each api now ps s)))"
proof (induction ps arbitrary: s)
  case (Cons p ps)
  obtain b tid where st: "checkTransactionStatus api (pt_providerOrderId p) = (b, tid)" by fastforce
  obtain r s' where pr: "processSuccessfulPayment (pt_userId p) (payment_type_name (pt_paymentType p)) (the tid)
       (Some (pt_providerOrderId p)) None None now s = (r, s')" by fastforce
  have "campaigns_stacked (db_campaigns s')" using process_stacked[OF Cons.prems] pr by (metis snd_conv)
  then show ?case
    unfolding reconcile_each_Cons st pr Let_def prod.case by (cases r) (simp_all add: Cons.IH Cons.prems)
qed simp

lemma expire_boosts_stacked:
  assumes "campaigns_stacked (db_campaigns s)"
  shows "campaigns_stacked (db_campaigns (expire_boosts now s))"
proof -
  have "campaigns_stacked (update_where (\<lambda>c. live_campaign c \<and> bc_endsAt c \<le> now) (\<lambda>c. c\<lparr>bc_status := EXPIRED\<rparr>) (db_campaigns s))"
    by (rule campaigns_stacked_update[OF assms]) (simp_all add: live_campaign_def)
  then show ?thesis
    unfolding expire_boosts_def by simp (rule campaigns_stacked_update; simp add: live_campaign_def)
qed

lemma handleWebhook_stacked:
  assumes "campaigns_stacked (db_campaigns s)"
  shows "campaigns_stacked (db_campaigns (snd (handleWebhook hmac env h body now s)))"
  using assms process_stacked[OF assms]
  by (auto simp: handleWebhook_def Let_def split: sum.splits option.splits)

text \<open>C4: However payments arrive, paid boosts queue up: along every run of checkouts, webhooks and
  reconciliations, which also expire and start campaigns, any two live campaigns of one listing
  stay disjoint in time.\<close>

theorem paid_boosts_stacked:
  assumes "payment_step\<^sup>*\<^sup>* s t" "campaigns_stacked (db_campaigns s)"
  shows "campaigns_stacked (db_campaigns t)"
  using assms
proof (induction rule: rtranclp_induct)
  case (step t t')
  have "campaigns_stacked (db_campaigns (snd (checkout env api u dto now t)))" for env api u dto now
    using step by (cases rule: checkout_cases[of env api u dto now t]) simp_all
  moreover have "campaigns_stacked (db_campaigns (snd (reconcilePendingTransactions api now t)))" for api now
    unfolding reconcilePendingTransactions_def Let_def
    using step by (intro reconcile_each_stacked expire_boosts_stacked) simp
  ultimately show ?case using step handleWebhook_stacked by (auto elim!: payment_stepE)
qed

subsection \<open>Checkout\<close>

text \<open>A checkout that fails writes nothing. One that returns was made by a landlord, for an enabled
  product of the catalog and, for a boost, an approved listing of the caller; it appends one
  PENDING transaction in the caller's name with a new order number and the price it announced,
  which equals the price in the stored snapshot.\<close>

theorem checkout_records_price:
  "case checkout env api u dto now s of
     (Inl e, s') \<Rightarrow> s' = s
   | (Inr r, s') \<Rightarrow> \<exists>p sn us. db_payments s' = db_payments s @ [p] \<and> payment_of (cr_providerOrderId r) s = None
       \<and> pt_userId p = u \<and> pt_status p = PAY_PENDING \<and> pt_providerOrderId p = cr_providerOrderId r
       \<and> pt_amount p = real_of_int (cr_amount r) \<and> pt_catalogSnapshot p = Some sn
       \<and> rp_priceEgp (cs_product sn) = cr_amount r \<and> rp_enabled (cs_product sn)
       \<and> isBillablePaymentType (pt_paymentType p) \<and> pt_paymentType p = cr_paymentType r
       \<and> us \<in> set (db_users s) \<and> u_id us = u \<and> u_role us = LANDLORD
       \<and> (rp_kind (cs_product sn) = BOOST \<longrightarrow> (\<exists>q \<in> set (db_properties s).
            pt_targetPropertyId p = Some (p_id q) \<and> p_ownerId q = u \<and> p_status q = P_APPROVED))"
proof (cases rule: checkout_cases[of env api u dto now s])
  case (2 r t sn us)
  have "rp_enabled (cs_product sn)"
    using 2(3) by (auto simp: checkoutSnapshot_def snapshot_of_def Let_def split: if_splits)
  moreover have "us \<in> set (db_users s) \<and> u_id us = u" using 2(4) by (auto dest: find_SomeD)
  ultimately show ?thesis
    unfolding 2(1) using 2 allowedRoles_LANDLORD[OF 2(5)] by (auto simp: new_payment_def dest: billable_of_nameD)
qed simp

section \<open>Witnesses\<close>

definition webhook_example :: webhook_transaction where
  "webhook_example = \<lparr>wt_amount_cents = 7900, wt_created_at = ''2026-07-01'', wt_currency = ''EGP'',
     wt_error_occured = False, wt_has_parent_transaction = False, wt_id = 11, wt_integration_id = 3,
     wt_is_3d_secure = True, wt_is_auth = False, wt_is_capture = False, wt_is_refunded = False,
     wt_is_standalone_payment = True, wt_is_voided = False,
     wt_order = Some \<lparr>wo_id = 1, wo_data = None\<rparr>, wt_owner = 2, wt_pending = False,
     wt_source_data = None, wt_success = True, wt_extra = None\<rparr>"

definition env_example :: paymob_env where
  "env_example = \<lparr>PAYMOB_BASE_URL = None, PAYMOB_SECRET_KEY = Some ''sk'', PAYMOB_PUBLIC_KEY = Some ''pk'',
     PAYMOB_HMAC_SECRET = Some ''hk'', PAYMOB_WALLET_INTEGRATION_ID = None, PAYMOB_INTEGRATION_ID_WALLET = None,
     PAYMOB_INTEGRATION_ID_CARD = Some ''9'', PAYMOB_INTEGRATION_ID = None, PAYMOB_IFRAME_ID = None,
     PAYMOB_WALLET_IFRAME_ID = None\<rparr>"

definition api_example :: paymob_api where
  "api_example = \<lparr>api_intention = (\<lambda>r. Some (''i-1'', ''cs'')), api_auth_token = Some ''t'',
     api_order = (\<lambda>t c. Some 1), api_payment_key = (\<lambda>r. Some ''key''),
     api_wallet_pay = (\<lambda>t p. None), api_transactions = (\<lambda>o' t. Some [])\<rparr>"

text \<open>A stand-in for the digest: key and message side by side.\<close>

definition hmac_example :: "string \<Rightarrow> string \<Rightarrow> string" where
  "hmac_example key msg = key @ msg"

definition signature_example :: "string option" where
  "signature_example = Some (hmac_example ''hk'' (hmacString webhook_example))"

definition payment_example :: payment_transaction where
  "payment_example = new_payment 5 7 (order_id webhook_example) BOOST_7D (Some 4) (snapshot_of BOOST_7D boost_db) 0"

definition payment_db :: db where
  "payment_db = boost_db\<lparr>db_payments := [payment_example]\<rparr>"

definition paid_db :: db where
  "paid_db = boost_db\<lparr>db_payments := [mark_success ''t1'' 50 payment_example]\<rparr>"

lemma signed_example: "signed hmac_example env_example signature_example (Some webhook_example)"
  by (simp add: signed_def signature_example_def hmac_example_def env_example_def js_trim_def js_space_def)

lemma boost_product: "getProduct BOOST_7D boost_db = sold 79 ONE_TIME BOOST None None None None (Some 7) BOOST_7D"
  by (simp add: getProduct_def boost_db_def quota_db_defs defaultProduct_def)

lemma payment_example_simps [simp]:
  "pt_providerOrderId payment_example = order_id webhook_example" "pt_status payment_example = PAY_PENDING"
  "pt_userId payment_example = 7" "pt_paymentType payment_example = BOOST_7D" "pt_amount payment_example = 79"
  "pt_currency payment_example = ''EGP''" "pt_targetPropertyId payment_example = Some 4"
  by (simp_all add: payment_example_def new_payment_def snapshot_of_def Let_def boost_product sold_def)

lemma boost_db_owned: "owned 4 7 (db_properties boost_db)"
  by (simp add: owned_def boost_db_def property_example_def)

lemma payment_example_payable: "payable (db_properties boost_db) payment_example"
  unfolding payable_def
  by (rule exI[of _ "snapshot_of BOOST_7D boost_db"])
    (simp add: payment_example_def new_payment_def snapshot_of_def Let_def boost_product sold_def
      isBillable_iff defaultProduct_def settleable_def boost_db_owned)

lemma payment_db_inv: "payments_inv payment_db" "payments_inv paid_db"
proof -
  have d: "distinct (map p_id (db_properties boost_db))" "configs_ok boost_db"
    by (simp_all add: boost_db_def configs_ok_def quota_db_defs)
  then show "payments_inv payment_db" "payments_inv paid_db"
    using payment_example_payable
    by (simp_all add: payments_inv_def payment_db_def paid_db_def configs_ok_def)
qed

lemma payment_db_row: "payment_of (order_id webhook_example) payment_db = Some payment_example"
  "payment_of (order_id webhook_example) paid_db = Some (mark_success ''t1'' 50 payment_example)"
  by (simp_all add: payment_of_def payment_db_def paid_db_def)

theorem settled_payment_final_witness:
  "payment_of (order_id webhook_example)
     (snd (handleWebhook hmac_example env_example signature_example (Some webhook_example) 60 paid_db))
   = Some (mark_success ''t1'' 50 payment_example)"
  using settled_payment_final[OF payment_db_inv(2) r_into_rtranclp[of payment_step, OF Webhook] payment_db_row(2)] by simp

theorem webhook_idempotent_witness:
  "snd (handleWebhook hmac_example env_example signature_example (Some webhook_example) 60 paid_db) = paid_db"
  using webhook_idempotent[OF payment_db_inv(2) payment_db_row(2)] by simp

theorem forged_hmac_throws_witness:
  "handleWebhook (\<lambda>k m. ''0f'') env_example (Some (replicate 2 (char_of (233::nat)))) (Some webhook_example) 60 payment_db
   = (Inl (Internal ''ERR_CRYPTO_TIMING_SAFE_EQUAL_LENGTH''), payment_db)"
  by (rule forged_hmac_throws[of env_example "''hk''"]) (simp_all add: env_example_def js_trim_def js_space_def)

theorem mismatch_fails_payment_witness:
  "handleWebhook (\<lambda>k m. k) env_example (Some ''hk'') (Some (webhook_example\<lparr>wt_amount_cents := 100\<rparr>)) 60 payment_db
   = (Inr (), update_pending (order_id webhook_example) (mark_failed (js_num 11)) payment_db)"
proof -
  have oid: "order_id (webhook_example\<lparr>wt_amount_cents := 100\<rparr>) = order_id webhook_example"
    by (simp add: order_id_def webhook_example_def)
  have "signed (\<lambda>k m. k) env_example (Some ''hk'') (Some (webhook_example\<lparr>wt_amount_cents := 100\<rparr>))"
    by (simp add: signed_def env_example_def js_trim_def js_space_def)
  moreover have "js_round (pt_amount payment_example * 100) = 7900"
    using js_round_of_int[of 7900] by simp
  ultimately show ?thesis
    using mismatch_fails_payment[of "\<lambda>k m. k" env_example "Some ''hk''" "webhook_example\<lparr>wt_amount_cents := 100\<rparr>" payment_db payment_example 60]
      payment_db_row(1) unfolding oid by (simp add: webhook_example_def)
qed

theorem legacy_payment_without_value_witness:
  "\<exists>p. pt_paymentType p = DOCS_PACK \<and> processSuccessfulPayment 7 ''DOCS_PACK'' ''t'' (Some ''o'') None None 60 (empty_db\<lparr>db_payments := [p]\<rparr>)
     = (Inr (), update_pending ''o'' (mark_success ''t'' 60) (empty_db\<lparr>db_payments := [p]\<rparr>))"
proof -
  let ?p = "payment_example\<lparr>pt_providerOrderId := ''o'', pt_paymentType := DOCS_PACK\<rparr>"
  let ?s = "empty_db\<lparr>db_payments := [?p]\<rparr>"
  have "payment_of ''o'' ?s = Some ?p" by (simp add: payment_of_def)
  from legacy_payment_without_value[OF this, of None None "''t''" 60] show ?thesis
    by (intro exI[of _ ?p]) (simp add: amount_mismatch_def)
qed


lemma catalog_example: "getProduct OWNER_PLUS_MONTHLY quota_db = defaultProduct OWNER_PLUS_MONTHLY"
  "getProduct PREMIUM_MONTHLY quota_db = defaultProduct PREMIUM_MONTHLY"
  by (simp_all add: getProduct_def quota_db_defs)

lemma snapshot_example:
  "interval_of (rp_billing (cs_product (snapshot_of OWNER_PLUS_MONTHLY quota_db))) = Some MONTHLY"
  "rp_planType (cs_product (snapshot_of OWNER_PLUS_MONTHLY quota_db)) = Some OWNER_PLUS"
  "interval_of (rp_billing (cs_product (snapshot_of PREMIUM_MONTHLY quota_db))) = Some MONTHLY"
  "rp_planType (cs_product (snapshot_of PREMIUM_MONTHLY quota_db)) = Some PREMIUM"
  "cs_planAllowances (snapshot_of OWNER_PLUS_MONTHLY quota_db) = Some (getPlanAllowances OWNER_PLUS quota_db)"
  by (simp_all add: snapshot_of_def Let_def catalog_example defaultProduct_def sold_def)


definition premium_db :: db where
  "premium_db = empty_db\<lparr>db_userQuotas := [quota_example\<lparr>uq_planType := PREMIUM\<rparr>]\<rparr>"

theorem queued_plan_lost_after_renewal_witness:
  "\<exists>s1 s2. settle_subscription 7 (snapshot_of OWNER_PLUS_MONTHLY quota_db) 100 premium_db = (Inr True, s1)
     \<and> settle_subscription 7 (snapshot_of PREMIUM_MONTHLY quota_db) 100 s1 = (Inr True, s2)
     \<and> uq_planType (fst (ensureCurrentPeriod 7 (durationEnd MONTHLY 9000) s2)) = FREE"
proof -
  have q: "quota_of 7 premium_db = Some (quota_example\<lparr>uq_planType := PREMIUM\<rparr>)"
    by (simp add: quota_of_def premium_db_def quota_example_def)
  show ?thesis
    using queued_plan_lost_after_renewal[OF q _ _ _ snapshot_example(1,2,3,4), of 9000 100]
    by (auto simp: quota_example_def)
qed

theorem paid_boosts_stacked_witness:
  "campaigns_stacked (db_campaigns
     (snd (handleWebhook hmac_example env_example signature_example (Some webhook_example) 60 payment_db)))"
proof -
  have "campaigns_stacked (db_campaigns payment_db)"
    by (simp add: campaigns_stacked_def payment_db_def boost_db_def quota_db_defs)
  from paid_boosts_stacked[OF r_into_rtranclp[of payment_step, OF Webhook] this] show ?thesis .
qed

definition landlord_example :: user where
  "landlord_example = new_user 7 ''Mona'' ''m@x.eg'' '''' ''h'' LANDLORD 0"

definition landlord_db :: db where
  "landlord_db = empty_db\<lparr>db_users := [landlord_example]\<rparr>"

lemma landlord_db_simps:
  "find (\<lambda>u. u_id u = 7) (db_users landlord_db) = Some landlord_example" "payment_of ord landlord_db = None"
  "getProduct OFFERS_10_60D landlord_db = defaultProduct OFFERS_10_60D" "db_payments landlord_db = []"
  by (simp_all add: landlord_db_def landlord_example_def new_user_def payment_of_def getProduct_def empty_db_def)

theorem checkout_records_price_witness:
  "\<exists>p. db_payments (snd (checkout env_example api_example 7
         \<lparr>cd_paymentType = ''OFFERS_10_60D'', cd_propertyId = None, cd_method = None, cd_walletPhone = None\<rparr> 60
         landlord_db)) = [p] \<and> pt_amount p = 49 \<and> pt_status p = PAY_PENDING"
proof -
  let ?d = "\<lparr>cd_paymentType = ''OFFERS_10_60D'', cd_propertyId = None, cd_method = None, cd_walletPhone = None\<rparr>"
  have b: "billable_of_name ''OFFERS_10_60D'' = Some OFFERS_10_60D"
    by (simp add: billable_of_name_def BILLABLE_PAYMENT_TYPES_def)
  have "\<exists>r. fst (checkout env_example api_example 7 ?d 60 landlord_db) = Inr r \<and> cr_amount r = 49"
    by (simp add: checkout_def b checkoutSnapshot_def snapshot_of_def Let_def landlord_db_simps defaultProduct_def
        sold_def allowedRoles_def landlord_example_def new_user_def generatePaymentUrl_def env_example_def api_example_def)
  then obtain r s' where r: "checkout env_example api_example 7 ?d 60 landlord_db = (Inr r, s')" "cr_amount r = 49"
    by (cases "checkout env_example api_example 7 ?d 60 landlord_db") auto
  show ?thesis
    using checkout_records_price[where env = env_example and api = api_example and u = 7 and dto = ?d and now = 60
      and s = landlord_db] r
    by (auto simp: landlord_db_simps)
qed

end
