(* ===== verification/TenantOffers.thy ===== *)
theory TenantOffers
  imports Schema
begin

text \<open>
  \<open>tenant-offers/tenant-offers.service.ts\<close>: priced offers of tenants on listings. An operation
  that writes with an unguarded \<open>update\<close> is given in its two parts, the read that checks and the
  write, so that requests can be interleaved between them; \<open>settleAsMatch\<close> writes in one guarded
  transaction. The listings of offers are read-only and not modelled.
\<close>

section \<open>Operations\<close>

definition DIRECT_OFFER_MATCH_SCORE :: real where "DIRECT_OFFER_MATCH_SCORE = 100"

definition active_offer :: "tenant_offer \<Rightarrow> bool" where
  "active_offer x \<longleftrightarrow> to_status x \<in> {TO_PENDING, COUNTERED}"

record create_offer_dto =
  co_propertyId :: uuid
  co_message :: string
  co_proposedPrice :: real

definition new_offer :: "uuid \<Rightarrow> uuid \<Rightarrow> uuid \<Rightarrow> create_offer_dto \<Rightarrow> time \<Rightarrow> tenant_offer" where
  "new_offer oid tenantId ownerId dto now =
     \<lparr>to_id = oid, to_tenantId = tenantId, to_propertyId = co_propertyId dto, to_ownerId = ownerId,
      to_message = co_message dto, to_proposedPrice = co_proposedPrice dto, to_counterPrice = None,
      to_counterMessage = None, to_status = TO_PENDING, to_createdAt = now\<rparr>"

definition create_tenant_offer :: "uuid \<Rightarrow> create_offer_dto \<Rightarrow> time \<Rightarrow> db \<Rightarrow> tenant_offer result" where
  "create_tenant_offer tenantId dto now s =
     (case find (\<lambda>p. p_id p = co_propertyId dto) (db_properties s) of
        None \<Rightarrow> (Inl (NotFound ''PROPERTY_NOT_FOUND''), s)
      | Some p \<Rightarrow>
        if p_status p \<noteq> P_APPROVED then (Inl (Forbidden ''PROPERTY_NOT_AVAILABLE''), s)
        else if p_ownerId p = tenantId then (Inl (Forbidden ''OWN_PROPERTY''), s)
        else if find (\<lambda>x. to_tenantId x = tenantId \<and> to_propertyId x = co_propertyId dto \<and> active_offer x)
               (db_tenantOffers s) \<noteq> None
        then (Inl (Conflict ''OFFER_EXISTS''), s)
        else
          let offer = new_offer (db_seq s) tenantId (p_ownerId p) dto now;
              s1 = s\<lparr>db_seq := db_seq s + 1, db_tenantOffers := db_tenantOffers s @ [offer]\<rparr>;
              s2 = emit (AnalyticsCounter (co_propertyId dto) ''tenantOffers'') s1
          in (Inr offer, notifyUser (p_ownerId p) NEW_OFFER_RECEIVED (Some (''/landlord/offers?tab=received'', None)) now s2))"

definition requireOffer :: "uuid \<Rightarrow> (tenant_offer \<Rightarrow> bool) \<Rightarrow> db \<Rightarrow> http_error + tenant_offer" where
  "requireOffer offerId scope s =
     (case find (\<lambda>x. to_id x = offerId \<and> scope x) (db_tenantOffers s) of
        None \<Rightarrow> Inl (NotFound ''TENANT_OFFER_NOT_FOUND'') | Some x \<Rightarrow> Inr x)"

definition set_offer :: "uuid \<Rightarrow> (tenant_offer \<Rightarrow> tenant_offer) \<Rightarrow> db \<Rightarrow> db" where
  "set_offer offerId f s =
     s\<lparr>db_tenantOffers := update_where (\<lambda>x. to_id x = offerId) f (db_tenantOffers s)\<rparr>"

record accept_receipt =
  acc_id :: uuid
  acc_agreedPrice :: real
  acc_matchConnectionId :: uuid

definition connection_for :: "tenant_offer \<Rightarrow> match_connection \<Rightarrow> bool" where
  "connection_for x c \<longleftrightarrow> mc_tenantId c = to_tenantId x \<and> mc_propertyId c = to_propertyId x
     \<and> mc_ownerId c = to_ownerId x \<and> mc_tenantRequestId c = None"

definition claim_offer :: "tenant_offer \<Rightarrow> time \<Rightarrow> db \<Rightarrow> uuid result" where
  "claim_offer offer now tx =
     (let may = (\<lambda>x. to_id x = to_id offer \<and> active_offer x);
          tx1 = tx\<lparr>db_tenantOffers := update_where may (\<lambda>x. x\<lparr>to_status := TO_ACCEPTED\<rparr>) (db_tenantOffers tx)\<rparr>
      in if count_where may (db_tenantOffers tx) \<noteq> 1
         then (Inl (Conflict ''OFFER_NOT_ACCEPTABLE''), tx1)
         else case find (connection_for offer) (db_matchConnections tx1) of
                Some c \<Rightarrow> (Inr (mc_id c), tx1\<lparr>db_matchConnections := update_where (\<lambda>d. mc_id d = mc_id c)
                   (\<lambda>d. d\<lparr>mc_status := CONNECTED\<rparr>) (db_matchConnections tx1)\<rparr>)
              | None \<Rightarrow> (Inr (db_seq tx1), tx1\<lparr>db_seq := db_seq tx1 + 1, db_matchConnections := db_matchConnections tx1 @
                   [\<lparr>mc_id = db_seq tx1, mc_tenantId = to_tenantId offer, mc_propertyId = to_propertyId offer,
                     mc_ownerId = to_ownerId offer, mc_tenantRequestId = None,
                     mc_matchScore = DIRECT_OFFER_MATCH_SCORE, mc_status = CONNECTED,
                     mc_agreementReachedAt = None, mc_createdAt = now\<rparr>]\<rparr>))"

definition settleAsMatch :: "uuid \<Rightarrow> real \<Rightarrow> bool \<Rightarrow> time \<Rightarrow> db \<Rightarrow> accept_receipt result" where
  "settleAsMatch offerId agreedPrice notifyTenant now s =
     (case find (\<lambda>x. to_id x = offerId) (db_tenantOffers s) of
        None \<Rightarrow> (Inl (Internal ''P2025''), s)
      | Some offer \<Rightarrow>
        (case find (\<lambda>p. p_id p = to_propertyId offer) (db_properties s) of
           None \<Rightarrow> (Inl (Forbidden ''PROPERTY_NO_LONGER_AVAILABLE''), s)
         | Some p \<Rightarrow>
           if p_status p \<noteq> P_APPROVED then (Inl (Forbidden ''PROPERTY_NO_LONGER_AVAILABLE''), s)
           else case transaction (claim_offer offer now) s of
             (Inl e, s1) \<Rightarrow> (Inl e, s1)
           | (Inr connectionId, s1) \<Rightarrow>
               let s2 = emit (AnalyticsCounter (to_propertyId offer) ''matches'') s1;
                   (recipient, path) = (if notifyTenant then (to_tenantId offer, ''/tenant/offers?tab=sent'')
                      else (to_ownerId offer, ''/landlord/offers?tab=received''))
               in (Inr \<lparr>acc_id = offerId, acc_agreedPrice = agreedPrice, acc_matchConnectionId = connectionId\<rparr>,
                   notifyUser recipient NEW_MATCH (Some (path, None)) now s2)))"

definition landlordAccept :: "uuid \<Rightarrow> uuid \<Rightarrow> time \<Rightarrow> db \<Rightarrow> accept_receipt result" where
  "landlordAccept ownerId offerId now s =
     (case requireOffer offerId (\<lambda>x. to_ownerId x = ownerId) s of
        Inl e \<Rightarrow> (Inl e, s)
      | Inr offer \<Rightarrow>
        if to_status offer \<noteq> TO_PENDING then (Inl (Conflict ''OFFER_STATE''), s)
        else settleAsMatch (to_id offer) (to_proposedPrice offer) True now s)"

definition landlordDecline_check :: "uuid \<Rightarrow> uuid \<Rightarrow> db \<Rightarrow> http_error + tenant_offer" where
  "landlordDecline_check ownerId offerId s =
     (case requireOffer offerId (\<lambda>x. to_ownerId x = ownerId) s of
        Inl e \<Rightarrow> Inl e
      | Inr offer \<Rightarrow> if to_status offer \<noteq> TO_PENDING \<and> to_status offer \<noteq> COUNTERED
          then Inl (Conflict ''OFFER_STATE'') else Inr offer)"

definition landlordDecline_write :: "tenant_offer \<Rightarrow> time \<Rightarrow> db \<Rightarrow> db" where
  "landlordDecline_write offer now s =
     notifyUser (to_tenantId offer) NEW_OFFER_RECEIVED (Some (''/tenant/offers?tab=sent'', None)) now
       (set_offer (to_id offer) (\<lambda>x. x\<lparr>to_status := DECLINED\<rparr>) s)"

definition landlordDecline :: "uuid \<Rightarrow> uuid \<Rightarrow> time \<Rightarrow> db \<Rightarrow> tenant_offer_status result" where
  "landlordDecline ownerId offerId now s =
     (case landlordDecline_check ownerId offerId s of
        Inl e \<Rightarrow> (Inl e, s) | Inr offer \<Rightarrow> (Inr DECLINED, landlordDecline_write offer now s))"

record counter_offer_dto =
  cto_counterPrice :: real
  cto_counterMessage :: "string option"

definition landlordCounter_check :: "uuid \<Rightarrow> uuid \<Rightarrow> db \<Rightarrow> http_error + tenant_offer" where
  "landlordCounter_check ownerId offerId s =
     (case requireOffer offerId (\<lambda>x. to_ownerId x = ownerId) s of
        Inl e \<Rightarrow> Inl e
      | Inr offer \<Rightarrow> if to_status offer \<noteq> TO_PENDING then Inl (Conflict ''OFFER_STATE'') else Inr offer)"

definition landlordCounter_write :: "tenant_offer \<Rightarrow> counter_offer_dto \<Rightarrow> time \<Rightarrow> db \<Rightarrow> db" where
  "landlordCounter_write offer dto now s =
     notifyUser (to_tenantId offer) NEW_OFFER_RECEIVED (Some (''/tenant/offers?tab=sent'', None)) now
       (set_offer (to_id offer) (\<lambda>x. x\<lparr>to_status := COUNTERED, to_counterPrice := Some (cto_counterPrice dto),
          to_counterMessage := cto_counterMessage dto\<rparr>) s)"

definition landlordCounter :: "uuid \<Rightarrow> uuid \<Rightarrow> counter_offer_dto \<Rightarrow> time \<Rightarrow> db \<Rightarrow> tenant_offer_status result" where
  "landlordCounter ownerId offerId dto now s =
     (case landlordCounter_check ownerId offerId s of
        Inl e \<Rightarrow> (Inl e, s) | Inr offer \<Rightarrow> (Inr COUNTERED, landlordCounter_write offer dto now s))"

definition tenantAccept :: "uuid \<Rightarrow> uuid \<Rightarrow> time \<Rightarrow> db \<Rightarrow> accept_receipt result" where
  "tenantAccept tenantId offerId now s =
     (case requireOffer offerId (\<lambda>x. to_tenantId x = tenantId) s of
        Inl e \<Rightarrow> (Inl e, s)
      | Inr offer \<Rightarrow>
        if to_status offer \<noteq> COUNTERED then (Inl (Conflict ''NO_COUNTER_OFFER''), s)
        else settleAsMatch (to_id offer)
               (case to_counterPrice offer of Some c \<Rightarrow> c | None \<Rightarrow> to_proposedPrice offer) False now s)"

definition tenantWithdraw_check :: "uuid \<Rightarrow> uuid \<Rightarrow> db \<Rightarrow> http_error + tenant_offer" where
  "tenantWithdraw_check tenantId offerId s =
     (case requireOffer offerId (\<lambda>x. to_tenantId x = tenantId) s of
        Inl e \<Rightarrow> Inl e
      | Inr offer \<Rightarrow> if to_status offer \<noteq> TO_PENDING \<and> to_status offer \<noteq> COUNTERED
          then Inl (Conflict ''OFFER_STATE'') else Inr offer)"

definition tenantWithdraw_write :: "tenant_offer \<Rightarrow> time \<Rightarrow> db \<Rightarrow> db" where
  "tenantWithdraw_write offer now s =
     notifyUser (to_ownerId offer) NEW_OFFER_RECEIVED (Some (''/landlord/offers?tab=received'', None)) now
       (set_offer (to_id offer) (\<lambda>x. x\<lparr>to_status := WITHDRAWN\<rparr>) s)"

definition tenantWithdraw :: "uuid \<Rightarrow> uuid \<Rightarrow> time \<Rightarrow> db \<Rightarrow> tenant_offer_status result" where
  "tenantWithdraw tenantId offerId now s =
     (case tenantWithdraw_check tenantId offerId s of
        Inl e \<Rightarrow> (Inl e, s) | Inr offer \<Rightarrow> (Inr WITHDRAWN, tenantWithdraw_write offer now s))"

text \<open>Whole requests, one after the other, by anyone, at any time.\<close>

inductive offer_step :: "db \<Rightarrow> db \<Rightarrow> bool" where
  Create: "offer_step s (snd (create_tenant_offer tenantId dto now s))"
| LAccept: "offer_step s (snd (landlordAccept ownerId offerId now s))"
| LDecline: "offer_step s (snd (landlordDecline ownerId offerId now s))"
| LCounter: "offer_step s (snd (landlordCounter ownerId offerId cdto now s))"
| TAccept: "offer_step s (snd (tenantAccept tenantId offerId now s))"
| TWithdraw: "offer_step s (snd (tenantWithdraw tenantId offerId now s))"

inductive_cases offer_stepE: "offer_step s t"

section \<open>What one request does to the offers\<close>

lemma set_offer_simps [simp]:
  "db_tenantOffers (set_offer i f s) = update_where (\<lambda>x. to_id x = i) f (db_tenantOffers s)"
  "db_matchConnections (set_offer i f s) = db_matchConnections s" "db_seq (set_offer i f s) = db_seq s"
  by (simp_all add: set_offer_def)

lemma requireOffer_Inr: "requireOffer i P s = Inr x \<Longrightarrow> x \<in> set (db_tenantOffers s) \<and> to_id x = i \<and> P x"
  by (auto simp: requireOffer_def split: option.splits dest: find_SomeD)

text \<open>The state machine the code implements: who may move an offer where.\<close>

datatype offer_actor = By_landlord | By_tenant

inductive offer_edge :: "offer_actor \<Rightarrow> tenant_offer_status \<Rightarrow> tenant_offer_status \<Rightarrow> bool" where
  "offer_edge By_landlord TO_PENDING TO_ACCEPTED"
| "offer_edge By_landlord TO_PENDING COUNTERED"
| "offer_edge By_landlord TO_PENDING DECLINED"
| "offer_edge By_landlord COUNTERED DECLINED"
| "offer_edge By_tenant COUNTERED TO_ACCEPTED"
| "offer_edge By_tenant TO_PENDING WITHDRAWN"
| "offer_edge By_tenant COUNTERED WITHDRAWN"

inductive_simps offer_edge_simps: "offer_edge a x y"

text \<open>
  One request either leaves the offers alone, appends a pending one, or moves one offer along an
  edge, by its owner or its tenant, leaving parties and price alone.
\<close>

definition offer_move :: "db \<Rightarrow> db \<Rightarrow> offer_actor \<Rightarrow> uuid \<Rightarrow> tenant_offer \<Rightarrow> tenant_offer \<Rightarrow> bool" where
  "offer_move s t who caller x y \<longleftrightarrow> x \<in> set (db_tenantOffers s)
     \<and> db_tenantOffers t = update_where (\<lambda>z. to_id z = to_id x) (\<lambda>z. y) (db_tenantOffers s)
     \<and> offer_edge who (to_status x) (to_status y)
     \<and> caller = (case who of By_landlord \<Rightarrow> to_ownerId x | By_tenant \<Rightarrow> to_tenantId x)
     \<and> to_id y = to_id x \<and> to_tenantId y = to_tenantId x \<and> to_ownerId y = to_ownerId x
     \<and> to_propertyId y = to_propertyId x \<and> to_proposedPrice y = to_proposedPrice x"

lemma update_where_key_const:
  assumes "distinct (map k t)" "x \<in> set t"
  shows "update_where (\<lambda>z. k z = k x) f t = update_where (\<lambda>z. k z = k x) (\<lambda>z. f x) t"
  using distinct_keyD[OF assms] unfolding update_where_def by (intro map_cong) (auto simp: eq_commute)

text \<open>A successful settlement, from the offer the caller was allowed to accept.\<close>

lemma settleAsMatch_Inr:
  assumes "settleAsMatch oid price nt now s = (Inr r, s')" "distinct (map to_id (db_tenantOffers s))"
  obtains x p where "x \<in> set (db_tenantOffers s)" "to_id x = oid" "active_offer x"
    "p \<in> set (db_properties s)" "p_id p = to_propertyId x" "p_status p = P_APPROVED"
    "db_tenantOffers s' = update_where (\<lambda>z. to_id z = oid) (\<lambda>z. x\<lparr>to_status := TO_ACCEPTED\<rparr>) (db_tenantOffers s)"
    "\<exists>c \<in> set (db_matchConnections s'). connection_for x c \<and> mc_status c = CONNECTED \<and> mc_id c = acc_matchConnectionId r"
    "\<forall>c \<in> set (db_matchConnections s). mc_status c = CONNECTED \<longrightarrow> c \<in> set (db_matchConnections s')"
    "acc_agreedPrice r = price" "db_seq s \<le> db_seq s'"
proof -
  from assms(1) obtain x where f: "find (\<lambda>z. to_id z = oid) (db_tenantOffers s) = Some x"
    by (auto simp: settleAsMatch_def split: option.splits)
  then have x: "x \<in> set (db_tenantOffers s)" "to_id x = oid" by (auto dest: find_SomeD)
  from assms(1) f obtain p where p: "find (\<lambda>p. p_id p = to_propertyId x) (db_properties s) = Some p" "p_status p = P_APPROVED"
    by (auto simp: settleAsMatch_def split: option.splits if_splits)
  then have p': "p \<in> set (db_properties s)" "p_id p = to_propertyId x" by (auto dest: find_SomeD)
  from assms(1) f p obtain i s1 where c: "claim_offer x now s = (Inr i, s1)" and
    s': "db_tenantOffers s' = db_tenantOffers s1" "db_matchConnections s' = db_matchConnections s1"
    and r: "acc_matchConnectionId r = i" "acc_agreedPrice r = price" and sq: "db_seq s1 \<le> db_seq s'"
    by (auto simp: settleAsMatch_def Let_def transaction_def split: prod.splits sum.splits if_splits)
  let ?may = "\<lambda>z. to_id z = oid \<and> active_offer z"
  have dk: "z = x" if "z \<in> set (db_tenantOffers s)" "to_id z = oid" for z
    using distinct_keyD[OF assms(2) that(1) x(1)] that(2) x(2) by simp
  have one: "count_where ?may (db_tenantOffers s) = 1"
    using c x(2) by (auto simp: claim_offer_def Let_def split: if_splits option.splits)
  then have a: "active_offer x"
    using dk count_where_zero_iff[of ?may "db_tenantOffers s"] by fastforce
  have u: "db_tenantOffers s1 = update_where (\<lambda>z. to_id z = oid) (\<lambda>z. x\<lparr>to_status := TO_ACCEPTED\<rparr>) (db_tenantOffers s)"
  proof -
    have "db_tenantOffers s1 = update_where ?may (\<lambda>z. z\<lparr>to_status := TO_ACCEPTED\<rparr>) (db_tenantOffers s)"
      using c x(2) by (auto simp: claim_offer_def Let_def split: if_splits option.splits)
    also have "\<dots> = update_where (\<lambda>z. to_id z = oid) (\<lambda>z. x\<lparr>to_status := TO_ACCEPTED\<rparr>) (db_tenantOffers s)"
      using dk a unfolding update_where_def by (intro map_cong) auto
    finally show ?thesis .
  qed
  show thesis
  proof (cases "find (connection_for x) (db_matchConnections s)")
    case None
    with c x(2) one have m: "db_matchConnections s1 = db_matchConnections s @
        [\<lparr>mc_id = db_seq s, mc_tenantId = to_tenantId x, mc_propertyId = to_propertyId x, mc_ownerId = to_ownerId x,
          mc_tenantRequestId = None, mc_matchScore = DIRECT_OFFER_MATCH_SCORE, mc_status = CONNECTED,
          mc_agreementReachedAt = None, mc_createdAt = now\<rparr>]" "i = db_seq s" "db_seq s1 = db_seq s + 1"
      by (auto simp: claim_offer_def Let_def)
    show thesis
      by (rule that[OF x a p' p(2)]) (use u s' m r sq in \<open>auto simp: connection_for_def\<close>)
  next
    case (Some d)
    with c x(2) one have m: "db_matchConnections s1 = update_where (\<lambda>e. mc_id e = mc_id d)
        (\<lambda>e. e\<lparr>mc_status := CONNECTED\<rparr>) (db_matchConnections s)" "i = mc_id d" "db_seq s1 = db_seq s"
      by (auto simp: claim_offer_def Let_def)
    from find_SomeD[OF Some] have d: "d \<in> set (db_matchConnections s)" "connection_for x d" by auto
    then have "d\<lparr>mc_status := CONNECTED\<rparr> \<in> set (db_matchConnections s1)"
      by (force simp: m set_update_where)
    moreover have "\<forall>c \<in> set (db_matchConnections s). mc_status c = CONNECTED \<longrightarrow> c \<in> set (db_matchConnections s1)"
      by (auto simp: m set_update_where image_iff intro!: bexI)
    ultimately show thesis
      by (intro that[OF x a p' p(2)])
        (use u s' m r sq d(2) in \<open>auto simp: connection_for_def map_update_where intro!: bexI[of _ "d\<lparr>mc_status := CONNECTED\<rparr>"]\<close>)
  qed
qed

lemma set_offer_move:
  assumes "distinct (map to_id (db_tenantOffers s))" "x \<in> set (db_tenantOffers s)"
  shows "db_tenantOffers (set_offer (to_id x) f s) = update_where (\<lambda>z. to_id z = to_id x) (\<lambda>z. f x) (db_tenantOffers s)"
  using update_where_key_const[OF assms] by simp

text \<open>The three possible effects of a request.\<close>

definition offers_kept :: "db \<Rightarrow> db \<Rightarrow> bool" where
  "offers_kept s t \<longleftrightarrow> db_tenantOffers t = db_tenantOffers s \<and> db_matchConnections t = db_matchConnections s
     \<and> db_seq t = db_seq s"

definition offer_created :: "db \<Rightarrow> db \<Rightarrow> bool" where
  "offer_created s t \<longleftrightarrow> db_seq s < db_seq t \<and> db_matchConnections t = db_matchConnections s
     \<and> (\<exists>tenantId ownerId dto now p. db_tenantOffers t = db_tenantOffers s @ [new_offer (db_seq s) tenantId ownerId dto now]
     \<and> p \<in> set (db_properties s) \<and> p_id p = co_propertyId dto \<and> p_status p = P_APPROVED \<and> p_ownerId p = ownerId
     \<and> ownerId \<noteq> tenantId
     \<and> (\<forall>x \<in> set (db_tenantOffers s). to_tenantId x = tenantId \<and> to_propertyId x = co_propertyId dto \<longrightarrow> \<not> active_offer x))"

definition offer_moved :: "db \<Rightarrow> db \<Rightarrow> bool" where
  "offer_moved s t \<longleftrightarrow> db_seq s \<le> db_seq t
     \<and> (\<forall>c \<in> set (db_matchConnections s). mc_status c = CONNECTED \<longrightarrow> c \<in> set (db_matchConnections t))
     \<and> (\<exists>who caller x y. offer_move s t who caller x y \<and> (to_status y = TO_ACCEPTED \<longrightarrow>
          (\<exists>c \<in> set (db_matchConnections t). connection_for x c \<and> mc_status c = CONNECTED)))"

lemma create_effect:
  "offers_kept s (snd (create_tenant_offer tenantId dto now s)) \<or> offer_created s (snd (create_tenant_offer tenantId dto now s))"
proof (cases "fst (create_tenant_offer tenantId dto now s)")
  case (Inl e)
  then have "snd (create_tenant_offer tenantId dto now s) = s"
    by (auto simp: create_tenant_offer_def Let_def split: option.splits if_splits)
  then show ?thesis by (simp add: offers_kept_def)
next
  case (Inr r)
  then obtain p where p: "find (\<lambda>p. p_id p = co_propertyId dto) (db_properties s) = Some p"
    by (auto simp: create_tenant_offer_def split: option.splits)
  note c = Inr[unfolded create_tenant_offer_def p option.case Let_def]
  have "p \<in> set (db_properties s)" "p_id p = co_propertyId dto" using p by (auto dest: find_SomeD)
  moreover have "p_status p = P_APPROVED" "p_ownerId p \<noteq> tenantId"
    "find (\<lambda>x. to_tenantId x = tenantId \<and> to_propertyId x = co_propertyId dto \<and> active_offer x) (db_tenantOffers s) = None"
    using c by (auto split: if_splits)
  ultimately show ?thesis
    unfolding offer_created_def
    by (intro disjI2 conjI exI[of _ tenantId] exI[of _ "p_ownerId p"] exI[of _ dto] exI[of _ now] exI[of _ p])
      (auto simp: create_tenant_offer_def p Let_def find_None_iff)
qed

lemma settle_effect:
  assumes "distinct (map to_id (db_tenantOffers s))" "x \<in> set (db_tenantOffers s)" "to_id x = oid"
    and "offer_edge who (to_status x) TO_ACCEPTED"
  shows "offers_kept s (snd (settleAsMatch oid price nt now s)) \<or> offer_moved s (snd (settleAsMatch oid price nt now s))"
proof (cases "settleAsMatch oid price nt now s")
  case (Pair r s')
  show ?thesis
  proof (cases r)
    case (Inl e)
    with Pair have "s' = s"
      by (auto simp: settleAsMatch_def Let_def transaction_def split: option.splits prod.splits sum.splits if_splits)
    with Pair show ?thesis by (simp add: offers_kept_def)
  next
    case (Inr acc)
    show ?thesis
    proof (rule settleAsMatch_Inr[OF Pair[unfolded Inr] assms(1)])
      fix z assume z: "z \<in> set (db_tenantOffers s)" "to_id z = oid"
        "db_tenantOffers s' = update_where (\<lambda>y. to_id y = oid) (\<lambda>y. z\<lparr>to_status := TO_ACCEPTED\<rparr>) (db_tenantOffers s)"
        "\<exists>c \<in> set (db_matchConnections s'). connection_for z c \<and> mc_status c = CONNECTED \<and> mc_id c = acc_matchConnectionId acc"
        "\<forall>c \<in> set (db_matchConnections s). mc_status c = CONNECTED \<longrightarrow> c \<in> set (db_matchConnections s')" "db_seq s \<le> db_seq s'"
      have "z = x" using distinct_keyD[OF assms(1) z(1) assms(2)] z(2) assms(3) by simp
      with z assms(4) have "offer_move s s' who (case who of By_landlord \<Rightarrow> to_ownerId x | By_tenant \<Rightarrow> to_tenantId x)
          x (x\<lparr>to_status := TO_ACCEPTED\<rparr>)" by (simp add: offer_move_def)
      with z \<open>z = x\<close> have "offer_moved s s'" unfolding offer_moved_def by (metis (no_types, lifting))
      with Pair show ?thesis by simp
    qed
  qed
qed

lemma write_effect:
  assumes "distinct (map to_id (db_tenantOffers s))" "x \<in> set (db_tenantOffers s)" "offer_edge who (to_status x) (to_status (f x))"
    "to_status (f x) \<noteq> TO_ACCEPTED" "to_id (f x) = to_id x" "to_tenantId (f x) = to_tenantId x" "to_ownerId (f x) = to_ownerId x"
    "to_propertyId (f x) = to_propertyId x" "to_proposedPrice (f x) = to_proposedPrice x"
  shows "offer_moved s (notifyUser u ty l now (set_offer (to_id x) f s))"
proof -
  have "offer_move s (notifyUser u ty l now (set_offer (to_id x) f s)) who
      (case who of By_landlord \<Rightarrow> to_ownerId x | By_tenant \<Rightarrow> to_tenantId x) x (f x)"
    unfolding offer_move_def using set_offer_move[OF assms(1,2)] assms(2-) by simp
  with assms(4) show ?thesis unfolding offer_moved_def by auto
qed

lemma offers_kept_refl: "offers_kept s s"
  by (simp add: offers_kept_def)

lemma offer_step_effect:
  assumes "offer_step s t" "distinct (map to_id (db_tenantOffers s))"
  shows "offers_kept s t \<or> offer_created s t \<or> offer_moved s t"
  using assms(1)
proof (cases rule: offer_step.cases)
  case Create
  then show ?thesis using create_effect by auto
next
  case (LAccept ownerId offerId now)
  have "snd (landlordAccept ownerId offerId now s) = s \<or> (\<exists>x \<in> set (db_tenantOffers s). to_status x = TO_PENDING
      \<and> snd (landlordAccept ownerId offerId now s) = snd (settleAsMatch (to_id x) (to_proposedPrice x) True now s))"
    by (auto simp: landlordAccept_def split: sum.splits dest!: requireOffer_Inr)
  with LAccept settle_effect[OF assms(2) _ refl, of _ By_landlord] show ?thesis
    by (metis offer_edge.intros(1) offers_kept_refl)
next
  case LDecline
  then show ?thesis
    by (auto simp: landlordDecline_def landlordDecline_check_def landlordDecline_write_def offers_kept_def offer_edge_simps
        split: sum.splits if_splits dest!: requireOffer_Inr
        intro!: write_effect[OF assms(2), where who = By_landlord])
next
  case LCounter
  then show ?thesis
    by (auto simp: landlordCounter_def landlordCounter_check_def landlordCounter_write_def offers_kept_def offer_edge_simps
        split: sum.splits if_splits dest!: requireOffer_Inr
        intro!: write_effect[OF assms(2), where who = By_landlord])
next
  case (TAccept tenantId offerId now)
  have "snd (tenantAccept tenantId offerId now s) = s \<or> (\<exists>x \<in> set (db_tenantOffers s). \<exists>price. to_status x = COUNTERED
      \<and> snd (tenantAccept tenantId offerId now s) = snd (settleAsMatch (to_id x) price False now s))"
    by (auto simp: tenantAccept_def split: sum.splits dest!: requireOffer_Inr)
  with TAccept settle_effect[OF assms(2) _ refl, of _ By_tenant] show ?thesis
    by (metis offer_edge.intros(5) offers_kept_refl)
next
  case TWithdraw
  then show ?thesis
    by (auto simp: tenantWithdraw_def tenantWithdraw_check_def tenantWithdraw_write_def offers_kept_def offer_edge_simps
        split: sum.splits if_splits dest!: requireOffer_Inr
        intro!: write_effect[OF assms(2), where who = By_tenant])
qed

section \<open>Invariant\<close>

definition offers_inv :: "db \<Rightarrow> bool" where
  "offers_inv s \<longleftrightarrow> keys_ok (db_seq s) (map to_id (db_tenantOffers s))
     \<and> distinct (map (\<lambda>x. (to_tenantId x, to_propertyId x)) (filter active_offer (db_tenantOffers s)))
     \<and> (\<forall>x \<in> set (db_tenantOffers s). to_status x = TO_ACCEPTED \<longrightarrow>
          (\<exists>c \<in> set (db_matchConnections s). connection_for x c \<and> mc_status c = CONNECTED))"

definition closed_offer :: "db \<Rightarrow> tenant_offer \<Rightarrow> bool" where
  "closed_offer s x \<longleftrightarrow> x \<in> set (db_tenantOffers s) \<and> \<not> active_offer x"

lemma active_update_inactive:
  "\<not> active_offer y \<Longrightarrow> filter active_offer (update_where (\<lambda>z. to_id z = i) (\<lambda>z. y) t)
     = filter (\<lambda>z. to_id z \<noteq> i) (filter active_offer t)"
  by (induction t) auto

lemma active_update_active:
  "\<forall>z \<in> set t. to_id z = i \<longrightarrow> active_offer z \<and> k z = k y \<Longrightarrow> active_offer y \<Longrightarrow>
   map k (filter active_offer (update_where (\<lambda>z. to_id z = i) (\<lambda>z. y) t)) = map k (filter active_offer t)"
  by (induction t) auto

lemma offer_moved_inv:
  assumes "offers_inv s" "offer_moved s t"
  shows "offers_inv t" "closed_offer s z \<Longrightarrow> closed_offer t z"
proof -
  from assms(2) obtain who caller x y where m: "offer_move s t who caller x y"
    and acc: "to_status y = TO_ACCEPTED \<longrightarrow> (\<exists>c \<in> set (db_matchConnections t). connection_for x c \<and> mc_status c = CONNECTED)"
    and con: "\<forall>c \<in> set (db_matchConnections s). mc_status c = CONNECTED \<longrightarrow> c \<in> set (db_matchConnections t)"
    and sq: "db_seq s \<le> db_seq t" unfolding offer_moved_def by blast
  let ?k = "\<lambda>x. (to_tenantId x, to_propertyId x)"
  have k: "keys_ok (db_seq s) (map to_id (db_tenantOffers s))" using assms(1) by (simp add: offers_inv_def)
  have x: "x \<in> set (db_tenantOffers s)" and u: "db_tenantOffers t = update_where (\<lambda>z. to_id z = to_id x) (\<lambda>z. y) (db_tenantOffers s)"
    and y: "to_id y = to_id x" "?k y = ?k x" "to_ownerId y = to_ownerId x" and ax: "active_offer x"
    using m by (auto simp: offer_move_def offer_edge_simps active_offer_def)
  have dk: "q = x" if "q \<in> set (db_tenantOffers s)" "to_id q = to_id x" for q
    using distinct_keyD[OF keys_okD[OF k] that(1) x that(2)] .
  have "map to_id (db_tenantOffers t) = map to_id (db_tenantOffers s)" unfolding u by (rule map_update_where) (simp add: y(1))
  then have "keys_ok (db_seq t) (map to_id (db_tenantOffers t))" using keys_ok_mono[OF k sq] by simp
  moreover have "distinct (map ?k (filter active_offer (db_tenantOffers t)))"
  proof (cases "active_offer y")
    case True
    have "\<forall>z \<in> set (db_tenantOffers s). to_id z = to_id x \<longrightarrow> active_offer z \<and> ?k z = ?k y" using dk ax y by auto
    from active_update_active[OF this True] assms(1) show ?thesis by (simp add: u offers_inv_def)
  next
    case False
    have "distinct (map ?k (filter active_offer (db_tenantOffers s)))" using assms(1) by (simp add: offers_inv_def)
    then show ?thesis unfolding u active_update_inactive[OF False] by (rule distinct_map_filter)
  qed
  moreover have "\<exists>c \<in> set (db_matchConnections t). connection_for z c \<and> mc_status c = CONNECTED"
    if "z \<in> set (db_tenantOffers t)" "to_status z = TO_ACCEPTED" for z
    using that(1) unfolding u
  proof (cases rule: in_update_whereE)
    case kept
    then show ?thesis using assms(1) con that(2) unfolding offers_inv_def by blast
  next
    case (changed q)
    then have "z = y" by simp
    then show ?thesis using acc that(2) y by (auto simp: connection_for_def)
  qed
  ultimately show "offers_inv t" by (simp add: offers_inv_def)
  show "closed_offer t z" if "closed_offer s z"
  proof -
    have "to_id z \<noteq> to_id x" using that dk ax by (auto simp: closed_offer_def)
    with that show ?thesis by (auto simp: closed_offer_def u set_update_where)
  qed
qed

lemma offer_created_inv:
  assumes "offers_inv s" "offer_created s t"
  shows "offers_inv t" "closed_offer s z \<Longrightarrow> closed_offer t z"
proof -
  from assms(2) obtain tn ow dto now p where c: "db_tenantOffers t = db_tenantOffers s @ [new_offer (db_seq s) tn ow dto now]"
    "\<forall>x \<in> set (db_tenantOffers s). to_tenantId x = tn \<and> to_propertyId x = co_propertyId dto \<longrightarrow> \<not> active_offer x"
    "db_matchConnections t = db_matchConnections s" "db_seq s < db_seq t" by (auto simp: offer_created_def)
  have "keys_ok (Suc (db_seq s)) (map to_id (db_tenantOffers s) @ [db_seq s])"
    using assms(1) by (simp add: offers_inv_def)
  then have "keys_ok (db_seq t) (map to_id (db_tenantOffers t))"
    using c(4) by (auto simp: c(1) new_offer_def intro: keys_ok_mono)
  with assms(1) c(2) show "offers_inv t" by (auto simp: offers_inv_def c(1,3) new_offer_def)
  show "closed_offer s z \<Longrightarrow> closed_offer t z" by (simp add: closed_offer_def c(1))
qed

lemma offer_step_inv:
  assumes "offers_inv s" "offer_step s t"
  shows "offers_inv t" "closed_offer s z \<Longrightarrow> closed_offer t z"
proof -
  have "distinct (map to_id (db_tenantOffers s))" using assms(1) by (auto simp: offers_inv_def dest: keys_okD)
  from offer_step_effect[OF assms(2) this]
  show "offers_inv t" "closed_offer s z \<Longrightarrow> closed_offer t z"
    using offer_moved_inv[OF assms(1)] offer_created_inv[OF assms(1)] assms(1)
    by (auto simp: offers_kept_def offers_inv_def closed_offer_def)
qed

interpretation tenant_offers: settled_machine offers_inv offer_step closed_offer
  by unfold_locales (use offer_step_inv in blast)+

section \<open>Properties\<close>

text \<open>The negotiation is a state machine: whatever requests landlords and tenants send, one after
  the other, every request either leaves the offers as they are, adds one new PENDING offer on an
  approved listing of somebody else, or moves a single offer along an edge that its sender may
  take (the landlord PENDING to ACCEPTED, COUNTERED or DECLINED and COUNTERED to DECLINED, the
  tenant COUNTERED to ACCEPTED and both open states to WITHDRAWN), keeping its parties and the
  tenant's price.\<close>

theorem tenant_offer_edges:
  assumes "offers_inv s" "offer_step s t"
  shows "db_tenantOffers t = db_tenantOffers s
    \<or> (\<exists>tenantId ownerId dto now. db_tenantOffers t = db_tenantOffers s @ [new_offer (db_seq s) tenantId ownerId dto now]
         \<and> ownerId \<noteq> tenantId
         \<and> (\<exists>p \<in> set (db_properties s). p_id p = co_propertyId dto \<and> p_status p = P_APPROVED \<and> p_ownerId p = ownerId))
    \<or> (\<exists>who caller x y. offer_move s t who caller x y)"
proof -
  have "distinct (map to_id (db_tenantOffers s))" using assms(1) by (auto simp: offers_inv_def dest: keys_okD)
  from offer_step_effect[OF assms(2) this] show ?thesis
  proof (elim disjE)
    assume "offer_created s t"
    then obtain tn ow dto now p where "db_tenantOffers t = db_tenantOffers s @ [new_offer (db_seq s) tn ow dto now]"
      "p \<in> set (db_properties s)" "p_id p = co_propertyId dto" "p_status p = P_APPROVED" "p_ownerId p = ow" "ow \<noteq> tn"
      unfolding offer_created_def by blast
    then show ?thesis by blast
  qed (auto simp: offers_kept_def offer_moved_def)
qed

text \<open>C12: Along every run of whole requests, a tenant never has two open offers on one listing, every
  accepted offer has its CONNECTED match between exactly its tenant, listing and owner, and an
  offer that was accepted, declined or withdrawn never changes again.\<close>

theorem tenant_offers_safe:
  assumes "offers_inv s" "offer_step\<^sup>*\<^sup>* s t"
  shows "distinct (map (\<lambda>x. (to_tenantId x, to_propertyId x)) (filter active_offer (db_tenantOffers t)))
    \<and> (\<forall>x \<in> set (db_tenantOffers t). to_status x = TO_ACCEPTED \<longrightarrow>
         (\<exists>c \<in> set (db_matchConnections t). connection_for x c \<and> mc_status c = CONNECTED))
    \<and> (\<forall>x \<in> set (db_tenantOffers s). to_status x \<in> {TO_ACCEPTED, DECLINED, WITHDRAWN} \<longrightarrow> x \<in> set (db_tenantOffers t))"
proof -
  have i: "offers_inv t" by (rule tenant_offers.run_inv[OF assms(2,1)])
  have "x \<in> set (db_tenantOffers t)" if "x \<in> set (db_tenantOffers s)" "to_status x \<in> {TO_ACCEPTED, DECLINED, WITHDRAWN}" for x
    using tenant_offers.settled_forever[OF assms(2,1), of x] that by (auto simp: closed_offer_def active_offer_def)
  with i show ?thesis unfolding offers_inv_def by blast
qed

text \<open>Only whole requests are safe: a decline or a withdrawal that read the offer while it was open
  and writes after the other side has accepted it overwrites the acceptance, because its write is
  not guarded by the status; the match it created stays CONNECTED without an accepted offer.\<close>

theorem accepted_offer_overwritten:
  assumes "distinct (map to_id (db_tenantOffers s))" "tenantWithdraw_check tenantId offerId s = Inr offer"
    and "landlordAccept ownerId offerId now s = (Inr acc, s1)"
  shows "(\<exists>x \<in> set (db_tenantOffers s1). to_id x = offerId \<and> to_status x = TO_ACCEPTED)
    \<and> (\<exists>x \<in> set (db_tenantOffers (tenantWithdraw_write offer now s1)). to_id x = offerId \<and> to_status x = WITHDRAWN)
    \<and> (\<exists>c \<in> set (db_matchConnections (tenantWithdraw_write offer now s1)).
         mc_id c = acc_matchConnectionId acc \<and> mc_status c = CONNECTED)"
proof -
  have off: "offer \<in> set (db_tenantOffers s)" "to_id offer = offerId"
    using assms(2) by (auto simp: tenantWithdraw_check_def split: sum.splits if_splits dest!: requireOffer_Inr)
  from assms(3) obtain price where "settleAsMatch offerId price True now s = (Inr acc, s1)"
    by (auto simp: landlordAccept_def split: sum.splits if_splits dest!: requireOffer_Inr)
  then show ?thesis
  proof (rule settleAsMatch_Inr[OF _ assms(1)])
    fix x assume x: "x \<in> set (db_tenantOffers s)" "to_id x = offerId"
      and u: "db_tenantOffers s1 = update_where (\<lambda>z. to_id z = offerId) (\<lambda>z. x\<lparr>to_status := TO_ACCEPTED\<rparr>) (db_tenantOffers s)"
      and c: "\<exists>c \<in> set (db_matchConnections s1). connection_for x c \<and> mc_status c = CONNECTED \<and> mc_id c = acc_matchConnectionId acc"
    let ?y = "x\<lparr>to_status := TO_ACCEPTED\<rparr>"
    have y: "?y \<in> set (db_tenantOffers s1)" unfolding u using x by (intro in_update_whereI[of x]) simp_all
    have "?y\<lparr>to_status := WITHDRAWN\<rparr> \<in> set (db_tenantOffers (tenantWithdraw_write offer now s1))"
      unfolding tenantWithdraw_write_def using y x(2) off(2) by (simp, intro in_update_whereI[of ?y]) simp_all
    then have "\<exists>z \<in> set (db_tenantOffers (tenantWithdraw_write offer now s1)). to_id z = offerId \<and> to_status z = WITHDRAWN"
      using x(2) by (intro bexI[of _ "?y\<lparr>to_status := WITHDRAWN\<rparr>"]) simp_all
    moreover have "\<exists>z \<in> set (db_tenantOffers s1). to_id z = offerId \<and> to_status z = TO_ACCEPTED"
      using y x(2) by (intro bexI[of _ ?y]) simp_all
    ultimately show ?thesis using c by (auto simp: tenantWithdraw_write_def)
  qed
qed

section \<open>Witnesses\<close>

definition listing_example :: property where
  "listing_example =
     \<lparr>p_id = 4, p_ownerId = 7, p_title = ''Flat'', p_description = ''Two rooms'', p_district = ''Maadi'',
      p_manualAddress = ''9 Street'', p_propertyType = APARTMENT, p_aroundServices = None,
      p_rentAmount = 5000, p_bedrooms = 2, p_isFurnished = True, p_status = P_APPROVED,
      p_rejectionReason = None, p_isBoosted = False, p_boostedUntil = None, p_embedding = [],
      p_approvedBy = None, p_approvedAt = None, p_createdAt = 0, p_countryId = 2,
      p_governorateId = 3, p_cityId = 4, p_areaM2 = 90, p_bathrooms = 2, p_hasElevator = True, p_hasParking = False\<rparr>"

definition offer_example :: tenant_offer where
  "offer_example = new_offer 5 8 7 \<lparr>co_propertyId = 4, co_message = ''hi'', co_proposedPrice = 4500\<rparr> 0"

definition offer_db :: db where
  "offer_db = empty_db\<lparr>db_seq := 10, db_properties := [listing_example], db_tenantOffers := [offer_example]\<rparr>"

lemma offer_db_inv: "offers_inv offer_db"
  by (simp add: offers_inv_def keys_ok_def offer_db_def offer_example_def new_offer_def empty_db_def)

definition offer_receipt :: accept_receipt where
  "offer_receipt = \<lparr>acc_id = 5, acc_agreedPrice = 4500, acc_matchConnectionId = 10\<rparr>"

lemma offer_db_accept: "fst (landlordAccept 7 5 60 offer_db) = Inr offer_receipt"
  by (simp add: landlordAccept_def requireOffer_def settleAsMatch_def claim_offer_def transaction_def Let_def
      offer_db_def offer_example_def new_offer_def empty_db_def listing_example_def active_offer_def offer_receipt_def)

theorem tenant_offer_edges_witness:
  "\<exists>who caller x y. offer_move offer_db (snd (landlordAccept 7 5 60 offer_db)) who caller x y"
proof -
  have n: "db_tenantOffers (snd (landlordAccept 7 5 60 offer_db)) = [offer_example\<lparr>to_status := TO_ACCEPTED\<rparr>]"
    by (simp add: landlordAccept_def requireOffer_def settleAsMatch_def claim_offer_def transaction_def Let_def
        offer_db_def offer_example_def new_offer_def empty_db_def listing_example_def active_offer_def)
  have d: "db_tenantOffers offer_db = [offer_example]" "offer_example\<lparr>to_status := TO_ACCEPTED\<rparr> \<noteq> offer_example"
    by (simp_all add: offer_db_def offer_example_def new_offer_def)
  show ?thesis
    using tenant_offer_edges[OF offer_db_inv LAccept[of offer_db 7 5 60]] unfolding n d(1) using d(2) by simp
qed

theorem tenant_offers_safe_witness:
  "distinct (map (\<lambda>x. (to_tenantId x, to_propertyId x))
     (filter active_offer (db_tenantOffers (snd (landlordAccept 7 5 60 offer_db)))))"
  using tenant_offers_safe[OF offer_db_inv r_into_rtranclp[of offer_step, OF LAccept[of offer_db 7 5 60]]] by blast

theorem accepted_offer_overwritten_witness:
  "\<exists>s1. landlordAccept 7 5 60 offer_db = (Inr offer_receipt, s1)
     \<and> (\<exists>x \<in> set (db_tenantOffers (tenantWithdraw_write offer_example 60 s1)). to_id x = 5 \<and> to_status x = WITHDRAWN)
     \<and> (\<exists>c \<in> set (db_matchConnections (tenantWithdraw_write offer_example 60 s1)). mc_status c = CONNECTED)"
proof -
  obtain s1 where s1: "landlordAccept 7 5 60 offer_db = (Inr offer_receipt, s1)"
    using offer_db_accept by (cases "landlordAccept 7 5 60 offer_db") simp
  have d: "distinct (map to_id (db_tenantOffers offer_db))" by (simp add: offer_db_def)
  have c: "tenantWithdraw_check 8 5 offer_db = Inr offer_example"
    by (simp add: tenantWithdraw_check_def requireOffer_def offer_db_def offer_example_def new_offer_def)
  from accepted_offer_overwritten[OF d c s1] s1 show ?thesis by blast
qed

end
