(* ===== verification/Messages.thy ===== *)
theory Messages
  imports Schema
begin

text \<open>
  \<open>messages/messages.service.ts\<close> and \<open>messages/crypto.util.ts\<close>: the chat of a match, its
  encryption at rest and the confirmation of an agreement. AES-256-GCM is the pair of arguments
  \<open>seal\<close> and \<open>unseal\<close> of \<open>gcm\<close>, from key, hexadecimal nonce and text to hexadecimal ciphertext and
  tag and back, None when the tag does not fit; the random nonce of an encryption is an argument.
\<close>

section \<open>crypto.util.ts\<close>

record gcm =
  seal :: "string \<Rightarrow> string \<Rightarrow> string \<Rightarrow> string \<times> string"
  unseal :: "string \<Rightarrow> string \<Rightarrow> string \<Rightarrow> string \<Rightarrow> string option"

definition ENCRYPTION_KEY :: "string option \<Rightarrow> string" where
  "ENCRYPTION_KEY env =
     (let raw = js_str (js_or env (Some ''propmatch_ai_secure_secret_key_32bytes!!''))
      in take 32 (raw @ replicate (32 - length raw) CHR ''0''))"

text \<open>\<open>split(':')\<close>: always at least one part.\<close>

fun split_colon :: "string \<Rightarrow> string list" where
  "split_colon [] = [[]]"
| "split_colon (c # cs) =
     (if c = CHR '':'' then [] # split_colon cs
      else case split_colon cs of [] \<Rightarrow> [[c]] | p # ps \<Rightarrow> (c # p) # ps)"

definition encryptText :: "gcm \<Rightarrow> string \<Rightarrow> string \<Rightarrow> string \<Rightarrow> string" where
  "encryptText g key iv txt =
     (if txt = [] then txt
      else let (encrypted, authTag) = seal g key iv txt
           in ''enc:'' @ iv @ '':'' @ authTag @ '':'' @ encrypted)"

definition decryptText :: "gcm \<Rightarrow> string \<Rightarrow> string \<Rightarrow> string" where
  "decryptText g key encryptedText =
     (if encryptedText = [] \<or> take 4 encryptedText \<noteq> ''enc:'' then encryptedText
      else let parts = split_colon encryptedText
           in if length parts < 4 then encryptedText
              else case unseal g key (parts ! 1) (parts ! 2) (parts ! 3) of
                     None \<Rightarrow> encryptedText | Some d \<Rightarrow> d)"

text \<open>The documented behaviour of the cipher: it inverts, and hexadecimal text has no colon.\<close>

definition gcm_ok :: "gcm \<Rightarrow> bool" where
  "gcm_ok g \<longleftrightarrow> (\<forall>key iv txt. unseal g key iv (snd (seal g key iv txt)) (fst (seal g key iv txt)) = Some txt
     \<and> CHR '':'' \<notin> set (fst (seal g key iv txt)) \<and> CHR '':'' \<notin> set (snd (seal g key iv txt)))"

lemma split_colon_none: "CHR '':'' \<notin> set xs \<Longrightarrow> split_colon xs = [xs]"
  by (induction xs) auto

lemma split_colon_append: "CHR '':'' \<notin> set xs \<Longrightarrow> split_colon (xs @ CHR '':'' # ys) = xs # split_colon ys"
  by (induction xs) auto

lemma decrypt_encrypt:
  assumes "gcm_ok g" "CHR '':'' \<notin> set iv"
  shows "decryptText g key (encryptText g key iv txt) = txt"
proof (cases "txt = []")
  case True
  then show ?thesis by (simp add: encryptText_def decryptText_def)
next
  case False
  obtain e a where s: "seal g key iv txt = (e, a)" by fastforce
  from assms(1) have u: "unseal g key iv a e = Some txt" "CHR '':'' \<notin> set e" "CHR '':'' \<notin> set a"
    using s by (auto simp: gcm_ok_def) (metis fst_conv snd_conv)+
  have "split_colon (''enc:'' @ iv @ '':'' @ a @ '':'' @ e) = [''enc'', iv, a, e]"
    using split_colon_append[of "''enc''"] split_colon_append[OF assms(2)] split_colon_append[OF u(3)]
      split_colon_none[OF u(2)] by simp
  with False s u(1) show ?thesis by (simp add: encryptText_def decryptText_def Let_def)
qed

section \<open>Access\<close>

definition participant :: "uuid \<Rightarrow> match_connection \<Rightarrow> bool" where
  "participant userId c \<longleftrightarrow> mc_tenantId c = userId \<or> mc_ownerId c = userId"

definition connectionFor :: "uuid \<Rightarrow> uuid \<Rightarrow> db \<Rightarrow> http_error + match_connection" where
  "connectionFor userId cid s =
     (case find (\<lambda>c. mc_id c = cid \<and> mc_status c = CONNECTED \<and> participant userId c) (db_matchConnections s) of
        None \<Rightarrow> Inl (NotFound ''CONVERSATION_NOT_FOUND'') | Some c \<Rightarrow> Inr c)"

definition recipientOf :: "match_connection \<Rightarrow> uuid \<Rightarrow> uuid" where
  "recipientOf c senderId = (if mc_tenantId c = senderId then mc_ownerId c else mc_tenantId c)"

record conversation =
  cv_matchConnectionId :: uuid
  cv_propertyId :: uuid
  cv_otherParticipantName :: string
  cv_agreementReachedAt :: "time option"
  cv_canConfirmAgreement :: bool
  cv_lastMessagePreview :: "string option"
  cv_lastMessageAt :: "time option"

definition conversation_of :: "gcm \<Rightarrow> string \<Rightarrow> uuid \<Rightarrow> db \<Rightarrow> match_connection \<Rightarrow> conversation" where
  "conversation_of g key userId s m =
     (let lst = first_desc m_createdAt (\<lambda>x. m_matchConnectionId x = mc_id m) (db_messages s)
      in \<lparr>cv_matchConnectionId = mc_id m, cv_propertyId = mc_propertyId m,
          cv_otherParticipantName = user_name (if mc_tenantId m = userId then mc_ownerId m else mc_tenantId m) s,
          cv_agreementReachedAt = mc_agreementReachedAt m,
          cv_canConfirmAgreement = (mc_agreementReachedAt m = None \<and>
            (if mc_tenantRequestId m \<noteq> None then mc_tenantId m = userId else mc_ownerId m = userId)),
          cv_lastMessagePreview = map_option (\<lambda>x. take 100 (decryptText g key (m_body x))) lst,
          cv_lastMessageAt = map_option m_createdAt lst\<rparr>)"

text \<open>Latest conversation first; those without a message sort as the empty string, last.\<close>

definition list_conversations :: "gcm \<Rightarrow> string \<Rightarrow> uuid \<Rightarrow> db \<Rightarrow> conversation list" where
  "list_conversations g key userId s =
     (let cs = map (conversation_of g key userId s)
                 (filter (\<lambda>m. mc_status m = CONNECTED \<and> participant userId m) (db_matchConnections s))
      in sort_key (\<lambda>c. - the (cv_lastMessageAt c)) (filter (\<lambda>c. cv_lastMessageAt c \<noteq> None) cs)
         @ filter (\<lambda>c. cv_lastMessageAt c = None) cs)"

section \<open>Messages\<close>

record message_view =
  mv_row :: message
  mv_body :: string
  mv_isMine :: bool

definition view_message :: "gcm \<Rightarrow> string \<Rightarrow> uuid \<Rightarrow> message \<Rightarrow> message_view" where
  "view_message g key userId m = \<lparr>mv_row = m, mv_body = decryptText g key (m_body m), mv_isMine = (m_senderId m = userId)\<rparr>"

definition messages :: "gcm \<Rightarrow> string \<Rightarrow> uuid \<Rightarrow> uuid \<Rightarrow> db \<Rightarrow> http_error + message_view list" where
  "messages g key userId cid s =
     (case connectionFor userId cid s of
        Inl e \<Rightarrow> Inl e
      | Inr _ \<Rightarrow> Inr (map (view_message g key userId)
          (sort_key m_createdAt (sort_key m_id (filter (\<lambda>m. m_matchConnectionId m = cid) (db_messages s))))))"

record send_input =
  si_body :: "string option"
  si_attachmentUrl :: "string option"
  si_attachmentType :: "attachment_type option"
  si_attachmentName :: "string option"
  si_attachmentDurationMs :: "int option"

definition new_message :: "uuid \<Rightarrow> uuid \<Rightarrow> uuid \<Rightarrow> string \<Rightarrow> bool \<Rightarrow> send_input \<Rightarrow> time \<Rightarrow> message" where
  "new_message mid cid userId encryptedBody hasAttachment input now =
     \<lparr>m_id = mid, m_matchConnectionId = cid, m_senderId = userId, m_body = encryptedBody,
      m_attachmentUrl = (if hasAttachment then si_attachmentUrl input else None),
      m_attachmentType = (if hasAttachment then si_attachmentType input else None),
      m_attachmentName = (if hasAttachment then si_attachmentName input else None),
      m_attachmentDurationMs = (if hasAttachment then si_attachmentDurationMs input else None),
      m_createdAt = now, m_editedAt = None\<rparr>"

definition send :: "gcm \<Rightarrow> string \<Rightarrow> string \<Rightarrow> uuid \<Rightarrow> uuid \<Rightarrow> send_input \<Rightarrow> time \<Rightarrow> db \<Rightarrow> message_view result" where
  "send g key iv userId cid input now s =
     (case connectionFor userId cid s of
        Inl e \<Rightarrow> (Inl e, s)
      | Inr connection \<Rightarrow>
        let body = js_trim (case si_body input of None \<Rightarrow> '''' | Some b \<Rightarrow> b);
            hasAttachment = (js_or (si_attachmentUrl input) None \<noteq> None \<and> si_attachmentType input \<noteq> None)
        in if body = [] \<and> \<not> hasAttachment then (Inl (BadRequest ''Empty message.''), s)
           else if 1000 < length body then (Inl (BadRequest ''Invalid message body.''), s)
           else
             let m = new_message (db_seq s) cid userId (encryptText g key iv body) hasAttachment input now;
                 s1 = s\<lparr>db_seq := db_seq s + 1, db_messages := db_messages s @ [m]\<rparr>;
                 recipientId = (if mc_tenantId connection = userId then mc_ownerId connection else mc_tenantId connection);
                 s2 = emit (SocketMessage recipientId (m_id m) body) s1;
                 path = (if mc_tenantId connection = recipientId then ''/tenant/messages/'' else ''/landlord/messages/'')
             in (Inr \<lparr>mv_row = m, mv_body = body, mv_isMine = True\<rparr>,
                 notifyUser recipientId NEW_MESSAGE (Some (path, Some cid)) now s2))"

text \<open>
  The connection of a message exists by the foreign key; the peer of a message without one
  would not be reached.
\<close>

definition peer_of :: "message \<Rightarrow> uuid \<Rightarrow> db \<Rightarrow> uuid option" where
  "peer_of m userId s = map_option (\<lambda>c. recipientOf c userId)
     (find (\<lambda>c. mc_id c = m_matchConnectionId m) (db_matchConnections s))"

definition too_late :: "message \<Rightarrow> time \<Rightarrow> bool" where
  "too_late m now \<longleftrightarrow> 15 < (real_of_int now - real_of_int (m_createdAt m)) / (1000 * 60)"

definition updateMessage :: "gcm \<Rightarrow> string \<Rightarrow> string \<Rightarrow> uuid \<Rightarrow> uuid \<Rightarrow> string \<Rightarrow> time \<Rightarrow> db \<Rightarrow> message_view result" where
  "updateMessage g key iv userId messageId rawBody now s =
     (case find (\<lambda>m. m_id m = messageId) (db_messages s) of
        None \<Rightarrow> (Inl (NotFound ''MESSAGE_NOT_FOUND''), s)
      | Some m \<Rightarrow>
        if m_senderId m \<noteq> userId then (Inl (BadRequest ''NOT_YOUR_MESSAGE''), s)
        else
          let body = js_trim rawBody
          in if body = [] then (Inl (BadRequest ''EMPTY_MESSAGE''), s)
             else if 1000 < length body then (Inl (BadRequest ''MESSAGE_TOO_LONG''), s)
             else if too_late m now then (Inl (BadRequest ''EDIT_WINDOW_CLOSED''), s)
             else
               let upd = (\<lambda>m. m\<lparr>m_body := encryptText g key iv body, m_editedAt := Some now\<rparr>);
                   s1 = s\<lparr>db_messages := update_where (\<lambda>m. m_id m = messageId) upd (db_messages s)\<rparr>
               in (Inr \<lparr>mv_row = upd m, mv_body = body, mv_isMine = True\<rparr>,
                   case peer_of m userId s of None \<Rightarrow> s1
                   | Some p \<Rightarrow> emit (SocketMessageEdited p messageId body) s1))"

definition deleteMessage :: "uuid \<Rightarrow> uuid \<Rightarrow> time \<Rightarrow> db \<Rightarrow> uuid result" where
  "deleteMessage userId messageId now s =
     (case find (\<lambda>m. m_id m = messageId) (db_messages s) of
        None \<Rightarrow> (Inl (NotFound ''MESSAGE_NOT_FOUND''), s)
      | Some m \<Rightarrow>
        if m_senderId m \<noteq> userId then (Inl (BadRequest ''NOT_YOUR_MESSAGE''), s)
        else if too_late m now then (Inl (BadRequest ''DELETE_WINDOW_CLOSED''), s)
        else
          let s1 = s\<lparr>db_messages := filter (\<lambda>m. m_id m \<noteq> messageId) (db_messages s)\<rparr>;
              s2 = emit (DeleteUpload (m_attachmentUrl m)) s1
          in (Inr messageId, case peer_of m userId s of None \<Rightarrow> s2
              | Some p \<Rightarrow> emit (SocketMessageDeleted p messageId) s2))"

section \<open>Agreement\<close>

definition open_owner_offer :: "owner_offer \<Rightarrow> bool" where
  "open_owner_offer x \<longleftrightarrow> oo_status x \<in> {SENT, VIEWED}"

definition reject_owner_offers :: "(owner_offer \<Rightarrow> bool) \<Rightarrow> db \<Rightarrow> db" where
  "reject_owner_offers P s = s\<lparr>db_ownerOffers := update_where (\<lambda>x. P x \<and> open_owner_offer x)
     (\<lambda>x. x\<lparr>oo_status := OO_REJECTED\<rparr>) (db_ownerOffers s)\<rparr>"

definition close_property :: "uuid \<Rightarrow> db \<Rightarrow> db" where
  "close_property pid s =
     (let s1 = reject_owner_offers (\<lambda>x. oo_propertyId x = Some pid) s
      in s1\<lparr>db_tenantOffers := update_where (\<lambda>x. to_propertyId x = pid \<and> to_status x \<in> {TO_PENDING, COUNTERED})
              (\<lambda>x. x\<lparr>to_status := DECLINED\<rparr>) (db_tenantOffers s1),
            db_properties := update_where (\<lambda>p. p_id p = pid \<and> p_status p \<noteq> P_ARCHIVED)
              (\<lambda>p. p\<lparr>p_status := P_ARCHIVED\<rparr>) (db_properties s1)\<rparr>)"

definition fulfil_request :: "uuid \<Rightarrow> uuid \<Rightarrow> db \<Rightarrow> int \<times> db" where
  "fulfil_request rid tenantId s =
     (let may = (\<lambda>r. tr_id r = rid \<and> tr_tenantId r = tenantId \<and> tr_status r = TR_APPROVED)
      in (count_where may (db_tenantRequests s),
          s\<lparr>db_tenantRequests := update_where may (\<lambda>r. r\<lparr>tr_status := TR_FULFILLED\<rparr>) (db_tenantRequests s)\<rparr>))"

text \<open>The transaction; the second component of the value says whether to notify.\<close>

definition confirm_agreement_tx :: "match_connection \<Rightarrow> time \<Rightarrow> db \<Rightarrow> (time \<times> bool) result" where
  "confirm_agreement_tx c now tx =
     (let may = (\<lambda>d. mc_id d = mc_id c \<and> mc_agreementReachedAt d = None);
          tx1 = tx\<lparr>db_matchConnections := update_where may (\<lambda>d. d\<lparr>mc_agreementReachedAt := Some now\<rparr>) (db_matchConnections tx)\<rparr>
      in if count_where may (db_matchConnections tx) \<noteq> 1
         then (case Option.bind (find (\<lambda>d. mc_id d = mc_id c) (db_matchConnections tx1)) mc_agreementReachedAt of
                 None \<Rightarrow> (Inl (Conflict ''AGREEMENT_CONFIRMATION_CONFLICT''), tx1)
               | Some t \<Rightarrow> (Inr (t, False), tx1))
         else
           case mc_tenantRequestId c of
             None \<Rightarrow> (Inr (now, True), close_property (mc_propertyId c) tx1)
           | Some rid \<Rightarrow>
             let (fulfilled, tx2) = fulfil_request rid (mc_tenantId c) tx1
             in if fulfilled \<noteq> 1 then (Inl (Conflict ''TENANT_REQUEST_ALREADY_SETTLED''), tx2)
                else (Inr (now, True), close_property (mc_propertyId c)
                        (reject_owner_offers (\<lambda>x. oo_tenantRequestId x = rid) tx2)))"

definition removeArchivedPropertyVectors :: "uuid \<Rightarrow> db \<Rightarrow> db" where
  "removeArchivedPropertyVectors pid s = emit (RemoveVectors pid) s"

definition confirmAgreement :: "uuid \<Rightarrow> uuid \<Rightarrow> time \<Rightarrow> db \<Rightarrow> time result" where
  "confirmAgreement userId cid now s =
     (case find (\<lambda>c. mc_id c = cid \<and> mc_status c = CONNECTED \<and> participant userId c) (db_matchConnections s) of
        None \<Rightarrow> (Inl (NotFound ''CONVERSATION_NOT_FOUND''), s)
      | Some c \<Rightarrow>
        if userId \<noteq> (if mc_tenantRequestId c \<noteq> None then mc_tenantId c else mc_ownerId c)
        then (Inl (Conflict ''ONLY_DESIGNATED_PARTY_MAY_CONFIRM_AGREEMENT''), s)
        else case mc_agreementReachedAt c of
          Some t \<Rightarrow> (Inr t, s)
        | None \<Rightarrow>
          (case transaction (confirm_agreement_tx c now) s of
             (Inl e, s1) \<Rightarrow> (Inl e, s1)
           | (Inr (reachedAt, notify), s1) \<Rightarrow>
               (Inr reachedAt,
                if notify
                then notifyUser (if userId = mc_ownerId c then mc_tenantId c else mc_ownerId c) NEW_MATCH
                       (Some (''/landlord/messages/'', Some cid)) now
                       (removeArchivedPropertyVectors (mc_propertyId c) s1)
                else s1)))"

section \<open>Properties\<close>

text \<open>C14: A conversation is private: its messages, and exactly its messages, are shown to the two
  parties of a CONNECTED match; for anybody else, and after the match was ended, reading, sending
  and confirming are answered with the same not-found error and change nothing.\<close>

theorem conversation_private:
  "if \<exists>c \<in> set (db_matchConnections s). mc_id c = cid \<and> mc_status c = CONNECTED \<and> participant userId c
   then \<exists>rows. messages g key userId cid s = Inr rows
     \<and> mv_row ` set rows = {m \<in> set (db_messages s). m_matchConnectionId m = cid}
   else messages g key userId cid s = Inl (NotFound ''CONVERSATION_NOT_FOUND'')
     \<and> send g key iv userId cid input now s = (Inl (NotFound ''CONVERSATION_NOT_FOUND''), s)
     \<and> confirmAgreement userId cid now s = (Inl (NotFound ''CONVERSATION_NOT_FOUND''), s)"
proof (cases "find (\<lambda>c. mc_id c = cid \<and> mc_status c = CONNECTED \<and> participant userId c) (db_matchConnections s)")
  case None
  then have n: "\<not> (\<exists>c \<in> set (db_matchConnections s). mc_id c = cid \<and> mc_status c = CONNECTED \<and> participant userId c)"
    by (auto simp: find_None_iff)
  show ?thesis
    unfolding if_not_P[OF n] by (simp add: None messages_def send_def confirmAgreement_def connectionFor_def)
next
  case (Some c)
  then show ?thesis
    by (auto dest!: find_SomeD simp: messages_def connectionFor_def view_message_def image_image)
qed

lemma connectionFor_cong: "db_matchConnections s = db_matchConnections t \<Longrightarrow> connectionFor u cid s = connectionFor u cid t"
  by (simp add: connectionFor_def)

text \<open>A send that returns.\<close>

lemma send_Inr:
  assumes "send g key iv userId cid input now s = (Inr v, s')"
  obtains c body has where "connectionFor userId cid s = Inr c" "body = js_trim (case si_body input of None \<Rightarrow> '''' | Some b \<Rightarrow> b)"
    "length body \<le> 1000" "mv_row v = new_message (db_seq s) cid userId (encryptText g key iv body) has input now"
    "mv_body v = body" "db_messages s' = db_messages s @ [mv_row v]" "db_matchConnections s' = db_matchConnections s"
    "body = [] \<Longrightarrow> has"
    "db_effects s' = db_effects s @ [SocketMessage (recipientOf c userId) (db_seq s) body,
       SocketNotification (recipientOf c userId) NEW_MESSAGE]"
proof -
  from assms obtain c where c: "connectionFor userId cid s = Inr c" by (auto simp: send_def split: sum.splits)
  let ?body = "js_trim (case si_body input of None \<Rightarrow> '''' | Some b \<Rightarrow> b)"
  let ?has = "js_or (si_attachmentUrl input) None \<noteq> None \<and> si_attachmentType input \<noteq> None"
  note d = assms[unfolded send_def c sum.case Let_def]
  have a: "\<not> (?body = [] \<and> \<not> ?has)" and b: "\<not> 1000 < length ?body" using d by (auto split: if_splits)
  note d = d[unfolded if_not_P[OF a] if_not_P[OF b]]
  show thesis
    by (rule that[OF c refl, of ?has]) (use d a b in \<open>auto simp: new_message_def recipientOf_def\<close>)
qed


lemma too_late_iff: "too_late m now \<longleftrightarrow> 15 * 60000 < now - m_createdAt m"
  unfolding too_late_def by (simp add: field_simps) linarith

text \<open>Nobody else can touch a message, and nobody after fifteen minutes: a message whose author did
  not send the request, or that is older than fifteen minutes, or that is not the one named,
  survives every edit and every deletion unchanged.\<close>

theorem message_survives:
  assumes "distinct (map m_id (db_messages s))" "m \<in> set (db_messages s)"
    and "m_id m \<noteq> messageId \<or> m_senderId m \<noteq> userId \<or> 15 * 60000 < now - m_createdAt m"
  shows "m \<in> set (db_messages (snd (updateMessage g key iv userId messageId rawBody now s)))
    \<and> m \<in> set (db_messages (snd (deleteMessage userId messageId now s)))"
proof (cases "m_id m = messageId")
  case True
  have "find (\<lambda>x. m_id x = messageId) (db_messages s) = Some m"
    using find_unique[OF assms(1,2)] True by simp
  then show ?thesis
    using assms(2,3) True by (auto simp: updateMessage_def deleteMessage_def Let_def too_late_iff)
next
  case False
  then have "m \<in> set (update_where (\<lambda>x. m_id x = messageId) f (db_messages s))" for f
    using assms(2) by (force simp: set_update_where)
  then show ?thesis
    using assms(2) False by (auto simp: updateMessage_def deleteMessage_def Let_def split: option.splits)
qed

subsection \<open>Agreements\<close>

lemma close_property_simps [simp]:
  "db_matchConnections (close_property pid s) = db_matchConnections s"
  "db_tenantRequests (close_property pid s) = db_tenantRequests s"
  "db_ownerOffers (close_property pid s) = db_ownerOffers (reject_owner_offers (\<lambda>x. oo_propertyId x = Some pid) s)"
  by (simp_all add: close_property_def reject_owner_offers_def Let_def)

lemma close_property_closes:
  "\<forall>p \<in> set (db_properties (close_property pid s)). p_id p = pid \<longrightarrow> p_status p = P_ARCHIVED"
  "\<forall>x \<in> set (db_tenantOffers (close_property pid s)). to_propertyId x = pid \<longrightarrow> to_status x \<notin> {TO_PENDING, COUNTERED}"
  unfolding close_property_def Let_def by (simp_all add: ball_update_where)

lemma reject_owner_offers_simps [simp]:
  "db_matchConnections (reject_owner_offers P s) = db_matchConnections s"
  "db_tenantRequests (reject_owner_offers P s) = db_tenantRequests s"
  by (simp_all add: reject_owner_offers_def)

lemma reject_owner_offers_closes:
  "x \<in> set (db_ownerOffers (reject_owner_offers P s)) \<Longrightarrow> open_owner_offer x \<Longrightarrow> \<not> P x \<and> x \<in> set (db_ownerOffers s)"
  by (auto simp: reject_owner_offers_def open_owner_offer_def elim!: in_update_whereE)

lemma fulfil_request_spec:
  assumes "fst (fulfil_request rid tid s) = 1"
  shows "\<exists>r \<in> set (db_tenantRequests (snd (fulfil_request rid tid s))). tr_id r = rid \<and> tr_tenantId r = tid \<and> tr_status r = TR_FULFILLED"
proof -
  let ?P = "\<lambda>r. tr_id r = rid \<and> tr_tenantId r = tid \<and> tr_status r = TR_APPROVED"
  have "count_where ?P (db_tenantRequests s) = 1" using assms by (simp add: fulfil_request_def Let_def)
  then have "\<not> (\<forall>r \<in> set (db_tenantRequests s). \<not> ?P r)"
    using count_where_zero_iff[of ?P "db_tenantRequests s"] by linarith
  then obtain q where "q \<in> set (db_tenantRequests s)" "?P q" by blast
  then have "q\<lparr>tr_status := TR_FULFILLED\<rparr> \<in> set (update_where ?P (\<lambda>r. r\<lparr>tr_status := TR_FULFILLED\<rparr>) (db_tenantRequests s))"
    by (intro in_update_whereI) simp_all
  with \<open>?P q\<close> show ?thesis by (intro bexI[of _ "q\<lparr>tr_status := TR_FULFILLED\<rparr>"]) (simp_all add: fulfil_request_def Let_def)
qed

lemma fulfil_request_frame [simp]:
  "db_matchConnections (snd (fulfil_request rid tid s)) = db_matchConnections s"
  by (simp add: fulfil_request_def Let_def)

definition agreed :: "uuid \<Rightarrow> time \<Rightarrow> db \<Rightarrow> db" where
  "agreed cid now s = s\<lparr>db_matchConnections := update_where (\<lambda>d. mc_id d = cid \<and> mc_agreementReachedAt d = None)
     (\<lambda>d. d\<lparr>mc_agreementReachedAt := Some now\<rparr>) (db_matchConnections s)\<rparr>"

text \<open>The transaction on a connection without an agreement, in its two cases.\<close>

lemma confirm_tx_first:
  assumes "mc_agreementReachedAt c = None" "c \<in> set (db_matchConnections s)" "distinct (map mc_id (db_matchConnections s))"
  shows "confirm_agreement_tx c now s = (case mc_tenantRequestId c of
      None \<Rightarrow> (Inr (now, True), close_property (mc_propertyId c) (agreed (mc_id c) now s))
    | Some rid \<Rightarrow> let (n, s2) = fulfil_request rid (mc_tenantId c) (agreed (mc_id c) now s)
        in if n \<noteq> 1 then (Inl (Conflict ''TENANT_REQUEST_ALREADY_SETTLED''), s2)
           else (Inr (now, True), close_property (mc_propertyId c) (reject_owner_offers (\<lambda>x. oo_tenantRequestId x = rid) s2)))"
proof -
  let ?may = "\<lambda>d. mc_id d = mc_id c \<and> mc_agreementReachedAt d = None"
  have "count_where ?may (db_matchConnections s) \<noteq> 0" using assms(1,2) by (auto simp: count_where_zero_iff)
  moreover have "count_where ?may (db_matchConnections s) \<le> 1"
    by (rule count_where_unique[OF assms(3)]) simp
  ultimately have one: "count_where ?may (db_matchConnections s) = 1"
    using count_where_nonneg[of ?may "db_matchConnections s"] by linarith
  show ?thesis unfolding confirm_agreement_tx_def Let_def one agreed_def by simp
qed

text \<open>What an agreement on \<open>c\<close> closes.\<close>

definition agreement_closed :: "match_connection \<Rightarrow> db \<Rightarrow> bool" where
  "agreement_closed c s \<longleftrightarrow>
     (\<forall>p \<in> set (db_properties s). p_id p = mc_propertyId c \<longrightarrow> p_status p = P_ARCHIVED)
     \<and> (\<forall>x \<in> set (db_ownerOffers s). oo_propertyId x = Some (mc_propertyId c) \<or> Some (oo_tenantRequestId x) = mc_tenantRequestId c
          \<longrightarrow> \<not> open_owner_offer x)
     \<and> (\<forall>x \<in> set (db_tenantOffers s). to_propertyId x = mc_propertyId c \<longrightarrow> to_status x \<notin> {TO_PENDING, COUNTERED})
     \<and> (\<forall>rid. mc_tenantRequestId c = Some rid \<longrightarrow>
          (\<exists>r \<in> set (db_tenantRequests s). tr_id r = rid \<and> tr_tenantId r = mc_tenantId c \<and> tr_status r = TR_FULFILLED))"

lemma confirm_tx_Inr:
  assumes "mc_agreementReachedAt c = None" "c \<in> set (db_matchConnections s)" "distinct (map mc_id (db_matchConnections s))"
    and "confirm_agreement_tx c now s = (Inr (t, n), s')"
  shows "t = now \<and> n \<and> db_matchConnections s' = db_matchConnections (agreed (mc_id c) now s) \<and> agreement_closed c s'"
proof (cases "mc_tenantRequestId c")
  case None
  with assms(4) have "t = now" "n" "s' = close_property (mc_propertyId c) (agreed (mc_id c) now s)"
    unfolding confirm_tx_first[OF assms(1-3)] by auto
  with None show ?thesis
    using close_property_closes[of "mc_propertyId c" "agreed (mc_id c) now s"]
    by (auto simp: agreement_closed_def dest: reject_owner_offers_closes)
next
  case (Some rid)
  let ?f = "fulfil_request rid (mc_tenantId c) (agreed (mc_id c) now s)"
  from assms(4) Some have f: "fst ?f = 1" "t = now" "n"
    and s': "s' = close_property (mc_propertyId c) (reject_owner_offers (\<lambda>x. oo_tenantRequestId x = rid) (snd ?f))"
    unfolding confirm_tx_first[OF assms(1-3)] by (auto simp: Let_def split_beta split: if_splits)
  from Some f(2,3) fulfil_request_spec[OF f(1)]
    close_property_closes[of "mc_propertyId c" "reject_owner_offers (\<lambda>x. oo_tenantRequestId x = rid) (snd ?f)"]
  show ?thesis unfolding s' by (auto simp: agreement_closed_def dest!: reject_owner_offers_closes)
qed

lemma find_agreed:
  "find (\<lambda>c. mc_id c = cid \<and> mc_status c = CONNECTED \<and> participant u c) (db_matchConnections (agreed i now s))
   = map_option (\<lambda>d. if mc_id d = i \<and> mc_agreementReachedAt d = None then d\<lparr>mc_agreementReachedAt := Some now\<rparr> else d)
       (find (\<lambda>c. mc_id c = cid \<and> mc_status c = CONNECTED \<and> participant u c) (db_matchConnections s))"
proof -
  have "find P (update_where Q f t) = map_option (\<lambda>d. if Q d then f d else d) (find P t)"
    if "\<And>d. P (if Q d then f d else d) = P d" for P Q and f :: "match_connection \<Rightarrow> match_connection" and t
    by (induction t) (use that in \<open>auto split: if_splits\<close>)
  then show ?thesis unfolding agreed_def by (simp add: participant_def)
qed

lemma confirm_cong:
  assumes "find (\<lambda>c. mc_id c = cid \<and> mc_status c = CONNECTED \<and> participant userId c) (db_matchConnections s) = Some c"
    and "userId = (if mc_tenantRequestId c \<noteq> None then mc_tenantId c else mc_ownerId c)" "mc_agreementReachedAt c = Some t"
  shows "confirmAgreement userId cid now s = (Inr t, s)"
  using assms by (simp add: confirmAgreement_def)

text \<open>A confirmation that returns, from the connection it is about.\<close>

lemma confirmAgreement_Inr:
  assumes "confirmAgreement userId cid now s = (Inr t, s')" "distinct (map mc_id (db_matchConnections s))"
  obtains c where
    "find (\<lambda>c. mc_id c = cid \<and> mc_status c = CONNECTED \<and> participant userId c) (db_matchConnections s) = Some c"
    "userId = (if mc_tenantRequestId c \<noteq> None then mc_tenantId c else mc_ownerId c)"
    "mc_agreementReachedAt c = Some t \<and> s' = s
     \<or> mc_agreementReachedAt c = None \<and> t = now \<and> agreement_closed c s'
       \<and> db_matchConnections s' = db_matchConnections (agreed cid now s)"
proof -
  from assms(1) obtain c where f: "find (\<lambda>c. mc_id c = cid \<and> mc_status c = CONNECTED \<and> participant userId c) (db_matchConnections s) = Some c"
    by (auto simp: confirmAgreement_def split: option.splits)
  then have c: "c \<in> set (db_matchConnections s)" "mc_id c = cid" by (auto dest: find_SomeD)
  note d = assms(1)[unfolded confirmAgreement_def f option.case]
  have u: "userId = (if mc_tenantRequestId c \<noteq> None then mc_tenantId c else mc_ownerId c)"
    using d by (auto split: if_splits)
  show thesis
  proof (cases "mc_agreementReachedAt c")
    case (Some x)
    with d u have "mc_agreementReachedAt c = Some t \<and> s' = s" by simp
    with that[OF f u] show thesis by blast
  next
    case None
    from d u None obtain n s1 where tx: "confirm_agreement_tx c now s = (Inr (t, n), s1)"
      by (auto simp: transaction_def split: prod.splits sum.splits if_splits)
    note e = confirm_tx_Inr[OF None c(1) assms(2) tx]
    with d u None tx have "s' = notifyUser (if userId = mc_ownerId c then mc_tenantId c else mc_ownerId c) NEW_MATCH
        (Some (''/landlord/messages/'', Some cid)) now (removeArchivedPropertyVectors (mc_propertyId c) s1)"
      by (simp add: transaction_def)
    then have "agreement_closed c s'" "db_matchConnections s' = db_matchConnections (agreed cid now s)"
      using e c(2) by (simp_all add: agreement_closed_def removeArchivedPropertyVectors_def)
    with e None that[OF f u] show thesis by blast
  qed
qed

text \<open>C15: An agreement is confirmed once, by the designated party alone, and closes the market around
  it: a confirmation that fails changes nothing; the one that succeeds archives the listing, leaves
  no open offer on it or for the request, and fulfils the tenant's request; every later
  confirmation returns the recorded time and changes nothing.\<close>

theorem agreement_settles:
  assumes "distinct (map mc_id (db_matchConnections s))" "confirmAgreement userId cid now s = (r, s')"
  shows "(\<forall>e. r = Inl e \<longrightarrow> s' = s)
    \<and> (\<forall>t. r = Inr t \<longrightarrow> (\<exists>c \<in> set (db_matchConnections s). mc_id c = cid
         \<and> userId = (if mc_tenantRequestId c \<noteq> None then mc_tenantId c else mc_ownerId c)
         \<and> (mc_agreementReachedAt c = Some t \<and> s' = s
            \<or> mc_agreementReachedAt c = None \<and> t = now \<and> agreement_closed c s'))
         \<and> (\<forall>later. confirmAgreement userId cid later s' = (Inr t, s')))"
proof (intro conjI allI impI)
  fix e assume "r = Inl e"
  with assms(2) show "s' = s"
    by (auto simp: confirmAgreement_def transaction_def split: option.splits if_splits prod.splits sum.splits)
next
  fix t assume r: "r = Inr t"
  obtain c where c: "find (\<lambda>c. mc_id c = cid \<and> mc_status c = CONNECTED \<and> participant userId c) (db_matchConnections s) = Some c"
    "userId = (if mc_tenantRequestId c \<noteq> None then mc_tenantId c else mc_ownerId c)"
    "mc_agreementReachedAt c = Some t \<and> s' = s
     \<or> mc_agreementReachedAt c = None \<and> t = now \<and> agreement_closed c s'
       \<and> db_matchConnections s' = db_matchConnections (agreed cid now s)"
    by (rule confirmAgreement_Inr[OF assms(2)[unfolded r] assms(1)])
  have m: "c \<in> set (db_matchConnections s)" "mc_id c = cid" using c(1) by (auto dest: find_SomeD)
  from c(2,3) m show "\<exists>c \<in> set (db_matchConnections s). mc_id c = cid
         \<and> userId = (if mc_tenantRequestId c \<noteq> None then mc_tenantId c else mc_ownerId c)
         \<and> (mc_agreementReachedAt c = Some t \<and> s' = s
            \<or> mc_agreementReachedAt c = None \<and> t = now \<and> agreement_closed c s')" by blast
  fix later
  from c(3) show "confirmAgreement userId cid later s' = (Inr t, s')"
  proof (elim disjE conjE)
    assume "mc_agreementReachedAt c = Some t" "s' = s"
    with confirm_cong[OF c(1,2)] show ?thesis by simp
  next
    assume n: "mc_agreementReachedAt c = None" "t = now" "db_matchConnections s' = db_matchConnections (agreed cid now s)"
    let ?d = "c\<lparr>mc_agreementReachedAt := Some now\<rparr>"
    have f: "find (\<lambda>c. mc_id c = cid \<and> mc_status c = CONNECTED \<and> participant userId c) (db_matchConnections s') = Some ?d"
      unfolding n(3) find_agreed using c(1) n(1) m(2) by simp
    have "userId = (if mc_tenantRequestId ?d \<noteq> None then mc_tenantId ?d else mc_ownerId ?d)" using c(2) by simp
    from confirm_cong[OF f this] n(2) show ?thesis by simp
  qed
qed

text \<open>Nothing keeps one listing from being let twice: after the owner has confirmed an agreement
  with one tenant, which archives the listing, the confirmation with another tenant whose direct
  offer on the same listing was also accepted still succeeds.\<close>

theorem second_agreement_on_archived_listing:
  assumes "distinct (map mc_id (db_matchConnections s))"
    and "c \<in> set (db_matchConnections s)" "d \<in> set (db_matchConnections s)" "mc_id c \<noteq> mc_id d"
    and "mc_status c = CONNECTED" "mc_status d = CONNECTED" "mc_ownerId c = owner" "mc_ownerId d = owner"
    and "mc_tenantRequestId c = None" "mc_tenantRequestId d = None" "mc_propertyId c = pid" "mc_propertyId d = pid"
    and "mc_agreementReachedAt c = None" "mc_agreementReachedAt d = None"
  shows "\<exists>s1 s2. confirmAgreement owner (mc_id c) now s = (Inr now, s1)
    \<and> (\<forall>p \<in> set (db_properties s1). p_id p = pid \<longrightarrow> p_status p = P_ARCHIVED)
    \<and> confirmAgreement owner (mc_id d) later s1 = (Inr later, s2)"
proof -
  have find_of: "find (\<lambda>c. mc_id c = mc_id x \<and> mc_status c = CONNECTED \<and> participant owner c) (db_matchConnections t) = Some x"
    if "distinct (map mc_id (db_matchConnections t))" "x \<in> set (db_matchConnections t)" "mc_status x = CONNECTED" "mc_ownerId x = owner"
    for x t
    using that find_unique[OF that(1,2)] unfolding find_Some_iff
    by (auto simp: find_Some_iff participant_def)
  have fresh: "\<exists>t'. confirmAgreement owner (mc_id x) n t = (Inr n, t') \<and> agreement_closed x t'
      \<and> db_matchConnections t' = db_matchConnections (agreed (mc_id x) n t)"
    if x: "distinct (map mc_id (db_matchConnections t))" "x \<in> set (db_matchConnections t)" "mc_status x = CONNECTED"
      "mc_ownerId x = owner" "mc_tenantRequestId x = None" "mc_agreementReachedAt x = None" for x t n
  proof -
    note f = find_of[OF x(1-4)]
    have "confirm_agreement_tx x n t = (Inr (n, True), close_property (mc_propertyId x) (agreed (mc_id x) n t))"
      using confirm_tx_first[OF x(6,2,1)] x(5) by simp
    then obtain t' where "confirmAgreement owner (mc_id x) n t = (Inr n, t')"
      using f x(4-6) by (simp add: confirmAgreement_def)
    moreover from this f x(6) have "agreement_closed x t' \<and> db_matchConnections t' = db_matchConnections (agreed (mc_id x) n t)"
      by (auto elim!: confirmAgreement_Inr[OF _ x(1)])
    ultimately show ?thesis by blast
  qed
  from fresh[OF assms(1,2,5,7,9,13)] obtain s1 where s1: "confirmAgreement owner (mc_id c) now s = (Inr now, s1)"
    "agreement_closed c s1" "db_matchConnections s1 = db_matchConnections (agreed (mc_id c) now s)" by blast
  have "map mc_id (db_matchConnections s1) = map mc_id (db_matchConnections s)"
    unfolding s1(3) agreed_def by (simp add: map_update_where)
  moreover have "d \<in> set (db_matchConnections s1)"
    unfolding s1(3) agreed_def using assms(3,4) by (force simp: set_update_where)
  ultimately obtain s2 where "confirmAgreement owner (mc_id d) later s1 = (Inr later, s2)"
    using fresh[of s1 d later] assms by auto
  with s1 assms(11) show ?thesis unfolding agreement_closed_def by blast
qed

section \<open>Witnesses\<close>

text \<open>A reversible, colon-free stand-in for the cipher: eight binary digits per character.\<close>

fun bit_char :: "bool \<Rightarrow> char" where
  "bit_char True = CHR ''1''" | "bit_char False = CHR ''0''"

fun to_bits :: "string \<Rightarrow> string" where
  "to_bits [] = []"
| "to_bits (Char a b c d e f g h # xs) = map bit_char [a, b, c, d, e, f, g, h] @ to_bits xs"

fun of_bits :: "string \<Rightarrow> string" where
  "of_bits (a # b # c # d # e # f # g # h # xs) =
     Char (a = CHR ''1'') (b = CHR ''1'') (c = CHR ''1'') (d = CHR ''1'')
       (e = CHR ''1'') (f = CHR ''1'') (g = CHR ''1'') (h = CHR ''1'') # of_bits xs"
| "of_bits _ = []"

lemma bit_char_simps [simp]: "bit_char b = CHR ''1'' \<longleftrightarrow> b" "bit_char b \<noteq> CHR '':''"
  by (cases b; simp)+

lemma of_to_bits [simp]: "of_bits (to_bits xs) = xs"
  by (induction xs rule: to_bits.induct) simp_all

lemma to_bits_colon: "CHR '':'' \<notin> set (to_bits xs)"
  by (induction xs rule: to_bits.induct) (simp_all add: bit_char_simps(2)[symmetric])

definition gcm_example :: gcm where
  "gcm_example = \<lparr>seal = (\<lambda>key iv txt. (to_bits txt, ''00'')), unseal = (\<lambda>key iv tag c. Some (of_bits c))\<rparr>"

lemma gcm_example_ok: "gcm_ok gcm_example"
  by (simp add: gcm_ok_def gcm_example_def to_bits_colon)

definition match_example :: "uuid \<Rightarrow> uuid \<Rightarrow> match_connection" where
  "match_example i tenant = \<lparr>mc_id = i, mc_tenantId = tenant, mc_propertyId = 4, mc_ownerId = 7,
     mc_tenantRequestId = None, mc_matchScore = 100, mc_status = CONNECTED,
     mc_agreementReachedAt = None, mc_createdAt = 0\<rparr>"

definition message_example :: message where
  "message_example = new_message 3 21 8 ''hello'' False
     \<lparr>si_body = None, si_attachmentUrl = None, si_attachmentType = None, si_attachmentName = None, si_attachmentDurationMs = None\<rparr> 0"

definition chat_db :: db where
  "chat_db = empty_db\<lparr>db_seq := 10, db_matchConnections := [match_example 21 8, match_example 22 9],
     db_messages := [message_example]\<rparr>"

lemma chat_db_simps:
  "distinct (map mc_id (db_matchConnections chat_db))" "distinct (map m_id (db_messages chat_db))"
  "connectionFor 8 21 chat_db = Inr (match_example 21 8)" "connectionFor 7 21 chat_db = Inr (match_example 21 8)"
  "match_example 21 8 \<in> set (db_matchConnections chat_db)" "match_example 22 9 \<in> set (db_matchConnections chat_db)"
  by (simp_all add: chat_db_def match_example_def connectionFor_def participant_def)

definition greeting :: send_input where
  "greeting = \<lparr>si_body = Some '' hi '', si_attachmentUrl = None, si_attachmentType = None, si_attachmentName = None, si_attachmentDurationMs = None\<rparr>"


theorem message_survives_witness:
  "message_example \<in> set (db_messages (snd (updateMessage gcm_example ''k'' ''ab'' 7 3 ''x'' 60 chat_db)))
   \<and> message_example \<in> set (db_messages (snd (deleteMessage 8 3 900001 chat_db)))"
proof -
  have m: "message_example \<in> set (db_messages chat_db)" by (simp add: chat_db_def)
  show ?thesis
    using message_survives[OF chat_db_simps(2) m, of 3 7 60 gcm_example "''k''" "''ab''" "''x''"]
      message_survives[OF chat_db_simps(2) m, of 3 8 900001]
    by (simp add: message_example_def new_message_def)
qed

theorem agreement_settles_witness:
  "\<exists>s'. confirmAgreement 7 21 60 chat_db = (Inr 60, s') \<and> confirmAgreement 7 21 99 s' = (Inr 60, s')"
proof -
  have "fst (confirmAgreement 7 21 60 chat_db) = Inr 60"
    by (simp add: confirmAgreement_def confirm_agreement_tx_def Let_def transaction_def chat_db_def match_example_def participant_def)
  then obtain s' where s': "confirmAgreement 7 21 60 chat_db = (Inr 60, s')" by (cases "confirmAgreement 7 21 60 chat_db") simp
  from agreement_settles[OF chat_db_simps(1) s'] s' show ?thesis by blast
qed

theorem second_agreement_on_archived_listing_witness:
  "\<exists>s1 s2. confirmAgreement 7 21 60 chat_db = (Inr 60, s1) \<and> confirmAgreement 7 22 70 s1 = (Inr 70, s2)"
  using second_agreement_on_archived_listing[OF chat_db_simps(1,5,6), of 7 4 60 70] by (auto simp: match_example_def)

end
