(* ===== verification/Leases.thy ===== *)
theory Leases
  imports Schema JsDate
begin

text \<open>
  \<open>lease-contracts/lease-contracts.service.ts\<close>: the handshake on the lease contract of a match.
  The HTML templates and the PDF renderer are one argument, from the data of the document to the
  file (None when rendering fails), the private object storage two: \<open>store\<close>, from a file to its
  key, and \<open>sign\<close>, from a key to a temporary address. \<open>saveDraft\<close> and \<open>sendForReview\<close> are also
  given in their read and write parts, for the interleavings their guards are about.
\<close>

section \<open>Checked input\<close>

definition is_digit :: "char \<Rightarrow> bool" where
  "is_digit c \<longleftrightarrow> 48 \<le> (of_char c :: nat) \<and> (of_char c :: nat) \<le> 57"

definition digit_value :: "char \<Rightarrow> int" where
  "digit_value c = of_char c - 48"

definition js_number :: "string \<Rightarrow> int" where
  "js_number ds = foldl (\<lambda>n c. 10 * n + digit_value c) 0 ds"

text \<open>The test \<open>/^\d{4}-\d{2}-\d{2}$/\<close> and the split at the dashes.\<close>

fun split_iso_date :: "string \<Rightarrow> (string \<times> string \<times> string) option" where
  "split_iso_date [y1, y2, y3, y4, s1, m1, m2, s2, d1, d2] =
     (if list_all is_digit [y1, y2, y3, y4, m1, m2, d1, d2] \<and> s1 = CHR ''-'' \<and> s2 = CHR ''-''
      then Some ([y1, y2, y3, y4], [m1, m2], [d1, d2]) else None)"
| "split_iso_date _ = None"

definition parseCalendarDate :: "string \<Rightarrow> string \<Rightarrow> http_error + time" where
  "parseCalendarDate value field =
     (case split_iso_date value of
        None \<Rightarrow> Inl (BadRequest (field @ ''_MUST_BE_ISO_DATE''))
      | Some (y, m, d) \<Rightarrow>
          let year = js_number y; month = js_number m; day = js_number d;
              date = date_UTC year (month - 1) day
          in if getUTCFullYear date \<noteq> year \<or> getUTCMonth date \<noteq> month - 1 \<or> getUTCDate date \<noteq> day
             then Inl (BadRequest (field @ ''_IS_INVALID'')) else Inr date)"

fun map_clauses :: "string list \<Rightarrow> http_error + string list" where
  "map_clauses [] = Inr []"
| "map_clauses (c # cs) =
     (let normalized = js_trim c
      in if normalized = [] \<or> 2000 < length normalized then Inl (BadRequest ''CUSTOM_CLAUSE_IS_INVALID'')
         else case map_clauses cs of Inl e \<Rightarrow> Inl e | Inr ns \<Rightarrow> Inr (normalized # ns))"

definition normalizeCustomClauses :: "string list \<Rightarrow> http_error + string list" where
  "normalizeCustomClauses clauses =
     (if 30 < length clauses then Inl (BadRequest ''TOO_MANY_CUSTOM_CLAUSES'') else map_clauses clauses)"

definition requireTrustedText :: "string \<Rightarrow> nat \<Rightarrow> string \<Rightarrow> http_error + string" where
  "requireTrustedText value mx field =
     (let normalized = js_trim value
      in if normalized = [] \<or> mx < length normalized
         then Inl (Conflict (''TRUSTED_'' @ field @ ''_IS_INVALID'')) else Inr normalized)"

section \<open>Text for the printed page\<close>

definition replace_all :: "char \<Rightarrow> string \<Rightarrow> string \<Rightarrow> string" where
  "replace_all c r v = concat (map (\<lambda>x. if x = c then r else [x]) v)"

definition escapeHtml :: "string \<Rightarrow> string" where
  "escapeHtml v =
     replace_all CHR 0x27 ''&#39;'' (replace_all CHR 0x22 ''&quot;''
       (replace_all CHR ''>'' ''&gt;'' (replace_all CHR ''<'' ''&lt;'' (replace_all CHR ''&'' ''&amp;'' v))))"

definition escape_char :: "char \<Rightarrow> string" where
  "escape_char c = (if c = CHR ''&'' then ''&amp;'' else if c = CHR ''<'' then ''&lt;'' else if c = CHR ''>'' then ''&gt;''
     else if c = CHR 0x22 then ''&quot;'' else if c = CHR 0x27 then ''&#39;'' else [c])"

section \<open>Rows and views\<close>

definition leaseContractStatusToWire :: "lease_status \<Rightarrow> string" where
  "leaseContractStatusToWire st = (case st of DRAFTING \<Rightarrow> ''drafting''
     | PENDING_TENANT_APPROVAL \<Rightarrow> ''reviewing'' | LC_APPROVED \<Rightarrow> ''generated'')"

definition contract_of :: "uuid \<Rightarrow> db \<Rightarrow> lease_contract option" where
  "contract_of mid s = find (\<lambda>c. lc_matchConnectionId c = mid) (db_leaseContracts s)"

definition requireContract :: "uuid \<Rightarrow> db \<Rightarrow> http_error + lease_contract" where
  "requireContract mid s = (case contract_of mid s of None \<Rightarrow> Inl (NotFound ''LEASE_NOT_FOUND'') | Some c \<Rightarrow> Inr c)"

text \<open>Every write of Prisma stamps \<open>updatedAt\<close>.\<close>

definition update_contract :: "(lease_contract \<Rightarrow> bool) \<Rightarrow> (lease_contract \<Rightarrow> lease_contract) \<Rightarrow> time \<Rightarrow> db \<Rightarrow> db" where
  "update_contract P f now s = s\<lparr>db_leaseContracts :=
     update_where P (\<lambda>c. (f c)\<lparr>lc_updatedAt := now\<rparr>) (db_leaseContracts s)\<rparr>"

record match_info =
  mi_connection :: match_connection
  mi_ownerName :: string
  mi_tenantName :: string
  mi_district :: string
  mi_manualAddress :: string
  mi_rentAmount :: real

text \<open>The relations of a match are foreign keys; a match without its listing does not occur.\<close>

definition connectedMatchFor :: "uuid \<Rightarrow> uuid \<Rightarrow> db \<Rightarrow> http_error + match_info" where
  "connectedMatchFor userId mid s =
     (case find (\<lambda>c. mc_id c = mid \<and> mc_status c = CONNECTED \<and> (mc_tenantId c = userId \<or> mc_ownerId c = userId))
             (db_matchConnections s) of
        None \<Rightarrow> Inl (NotFound ''MATCH_NOT_FOUND'')
      | Some c \<Rightarrow>
        (case find (\<lambda>p. p_id p = mc_propertyId c) (db_properties s) of
           None \<Rightarrow> Inl (Internal ''FOREIGN_KEY'')
         | Some p \<Rightarrow> Inr \<lparr>mi_connection = c, mi_ownerName = user_name (mc_ownerId c) s,
             mi_tenantName = user_name (mc_tenantId c) s, mi_district = p_district p,
             mi_manualAddress = p_manualAddress p, mi_rentAmount = p_rentAmount p\<rparr>))"

definition party_of :: "lease_contract \<Rightarrow> db \<Rightarrow> match_connection option" where
  "party_of c s = find (\<lambda>m. mc_id m = lc_matchConnectionId c) (db_matchConnections s)"

definition authorizedContract :: "uuid \<Rightarrow> uuid \<Rightarrow> bool \<Rightarrow> db \<Rightarrow> http_error + (lease_contract \<times> match_connection)" where
  "authorizedContract userId contractId tenantOnly s =
     (case find (\<lambda>c. lc_id c = contractId) (db_leaseContracts s) of
        None \<Rightarrow> Inl (NotFound ''LEASE_NOT_FOUND'')
      | Some c \<Rightarrow>
        (case party_of c s of
           None \<Rightarrow> Inl (Internal ''FOREIGN_KEY'')
         | Some m \<Rightarrow>
             if (if tenantOnly then mc_tenantId m \<noteq> userId else mc_tenantId m \<noteq> userId \<and> mc_ownerId m \<noteq> userId)
             then Inl (Forbidden ''NOT_A_PARTY_TO_THIS_CONTRACT'') else Inr (c, m)))"

record draft_response =
  dr_id :: uuid
  dr_matchConnectionId :: uuid
  dr_status :: string
  dr_changeRequestNote :: "string option"
  dr_ownerName :: string
  dr_tenantName :: string
  dr_propertyAddress :: string
  dr_customClauses :: "string list"
  dr_witness1Name :: "string option"
  dr_witness2Name :: "string option"
  dr_rentAmount :: real
  dr_startDate :: time
  dr_endDate :: time
  dr_createdAt :: time
  dr_updatedAt :: time
  dr_pdfUrl :: "string option"
  dr_isDraft :: bool
  dr_tenantReviewStatus :: review_status
  dr_tenantChangeRequest :: "string option"
  dr_tenantChangeRequestedAt :: "time option"
  dr_tenantReviewConfirmedAt :: "time option"
  dr_draftRevision :: int
  dr_tenantReviewedRevision :: "int option"
  dr_canEdit :: bool
  dr_canRequestChanges :: bool
  dr_canConfirmReview :: bool
  dr_canDownloadPdf :: bool

text \<open>\<open>parties\<close> is the caller with the match, when the call passes them.\<close>

definition toResponse :: "(string \<Rightarrow> string) \<Rightarrow> (uuid \<times> match_connection) option \<Rightarrow> lease_contract \<Rightarrow> draft_response" where
  "toResponse sign parties c =
     (let owner = (case parties of None \<Rightarrow> False | Some (u, m) \<Rightarrow> mc_ownerId m = u);
          tenant = (case parties of None \<Rightarrow> False | Some (u, m) \<Rightarrow> mc_tenantId m = u)
      in \<lparr>dr_id = lc_id c, dr_matchConnectionId = lc_matchConnectionId c,
          dr_status = leaseContractStatusToWire (lc_status c), dr_changeRequestNote = lc_changeRequestNote c,
          dr_ownerName = lc_ownerName c, dr_tenantName = lc_tenantName c, dr_propertyAddress = lc_propertyAddress c,
          dr_customClauses = lc_customClauses c, dr_witness1Name = lc_witness1Name c, dr_witness2Name = lc_witness2Name c,
          dr_rentAmount = lc_rentAmount c, dr_startDate = lc_startDate c, dr_endDate = lc_endDate c,
          dr_createdAt = lc_createdAt c, dr_updatedAt = lc_updatedAt c,
          dr_pdfUrl = map_option sign (js_or (lc_pdfUrl c) None),
          dr_isDraft = (lc_status c \<noteq> LC_APPROVED), dr_tenantReviewStatus = lc_tenantReviewStatus c,
          dr_tenantChangeRequest = lc_tenantChangeRequest c, dr_tenantChangeRequestedAt = lc_tenantChangeRequestedAt c,
          dr_tenantReviewConfirmedAt = lc_tenantReviewConfirmedAt c, dr_draftRevision = lc_draftRevision c,
          dr_tenantReviewedRevision = lc_tenantReviewedRevision c,
          dr_canEdit = (owner \<and> lc_status c = DRAFTING \<and> lc_tenantReviewStatus c \<noteq> REVIEW_CONFIRMED),
          dr_canRequestChanges = (tenant \<and> lc_status c = DRAFTING \<and> lc_tenantReviewStatus c = PENDING_REVIEW),
          dr_canConfirmReview = (tenant \<and> lc_status c \<noteq> LC_APPROVED
            \<and> (lc_tenantReviewStatus c = PENDING_REVIEW \<or> lc_tenantReviewStatus c = REVIEW_CONFIRMED)),
          dr_canDownloadPdf = (lc_status c = LC_APPROVED \<and> js_or (lc_pdfUrl c) None \<noteq> None)\<rparr>)"

definition contractLink :: "uuid \<Rightarrow> link" where
  "contractLink mid = (''/contracts/new?matchConnectionId='', Some mid)"

section \<open>Drafting\<close>

definition getPrefill :: "uuid \<Rightarrow> uuid \<Rightarrow> db \<Rightarrow> http_error + (string \<times> string \<times> string \<times> real)" where
  "getPrefill userId mid s =
     (case connectedMatchFor userId mid s of
        Inl e \<Rightarrow> Inl e
      | Inr m \<Rightarrow> Inr (mi_ownerName m, mi_tenantName m, mi_district m @ '', '' @ mi_manualAddress m, mi_rentAmount m))"

record save_draft_dto =
  sd_rentAmount :: "real option"
  sd_startDate :: string
  sd_endDate :: string
  sd_customClauses :: "string list option"
  sd_witness1Name :: "string option"
  sd_witness1NationalId :: "string option"
  sd_witness2Name :: "string option"
  sd_witness2NationalId :: "string option"

record draft_data =
  dd_ownerName :: string
  dd_tenantName :: string
  dd_propertyAddress :: string
  dd_rentAmount :: real
  dd_startDate :: time
  dd_endDate :: time
  dd_customClauses :: "string list"
  dd_witness1Name :: "string option"
  dd_witness1NationalId :: "string option"
  dd_witness2Name :: "string option"
  dd_witness2NationalId :: "string option"

text \<open>The validation of the input, in the order of the code.\<close>

definition draft_data_of :: "match_info \<Rightarrow> save_draft_dto \<Rightarrow> http_error + draft_data" where
  "draft_data_of m dto =
     (case parseCalendarDate (sd_startDate dto) ''STARTDATE'' of Inl e \<Rightarrow> Inl e | Inr startDate \<Rightarrow>
      case parseCalendarDate (sd_endDate dto) ''ENDDATE'' of Inl e \<Rightarrow> Inl e | Inr endDate \<Rightarrow>
      if endDate \<le> startDate then Inl (BadRequest ''END_DATE_MUST_BE_AFTER_START_DATE'') else
      case requireTrustedText (mi_ownerName m) 200 ''OWNER_NAME'' of Inl e \<Rightarrow> Inl e | Inr ownerName \<Rightarrow>
      case requireTrustedText (mi_tenantName m) 200 ''TENANT_NAME'' of Inl e \<Rightarrow> Inl e | Inr tenantName \<Rightarrow>
      case requireTrustedText (mi_district m @ '', '' @ mi_manualAddress m) 500 ''PROPERTY_ADDRESS'' of
        Inl e \<Rightarrow> Inl e | Inr propertyAddress \<Rightarrow>
      let rentAmount = (case sd_rentAmount dto of Some r \<Rightarrow> r | None \<Rightarrow> mi_rentAmount m) in
      if rentAmount \<le> 0 then Inl (BadRequest ''RENT_AMOUNT_MUST_BE_POSITIVE'') else
      case normalizeCustomClauses (case sd_customClauses dto of Some cs \<Rightarrow> cs | None \<Rightarrow> []) of
        Inl e \<Rightarrow> Inl e
      | Inr customClauses \<Rightarrow>
          Inr \<lparr>dd_ownerName = ownerName, dd_tenantName = tenantName, dd_propertyAddress = propertyAddress,
               dd_rentAmount = rentAmount, dd_startDate = startDate, dd_endDate = endDate,
               dd_customClauses = customClauses, dd_witness1Name = sd_witness1Name dto,
               dd_witness1NationalId = sd_witness1NationalId dto, dd_witness2Name = sd_witness2Name dto,
               dd_witness2NationalId = sd_witness2NationalId dto\<rparr>)"

definition saveDraft_read ::
    "uuid \<Rightarrow> uuid \<Rightarrow> save_draft_dto \<Rightarrow> db \<Rightarrow> http_error + (match_info \<times> lease_contract option \<times> draft_data)" where
  "saveDraft_read userId mid dto s =
     (case connectedMatchFor userId mid s of
        Inl e \<Rightarrow> Inl e
      | Inr m \<Rightarrow>
        if userId \<noteq> mc_ownerId (mi_connection m) then Inl (Forbidden ''ONLY_LANDLORD_MAY_EDIT_DRAFT'')
        else
          let existing = contract_of mid s
          in if (case existing of None \<Rightarrow> False | Some c \<Rightarrow> lc_tenantReviewStatus c = REVIEW_CONFIRMED)
             then Inl (Conflict ''CONTRACT_DRAFT_LOCKED'')
             else if (case existing of None \<Rightarrow> False
                 | Some c \<Rightarrow> lc_status c \<noteq> DRAFTING \<and> lc_tenantReviewStatus c \<noteq> CHANGES_REQUESTED)
             then Inl (Conflict ''DRAFT_LOCKED'')
             else case draft_data_of m dto of Inl e \<Rightarrow> Inl e | Inr d \<Rightarrow> Inr (m, existing, d))"

definition write_terms :: "uuid \<Rightarrow> draft_data \<Rightarrow> lease_contract \<Rightarrow> lease_contract" where
  "write_terms userId d c =
     c\<lparr>lc_generatedByUserId := userId, lc_ownerName := dd_ownerName d, lc_tenantName := dd_tenantName d,
       lc_propertyAddress := dd_propertyAddress d, lc_rentAmount := dd_rentAmount d,
       lc_startDate := dd_startDate d, lc_endDate := dd_endDate d, lc_customClauses := dd_customClauses d,
       lc_witness1Name := dd_witness1Name d, lc_witness1NationalId := dd_witness1NationalId d,
       lc_witness2Name := dd_witness2Name d, lc_witness2NationalId := dd_witness2NationalId d,
       lc_status := DRAFTING\<rparr>"

text \<open>A created row: the columns the code leaves out take their defaults.\<close>

definition blank_contract :: "uuid \<Rightarrow> uuid \<Rightarrow> time \<Rightarrow> lease_contract" where
  "blank_contract cid mid now =
     \<lparr>lc_id = cid, lc_matchConnectionId = mid, lc_generatedByUserId = 0, lc_ownerName = '''',
      lc_ownerNationalId = None, lc_tenantName = '''', lc_tenantNationalId = None, lc_propertyAddress = '''',
      lc_customClauses = [], lc_witness1Name = None, lc_witness1NationalId = None, lc_witness2Name = None,
      lc_witness2NationalId = None, lc_pdfUrl = None, lc_startDate = 0, lc_endDate = 0, lc_rentAmount = 0,
      lc_status = DRAFTING, lc_tenantReviewStatus = PENDING_REVIEW, lc_tenantChangeRequest = None,
      lc_tenantChangeRequestedAt = None, lc_tenantReviewConfirmedAt = None, lc_draftRevision = 1,
      lc_tenantReviewedRevision = None, lc_changeRequestNote = None, lc_createdAt = now, lc_updatedAt = now\<rparr>"

definition revise :: "uuid \<Rightarrow> draft_data \<Rightarrow> lease_contract \<Rightarrow> lease_contract" where
  "revise userId d c = (write_terms userId d c)\<lparr>lc_draftRevision := lc_draftRevision c + 1,
     lc_tenantReviewStatus := PENDING_REVIEW, lc_tenantChangeRequest := None, lc_tenantChangeRequestedAt := None\<rparr>"

definition saveDraft_write ::
    "(string \<Rightarrow> string) \<Rightarrow> uuid \<Rightarrow> uuid \<Rightarrow> match_info \<times> lease_contract option \<times> draft_data \<Rightarrow> time \<Rightarrow> db \<Rightarrow> draft_response result" where
  "saveDraft_write sign userId mid input now s =
     (case input of (m, existing, d) \<Rightarrow>
      let parties = Some (userId, mi_connection m); tenant = mc_tenantId (mi_connection m)
      in case existing of
        None \<Rightarrow>
          if contract_of mid s \<noteq> None then (Inl (Internal ''P2002''), s)
          else
            let c = write_terms userId d (blank_contract (db_seq s) mid now);
                s1 = s\<lparr>db_seq := db_seq s + 1, db_leaseContracts := db_leaseContracts s @ [c]\<rparr>
            in (Inr (toResponse sign parties c),
                notifyUser tenant CONTRACT_READY_FOR_REVIEW (Some (''/contracts/'', Some (lc_id c))) now s1)
      | Some old \<Rightarrow>
          let may = (\<lambda>c. lc_matchConnectionId c = mid \<and> lc_tenantReviewStatus c \<noteq> REVIEW_CONFIRMED);
              s1 = update_contract may (revise userId d) now s
          in if count_where may (db_leaseContracts s) \<noteq> 1 then (Inl (Conflict ''CONTRACT_DRAFT_LOCKED''), s1)
             else case requireContract mid s1 of
               Inl e \<Rightarrow> (Inl e, s1)
             | Inr c \<Rightarrow>
                 (Inr (toResponse sign parties c),
                  if lc_tenantReviewStatus old = CHANGES_REQUESTED
                  then notifyUser tenant NEW_REVIEW_SUBMITTED (Some (''/contracts/'', Some (lc_id c))) now s1
                  else s1))"

definition saveDraft :: "(string \<Rightarrow> string) \<Rightarrow> uuid \<Rightarrow> uuid \<Rightarrow> save_draft_dto \<Rightarrow> time \<Rightarrow> db \<Rightarrow> draft_response result" where
  "saveDraft sign userId mid dto now s =
     (case saveDraft_read userId mid dto s of
        Inl e \<Rightarrow> (Inl e, s) | Inr input \<Rightarrow> saveDraft_write sign userId mid input now s)"

definition sendForReview_read :: "uuid \<Rightarrow> uuid \<Rightarrow> db \<Rightarrow> http_error + match_connection" where
  "sendForReview_read userId mid s =
     (case connectedMatchFor userId mid s of
        Inl e \<Rightarrow> Inl e
      | Inr m \<Rightarrow>
        if userId \<noteq> mc_ownerId (mi_connection m) then Inl (Forbidden ''ONLY_LANDLORD_MAY_SEND_FOR_REVIEW'')
        else case requireContract mid s of
          Inl e \<Rightarrow> Inl e
        | Inr c \<Rightarrow> if lc_status c \<noteq> DRAFTING then Inl (Conflict ''NOT_IN_DRAFTING_STATE'') else Inr (mi_connection m))"

text \<open>\<open>update\<close> on the unique match: the row as it is after the write.\<close>

definition update_by_match ::
    "(string \<Rightarrow> string) \<Rightarrow> uuid \<Rightarrow> (lease_contract \<Rightarrow> lease_contract) \<Rightarrow> time \<Rightarrow> db \<Rightarrow> (lease_contract \<Rightarrow> db \<Rightarrow> db) \<Rightarrow> draft_response result" where
  "update_by_match sign mid f now s k =
     (let s1 = update_contract (\<lambda>c. lc_matchConnectionId c = mid) f now s
      in case contract_of mid s1 of
           None \<Rightarrow> (Inl (Internal ''P2025''), s)
         | Some c \<Rightarrow> (Inr (toResponse sign None c), k c s1))"

definition sendForReview_write :: "(string \<Rightarrow> string) \<Rightarrow> uuid \<Rightarrow> match_connection \<Rightarrow> time \<Rightarrow> db \<Rightarrow> draft_response result" where
  "sendForReview_write sign mid m now s =
     update_by_match sign mid (\<lambda>c. c\<lparr>lc_status := PENDING_TENANT_APPROVAL, lc_changeRequestNote := None\<rparr>) now s
       (\<lambda>c. notifyUser (mc_tenantId m) CONTRACT_READY_FOR_REVIEW (Some (contractLink mid)) now)"

definition sendForReview :: "(string \<Rightarrow> string) \<Rightarrow> uuid \<Rightarrow> uuid \<Rightarrow> time \<Rightarrow> db \<Rightarrow> draft_response result" where
  "sendForReview sign userId mid now s =
     (case sendForReview_read userId mid s of
        Inl e \<Rightarrow> (Inl e, s) | Inr m \<Rightarrow> sendForReview_write sign mid m now s)"

section \<open>Approval\<close>

record contract_document =
  doc_ownerName :: string
  doc_ownerNationalId :: "string option"
  doc_tenantName :: string
  doc_tenantNationalId :: "string option"
  doc_propertyAddress :: string
  doc_rentAmount :: real
  doc_startDate :: time
  doc_endDate :: time
  doc_customClauses :: "string list"
  doc_witness1Name :: "string option"
  doc_witness1NationalId :: "string option"
  doc_witness2Name :: "string option"
  doc_witness2NationalId :: "string option"
  doc_generatedAt :: time

record draft_document =
  ddoc_contractId :: uuid
  ddoc_ownerName :: string
  ddoc_tenantName :: string
  ddoc_propertyAddress :: string
  ddoc_rentAmount :: real
  ddoc_startDate :: time
  ddoc_endDate :: time
  ddoc_customClauses :: "string list"
  ddoc_generatedAt :: time

text \<open>Templates with the renderer, and the private object storage.\<close>

record lease_env =
  le_render :: "contract_document \<Rightarrow> string option"
  le_renderDraft :: "draft_document \<Rightarrow> string option"
  le_store :: "string \<Rightarrow> string option"
  le_sign :: "string \<Rightarrow> string"

definition document_of :: "lease_contract \<Rightarrow> string option \<Rightarrow> string option \<Rightarrow> time \<Rightarrow> contract_document" where
  "document_of c ownerNationalId tenantNationalId generatedAt =
     \<lparr>doc_ownerName = lc_ownerName c, doc_ownerNationalId = ownerNationalId, doc_tenantName = lc_tenantName c,
      doc_tenantNationalId = tenantNationalId, doc_propertyAddress = lc_propertyAddress c,
      doc_rentAmount = lc_rentAmount c, doc_startDate = lc_startDate c, doc_endDate = lc_endDate c,
      doc_customClauses = lc_customClauses c, doc_witness1Name = lc_witness1Name c,
      doc_witness1NationalId = lc_witness1NationalId c, doc_witness2Name = lc_witness2Name c,
      doc_witness2NationalId = lc_witness2NationalId c, doc_generatedAt = generatedAt\<rparr>"

definition draft_document_of :: "lease_contract \<Rightarrow> time \<Rightarrow> draft_document" where
  "draft_document_of c generatedAt =
     \<lparr>ddoc_contractId = lc_id c, ddoc_ownerName = lc_ownerName c, ddoc_tenantName = lc_tenantName c,
      ddoc_propertyAddress = lc_propertyAddress c, ddoc_rentAmount = lc_rentAmount c,
      ddoc_startDate = lc_startDate c, ddoc_endDate = lc_endDate c, ddoc_customClauses = lc_customClauses c,
      ddoc_generatedAt = generatedAt\<rparr>"

definition verified_identity :: "uuid \<Rightarrow> db \<Rightarrow> identity_verification option" where
  "verified_identity uid s =
     (case find (\<lambda>v. iv_userId v = uid) (db_identityVerifications s) of
        None \<Rightarrow> None | Some v \<Rightarrow> if iv_status v = VS_APPROVED then Some v else None)"

definition mark_approved :: "uuid \<Rightarrow> string option \<Rightarrow> string option \<Rightarrow> string \<Rightarrow> lease_contract \<Rightarrow> time \<Rightarrow> lease_contract \<Rightarrow> lease_contract" where
  "mark_approved userId ownerNid tenantNid objectKey read now c =
     c\<lparr>lc_generatedByUserId := userId, lc_ownerNationalId := ownerNid, lc_tenantNationalId := tenantNid,
       lc_pdfUrl := Some objectKey, lc_status := LC_APPROVED, lc_tenantReviewStatus := REVIEW_CONFIRMED,
       lc_tenantReviewConfirmedAt := (case lc_tenantReviewConfirmedAt read of Some t \<Rightarrow> Some t | None \<Rightarrow> Some now),
       lc_tenantReviewedRevision := Some (lc_draftRevision read)\<rparr>"

record approval =
  ap_match :: match_connection
  ap_ownerNationalId :: "string option"
  ap_tenantNationalId :: "string option"
  ap_objectKey :: string
  ap_contract :: lease_contract

text \<open>Everything before the transaction: \<open>Inl\<close> is an early answer.\<close>

definition approve_read :: "lease_env \<Rightarrow> uuid \<Rightarrow> uuid \<Rightarrow> time \<Rightarrow> db \<Rightarrow> (http_error + draft_response) + approval" where
  "approve_read env userId mid now s =
     (case connectedMatchFor userId mid s of
        Inl e \<Rightarrow> Inl (Inl e)
      | Inr mi \<Rightarrow>
        let m = mi_connection mi
        in if userId \<noteq> mc_tenantId m then Inl (Inl (Forbidden ''ONLY_TENANT_MAY_APPROVE''))
           else case requireContract mid s of
             Inl e \<Rightarrow> Inl (Inl e)
           | Inr c \<Rightarrow>
             if lc_status c = LC_APPROVED then Inl (Inr (toResponse (le_sign env) None c))
             else if lc_status c \<noteq> PENDING_TENANT_APPROVAL then Inl (Inl (Conflict ''NOT_PENDING_TENANT_APPROVAL''))
             else
               (case (verified_identity (mc_ownerId m) s, verified_identity (mc_tenantId m) s) of
                  (Some ov, Some tv) \<Rightarrow>
                    (case le_render env (document_of c (iv_nationalId ov) (iv_nationalId tv) now) of
                       None \<Rightarrow> Inl (Inl (Internal ''PDF_RENDERING''))
                     | Some pdf \<Rightarrow>
                       (case le_store env pdf of
                          None \<Rightarrow> Inl (Inl (Internal ''STORAGE''))
                        | Some objectKey \<Rightarrow> Inr \<lparr>ap_match = m, ap_ownerNationalId = iv_nationalId ov,
                            ap_tenantNationalId = iv_nationalId tv, ap_objectKey = objectKey, ap_contract = c\<rparr>))
                | _ \<Rightarrow> Inl (Inl (Conflict ''IDENTITY_NOT_VERIFIED''))))"

definition approve_write :: "(string \<Rightarrow> string) \<Rightarrow> uuid \<Rightarrow> uuid \<Rightarrow> approval \<Rightarrow> time \<Rightarrow> db \<Rightarrow> draft_response result" where
  "approve_write sign userId mid a now s =
     update_by_match sign mid
       (mark_approved userId (ap_ownerNationalId a) (ap_tenantNationalId a) (ap_objectKey a) (ap_contract a) now) now s
       (\<lambda>u. notifyUser (mc_ownerId (ap_match a)) CONTRACT_APPROVED (Some (''/contracts/'', Some (lc_id u))) now)"

definition approve :: "lease_env \<Rightarrow> uuid \<Rightarrow> uuid \<Rightarrow> time \<Rightarrow> db \<Rightarrow> draft_response result" where
  "approve env userId mid now s =
     (case approve_read env userId mid now s of
        Inl r \<Rightarrow> (r, s) | Inr a \<Rightarrow> approve_write (le_sign env) userId mid a now s)"

definition reject :: "(string \<Rightarrow> string) \<Rightarrow> uuid \<Rightarrow> uuid \<Rightarrow> string option \<Rightarrow> time \<Rightarrow> db \<Rightarrow> draft_response result" where
  "reject sign userId mid note now s =
     (case connectedMatchFor userId mid s of
        Inl e \<Rightarrow> (Inl e, s)
      | Inr mi \<Rightarrow>
        let m = mi_connection mi
        in if userId \<noteq> mc_tenantId m then (Inl (Forbidden ''ONLY_TENANT_MAY_REJECT''), s)
           else case requireContract mid s of
             Inl e \<Rightarrow> (Inl e, s)
           | Inr c \<Rightarrow>
             if lc_status c \<noteq> PENDING_TENANT_APPROVAL then (Inl (Conflict ''NOT_PENDING_TENANT_APPROVAL''), s)
             else update_by_match sign mid
                    (\<lambda>c. c\<lparr>lc_status := DRAFTING, lc_changeRequestNote := js_or (map_option js_trim note) None\<rparr>) now s
                    (\<lambda>u. notifyUser (mc_ownerId m) CONTRACT_REJECTED (Some (contractLink mid)) now))"

section \<open>Review\<close>

definition requestChanges :: "(string \<Rightarrow> string) \<Rightarrow> uuid \<Rightarrow> uuid \<Rightarrow> string \<Rightarrow> time \<Rightarrow> db \<Rightarrow> draft_response result" where
  "requestChanges sign userId contractId rawMessage now s =
     (case authorizedContract userId contractId True s of
        Inl e \<Rightarrow> (Inl e, s)
      | Inr (c, m) \<Rightarrow>
        if lc_tenantReviewStatus c = REVIEW_CONFIRMED then (Inl (Conflict ''CONTRACT_REVIEW_ALREADY_CONFIRMED''), s)
        else if lc_tenantReviewStatus c = CHANGES_REQUESTED then (Inl (Conflict ''CONTRACT_CHANGES_ALREADY_REQUESTED''), s)
        else if length (js_trim rawMessage) < 5 then (Inl (BadRequest ''CHANGE_REQUEST_TOO_SHORT''), s)
        else
          let may = (\<lambda>x. lc_id x = contractId \<and> lc_tenantReviewStatus x = PENDING_REVIEW);
              s1 = update_contract may (\<lambda>x. x\<lparr>lc_tenantReviewStatus := CHANGES_REQUESTED,
                     lc_tenantChangeRequest := Some (js_trim rawMessage), lc_tenantChangeRequestedAt := Some now\<rparr>) now s
          in if count_where may (db_leaseContracts s) \<noteq> 1
             then (case authorizedContract userId contractId True s1 of
                     Inl e \<Rightarrow> (Inl e, s1)
                   | Inr (c', _) \<Rightarrow>
                       if lc_tenantReviewStatus c' = REVIEW_CONFIRMED
                       then (Inl (Conflict ''CONTRACT_REVIEW_ALREADY_CONFIRMED''), s1)
                       else (Inl (Conflict ''CONTRACT_CHANGES_ALREADY_REQUESTED''), s1))
             else case authorizedContract userId contractId True s1 of
                    Inl e \<Rightarrow> (Inl e, s1)
                  | Inr (updated, _) \<Rightarrow> (Inr (toResponse sign (Some (userId, m)) updated),
                      notifyUser (mc_ownerId m) NEW_REVIEW_SUBMITTED (Some (''/contracts/'', Some contractId)) now s1))"

definition confirm_terms :: "int \<Rightarrow> time \<Rightarrow> lease_contract \<Rightarrow> lease_contract" where
  "confirm_terms revision now c = c\<lparr>lc_status := PENDING_TENANT_APPROVAL, lc_tenantReviewStatus := REVIEW_CONFIRMED,
     lc_tenantReviewConfirmedAt := Some now, lc_tenantReviewedRevision := Some revision,
     lc_tenantChangeRequest := None, lc_tenantChangeRequestedAt := None\<rparr>"

definition confirmReview :: "lease_env \<Rightarrow> uuid \<Rightarrow> uuid \<Rightarrow> int \<Rightarrow> time \<Rightarrow> db \<Rightarrow> draft_response result" where
  "confirmReview env userId contractId expectedRevision now s =
     (case authorizedContract userId contractId True s of
        Inl e \<Rightarrow> (Inl e, s)
      | Inr (c, m) \<Rightarrow>
        if lc_status c = LC_APPROVED then (Inr (toResponse (le_sign env) (Some (userId, m)) c), s)
        else if lc_tenantReviewStatus c = REVIEW_CONFIRMED
        then approve env userId (lc_matchConnectionId c) now
               (update_contract (\<lambda>x. lc_id x = contractId \<and> lc_status x \<noteq> LC_APPROVED)
                  (\<lambda>x. x\<lparr>lc_status := PENDING_TENANT_APPROVAL\<rparr>) now s)
        else if lc_tenantReviewStatus c = CHANGES_REQUESTED then (Inl (Conflict ''CONTRACT_CHANGES_PENDING''), s)
        else if expectedRevision \<noteq> lc_draftRevision c then (Inl (Conflict ''CONTRACT_REVISION_CHANGED''), s)
        else
          let may = (\<lambda>x. lc_id x = contractId \<and> lc_tenantReviewStatus x = PENDING_REVIEW \<and> lc_draftRevision x = expectedRevision);
              s1 = update_contract may (confirm_terms expectedRevision now) now s
          in if count_where may (db_leaseContracts s) \<noteq> 1
             then (case authorizedContract userId contractId True s1 of
                     Inl e \<Rightarrow> (Inl e, s1)
                   | Inr (c', m') \<Rightarrow>
                       if lc_tenantReviewStatus c' = REVIEW_CONFIRMED
                       then (if lc_status c' = LC_APPROVED
                             then (Inr (toResponse (le_sign env) (Some (userId, m')) c'), s1)
                             else approve env userId (lc_matchConnectionId c') now s1)
                       else if lc_tenantReviewStatus c' = CHANGES_REQUESTED
                       then (Inl (Conflict ''CONTRACT_CHANGES_PENDING''), s1)
                       else (Inl (Conflict ''CONTRACT_REVISION_CHANGED''), s1))
             else approve env userId (lc_matchConnectionId c) now s1)"

section \<open>Reads\<close>

definition getForMatch :: "(string \<Rightarrow> string) \<Rightarrow> uuid \<Rightarrow> uuid \<Rightarrow> db \<Rightarrow> http_error + draft_response" where
  "getForMatch sign userId mid s =
     (case connectedMatchFor userId mid s of
        Inl e \<Rightarrow> Inl e
      | Inr mi \<Rightarrow> (case requireContract mid s of
          Inl e \<Rightarrow> Inl e | Inr c \<Rightarrow> Inr (toResponse sign (Some (userId, mi_connection mi)) c)))"

definition getById :: "(string \<Rightarrow> string) \<Rightarrow> uuid \<Rightarrow> uuid \<Rightarrow> db \<Rightarrow> http_error + draft_response" where
  "getById sign userId contractId s =
     (case authorizedContract userId contractId False s of
        Inl e \<Rightarrow> Inl e | Inr (c, m) \<Rightarrow> Inr (toResponse sign (Some (userId, m)) c))"

text \<open>\<open>reviewed\<close> tells whether the caller has written his review of a contract.\<close>

definition listForUser ::
    "(string \<Rightarrow> string) \<Rightarrow> (uuid \<Rightarrow> bool) \<Rightarrow> uuid \<Rightarrow> db \<Rightarrow> (draft_response \<times> uuid \<times> string \<times> bool) list" where
  "listForUser sign reviewed userId s =
     concat (map (\<lambda>c. case party_of c s of
         None \<Rightarrow> []
       | Some m \<Rightarrow>
           if mc_tenantId m = userId \<or> mc_ownerId m = userId
           then [(toResponse sign (Some (userId, m)) c, mc_propertyId m,
                  (case find (\<lambda>p. p_id p = mc_propertyId m) (db_properties s) of None \<Rightarrow> '''' | Some p \<Rightarrow> p_title p),
                  reviewed (lc_id c))]
           else [])
       (sort_key (\<lambda>c. - lc_updatedAt c) (db_leaseContracts s)))"

definition downloadPdf :: "lease_env \<Rightarrow> uuid \<Rightarrow> uuid \<Rightarrow> time \<Rightarrow> db \<Rightarrow> http_error + string" where
  "downloadPdf env userId contractId now s =
     (case authorizedContract userId contractId False s of
        Inl e \<Rightarrow> Inl e
      | Inr (c, m) \<Rightarrow>
        if lc_status c = LC_APPROVED
        then (case le_render env (document_of c (lc_ownerNationalId c) (lc_tenantNationalId c) (lc_updatedAt c)) of
                None \<Rightarrow> Inl (Internal ''PDF_RENDERING'') | Some pdf \<Rightarrow> Inr pdf)
        else if lc_status c \<noteq> DRAFTING \<or> lc_tenantReviewStatus c \<noteq> REVIEW_CONFIRMED
        then Inl (Conflict ''PDF_DOWNLOAD_REQUIRES_CONFIRMED_REVIEW'')
        else case le_renderDraft env (draft_document_of c now) of
               None \<Rightarrow> Inl (Internal ''PDF_RENDERING'') | Some pdf \<Rightarrow> Inr pdf)"

text \<open>Whole requests of anyone, at any time, with any answers from outside.\<close>

inductive lease_step :: "db \<Rightarrow> db \<Rightarrow> bool" where
  SaveDraft: "lease_step s (snd (saveDraft sign u mid dto now s))"
| SendForReview: "lease_step s (snd (sendForReview sign u mid now s))"
| Approve: "lease_step s (snd (approve env u mid now s))"
| Reject: "lease_step s (snd (reject sign u mid note now s))"
| RequestChanges: "lease_step s (snd (requestChanges sign u cid msg now s))"
| ConfirmReview: "lease_step s (snd (confirmReview env u cid revision now s))"

inductive_cases lease_stepE: "lease_step s t"

section \<open>What one write does to a contract\<close>

definition text_ok :: "nat \<Rightarrow> string \<Rightarrow> bool" where
  "text_ok n x \<longleftrightarrow> x \<noteq> [] \<and> length x \<le> n \<and> js_trim x = x"

definition draft_ok :: "draft_data \<Rightarrow> bool" where
  "draft_ok d \<longleftrightarrow> text_ok 200 (dd_ownerName d) \<and> text_ok 200 (dd_tenantName d) \<and> text_ok 500 (dd_propertyAddress d)
     \<and> 0 < dd_rentAmount d \<and> dd_startDate d < dd_endDate d
     \<and> length (dd_customClauses d) \<le> 30 \<and> (\<forall>c \<in> set (dd_customClauses d). text_ok 2000 c)"

lemma requireTrustedText_ok: "requireTrustedText v n f = Inr x \<Longrightarrow> text_ok n x"
  by (auto simp: requireTrustedText_def text_ok_def Let_def js_simps split: if_splits)

lemma map_clauses_ok: "map_clauses cs = Inr ns \<Longrightarrow> length ns = length cs \<and> (\<forall>c \<in> set ns. text_ok 2000 c)"
  by (induction cs arbitrary: ns) (auto simp: Let_def text_ok_def js_simps split: if_splits sum.splits)

lemma draft_data_of_ok: "draft_data_of m dto = Inr d \<Longrightarrow> draft_ok d"
  unfolding draft_data_of_def Let_def
  by (auto simp: draft_ok_def normalizeCustomClauses_def dest!: map_clauses_ok requireTrustedText_ok
      split: sum.splits if_splits)

inductive lease_edge :: "lease_contract \<Rightarrow> lease_contract \<Rightarrow> bool" where
  Revise: "lc_tenantReviewStatus c \<noteq> REVIEW_CONFIRMED \<Longrightarrow> draft_ok d \<Longrightarrow> lease_edge c ((revise u d c)\<lparr>lc_updatedAt := now\<rparr>)"
| Send: "lc_status c = DRAFTING \<Longrightarrow>
    lease_edge c (c\<lparr>lc_status := PENDING_TENANT_APPROVAL, lc_changeRequestNote := None, lc_updatedAt := now\<rparr>)"
| Approved: "lc_status c = PENDING_TENANT_APPROVAL \<Longrightarrow>
    lease_edge c ((mark_approved u ov tv key c now c)\<lparr>lc_updatedAt := now\<rparr>)"
| Rejected: "lc_status c = PENDING_TENANT_APPROVAL \<Longrightarrow>
    lease_edge c (c\<lparr>lc_status := DRAFTING, lc_changeRequestNote := note, lc_updatedAt := now\<rparr>)"
| Changes: "lc_tenantReviewStatus c = PENDING_REVIEW \<Longrightarrow> lease_edge c
    (c\<lparr>lc_tenantReviewStatus := CHANGES_REQUESTED, lc_tenantChangeRequest := msg, lc_tenantChangeRequestedAt := since, lc_updatedAt := now\<rparr>)"
| Confirm: "lc_tenantReviewStatus c = PENDING_REVIEW \<Longrightarrow>
    lease_edge c ((confirm_terms (lc_draftRevision c) now c)\<lparr>lc_updatedAt := now\<rparr>)"
| Recover: "lc_status c \<noteq> LC_APPROVED \<Longrightarrow> lc_tenantReviewStatus c = REVIEW_CONFIRMED \<Longrightarrow>
    lease_edge c (c\<lparr>lc_status := PENDING_TENANT_APPROVAL, lc_updatedAt := now\<rparr>)"

definition lease_write :: "db \<Rightarrow> db \<Rightarrow> bool" where
  "lease_write s t \<longleftrightarrow> db_seq s \<le> db_seq t \<and>
     (db_leaseContracts t = db_leaseContracts s
      \<or> (\<exists>c \<in> set (db_leaseContracts s). \<exists>c'. lease_edge c c' \<and> db_leaseContracts t =
           update_where (\<lambda>x. lc_matchConnectionId x = lc_matchConnectionId c) (\<lambda>x. c') (db_leaseContracts s))
      \<or> (\<exists>u d mid now. draft_ok d \<and> contract_of mid s = None \<and> db_seq s < db_seq t
           \<and> db_leaseContracts t = db_leaseContracts s @ [write_terms u d (blank_contract (db_seq s) mid now)]))"

lemma lease_write_refl: "lease_write s s"
  by (simp add: lease_write_def)

definition lease_keys :: "db \<Rightarrow> bool" where
  "lease_keys s \<longleftrightarrow> distinct (map lc_matchConnectionId (db_leaseContracts s)) \<and> keys_ok (db_seq s) (map lc_id (db_leaseContracts s))"

lemma update_contract_simps [simp]:
  "db_seq (update_contract P f now s) = db_seq s"
  "db_leaseContracts (update_contract P f now s) = update_where P (\<lambda>c. (f c)\<lparr>lc_updatedAt := now\<rparr>) (db_leaseContracts s)"
  "db_matchConnections (update_contract P f now s) = db_matchConnections s"
  "db_properties (update_contract P f now s) = db_properties s" "db_users (update_contract P f now s) = db_users s"
  by (simp_all add: update_contract_def)

text \<open>A write that selects the row \<open>c\<close> only, or nothing.\<close>

lemma update_one_row:
  assumes "lease_keys s" "c \<in> set (db_leaseContracts s)"
    and "\<And>x. x \<in> set (db_leaseContracts s) \<Longrightarrow> P x \<Longrightarrow> lc_matchConnectionId x = lc_matchConnectionId c \<or> lc_id x = lc_id c"
    and "P c"
  shows "update_where P f (db_leaseContracts s)
    = update_where (\<lambda>x. lc_matchConnectionId x = lc_matchConnectionId c) (\<lambda>x. f c) (db_leaseContracts s)"
proof -
  have d: "distinct (map lc_matchConnectionId (db_leaseContracts s))" "distinct (map lc_id (db_leaseContracts s))"
    using assms(1) by (auto simp: lease_keys_def dest: keys_okD)
  have "P x \<longleftrightarrow> lc_matchConnectionId x = lc_matchConnectionId c" "P x \<Longrightarrow> x = c" if "x \<in> set (db_leaseContracts s)" for x
    using assms(3)[OF that] distinct_keyD[OF d(1) that assms(2)] distinct_keyD[OF d(2) that assms(2)] assms(4) by blast+
  then show ?thesis unfolding update_where_def by (intro map_cong) auto
qed

lemma lease_write_update:
  assumes "lease_keys s" "c \<in> set (db_leaseContracts s)" "P c \<Longrightarrow> lease_edge c ((f c)\<lparr>lc_updatedAt := now\<rparr>)"
    and "\<And>x. x \<in> set (db_leaseContracts s) \<Longrightarrow> P x \<Longrightarrow> lc_matchConnectionId x = lc_matchConnectionId c \<or> lc_id x = lc_id c"
    and "db_leaseContracts t = db_leaseContracts (update_contract P f now s)" "db_seq s \<le> db_seq t"
  shows "lease_write s t"
proof (cases "P c")
  case True
  from update_one_row[of s c P, OF assms(1,2,4) True, of "\<lambda>c. (f c)\<lparr>lc_updatedAt := now\<rparr>"] assms(2) assms(3)[OF True] assms(5,6)
  show ?thesis unfolding lease_write_def by auto
next
  case False
  have d: "distinct (map lc_matchConnectionId (db_leaseContracts s))" "distinct (map lc_id (db_leaseContracts s))"
    using assms(1) by (auto simp: lease_keys_def dest: keys_okD)
  have "\<not> P x" if "x \<in> set (db_leaseContracts s)" for x
    using assms(4)[OF that] distinct_keyD[OF d(1) that assms(2)] distinct_keyD[OF d(2) that assms(2)] False by blast
  then have "update_where P (\<lambda>c. (f c)\<lparr>lc_updatedAt := now\<rparr>) (db_leaseContracts s) = db_leaseContracts s"
    by (intro update_where_idem) blast
  with assms(5,6) show ?thesis by (simp add: lease_write_def)
qed

lemma update_by_match_contracts:
  "db_leaseContracts (snd (update_by_match sign mid f now s (\<lambda>c. notifyUser (u c) ty (l c) n)))
     \<in> {db_leaseContracts s, db_leaseContracts (update_contract (\<lambda>c. lc_matchConnectionId c = mid) f now s)}"
  "db_seq s \<le> db_seq (snd (update_by_match sign mid f now s (\<lambda>c. notifyUser (u c) ty (l c) n)))"
  by (auto simp: update_by_match_def Let_def split: option.splits)

lemma lease_write_by_match:
  assumes "lease_keys s" "contract_of mid s = Some c" "lease_edge c ((f c)\<lparr>lc_updatedAt := now\<rparr>)"
  shows "lease_write s (snd (update_by_match sign mid f now s (\<lambda>c. notifyUser (u c) ty (l c) n)))"
proof -
  have c: "c \<in> set (db_leaseContracts s)" "lc_matchConnectionId c = mid"
    using assms(2) by (auto simp: contract_of_def dest: find_SomeD)
  from update_by_match_contracts(1)[of sign mid f now s u ty l n] show ?thesis
  proof (elim insertE emptyE)
    assume "db_leaseContracts (snd (update_by_match sign mid f now s (\<lambda>c. notifyUser (u c) ty (l c) n))) = db_leaseContracts s"
    then show ?thesis using update_by_match_contracts(2) by (simp add: lease_write_def)
  next
    assume "db_leaseContracts (snd (update_by_match sign mid f now s (\<lambda>c. notifyUser (u c) ty (l c) n)))
        = db_leaseContracts (update_contract (\<lambda>c. lc_matchConnectionId c = mid) f now s)"
    from lease_write_update[OF assms(1) c(1) assms(3) _ this update_by_match_contracts(2)] c(2)
    show ?thesis by simp
  qed
qed

lemma contract_ofD: "contract_of mid s = Some c \<Longrightarrow> c \<in> set (db_leaseContracts s) \<and> lc_matchConnectionId c = mid"
  by (auto simp: contract_of_def dest: find_SomeD)

lemma requireContract_Inr: "requireContract mid s = Inr c \<longleftrightarrow> contract_of mid s = Some c"
  by (auto simp: requireContract_def split: option.splits)

lemma authorizedContract_Inr:
  "authorizedContract u cid t s = Inr (c, m) \<Longrightarrow> c \<in> set (db_leaseContracts s) \<and> lc_id c = cid \<and> party_of c s = Some m
     \<and> (t \<longrightarrow> mc_tenantId m = u)"
  by (auto simp: authorizedContract_def split: option.splits if_splits dest: find_SomeD)

lemma saveDraft_read_ok: "saveDraft_read u mid dto s = Inr (m, ex, d) \<Longrightarrow>
    draft_ok d \<and> ex = contract_of mid s \<and> mc_ownerId (mi_connection m) = u
    \<and> (\<forall>c. ex = Some c \<longrightarrow> lc_tenantReviewStatus c \<noteq> REVIEW_CONFIRMED)"
  by (auto simp: saveDraft_read_def Let_def draft_data_of_ok split: sum.splits if_splits option.splits)

lemma lease_write_create:
  "draft_ok d \<Longrightarrow> contract_of mid s = None \<Longrightarrow> db_seq s < db_seq t
    \<Longrightarrow> db_leaseContracts t = db_leaseContracts s @ [write_terms u d (blank_contract (db_seq s) mid now)] \<Longrightarrow> lease_write s t"
  unfolding lease_write_def by (intro conjI disjI2 exI[of _ u] exI[of _ d] exI[of _ mid] exI[of _ now]) auto

lemma saveDraft_write_effect:
  assumes "lease_keys s" "draft_ok d"
  shows "lease_write s (snd (saveDraft_write sign u mid (m, ex, d) now s))"
proof (cases ex)
  case None
  show ?thesis
  proof (cases "contract_of mid s")
    case fresh: None
    then show ?thesis
      by (intro lease_write_create[OF assms(2) fresh, of _ u now]) (simp_all add: saveDraft_write_def Let_def None)
  qed (simp add: saveDraft_write_def Let_def None lease_write_refl)
next
  case (Some old)
  let ?P = "\<lambda>c. lc_matchConnectionId c = mid \<and> lc_tenantReviewStatus c \<noteq> REVIEW_CONFIRMED"
  let ?t = "snd (saveDraft_write sign u mid (m, ex, d) now s)"
  have t: "db_leaseContracts ?t = db_leaseContracts (update_contract ?P (revise u d) now s)" "db_seq s \<le> db_seq ?t"
    using Some by (auto simp: saveDraft_write_def Let_def split: sum.splits)
  show ?thesis
  proof (cases "contract_of mid s")
    case None
    then have "update_where ?P f (db_leaseContracts s) = db_leaseContracts s" for f
      by (intro update_where_idem) (auto simp: contract_of_def find_None_iff)
    with t show ?thesis by (simp add: lease_write_def)
  next
    case (Some c)
    from contract_ofD[OF Some] have c: "c \<in> set (db_leaseContracts s)" "lc_matchConnectionId c = mid" by auto
    show ?thesis
      by (rule lease_write_update[OF assms(1) c(1) _ _ t]) (use c assms(2) in \<open>auto intro: lease_edge.Revise\<close>)
  qed
qed

lemma saveDraft_effect: "lease_keys s \<Longrightarrow> lease_write s (snd (saveDraft sign u mid dto now s))"
  by (auto simp: saveDraft_def lease_write_refl split: sum.splits
      intro!: saveDraft_write_effect dest!: saveDraft_read_ok)

lemma sendForReview_effect: "lease_keys s \<Longrightarrow> lease_write s (snd (sendForReview sign u mid now s))"
  by (auto simp: sendForReview_def sendForReview_read_def sendForReview_write_def lease_write_refl requireContract_Inr
      split: sum.splits if_splits intro!: lease_write_by_match lease_edge.Send)

lemma approve_read_Inr: "approve_read env u mid now s = Inr a \<Longrightarrow>
    contract_of mid s = Some (ap_contract a) \<and> lc_status (ap_contract a) = PENDING_TENANT_APPROVAL
    \<and> (\<exists>mi ov tv pdf. connectedMatchFor u mid s = Inr mi \<and> ap_match a = mi_connection mi \<and> mc_tenantId (ap_match a) = u
        \<and> verified_identity (mc_ownerId (ap_match a)) s = Some ov \<and> verified_identity u s = Some tv
        \<and> ap_ownerNationalId a = iv_nationalId ov \<and> ap_tenantNationalId a = iv_nationalId tv
        \<and> le_render env (document_of (ap_contract a) (iv_nationalId ov) (iv_nationalId tv) now) = Some pdf
        \<and> le_store env pdf = Some (ap_objectKey a))"
  by (auto simp: approve_read_def Let_def requireContract_Inr split: sum.splits option.splits if_splits)

lemma approve_effect: "lease_keys s \<Longrightarrow> lease_write s (snd (approve env u mid now s))"
  by (auto simp: approve_def approve_write_def lease_write_refl
      split: sum.splits intro!: lease_write_by_match lease_edge.Approved dest!: approve_read_Inr)

lemma reject_effect: "lease_keys s \<Longrightarrow> lease_write s (snd (reject sign u mid note now s))"
  by (auto simp: reject_def Let_def lease_write_refl requireContract_Inr
      split: sum.splits intro!: lease_write_by_match lease_edge.Rejected)

lemma requestChanges_effect:
  assumes "lease_keys s"
  shows "lease_write s (snd (requestChanges sign u cid msg now s))"
proof (cases "authorizedContract u cid True s")
  case (Inl e)
  then show ?thesis by (simp add: requestChanges_def lease_write_refl)
next
  case (Inr cm)
  obtain c m where cm: "cm = (c, m)" by (cases cm)
  note a = authorizedContract_Inr[OF Inr[unfolded cm]]
  let ?P = "\<lambda>x. lc_id x = cid \<and> lc_tenantReviewStatus x = PENDING_REVIEW"
  let ?f = "\<lambda>x. x\<lparr>lc_tenantReviewStatus := CHANGES_REQUESTED, lc_tenantChangeRequest := Some (js_trim msg),
      lc_tenantChangeRequestedAt := Some now\<rparr>"
  have "snd (requestChanges sign u cid msg now s) = s \<or>
      (db_leaseContracts (snd (requestChanges sign u cid msg now s)) = db_leaseContracts (update_contract ?P ?f now s)
       \<and> db_seq s \<le> db_seq (snd (requestChanges sign u cid msg now s)))"
    unfolding requestChanges_def Inr cm by (simp add: Let_def split: sum.splits prod.splits)
  then show ?thesis
  proof (elim disjE conjE)
    assume t: "db_leaseContracts (snd (requestChanges sign u cid msg now s)) = db_leaseContracts (update_contract ?P ?f now s)"
      "db_seq s \<le> db_seq (snd (requestChanges sign u cid msg now s))"
    show ?thesis
      by (rule lease_write_update[OF assms _ _ _ t, of c]) (use a in \<open>auto intro: lease_edge.Changes\<close>)
  qed (simp add: lease_write_refl)
qed

text \<open>Both writes of a confirmation keep the keys, so they compose.\<close>

lemma lease_edge_keys: "lease_edge c c' \<Longrightarrow> lc_matchConnectionId c' = lc_matchConnectionId c \<and> lc_id c' = lc_id c"
  by (induction rule: lease_edge.induct) (simp_all add: revise_def write_terms_def mark_approved_def confirm_terms_def)

lemma lease_write_keys:
  assumes "lease_keys s" "lease_write s t"
  shows "lease_keys t"
proof -
  have k: "keys_ok (db_seq s) (map lc_id (db_leaseContracts s))" "distinct (map lc_matchConnectionId (db_leaseContracts s))"
    and le: "db_seq s \<le> db_seq t"
    using assms by (auto simp: lease_keys_def lease_write_def)
  from assms(2) consider "db_leaseContracts t = db_leaseContracts s"
    | c c' where "c \<in> set (db_leaseContracts s)" "lease_edge c c'" "db_leaseContracts t =
           update_where (\<lambda>x. lc_matchConnectionId x = lc_matchConnectionId c) (\<lambda>x. c') (db_leaseContracts s)"
    | u d mid now where "contract_of mid s = None" "db_seq s < db_seq t"
        "db_leaseContracts t = db_leaseContracts s @ [write_terms u d (blank_contract (db_seq s) mid now)]"
    by (auto simp: lease_write_def)
  then show ?thesis
  proof cases
    case 1
    with k le show ?thesis by (auto simp: lease_keys_def intro: keys_ok_mono)
  next
    case (2 c c')
    have "lc_id c' = lc_id x \<and> lc_matchConnectionId c' = lc_matchConnectionId x"
      if "x \<in> set (db_leaseContracts s)" "lc_matchConnectionId x = lc_matchConnectionId c" for x
      using lease_edge_keys[OF 2(2)] distinct_keyD[OF k(2) that(1) 2(1) that(2)] by simp
    then have "map lc_id (db_leaseContracts t) = map lc_id (db_leaseContracts s)"
      "map lc_matchConnectionId (db_leaseContracts t) = map lc_matchConnectionId (db_leaseContracts s)"
      unfolding 2(3) update_where_def map_map by (intro map_cong; simp)+
    with k le show ?thesis by (auto simp: lease_keys_def intro: keys_ok_mono)
  next
    case (3 u d mid now)
    have "mid \<notin> lc_matchConnectionId ` set (db_leaseContracts s)"
      using 3(1) by (auto simp: contract_of_def find_None_iff)
    with k 3(2,3) keys_ok_mono[OF keys_ok_snoc[OF k(1)], of "db_seq t"] show ?thesis
      by (simp add: lease_keys_def write_terms_def blank_contract_def)
  qed
qed

lemma confirmReview_effect:
  assumes "lease_keys s"
  shows "lease_write\<^sup>*\<^sup>* s (snd (confirmReview env u cid revision now s))"
proof (cases "authorizedContract u cid True s")
  case (Inl e)
  then show ?thesis by (simp add: confirmReview_def)
next
  case (Inr cm)
  obtain c m where cm: "cm = (c, m)" by (cases cm)
  note a = authorizedContract_Inr[OF Inr[unfolded cm]]
  have two: "lease_write\<^sup>*\<^sup>* s (snd (approve env u mid now s1))" if "lease_write s s1" for s1 mid
    using that approve_effect[OF lease_write_keys[OF assms that]] by (meson converse_rtranclp_into_rtranclp r_into_rtranclp)
  let ?s1 = "update_contract (\<lambda>x. lc_id x = cid \<and> lc_status x \<noteq> LC_APPROVED) (\<lambda>x. x\<lparr>lc_status := PENDING_TENANT_APPROVAL\<rparr>) now s"
  let ?s2 = "update_contract (\<lambda>x. lc_id x = cid \<and> lc_tenantReviewStatus x = PENDING_REVIEW \<and> lc_draftRevision x = revision)
      (confirm_terms revision now) now s"
  have w2: "lease_write s ?s2"
    by (rule lease_write_update[OF assms _ _ _ refl, of c]) (use a in \<open>auto intro: lease_edge.Confirm\<close>)
  show ?thesis
  proof (cases "lc_status c \<noteq> LC_APPROVED \<and> lc_tenantReviewStatus c = REVIEW_CONFIRMED")
    case True
    have "lease_write s ?s1"
      by (rule lease_write_update[OF assms _ _ _ refl, of c]) (use a True in \<open>auto intro: lease_edge.Recover\<close>)
    from two[OF this] True show ?thesis by (simp add: confirmReview_def Inr cm)
  next
    case False
    then have "snd (confirmReview env u cid revision now s) \<in> {s, ?s2} \<or>
        (\<exists>mid. snd (confirmReview env u cid revision now s) = snd (approve env u mid now ?s2))"
      unfolding confirmReview_def Inr cm by (auto simp: Let_def split: sum.splits prod.splits)
    then show ?thesis using two[OF w2] w2 by (auto simp del: update_contract_simps)
  qed
qed

lemma lease_step_writes: "lease_step s t \<Longrightarrow> lease_keys s \<Longrightarrow> lease_write\<^sup>*\<^sup>* s t"
  by (cases rule: lease_step.cases, assumption)
    (auto intro: saveDraft_effect sendForReview_effect approve_effect reject_effect requestChanges_effect confirmReview_effect)


section \<open>The deal a contract stands for\<close>

text \<open>
  The abstract contract: terms the landlord may rewrite, then terms both sides agreed on, then a
  signed document. It is the specification the rows of the table implement.
\<close>

record lease_terms =
  lt_ownerName :: string
  lt_tenantName :: string
  lt_propertyAddress :: string
  lt_rentAmount :: real
  lt_startDate :: time
  lt_endDate :: time
  lt_customClauses :: "string list"
  lt_witnesses :: "string option list"
  lt_revision :: int

definition terms_of :: "lease_contract \<Rightarrow> lease_terms" where
  "terms_of c = \<lparr>lt_ownerName = lc_ownerName c, lt_tenantName = lc_tenantName c,
     lt_propertyAddress = lc_propertyAddress c, lt_rentAmount = lc_rentAmount c, lt_startDate = lc_startDate c,
     lt_endDate = lc_endDate c, lt_customClauses = lc_customClauses c,
     lt_witnesses = [lc_witness1Name c, lc_witness1NationalId c, lc_witness2Name c, lc_witness2NationalId c],
     lt_revision = lc_draftRevision c\<rparr>"

datatype deal = Open lease_terms | Agreed lease_terms | Signed lease_terms "string option"

inductive deal_step :: "deal \<Rightarrow> deal \<Rightarrow> bool" where
  Rewrite: "lt_revision t' = lt_revision t + 1 \<Longrightarrow> deal_step (Open t) (Open t')"
| Agree: "deal_step (Open t) (Agreed t)"
| Sign: "deal_step (Agreed t) (Signed t (Some key))"
| SignAtOnce: "deal_step (Open t) (Signed t (Some key))"

definition deal_of :: "lease_contract \<Rightarrow> deal" where
  "deal_of c = (if lc_status c = LC_APPROVED then Signed (terms_of c) (lc_pdfUrl c)
     else if lc_tenantReviewStatus c = REVIEW_CONFIRMED then Agreed (terms_of c) else Open (terms_of c))"

definition contract_ok :: "lease_contract \<Rightarrow> bool" where
  "contract_ok c \<longleftrightarrow>
     text_ok 200 (lc_ownerName c) \<and> text_ok 200 (lc_tenantName c) \<and> text_ok 500 (lc_propertyAddress c)
   \<and> 0 < lc_rentAmount c \<and> lc_startDate c < lc_endDate c
   \<and> length (lc_customClauses c) \<le> 30 \<and> (\<forall>x \<in> set (lc_customClauses c). text_ok 2000 x)
   \<and> 1 \<le> lc_draftRevision c
   \<and> (lc_tenantReviewStatus c = REVIEW_CONFIRMED \<longrightarrow>
        lc_tenantReviewedRevision c = Some (lc_draftRevision c) \<and> lc_tenantReviewConfirmedAt c \<noteq> None)
   \<and> (lc_status c = LC_APPROVED \<longrightarrow> lc_tenantReviewStatus c = REVIEW_CONFIRMED \<and> lc_pdfUrl c \<noteq> None)"

lemmas contract_writes = revise_def write_terms_def mark_approved_def confirm_terms_def

lemma lease_edge_ok: "lease_edge c c' \<Longrightarrow> contract_ok c \<Longrightarrow> contract_ok c'"
  by (induction rule: lease_edge.induct)
    (auto simp: contract_ok_def draft_ok_def contract_writes split: option.splits)

lemma lease_edge_approved: "lease_edge c c' \<Longrightarrow> contract_ok c \<Longrightarrow> lc_status c \<noteq> LC_APPROVED"
  by (induction rule: lease_edge.induct) (auto simp: contract_ok_def)

lemma deal_of_approved: "deal_of ((mark_approved u ov tv key r now c)\<lparr>lc_updatedAt := n\<rparr>) = Signed (terms_of c) (Some key)"
  by (simp add: deal_of_def terms_of_def mark_approved_def)

lemma lease_edge_deal: "lease_edge c c' \<Longrightarrow> contract_ok c \<Longrightarrow> deal_step\<^sup>*\<^sup>* (deal_of c) (deal_of c')"
proof (induction rule: lease_edge.induct)
  case (Revise c d u now)
  then show ?case
    by (auto simp: deal_of_def contract_ok_def contract_writes terms_of_def intro!: r_into_rtranclp deal_step.Rewrite)
next
  case Approved
  then show ?case
    unfolding deal_of_approved by (auto simp: deal_of_def intro!: r_into_rtranclp deal_step.Sign deal_step.SignAtOnce)
next
  case (Confirm c now)
  then show ?case
    by (auto simp: deal_of_def contract_ok_def confirm_terms_def terms_of_def intro!: r_into_rtranclp deal_step.Agree)
qed (auto simp: deal_of_def terms_of_def contract_ok_def)

definition leases_inv :: "db \<Rightarrow> bool" where
  "leases_inv s \<longleftrightarrow> lease_keys s \<and> (\<forall>c \<in> set (db_leaseContracts s). contract_ok c)"

lemma blank_ok: "draft_ok d \<Longrightarrow> contract_ok (write_terms u d (blank_contract cid mid now))"
  by (simp add: contract_ok_def draft_ok_def write_terms_def blank_contract_def)

lemma contract_of_set:
  "lease_keys s \<Longrightarrow> contract_of mid s = Some c \<longleftrightarrow> c \<in> set (db_leaseContracts s) \<and> lc_matchConnectionId c = mid"
proof
  assume k: "lease_keys s" and c: "c \<in> set (db_leaseContracts s) \<and> lc_matchConnectionId c = mid"
  then obtain x where x: "contract_of mid s = Some x"
    unfolding contract_of_def by (cases "find (\<lambda>c. lc_matchConnectionId c = mid) (db_leaseContracts s)") (auto simp: find_None_iff)
  from contract_ofD[OF x] c k have "x = c" by (auto simp: lease_keys_def intro: distinct_keyD)
  with x show "contract_of mid s = Some c" by simp
qed (auto dest: contract_ofD)

text \<open>One write, seen from one row.\<close>

lemma lease_write_row:
  assumes "lease_keys s" "lease_write s t" "c \<in> set (db_leaseContracts s)"
  shows "\<exists>c' \<in> set (db_leaseContracts t). lc_matchConnectionId c' = lc_matchConnectionId c \<and> (c' = c \<or> lease_edge c c')"
proof -
  from assms(2) consider "db_leaseContracts t = db_leaseContracts s"
    | x x' where "x \<in> set (db_leaseContracts s)" "lease_edge x x'" "db_leaseContracts t =
           update_where (\<lambda>y. lc_matchConnectionId y = lc_matchConnectionId x) (\<lambda>y. x') (db_leaseContracts s)"
    | n where "db_leaseContracts t = db_leaseContracts s @ [n]"
    by (auto simp: lease_write_def)
  then show ?thesis
  proof cases
    case (2 x x')
    show ?thesis
    proof (cases "lc_matchConnectionId c = lc_matchConnectionId x")
      case True
      have "c = x" using distinct_keyD[of lc_matchConnectionId, OF _ assms(3) 2(1) True] assms(1) by (simp add: lease_keys_def)
      moreover have "x' \<in> set (db_leaseContracts t)" unfolding 2(3) using 2(1) by (intro in_update_whereI[of x]) simp_all
      ultimately show ?thesis using 2(2) lease_edge_keys[OF 2(2)] by auto
    next
      case False
      then have "c \<in> set (db_leaseContracts t)" unfolding 2(3) using assms(3) by (auto simp: set_update_where)
      then show ?thesis by blast
    qed
  qed (use assms(3) in auto)
qed

lemma lease_write_back:
  assumes "lease_write s t" "c' \<in> set (db_leaseContracts t)"
  shows "c' \<in> set (db_leaseContracts s) \<or> (\<exists>c \<in> set (db_leaseContracts s). lease_edge c c')
    \<or> (\<exists>u d cid mid now. draft_ok d \<and> c' = write_terms u d (blank_contract cid mid now))"
proof -
  from assms(1) consider "db_leaseContracts t = db_leaseContracts s"
    | x x' where "x \<in> set (db_leaseContracts s)" "lease_edge x x'" "db_leaseContracts t =
           update_where (\<lambda>y. lc_matchConnectionId y = lc_matchConnectionId x) (\<lambda>y. x') (db_leaseContracts s)"
    | u d mid now where "draft_ok d"
        "db_leaseContracts t = db_leaseContracts s @ [write_terms u d (blank_contract (db_seq s) mid now)]"
    by (auto simp: lease_write_def)
  then show ?thesis
  proof cases
    case (3 u d mid now)
    with assms(2) show ?thesis by simp blast
  qed (use assms(2) in \<open>auto simp: set_update_where\<close>)
qed

lemma lease_write_inv:
  assumes "leases_inv s" "lease_write s t"
  shows "leases_inv t"
proof -
  have "contract_ok c'" if "c' \<in> set (db_leaseContracts t)" for c'
    using lease_write_back[OF assms(2) that] assms(1) lease_edge_ok blank_ok unfolding leases_inv_def by blast
  with assms lease_write_keys show ?thesis unfolding leases_inv_def by blast
qed

definition approved_row :: "db \<Rightarrow> lease_contract \<Rightarrow> bool" where
  "approved_row s c \<longleftrightarrow> c \<in> set (db_leaseContracts s) \<and> lc_status c = LC_APPROVED"

interpretation lease_writes: settled_machine leases_inv lease_write approved_row
proof
  show "leases_inv s \<Longrightarrow> lease_write s t \<Longrightarrow> leases_inv t" for s t by (rule lease_write_inv)
  show "approved_row t c" if "leases_inv s" "lease_write s t" "approved_row s c" for s t c
    using that lease_write_row[of s t c] lease_edge_approved[of c] unfolding leases_inv_def approved_row_def by blast
qed

lemma lease_run_writes: "lease_step\<^sup>*\<^sup>* s t \<Longrightarrow> leases_inv s \<Longrightarrow> lease_write\<^sup>*\<^sup>* s t"
proof (induction rule: rtranclp_induct)
  case (step t u)
  then have i: "leases_inv t" using lease_writes.run_inv by blast
  with step lease_step_writes[of t u] show ?case unfolding leases_inv_def by (auto intro: rtranclp_trans)
qed simp

lemma lease_writes_deal:
  "lease_write\<^sup>*\<^sup>* s t \<Longrightarrow> leases_inv s \<Longrightarrow> contract_of mid s = Some c \<Longrightarrow>
     \<exists>c'. contract_of mid t = Some c' \<and> deal_step\<^sup>*\<^sup>* (deal_of c) (deal_of c')"
proof (induction rule: rtranclp_induct)
  case (step t u)
  then obtain c1 where c1: "contract_of mid t = Some c1" "deal_step\<^sup>*\<^sup>* (deal_of c) (deal_of c1)" by blast
  have i: "leases_inv t" "lease_keys t" "lease_keys u"
    using lease_writes.run_inv[OF step(1) step(4)] lease_write_keys[of t u] step(2) by (auto simp: leases_inv_def)
  from lease_write_row[OF i(2) step(2), of c1] contract_ofD[OF c1(1)]
  obtain c2 where c2: "contract_of mid u = Some c2" "c2 = c1 \<or> lease_edge c1 c2"
    unfolding contract_of_set[OF i(3)] by auto
  have "contract_ok c1" using i(1) contract_ofD[OF c1(1)] by (auto simp: leases_inv_def)
  with c2(2) lease_edge_deal[of c1 c2] have "deal_step\<^sup>*\<^sup>* (deal_of c1) (deal_of c2)" by auto
  with c1(2) c2(1) show ?case by (auto intro: rtranclp_trans)
qed auto


section \<open>Dates\<close>

text \<open>The written form of a day, with a four digit year.\<close>

definition digit_char :: "int \<Rightarrow> char" where
  "digit_char n = char_of (48 + n)"

definition iso_date :: "int \<Rightarrow> int \<Rightarrow> int \<Rightarrow> string" where
  "iso_date y m d = [digit_char (y div 1000), digit_char (y div 100 mod 10), digit_char (y div 10 mod 10), digit_char (y mod 10),
     CHR ''-'', digit_char ((m + 1) div 10), digit_char ((m + 1) mod 10), CHR ''-'', digit_char (d div 10), digit_char (d mod 10)]"

lemma is_digit_int: "is_digit c \<longleftrightarrow> 48 \<le> (of_char c :: int) \<and> (of_char c :: int) \<le> 57"
proof -
  have "(of_char c :: int) = int (of_char c :: nat)" by (metis of_nat_of_char)
  then show ?thesis unfolding is_digit_def by linarith
qed

lemma digit_char:
  assumes "0 \<le> n" "n \<le> 9"
  shows "is_digit (digit_char n)" "digit_value (digit_char n) = n"
proof -
  have "(of_char (digit_char n) :: int) = 48 + n" using assms by (simp add: digit_char_def)
  then show "is_digit (digit_char n)" "digit_value (digit_char n) = n"
    using assms by (simp_all add: is_digit_int digit_value_def)
qed

lemma digit_char_value:
  assumes "is_digit c"
  shows "0 \<le> digit_value c" "digit_value c \<le> 9" "digit_char (digit_value c) = c"
  using assms by (simp_all add: is_digit_int digit_value_def digit_char_def)

lemma number_digits4:
  assumes "0 \<le> n" "n \<le> 9999"
  shows "js_number [digit_char (n div 1000), digit_char (n div 100 mod 10), digit_char (n div 10 mod 10), digit_char (n mod 10)] = n"
proof -
  have v: "digit_value (digit_char (n div 1000)) = n div 1000"
    by (rule digit_char(2)) (use assms zdiv_mono1[of n 9999 1000] in \<open>simp_all add: pos_imp_zdiv_nonneg_iff\<close>)
  have q: "n div 100 = n div 10 div 10" "n div 1000 = n div 10 div 10 div 10" by (simp_all add: zdiv_zmult2_eq[symmetric])
  have w: "digit_value (digit_char (k mod 10)) = k mod 10" for k by (rule digit_char(2)) simp_all
  have "10 * (10 * (10 * (n div 1000) + n div 100 mod 10) + n div 10 mod 10) + n mod 10 = n"
    unfolding q by (simp only: mult_div_mod_eq)
  then show ?thesis by (simp only: js_number_def foldl.simps v w mult_zero_right add_0)
qed

lemma number_digits2:
  "0 \<le> n \<Longrightarrow> n \<le> 99 \<Longrightarrow> js_number [digit_char (n div 10), digit_char (n mod 10)] = n"
  by (simp add: js_number_def digit_char(2)) 

lemma split_iso_date_iso:
  assumes "0 \<le> y" "y \<le> 9999" "0 \<le> m" "m \<le> 11" "0 \<le> d" "d \<le> 99"
  shows "split_iso_date (iso_date y m d) = Some
    ([digit_char (y div 1000), digit_char (y div 100 mod 10), digit_char (y div 10 mod 10), digit_char (y mod 10)],
     [digit_char ((m + 1) div 10), digit_char ((m + 1) mod 10)], [digit_char (d div 10), digit_char (d mod 10)])"
  using assms by (simp add: iso_date_def digit_char(1))


lemma div_mod_10: "0 \<le> r \<Longrightarrow> r \<le> 9 \<Longrightarrow> (10 * q + r) div 10 = q \<and> (10 * q + r) mod 10 = (r::int)"
  by (simp add: div_add1_eq)

lemma number_div:
  assumes "is_digit c"
  shows "(10 * q + digit_value c) div 10 = q" "digit_char ((10 * q + digit_value c) mod 10) = c"
  using div_mod_10[of "digit_value c" q] digit_char_value[OF assms] by simp_all

lemma digits_of_number4:
  assumes "is_digit a" "is_digit b" "is_digit c" "is_digit d"
  shows "[digit_char (js_number [a, b, c, d] div 1000), digit_char (js_number [a, b, c, d] div 100 mod 10),
      digit_char (js_number [a, b, c, d] div 10 mod 10), digit_char (js_number [a, b, c, d] mod 10)] = [a, b, c, d]"
proof -
  let ?n = "js_number [a, b, c, d]"
  have n: "?n = 10 * (10 * (10 * digit_value a + digit_value b) + digit_value c) + digit_value d"
    by (simp only: js_number_def foldl.simps mult_zero_right add_0)
  have q: "?n div 100 = ?n div 10 div 10" "?n div 1000 = ?n div 10 div 10 div 10" by (simp_all add: zdiv_zmult2_eq[symmetric])
  show ?thesis unfolding q unfolding n by (simp only: number_div[OF assms(2)] number_div[OF assms(3)] number_div[OF assms(4)] digit_char_value(3)[OF assms(1)])
qed

lemma digits_of_number2:
  assumes "is_digit a" "is_digit b"
  shows "[digit_char (js_number [a, b] div 10), digit_char (js_number [a, b] mod 10)] = [a, b]"
proof -
  have n: "js_number [a, b] = 10 * digit_value a + digit_value b"
    by (simp only: js_number_def foldl.simps mult_zero_right add_0)
  show ?thesis unfolding n by (simp only: number_div[OF assms(2)] digit_char_value(3)[OF assms(1)])
qed

lemma split_iso_dateD:
  assumes "split_iso_date v = Some (y, m, d)"
  shows "iso_date (js_number y) (js_number m - 1) (js_number d) = v" "length y = 4" "length m = 2" "length d = 2"
    "list_all is_digit (y @ m @ d)"
proof -
  from assms obtain y1 y2 y3 y4 m1 m2 d1 d2 where v: "v = [y1, y2, y3, y4, CHR ''-'', m1, m2, CHR ''-'', d1, d2]"
    "y = [y1, y2, y3, y4]" "m = [m1, m2]" "d = [d1, d2]" "list_all is_digit [y1, y2, y3, y4, m1, m2, d1, d2]"
    by (cases v rule: split_iso_date.cases) (auto split: if_splits)
  from v have "is_digit y1" "is_digit y2" "is_digit y3" "is_digit y4" "is_digit m1" "is_digit m2" "is_digit d1" "is_digit d2"
    by simp_all
  with digits_of_number4[of y1 y2 y3 y4] digits_of_number2[of m1 m2] digits_of_number2[of d1 d2]
  show "iso_date (js_number y) (js_number m - 1) (js_number d) = v"
    unfolding iso_date_def v by simp
  show "length y = 4" "length m = 2" "length d = 2" "list_all is_digit (y @ m @ d)" using v by auto
qed

lemma date_UTC_fields:
  "valid_date y m d \<Longrightarrow> 100 \<le> y \<Longrightarrow>
    getUTCFullYear (date_UTC y m d) = y \<and> getUTCMonth (date_UTC y m d) = m \<and> getUTCDate (date_UTC y m d) = d"
  by (simp add: date_UTC_def getUTCFullYear_def getUTCMonth_def getUTCDate_def day_ms_def fields_make_day)

lemma date_fields_valid: "valid_date (getUTCFullYear t) (getUTCMonth t) (getUTCDate t)"
  by (simp add: getUTCFullYear_def getUTCMonth_def getUTCDate_def fields_valid)

section \<open>Properties\<close>

text \<open>C11: The dates of a draft survive the round trip through their written form: every calendar day of
  the years 100 to 9999, written as \<open>yyyy-mm-dd\<close>, is accepted and read back as that day, and
  every text that is accepted is the written form of the day it was read as, so no overflowing
  day or month slips through.\<close>

theorem calendar_date_roundtrip:
  "(100 \<le> y \<and> y \<le> 9999 \<and> valid_date y m d \<longrightarrow>
      parseCalendarDate (iso_date y m d) field = Inr (date_UTC y m d)
    \<and> getUTCFullYear (date_UTC y m d) = y \<and> getUTCMonth (date_UTC y m d) = m \<and> getUTCDate (date_UTC y m d) = d)
   \<and> (parseCalendarDate v field = Inr t \<longrightarrow> iso_date (getUTCFullYear t) (getUTCMonth t) (getUTCDate t) = v)"
proof (intro conjI impI)
  assume a: "100 \<le> y \<and> y \<le> 9999 \<and> valid_date y m d"
  then have b: "0 \<le> m" "m \<le> 11" "1 \<le> d" "d \<le> 31"
    using month_length_bounds[of m "leap_year y"] by (auto simp: valid_date_def)
  have f: "getUTCFullYear (date_UTC y m d) = y" "getUTCMonth (date_UTC y m d) = m" "getUTCDate (date_UTC y m d) = d"
    using date_UTC_fields[of y m d] a by auto
  then show "getUTCFullYear (date_UTC y m d) = y" "getUTCMonth (date_UTC y m d) = m" "getUTCDate (date_UTC y m d) = d" .
  have n: "js_number [digit_char ((m + 1) div 10), digit_char ((m + 1) mod 10)] = m + 1"
    "js_number [digit_char (d div 10), digit_char (d mod 10)] = d"
    "js_number [digit_char (y div 1000), digit_char (y div 100 mod 10), digit_char (y div 10 mod 10), digit_char (y mod 10)] = y"
    using a b by (intro number_digits2 number_digits4; simp)+
  have sp: "split_iso_date (iso_date y m d) = Some
    ([digit_char (y div 1000), digit_char (y div 100 mod 10), digit_char (y div 10 mod 10), digit_char (y mod 10)],
     [digit_char ((m + 1) div 10), digit_char ((m + 1) mod 10)], [digit_char (d div 10), digit_char (d mod 10)])"
    using a b by (intro split_iso_date_iso) auto
  have m1: "m + 1 - 1 = m" by simp
  show "parseCalendarDate (iso_date y m d) field = Inr (date_UTC y m d)"
    unfolding parseCalendarDate_def sp option.case prod.case n Let_def m1 f by simp
next
  assume "parseCalendarDate v field = Inr t"
  then obtain yy mm dd where s: "split_iso_date v = Some (yy, mm, dd)"
    "getUTCFullYear t = js_number yy" "getUTCMonth t = js_number mm - 1" "getUTCDate t = js_number dd"
    by (auto simp: parseCalendarDate_def Let_def split: option.splits if_splits)
  show "iso_date (getUTCFullYear t) (getUTCMonth t) (getUTCDate t) = v"
    unfolding s(2-4) by (rule split_iso_dateD(1)[OF s(1)])
qed


text \<open>What a user typed into a draft cannot break out of the page that is printed: replacing the five
  special characters one after the other is the same as escaping each character once, and
  neither angle bracket nor quote is left.\<close>

theorem escapeHtml_single_pass:
  "escapeHtml v = concat (map escape_char v) \<and> set (escapeHtml v) \<inter> {CHR ''<'', CHR ''>'', CHR 0x22, CHR 0x27} = {}"
proof -
  have e: "escapeHtml v = concat (map escape_char v)"
    by (induction v) (simp_all add: escapeHtml_def replace_all_def escape_char_def)
  show ?thesis unfolding e by (auto simp: escape_char_def split: if_splits)
qed

text \<open>C8: Along every run of whole requests the table of contracts stays well formed: names, address, rent,
  dates and clauses are within the limits of the forms, a confirmed contract was confirmed in its
  present revision, an approved one is confirmed and has its document; and a contract that was
  approved is never written again.\<close>

theorem lease_rows_safe:
  assumes "leases_inv s" "lease_step\<^sup>*\<^sup>* s t"
  shows "(\<forall>c \<in> set (db_leaseContracts t). contract_ok c)
    \<and> (\<forall>c \<in> set (db_leaseContracts s). lc_status c = LC_APPROVED \<longrightarrow> c \<in> set (db_leaseContracts t))"
proof -
  note w = lease_run_writes[OF assms(2,1)]
  from lease_writes.run_inv[OF w assms(1)] lease_writes.settled_forever[OF w assms(1)]
  show ?thesis unfolding leases_inv_def approved_row_def by blast
qed


lemma deal_step_agreed: "deal_step\<^sup>*\<^sup>* d e \<Longrightarrow> d = Agreed t \<or> d = Signed t k \<Longrightarrow> (\<exists>k'. e = Signed t k') \<or> e = Agreed t"
  by (induction rule: rtranclp_induct) (auto elim: deal_step.cases)

lemma confirmed_stays:
  assumes "leases_inv s" "lease_step\<^sup>*\<^sup>* s t" "contract_of mid s = Some c" "lc_tenantReviewStatus c = REVIEW_CONFIRMED"
  shows "\<exists>c'. contract_of mid t = Some c' \<and> lc_tenantReviewStatus c' = REVIEW_CONFIRMED \<and> terms_of c' = terms_of c"
proof -
  from lease_writes_deal[OF lease_run_writes[OF assms(2,1)] assms(1,3)] obtain c' where
    c': "contract_of mid t = Some c'" "deal_step\<^sup>*\<^sup>* (deal_of c) (deal_of c')" by blast
  have "leases_inv t" by (rule lease_writes.run_inv[OF lease_run_writes[OF assms(2,1)] assms(1)])
  with c'(1) have "contract_ok c'" by (auto simp: leases_inv_def dest: contract_ofD)
  moreover have "deal_of c = Agreed (terms_of c) \<or> deal_of c = Signed (terms_of c) (lc_pdfUrl c)"
    using assms(4) by (simp add: deal_of_def)
  from deal_step_agreed[OF c'(2) this] have "(\<exists>k. deal_of c' = Signed (terms_of c) k) \<or> deal_of c' = Agreed (terms_of c)" .
  ultimately have "lc_tenantReviewStatus c' = REVIEW_CONFIRMED \<and> terms_of c' = terms_of c"
    by (auto simp: deal_of_def contract_ok_def split: if_splits)
  with c'(1) show ?thesis by blast
qed

lemma saveDraft_locked:
  assumes "contract_of mid s = Some c" "lc_tenantReviewStatus c = REVIEW_CONFIRMED"
  shows "\<exists>e. saveDraft sign u mid dto now s = (Inl e, s)"
  using assms by (auto simp: saveDraft_def saveDraft_read_def Let_def split: sum.splits)

lemma update_by_match_Inr:
  assumes "update_by_match sign mid f now s (\<lambda>c. notifyUser (u c) ty (l c) n) = (Inr r, t)"
  shows "\<exists>x y. contract_of mid t = Some y \<and> x \<in> set (db_leaseContracts s) \<and> lc_matchConnectionId x = mid \<and> y = (f x)\<lparr>lc_updatedAt := now\<rparr>"
proof -
  let ?u = "update_contract (\<lambda>c. lc_matchConnectionId c = mid) f now s"
  from assms obtain y where y: "contract_of mid ?u = Some y" "db_leaseContracts t = db_leaseContracts ?u"
    unfolding update_by_match_def Let_def by (cases "contract_of mid ?u") (auto simp del: update_contract_simps)
  from y have "contract_of mid t = Some y" by (simp add: contract_of_def)
  moreover from contract_ofD[OF y(1)] obtain x where "x \<in> set (db_leaseContracts s)" "lc_matchConnectionId x = mid"
    "y = (f x)\<lparr>lc_updatedAt := now\<rparr>" by (auto simp: set_update_where)
  ultimately show ?thesis by blast
qed

lemma reject_Inr:
  assumes "reject sign u mid why now s = (Inr r, t)"
  shows "\<exists>c. contract_of mid t = Some c \<and> lc_status c = DRAFTING"
proof -
  from assms obtain m :: match_connection where "update_by_match sign mid
      (\<lambda>c. c\<lparr>lc_status := DRAFTING, lc_changeRequestNote := js_or (map_option js_trim why) None\<rparr>) now s
      (\<lambda>u. notifyUser (mc_ownerId m) CONTRACT_REJECTED (Some (contractLink mid)) now) = (Inr r, t)"
    unfolding reject_def Let_def by (auto split: sum.splits if_splits)
  from update_by_match_Inr[OF this] show ?thesis by auto
qed

text \<open>A confirmed contract that the tenant rejects, as he can when the document could not be produced,
  goes back to DRAFTING but keeps its confirmation, so no later request of the landlord can
  change the draft again: every save is refused, whatever happens in between.\<close>

theorem rejected_confirmed_contract_locked:
  assumes "leases_inv s" "contract_of mid s = Some c" "lc_tenantReviewStatus c = REVIEW_CONFIRMED"
    and "reject sign tenant mid why now s = (Inr r, s1)" "lease_step\<^sup>*\<^sup>* s1 t"
  shows "(\<exists>c1. contract_of mid s1 = Some c1 \<and> lc_status c1 = DRAFTING)
    \<and> (\<exists>e. saveDraft sign owner mid dto later t = (Inl e, t))"
proof -
  have st: "lease_step\<^sup>*\<^sup>* s s1" using r_into_rtranclp[of lease_step, OF lease_step.Reject[of s sign tenant mid why now]] unfolding assms(4) by simp
  then have "lease_step\<^sup>*\<^sup>* s t" using assms(5) by simp
  from confirmed_stays[OF assms(1) this assms(2,3)] saveDraft_locked
  have "\<exists>e. saveDraft sign owner mid dto later t = (Inl e, t)" by blast
  then show ?thesis using reject_Inr[OF assms(4)] by blast
qed

text \<open>The confirmation of the tenant is never lost to a concurrent save: a save that read the draft
  before the confirmation and writes after it, with any requests in between, is refused, changes
  no contract, and tells nobody that the draft was revised.\<close>

theorem confirmation_beats_save:
  assumes "leases_inv s" "saveDraft_read owner mid dto s = Inr (m, Some old, d)" "lease_step\<^sup>*\<^sup>* s t"
    and "contract_of mid t = Some c" "lc_tenantReviewStatus c = REVIEW_CONFIRMED"
  shows "fst (saveDraft_write sign owner mid (m, Some old, d) now t) = Inl (Conflict ''CONTRACT_DRAFT_LOCKED'')
    \<and> db_leaseContracts (snd (saveDraft_write sign owner mid (m, Some old, d) now t)) = db_leaseContracts t
    \<and> db_notifications (snd (saveDraft_write sign owner mid (m, Some old, d) now t)) = db_notifications t"
proof -
  have k: "lease_keys t"
    using lease_writes.run_inv[OF lease_run_writes[OF assms(3,1)] assms(1)] by (simp add: leases_inv_def)
  have n: "\<not> (lc_matchConnectionId x = mid \<and> lc_tenantReviewStatus x \<noteq> REVIEW_CONFIRMED)" if "x \<in> set (db_leaseContracts t)" for x
    using that assms(4,5) contract_of_set[OF k, of mid x] by auto
  then have "count_where (\<lambda>x. lc_matchConnectionId x = mid \<and> lc_tenantReviewStatus x \<noteq> REVIEW_CONFIRMED) (db_leaseContracts t) = 0"
    by (auto simp: count_where_def filter_empty_conv)
  moreover have "update_where (\<lambda>x. lc_matchConnectionId x = mid \<and> lc_tenantReviewStatus x \<noteq> REVIEW_CONFIRMED) f (db_leaseContracts t)
      = db_leaseContracts t" for f by (rule update_where_idem) (use n in blast)
  ultimately show ?thesis by (simp add: saveDraft_write_def Let_def update_contract_def)
qed


lemma approve_write_Inr:
  assumes "lease_keys s" "approve_write sign u mid a now s = (Inr r, t)"
  shows "\<exists>c c'. contract_of mid s = Some c \<and> contract_of mid t = Some c' \<and> lc_status c' = LC_APPROVED
    \<and> terms_of c' = terms_of c \<and> lc_pdfUrl c' = Some (ap_objectKey a) \<and> lc_generatedByUserId c' = u
    \<and> lc_ownerNationalId c' = ap_ownerNationalId a \<and> lc_tenantNationalId c' = ap_tenantNationalId a
    \<and> lc_tenantReviewedRevision c' = Some (lc_draftRevision (ap_contract a))"
proof -
  from update_by_match_Inr[OF assms(2)[unfolded approve_write_def]] obtain x y where
    "contract_of mid t = Some y" "x \<in> set (db_leaseContracts s)" "lc_matchConnectionId x = mid"
    "y = (mark_approved u (ap_ownerNationalId a) (ap_tenantNationalId a) (ap_objectKey a) (ap_contract a) now x)\<lparr>lc_updatedAt := now\<rparr>"
    by blast
  moreover from this have "contract_of mid s = Some x" using contract_of_set[OF assms(1)] by blast
  ultimately show ?thesis by (simp add: mark_approved_def terms_of_def)
qed

text \<open>C9: An approval that produces the final contract comes from the tenant of a CONNECTED match, while
  the identities of both parties are verified, and stores the document rendered from exactly the
  terms of the row, with the national ids that were verified.\<close>

theorem approval_signs_terms:
  assumes "leases_inv s" "contract_of mid s = Some c" "lc_status c \<noteq> LC_APPROVED"
    and "approve env u mid now s = (Inr r, t)"
  shows "\<exists>m ov tv pdf key c'.
     m \<in> set (db_matchConnections s) \<and> mc_id m = mid \<and> mc_status m = CONNECTED \<and> mc_tenantId m = u
   \<and> verified_identity (mc_ownerId m) s = Some ov \<and> verified_identity u s = Some tv
   \<and> le_render env (document_of c (iv_nationalId ov) (iv_nationalId tv) now) = Some pdf \<and> le_store env pdf = Some key
   \<and> contract_of mid t = Some c' \<and> lc_status c' = LC_APPROVED \<and> terms_of c' = terms_of c \<and> lc_pdfUrl c' = Some key
   \<and> lc_ownerNationalId c' = iv_nationalId ov \<and> lc_tenantNationalId c' = iv_nationalId tv \<and> lc_generatedByUserId c' = u"
proof -
  have early: "approve_read env u mid now s \<noteq> Inl (Inr x)" for x
    using assms(2,3) by (auto simp: approve_read_def Let_def requireContract_def split: sum.splits option.splits)
  with assms(4) obtain a where a: "approve_read env u mid now s = Inr a"
    "approve_write (le_sign env) u mid a now s = (Inr r, t)"
    by (auto simp: approve_def split: sum.splits)
  from approve_read_Inr[OF a(1)] obtain mi ov tv pdf where r: "ap_contract a = c" "connectedMatchFor u mid s = Inr mi"
    "ap_match a = mi_connection mi" "mc_tenantId (ap_match a) = u"
    "verified_identity (mc_ownerId (ap_match a)) s = Some ov" "verified_identity u s = Some tv"
    "ap_ownerNationalId a = iv_nationalId ov" "ap_tenantNationalId a = iv_nationalId tv"
    "le_render env (document_of c (iv_nationalId ov) (iv_nationalId tv) now) = Some pdf" "le_store env pdf = Some (ap_objectKey a)"
    using assms(2) by auto
  have m: "ap_match a \<in> set (db_matchConnections s)" "mc_id (ap_match a) = mid" "mc_status (ap_match a) = CONNECTED"
    using r(2,3) by (auto simp: connectedMatchFor_def dest!: find_SomeD split: option.splits)
  have "lease_keys s" using assms(1) by (simp add: leases_inv_def)
  from approve_write_Inr[OF this a(2)] assms(2) obtain c' where "contract_of mid t = Some c'" "lc_status c' = LC_APPROVED"
    "terms_of c' = terms_of c" "lc_pdfUrl c' = Some (ap_objectKey a)" "lc_generatedByUserId c' = u"
    "lc_ownerNationalId c' = ap_ownerNationalId a" "lc_tenantNationalId c' = ap_tenantNationalId a" by auto
  with m r show ?thesis by metis
qed

text \<open>C10: The final write of an approval is not guarded by the revision it was rendered from. When the
  tenant asks for changes and the landlord revises the draft while the document is being
  produced, the row becomes APPROVED with the revised terms, while the stored document holds the
  terms that were read before.\<close>

theorem stale_approval_signs_other_terms:
  assumes "leases_inv s" "approve_read env u mid now s = Inr a" "lease_step\<^sup>*\<^sup>* s s1"
    and "contract_of mid s1 = Some c1" "terms_of c1 \<noteq> terms_of (ap_contract a)"
    and "approve_write (le_sign env) u mid a now s1 = (Inr r, t)"
  shows "\<exists>c' pdf. contract_of mid t = Some c' \<and> lc_status c' = LC_APPROVED \<and> terms_of c' = terms_of c1
    \<and> le_render env (document_of (ap_contract a) (lc_ownerNationalId c') (lc_tenantNationalId c') now) = Some pdf
    \<and> lc_pdfUrl c' = le_store env pdf \<and> terms_of c' \<noteq> terms_of (ap_contract a)"
proof -
  have "lease_keys s1"
    using lease_writes.run_inv[OF lease_run_writes[OF assms(3,1)] assms(1)] by (simp add: leases_inv_def)
  from approve_write_Inr[OF this assms(6)] assms(4) obtain c' where "contract_of mid t = Some c'" "lc_status c' = LC_APPROVED"
    "terms_of c' = terms_of c1" "lc_pdfUrl c' = Some (ap_objectKey a)"
    "lc_ownerNationalId c' = ap_ownerNationalId a" "lc_tenantNationalId c' = ap_tenantNationalId a" by auto
  with approve_read_Inr[OF assms(2)] assms(5) show ?thesis by metis
qed

section \<open>Witnesses\<close>

text \<open>The match 21 of the tenant 8 with the listing 4 of the landlord 7, both verified, and its contract
  5, sent for review.\<close>

definition lease_listing :: property where
  "lease_listing =
     \<lparr>p_id = 4, p_ownerId = 7, p_title = ''Flat'', p_description = ''Two rooms'', p_district = ''Maadi'',
      p_manualAddress = ''9 Street'', p_propertyType = APARTMENT, p_aroundServices = None,
      p_rentAmount = 5000, p_bedrooms = 2, p_isFurnished = True, p_status = P_APPROVED,
      p_rejectionReason = None, p_isBoosted = False, p_boostedUntil = None, p_embedding = [],
      p_approvedBy = None, p_approvedAt = None, p_createdAt = 0, p_countryId = 2,
      p_governorateId = 3, p_cityId = 4, p_areaM2 = 90, p_bathrooms = 2, p_hasElevator = True, p_hasParking = False\<rparr>"

definition lease_match :: match_connection where
  "lease_match = \<lparr>mc_id = 21, mc_tenantId = 8, mc_propertyId = 4, mc_ownerId = 7,
     mc_tenantRequestId = None, mc_matchScore = 100, mc_status = CONNECTED,
     mc_agreementReachedAt = None, mc_createdAt = 0\<rparr>"

definition lease_identity :: "uuid \<Rightarrow> string \<Rightarrow> identity_verification" where
  "lease_identity i nid = \<lparr>iv_id = i, iv_userId = i, iv_nationalId = Some nid, iv_status = VS_APPROVED,
     iv_reviewedBy = None, iv_rejectionReason = None, iv_reviewedAt = None,
     iv_nationalIdFrontUrl = '''', iv_nationalIdBackUrl = '''', iv_selfieUrl = '''', iv_submittedAt = 0\<rparr>"

definition lease_draft :: draft_data where
  "lease_draft = \<lparr>dd_ownerName = ''Mona'', dd_tenantName = ''Omar'', dd_propertyAddress = ''Maadi'', dd_rentAmount = 5000,
     dd_startDate = 2, dd_endDate = 9, dd_customClauses = [], dd_witness1Name = None, dd_witness1NationalId = None,
     dd_witness2Name = None, dd_witness2NationalId = None\<rparr>"

definition lease_row :: "lease_status \<Rightarrow> review_status \<Rightarrow> lease_contract" where
  "lease_row st rv = (write_terms 7 lease_draft (blank_contract 5 21 0))\<lparr>lc_status := st, lc_tenantReviewStatus := rv,
     lc_tenantReviewedRevision := Some 1, lc_tenantReviewConfirmedAt := Some 3\<rparr>"

definition lease_db :: "lease_contract \<Rightarrow> db" where
  "lease_db c = empty_db\<lparr>db_seq := 30, db_users := [new_user 7 ''Mona'' ''m'' '''' '''' LANDLORD 0, new_user 8 ''Omar'' ''o'' '''' '''' TENANT 0],
     db_properties := [lease_listing], db_matchConnections := [lease_match],
     db_identityVerifications := [lease_identity 7 ''111'', lease_identity 8 ''222''], db_leaseContracts := [c]\<rparr>"

lemma lease_row_ok: "st \<noteq> LC_APPROVED \<Longrightarrow> contract_ok (lease_row st rv)"
  by (simp add: contract_ok_def lease_row_def contract_writes blank_contract_def lease_draft_def text_ok_def js_trim_def js_space_def)

lemma lease_db_inv: "st \<noteq> LC_APPROVED \<Longrightarrow> leases_inv (lease_db (lease_row st rv))"
  using lease_row_ok[of st rv]
  by (simp add: leases_inv_def lease_keys_def lease_db_def keys_ok_def)
    (simp add: lease_row_def contract_writes blank_contract_def)

lemma lease_db_contract: "contract_of 21 (lease_db (lease_row st rv)) = Some (lease_row st rv)"
  by (simp add: contract_of_def lease_db_def lease_row_def contract_writes blank_contract_def)

lemma lease_db_match:
  "\<exists>mi. connectedMatchFor 7 21 (lease_db c) = Inr mi \<and> mi_connection mi = lease_match"
  "\<exists>mi. connectedMatchFor 8 21 (lease_db c) = Inr mi \<and> mi_connection mi = lease_match"
  by (simp_all add: connectedMatchFor_def lease_db_def lease_match_def lease_listing_def)

definition lease_printer :: lease_env where
  "lease_printer = \<lparr>le_render = (\<lambda>d. Some (doc_tenantName d)), le_renderDraft = (\<lambda>d. None), le_store = Some, le_sign = id\<rparr>"

definition lease_form :: save_draft_dto where
  "lease_form = \<lparr>sd_rentAmount = None, sd_startDate = ''2026-01-01'', sd_endDate = ''2027-01-01'', sd_customClauses = None,
     sd_witness1Name = None, sd_witness1NationalId = None, sd_witness2Name = None, sd_witness2NationalId = None\<rparr>"

theorem calendar_date_roundtrip_witness:
  "parseCalendarDate (iso_date 2024 1 29) ''STARTDATE'' = Inr (date_UTC 2024 1 29)"
  using calendar_date_roundtrip[of 2024 1 29 "''STARTDATE''"] by (simp add: valid_date_def month_length_def month_start_def leap_year_def)


theorem lease_rows_safe_witness:
  "list_all contract_ok (db_leaseContracts
     (snd (approve lease_printer 8 21 60 (lease_db (lease_row PENDING_TENANT_APPROVAL PENDING_REVIEW)))))"
  using lease_rows_safe[OF lease_db_inv[of PENDING_TENANT_APPROVAL PENDING_REVIEW]
      r_into_rtranclp[of lease_step, OF lease_step.Approve[of _ lease_printer 8 21 60]]] by (simp add: list_all_iff)


lemma update_by_match_returns:
  assumes "contract_of mid s = Some c" "\<And>c. lc_matchConnectionId (f c) = lc_matchConnectionId c"
  shows "\<exists>r t. update_by_match sign mid f now s k = (Inr r, t)"
proof -
  let ?u = "update_contract (\<lambda>c. lc_matchConnectionId c = mid) f now s"
  have "(f c)\<lparr>lc_updatedAt := now\<rparr> \<in> set (db_leaseContracts ?u)" "lc_matchConnectionId ((f c)\<lparr>lc_updatedAt := now\<rparr>) = mid"
    using contract_ofD[OF assms(1)] assms(2) by (auto simp: set_update_where)
  then have "contract_of mid ?u \<noteq> None" unfolding contract_of_def find_None_iff by blast
  then show ?thesis unfolding update_by_match_def Let_def by auto
qed

lemma approve_write_returns:
  "contract_of mid s = Some c \<Longrightarrow> \<exists>r t. approve_write sign u mid a now s = (Inr r, t)"
  unfolding approve_write_def by (rule update_by_match_returns) (simp_all add: mark_approved_def)

lemma lease_db_reject_eq:
  "reject id 8 21 None 60 (lease_db (lease_row PENDING_TENANT_APPROVAL rv)) = update_by_match id 21
      (\<lambda>c. c\<lparr>lc_status := DRAFTING, lc_changeRequestNote := js_or (map_option js_trim None) None\<rparr>) 60
      (lease_db (lease_row PENDING_TENANT_APPROVAL rv)) (\<lambda>u. notifyUser 7 CONTRACT_REJECTED (Some (contractLink 21)) 60)"
proof -
  obtain mi where "connectedMatchFor 8 21 (lease_db (lease_row PENDING_TENANT_APPROVAL rv)) = Inr mi" "mi_connection mi = lease_match"
    using lease_db_match(2) by blast
  then show ?thesis
    by (simp add: reject_def Let_def requireContract_def lease_db_contract) (simp add: lease_match_def lease_row_def)
qed

lemma lease_db_reject:
  "\<exists>r s1. reject id 8 21 None 60 (lease_db (lease_row PENDING_TENANT_APPROVAL rv)) = (Inr r, s1)"
  unfolding lease_db_reject_eq using update_by_match_returns[OF lease_db_contract] by simp

theorem rejected_confirmed_contract_locked_witness:
  "\<exists>r s1 e. reject id 8 21 None 60 (lease_db (lease_row PENDING_TENANT_APPROVAL REVIEW_CONFIRMED)) = (Inr r, s1)
     \<and> saveDraft id 7 21 lease_form 70 s1 = (Inl e, s1)"
proof -
  obtain r s1 where s1: "reject id 8 21 None 60 (lease_db (lease_row PENDING_TENANT_APPROVAL REVIEW_CONFIRMED)) = (Inr r, s1)"
    using lease_db_reject by blast
  have "lc_tenantReviewStatus (lease_row PENDING_TENANT_APPROVAL REVIEW_CONFIRMED) = REVIEW_CONFIRMED" by (simp add: lease_row_def)
  from rejected_confirmed_contract_locked[OF lease_db_inv lease_db_contract this s1 rtranclp.rtrancl_refl] s1
  show ?thesis by blast
qed

lemma lease_form_dates: "parseCalendarDate ''2026-01-01'' f = Inr 1767225600000" "parseCalendarDate ''2027-01-01'' f = Inr 1798761600000"
  by code_simp+

lemma lease_trim: "js_trim ''Mona'' = ''Mona''" "js_trim ''Omar'' = ''Omar''" "js_trim ''Maadi, 9 Street'' = ''Maadi, 9 Street''"
  "js_trim ''Lower rent'' = ''Lower rent''"
  by (simp_all add: js_trim_def js_space_def)

lemma lease_row_simps:
  "lc_status (lease_row st rv) = st" "lc_tenantReviewStatus (lease_row st rv) = rv" "lc_matchConnectionId (lease_row st rv) = 21"
  "lc_id (lease_row st rv) = 5" "lc_draftRevision (lease_row st rv) = 1"
  "mc_ownerId lease_match = 7" "mc_tenantId lease_match = 8"
  by (simp_all add: lease_row_def contract_writes blank_contract_def lease_match_def)

lemma lease_form_accepted:
  assumes "db_users s = db_users (lease_db c0)" "db_properties s = [lease_listing]" "db_matchConnections s = [lease_match]"
    and "contract_of 21 s = Some c" "lc_tenantReviewStatus c \<noteq> REVIEW_CONFIRMED"
    and "lc_status c = DRAFTING \<or> lc_tenantReviewStatus c = CHANGES_REQUESTED"
  shows "\<exists>m d. saveDraft_read 7 21 lease_form s = Inr (m, Some c, d) \<and> mi_connection m = lease_match"
proof -
  let ?mi = "\<lparr>mi_connection = lease_match, mi_ownerName = ''Mona'', mi_tenantName = ''Omar'', mi_district = ''Maadi'',
      mi_manualAddress = ''9 Street'', mi_rentAmount = 5000\<rparr>"
  have mi: "connectedMatchFor 7 21 s = Inr ?mi"
    using assms(1-3) by (simp add: connectedMatchFor_def lease_match_def lease_listing_def user_name_def lease_db_def new_user_def)
  have "\<exists>d. draft_data_of ?mi lease_form = Inr d"
    by (simp add: draft_data_of_def Let_def lease_form_def lease_form_dates requireTrustedText_def
        normalizeCustomClauses_def lease_trim)
  then obtain d where "draft_data_of ?mi lease_form = Inr d" by blast
  with assms(4-6) show ?thesis by (auto simp: saveDraft_read_def mi Let_def lease_row_simps)
qed

definition jammed_printer :: lease_env where
  "jammed_printer = lease_printer\<lparr>le_render := (\<lambda>d. None)\<rparr>"

lemma jammed_approve: "snd (approve jammed_printer u mid now s) = s"
  by (auto simp: approve_def jammed_printer_def split: sum.splits dest!: approve_read_Inr)

lemma lease_db_confirm:
  "\<exists>c. contract_of 21 (snd (confirmReview jammed_printer 8 5 1 60 (lease_db (lease_row DRAFTING PENDING_REVIEW)))) = Some c
     \<and> lc_tenantReviewStatus c = REVIEW_CONFIRMED"
proof -
  have "authorizedContract 8 5 True (lease_db (lease_row DRAFTING PENDING_REVIEW)) = Inr (lease_row DRAFTING PENDING_REVIEW, lease_match)"
    by (simp add: authorizedContract_def lease_db_def lease_row_simps party_of_def) (simp add: lease_match_def)
  then show ?thesis
    by (simp add: confirmReview_def Let_def lease_row_simps jammed_approve)
      (simp add: contract_of_def lease_db_def lease_row_simps confirm_terms_def)
qed

theorem confirmation_beats_save_witness:
  "\<exists>m d. saveDraft_read 7 21 lease_form (lease_db (lease_row DRAFTING PENDING_REVIEW)) = Inr (m, Some (lease_row DRAFTING PENDING_REVIEW), d)
     \<and> fst (saveDraft_write id 7 21 (m, Some (lease_row DRAFTING PENDING_REVIEW), d) 70
         (snd (confirmReview jammed_printer 8 5 1 60 (lease_db (lease_row DRAFTING PENDING_REVIEW)))))
       = Inl (Conflict ''CONTRACT_DRAFT_LOCKED'')"
proof -
  let ?s = "lease_db (lease_row DRAFTING PENDING_REVIEW)"
  obtain m d where r: "saveDraft_read 7 21 lease_form ?s = Inr (m, Some (lease_row DRAFTING PENDING_REVIEW), d)"
    using lease_form_accepted[OF _ _ _ lease_db_contract[of DRAFTING PENDING_REVIEW]] by (auto simp: lease_row_simps lease_db_def)
  obtain c where c: "contract_of 21 (snd (confirmReview jammed_printer 8 5 1 60 ?s)) = Some c" "lc_tenantReviewStatus c = REVIEW_CONFIRMED"
    using lease_db_confirm by blast
  show ?thesis
    using r confirmation_beats_save[OF lease_db_inv r r_into_rtranclp[of lease_step, OF lease_step.ConfirmReview] c] by blast
qed

lemma lease_db_approve:
  "\<exists>a. approve_read lease_printer 8 21 now (lease_db (lease_row PENDING_TENANT_APPROVAL rv)) = Inr a
     \<and> ap_contract a = lease_row PENDING_TENANT_APPROVAL rv \<and> ap_objectKey a = ''Omar'' \<and> ap_match a = lease_match"
proof -
  obtain mi where mi: "connectedMatchFor 8 21 (lease_db (lease_row PENDING_TENANT_APPROVAL rv)) = Inr mi" "mi_connection mi = lease_match"
    using lease_db_match(2) by blast
  have v: "verified_identity 7 (lease_db c) = Some (lease_identity 7 ''111'')" "verified_identity 8 (lease_db c) = Some (lease_identity 8 ''222'')" for c
    by (simp_all add: verified_identity_def lease_db_def lease_identity_def)
  have n: "lc_tenantName (lease_row PENDING_TENANT_APPROVAL rv) = ''Omar''"
    by (simp add: lease_row_def contract_writes lease_draft_def)
  from mi show ?thesis
    by (simp add: approve_read_def Let_def requireContract_def lease_db_contract lease_row_simps v lease_printer_def document_of_def n)
qed

theorem approval_signs_terms_witness:
  "\<exists>r t c'. approve lease_printer 8 21 60 (lease_db (lease_row PENDING_TENANT_APPROVAL PENDING_REVIEW)) = (Inr r, t)
     \<and> contract_of 21 t = Some c' \<and> lc_status c' = LC_APPROVED \<and> terms_of c' = terms_of (lease_row PENDING_TENANT_APPROVAL PENDING_REVIEW)"
proof -
  let ?s = "lease_db (lease_row PENDING_TENANT_APPROVAL PENDING_REVIEW)"
  obtain a where "approve_read lease_printer 8 21 60 ?s = Inr a" using lease_db_approve by blast
  then obtain r t where t: "approve lease_printer 8 21 60 ?s = (Inr r, t)"
    using approve_write_returns[OF lease_db_contract[of PENDING_TENANT_APPROVAL PENDING_REVIEW], of "le_sign lease_printer" 8 a 60] by (auto simp: approve_def)
  have "lc_status (lease_row PENDING_TENANT_APPROVAL PENDING_REVIEW) \<noteq> LC_APPROVED" by (simp add: lease_row_simps)
  from approval_signs_terms[OF lease_db_inv lease_db_contract this t] t show ?thesis by blast
qed

text \<open>The tenant rejects and the landlord saves again while the document is produced.\<close>

lemma lease_db_revised:
  "\<exists>s1 c1. lease_step\<^sup>*\<^sup>* (lease_db (lease_row PENDING_TENANT_APPROVAL PENDING_REVIEW)) s1
     \<and> contract_of 21 s1 = Some c1 \<and> lc_draftRevision c1 = 2"
proof -
  let ?s = "lease_db (lease_row PENDING_TENANT_APPROVAL PENDING_REVIEW)"
  let ?t = "snd (reject id 8 21 None 60 ?s)"
  obtain c where c: "db_leaseContracts ?t = [c]" "lc_matchConnectionId c = 21" "lc_status c = DRAFTING"
      "lc_tenantReviewStatus c = PENDING_REVIEW" "lc_draftRevision c = 1"
    and k: "db_users ?t = db_users ?s" "db_properties ?t = [lease_listing]" "db_matchConnections ?t = [lease_match]"
    unfolding lease_db_reject_eq update_by_match_def Let_def
    by (simp add: contract_of_def lease_db_def lease_row_simps)
  have "contract_of 21 ?t = Some c" by (simp add: contract_of_def c)
  from lease_form_accepted[OF k this] c obtain m d where r: "saveDraft_read 7 21 lease_form ?t = Inr (m, Some c, d)" by auto
  let ?u = "snd (saveDraft id 7 21 lease_form 70 ?t)"
  have "db_leaseContracts ?u = [(revise 7 d c)\<lparr>lc_updatedAt := 70\<rparr>]"
    using c by (auto simp: saveDraft_def r saveDraft_write_def Let_def split: sum.splits)
  then have "contract_of 21 ?u = Some ((revise 7 d c)\<lparr>lc_updatedAt := 70\<rparr>)"
    using c(2) by (simp add: contract_of_def revise_def write_terms_def)
  moreover have "lease_step\<^sup>*\<^sup>* ?s ?u"
    using lease_step.Reject[of ?s id 8 21 None 60] lease_step.SaveDraft[of ?t id 7 21 lease_form 70]
    by (meson rtranclp.rtrancl_into_rtrancl rtranclp.rtrancl_refl)
  ultimately show ?thesis using c(5) by (auto simp: revise_def)
qed

theorem stale_approval_signs_other_terms_witness:
  "\<exists>a s1 r t c'. approve_read lease_printer 8 21 60 (lease_db (lease_row PENDING_TENANT_APPROVAL PENDING_REVIEW)) = Inr a
     \<and> lease_step\<^sup>*\<^sup>* (lease_db (lease_row PENDING_TENANT_APPROVAL PENDING_REVIEW)) s1
     \<and> approve_write (le_sign lease_printer) 8 21 a 60 s1 = (Inr r, t)
     \<and> (\<exists>c'. contract_of 21 t = Some c' \<and> lc_status c' = LC_APPROVED \<and> terms_of c' \<noteq> terms_of (ap_contract a))"
proof -
  let ?s = "lease_db (lease_row PENDING_TENANT_APPROVAL PENDING_REVIEW)"
  obtain a where a: "approve_read lease_printer 8 21 60 ?s = Inr a" "ap_contract a = lease_row PENDING_TENANT_APPROVAL PENDING_REVIEW"
    using lease_db_approve by blast
  obtain s1 c1 where s1: "lease_step\<^sup>*\<^sup>* ?s s1" "contract_of 21 s1 = Some c1" "lc_draftRevision c1 = 2"
    using lease_db_revised by blast
  have "terms_of c1 \<noteq> terms_of (ap_contract a)" using s1(3) by (auto simp: a(2) terms_of_def lease_row_simps)
  moreover obtain r t where t: "approve_write (le_sign lease_printer) 8 21 a 60 s1 = (Inr r, t)"
    using approve_write_returns[OF s1(2)] by blast
  ultimately show ?thesis
    using stale_approval_signs_other_terms[OF lease_db_inv a(1) s1(1,2) _ t] a(1) s1(1) t by blast
qed

end
