(* ===== verification/Support.thy ===== *)
theory Support
  imports Schema "HOL-Library.Product_Lexorder" "HOL-Library.Multiset"
begin

text \<open>
  \<open>customer-support/customer-support.service.ts\<close> with \<open>ticket-status.mapper.ts\<close>: the tickets of
  customer support. The stream of the external assistant is not modelled; the hand-over it asks
  for, \<open>createAgentEscalation\<close>, is, with its write part apart for the race on its key.
\<close>

section \<open>Wire names\<close>

fun ticketStatusToWire :: "ticket_status \<Rightarrow> string" where
  "ticketStatusToWire TK_NEW = ''new''"
| "ticketStatusToWire TK_ASSIGNED = ''assigned''"
| "ticketStatusToWire TK_IN_PROGRESS = ''in_progress''"
| "ticketStatusToWire TK_WAITING = ''waiting''"
| "ticketStatusToWire TK_CLOSED = ''closed''"

definition WIRE_TICKET_STATUSES :: "string list" where
  "WIRE_TICKET_STATUSES = [''new'', ''assigned'', ''in_progress'', ''waiting'', ''closed'']"

text \<open>A lookup in \<open>TO_DB\<close>; None is undefined.\<close>

definition ticketStatusToDb :: "string \<Rightarrow> ticket_status option" where
  "ticketStatusToDb w =
     map_of [(''new'', TK_NEW), (''assigned'', TK_ASSIGNED), (''in_progress'', TK_IN_PROGRESS),
             (''waiting'', TK_WAITING), (''closed'', TK_CLOSED)] w"

definition SUSPENSION_APPEAL_REASON :: string where "SUSPENSION_APPEAL_REASON = ''SUSPENSION_APPEAL''"

section \<open>Rows\<close>

record reply_dto =
  re_content :: "string option"
  re_internal :: "bool option"
  re_attachmentUrl :: "string option"
  re_attachmentType :: "attachment_type option"
  re_attachmentName :: "string option"
  re_attachmentDurationMs :: "int option"

record attachment =
  at_url :: "string option"
  at_type :: "attachment_type option"
  at_name :: "string option"
  at_durationMs :: "int option"

definition no_attachment :: attachment where
  "no_attachment = \<lparr>at_url = None, at_type = None, at_name = None, at_durationMs = None\<rparr>"

definition attachmentFields :: "reply_dto \<Rightarrow> attachment" where
  "attachmentFields dto =
     (if js_or (re_attachmentUrl dto) None \<noteq> None \<and> re_attachmentType dto \<noteq> None
      then \<lparr>at_url = re_attachmentUrl dto, at_type = re_attachmentType dto,
            at_name = re_attachmentName dto, at_durationMs = re_attachmentDurationMs dto\<rparr>
      else no_attachment)"

definition support_row :: "uuid \<Rightarrow> uuid \<Rightarrow> support_author \<Rightarrow> string \<Rightarrow> uuid \<Rightarrow> string \<Rightarrow> bool \<Rightarrow> attachment \<Rightarrow> time \<Rightarrow> support_message" where
  "support_row mid tid author name authorId content internal att now =
     \<lparr>sm_id = mid, sm_ticketId = tid, sm_authorType = author, sm_authorName = name, sm_authorId = Some authorId,
      sm_content = content, sm_attachmentUrl = at_url att, sm_attachmentType = at_type att,
      sm_attachmentName = at_name att, sm_attachmentDurationMs = at_durationMs att, sm_internal = internal,
      sm_createdAt = now\<rparr>"

definition create_message :: "uuid \<Rightarrow> support_author \<Rightarrow> string \<Rightarrow> uuid \<Rightarrow> string \<Rightarrow> bool \<Rightarrow> attachment \<Rightarrow> time \<Rightarrow> db \<Rightarrow> db" where
  "create_message tid author name authorId content internal att now s =
     s\<lparr>db_seq := db_seq s + 1,
       db_supportMessages := db_supportMessages s @ [support_row (db_seq s) tid author name authorId content internal att now]\<rparr>"

text \<open>A ticket and its first message, created together; the id of the ticket is the old counter.\<close>

definition create_ticket ::
    "uuid \<Rightarrow> string \<Rightarrow> support_priority \<Rightarrow> string option \<Rightarrow> string option \<Rightarrow> uuid option \<Rightarrow> string \<Rightarrow> time \<Rightarrow> db \<Rightarrow> support_ticket \<times> db" where
  "create_ticket userId fullName priority reason summary key content now s =
     (let t = \<lparr>st_id = db_seq s, st_userId = userId, st_status = TK_NEW, st_assignedAdminId = None,
               st_lastMessageAt = now, st_escalationReason = reason, st_agentEscalationKey = key,
               st_priority = priority, st_aiSummary = summary, st_createdAt = now, st_updatedAt = now\<rparr>
      in (t, create_message (db_seq s) AUTHOR_USER fullName userId content False no_attachment now
               (s\<lparr>db_seq := db_seq s + 1, db_tickets := db_tickets s @ [t]\<rparr>)))"

definition update_ticket :: "uuid \<Rightarrow> (support_ticket \<Rightarrow> support_ticket) \<Rightarrow> time \<Rightarrow> db \<Rightarrow> db" where
  "update_ticket tid f now s =
     s\<lparr>db_tickets := update_where (\<lambda>t. st_id t = tid) (\<lambda>t. (f t)\<lparr>st_updatedAt := now\<rparr>) (db_tickets s)\<rparr>"

definition ticket_of :: "uuid \<Rightarrow> db \<Rightarrow> support_ticket option" where
  "ticket_of tid s = find (\<lambda>t. st_id t = tid) (db_tickets s)"

section \<open>Views\<close>

record support_line =
  sl_id :: uuid
  sl_authorType :: support_author
  sl_authorName :: string
  sl_content :: string
  sl_internal :: bool
  sl_attachmentUrl :: "string option"
  sl_attachmentType :: "attachment_type option"
  sl_attachmentName :: "string option"
  sl_attachmentDurationMs :: "int option"
  sl_createdAt :: time

record ticket_detail =
  td_id :: uuid
  td_userId :: uuid
  td_subject :: string
  td_userName :: string
  td_status :: string
  td_priority :: support_priority
  td_escalationReason :: "string option"
  td_aiSummary :: "string option"
  td_assignedAdminId :: "uuid option"
  td_assignedAdminName :: "string option"
  td_lastMessageAt :: time
  td_createdAt :: time
  td_messages :: "support_line list"

definition support_line_of :: "support_message \<Rightarrow> support_line" where
  "support_line_of m =
     \<lparr>sl_id = sm_id m, sl_authorType = sm_authorType m,
      sl_authorName = (if sm_authorType m = AUTHOR_ADMIN then ''SUPPORT'' else sm_authorName m),
      sl_content = sm_content m, sl_internal = sm_internal m, sl_attachmentUrl = sm_attachmentUrl m,
      sl_attachmentType = sm_attachmentType m, sl_attachmentName = sm_attachmentName m,
      sl_attachmentDurationMs = sm_attachmentDurationMs m, sl_createdAt = sm_createdAt m\<rparr>"

definition ticket_messages :: "uuid \<Rightarrow> db \<Rightarrow> support_message list" where
  "ticket_messages tid s = sort_key sm_createdAt (filter (\<lambda>m. sm_ticketId m = tid) (db_supportMessages s))"

definition subject_of :: "support_ticket \<Rightarrow> support_message list \<Rightarrow> string" where
  "subject_of t ms =
     (case st_escalationReason t of
        Some r \<Rightarrow> r
      | None \<Rightarrow> (case ms of [] \<Rightarrow> ''SUPPORT_TICKET'' | m # _ \<Rightarrow> take 50 (sm_content m)))"

text \<open>The requesting user is undefined (None) for the admin views.\<close>

definition mapToTicketDetail :: "support_ticket \<Rightarrow> uuid option \<Rightarrow> db \<Rightarrow> ticket_detail" where
  "mapToTicketDetail t requestingUserId s =
     (let ms = ticket_messages (st_id t) s
      in \<lparr>td_id = st_id t, td_userId = st_userId t, td_subject = subject_of t ms,
          td_userName = user_name (st_userId t) s, td_status = ticketStatusToWire (st_status t),
          td_priority = st_priority t, td_escalationReason = st_escalationReason t, td_aiSummary = st_aiSummary t,
          td_assignedAdminId = st_assignedAdminId t,
          td_assignedAdminName = map_option (\<lambda>a. user_name a s) (st_assignedAdminId t),
          td_lastMessageAt = st_lastMessageAt t, td_createdAt = st_createdAt t,
          td_messages = map support_line_of
            (filter (\<lambda>m. \<not> sm_internal m \<or> requestingUserId \<noteq> Some (st_userId t)) ms)\<rparr>)"

definition getTicketDetail :: "uuid \<Rightarrow> uuid option \<Rightarrow> db \<Rightarrow> http_error + ticket_detail" where
  "getTicketDetail tid userId s =
     (case ticket_of tid s of
        None \<Rightarrow> Inl (NotFound ''TICKET_NOT_FOUND'') | Some t \<Rightarrow> Inr (mapToTicketDetail t userId s))"

section \<open>Opening tickets\<close>

definition createSuspensionAppeal :: "uuid \<Rightarrow> string \<Rightarrow> string option \<Rightarrow> time \<Rightarrow> db \<Rightarrow> (uuid \<times> string) \<times> db" where
  "createSuspensionAppeal userId fullName message now s =
     (case first_desc st_createdAt (\<lambda>t. st_userId t = userId \<and> st_escalationReason t = Some SUSPENSION_APPEAL_REASON
             \<and> st_status t \<noteq> TK_CLOSED) (db_tickets s) of
        Some t \<Rightarrow> ((st_id t, ticketStatusToWire (st_status t)), s)
      | None \<Rightarrow>
          let content = (case js_or (map_option js_trim message) None of None \<Rightarrow> ''APPEAL_TEXT'' | Some c \<Rightarrow> c);
              (t, s1) = create_ticket userId fullName HIGH (Some SUSPENSION_APPEAL_REASON) None None content now s
          in ((st_id t, ticketStatusToWire (st_status t)), emit (SocketTicketCreated (st_id t)) s1))"

record escalation =
  es_agentRunId :: uuid
  es_message :: string
  es_reason :: string
  es_priority :: support_priority

definition by_key :: "uuid \<Rightarrow> db \<Rightarrow> support_ticket option" where
  "by_key k s = find (\<lambda>t. st_agentEscalationKey t = Some k) (db_tickets s)"

definition active_admins :: "db \<Rightarrow> uuid list" where
  "active_admins s = map u_id (filter (\<lambda>u. u_role u = ADMIN \<and> u_isActive u \<and> u_deletedAt u = None) (db_users s))"

text \<open>The creation with its recovery from a lost race on the unique key.\<close>

definition escalation_write :: "uuid \<Rightarrow> string \<Rightarrow> escalation \<Rightarrow> time \<Rightarrow> db \<Rightarrow> ticket_detail result" where
  "escalation_write userId fullName input now s =
     (case by_key (es_agentRunId input) s of
        Some t \<Rightarrow> (Inr (mapToTicketDetail t (Some userId) s), s)
      | None \<Rightarrow>
          let (t, s1) = create_ticket userId fullName (es_priority input) (Some (es_reason input)) (Some (es_reason input))
                          (Some (es_agentRunId input)) (js_trim (es_message input)) now s
          in (Inr (mapToTicketDetail t (Some userId) s1),
              notifyUsers (active_admins s1) SUPPORT_TICKET_ESCALATED (Some (''/admin/support/'', Some (st_id t))) now
                (emit (SocketTicketCreated (st_id t)) s1)))"

definition createAgentEscalation :: "uuid \<Rightarrow> escalation \<Rightarrow> time \<Rightarrow> db \<Rightarrow> ticket_detail result" where
  "createAgentEscalation userId input now s =
     (case by_key (es_agentRunId input) s of
        Some t \<Rightarrow> (Inr (mapToTicketDetail t (Some userId) s), s)
      | None \<Rightarrow>
        (case first_desc st_updatedAt (\<lambda>t. st_userId t = userId \<and> st_status t \<noteq> TK_CLOSED) (db_tickets s) of
           Some t \<Rightarrow>
             let s1 = create_message (st_id t) AUTHOR_USER (user_name (st_userId t) s) userId (js_trim (es_message input))
                        False no_attachment now s;
                 s2 = update_ticket (st_id t) (\<lambda>t. t\<lparr>st_lastMessageAt := now, st_status := TK_IN_PROGRESS\<rparr>) now s1
             in (Inr (mapToTicketDetail t (Some userId) s), emit (SocketSupportToAdmins (st_id t) (js_trim (es_message input))) s2)
         | None \<Rightarrow>
           (case find (\<lambda>u. u_id u = userId) (db_users s) of
              None \<Rightarrow> (Inl (NotFound ''USER_NOT_FOUND''), s)
            | Some u \<Rightarrow> escalation_write userId (u_fullName u) input now s)))"

record create_ticket_dto =
  ct_initialMessage :: string
  ct_priority :: "support_priority option"
  ct_escalationReason :: "string option"

definition createTicket :: "uuid \<Rightarrow> create_ticket_dto \<Rightarrow> time \<Rightarrow> db \<Rightarrow> ticket_detail result" where
  "createTicket userId dto now s =
     (case find (\<lambda>u. u_id u = userId) (db_users s) of
        None \<Rightarrow> (Inl (NotFound ''USER_NOT_FOUND''), s)
      | Some u \<Rightarrow>
          let (t, s1) = create_ticket userId (u_fullName u) (case ct_priority dto of None \<Rightarrow> NORMAL | Some p \<Rightarrow> p)
                          (ct_escalationReason dto) None None (ct_initialMessage dto) now s
          in (Inr (mapToTicketDetail t None s1), emit (SocketTicketCreated (st_id t)) s1))"

section \<open>The queue\<close>

record ticket_summary =
  ts_id :: uuid
  ts_subject :: string
  ts_userName :: string
  ts_status :: string
  ts_priority :: support_priority
  ts_commercialPriority :: string
  ts_assignedAdminName :: "string option"
  ts_lastMessageAt :: time
  ts_createdAt :: time

fun severityWeight :: "support_priority \<Rightarrow> int" where
  "severityWeight CRITICAL = 5" | "severityWeight URGENT = 4" | "severityWeight HIGH = 3"
| "severityWeight NORMAL = 2" | "severityWeight LOW = 1"

definition ticket_tier :: "time \<Rightarrow> db \<Rightarrow> support_ticket \<Rightarrow> string" where
  "ticket_tier now s t =
     (case find (\<lambda>q. uq_userId q = st_userId t) (db_userQuotas s) of
        None \<Rightarrow> ''FREEMIUM''
      | Some q \<Rightarrow>
          let active = (case uq_planExpiresAt q of None \<Rightarrow> False | Some e \<Rightarrow> now < e)
          in if active \<and> uq_planType q = PREMIUM then ''PREMIUM''
             else if active \<and> uq_planType q = OWNER_PLUS then ''OWNER_PLUS'' else ''FREEMIUM'')"

definition tier_weight :: "string \<Rightarrow> int" where
  "tier_weight tier = (if tier = ''PREMIUM'' then 200 else if tier = ''OWNER_PLUS'' then 100 else 0)"

definition ticket_score :: "time \<Rightarrow> db \<Rightarrow> support_ticket \<Rightarrow> int" where
  "ticket_score now s t = tier_weight (ticket_tier now s t) + (now - st_createdAt t) div 86400000 * 20"

text \<open>The comparison of the queue: severity, then score, both falling, then age.\<close>

definition queue_key :: "time \<Rightarrow> db \<Rightarrow> support_ticket \<Rightarrow> int \<times> int \<times> int" where
  "queue_key now s t = (- severityWeight (st_priority t), - ticket_score now s t, st_createdAt t)"

record ticket_query =
  tq_status :: "string option"
  tq_commercialPriority :: "string option"
  tq_page :: "int option"
  tq_pageSize :: "int option"

record 'i page =
  pg_items :: "'i list"
  pg_total :: int
  pg_page :: int
  pg_pageSize :: int

definition wanted :: "(string \<Rightarrow> string) \<Rightarrow> string \<Rightarrow> string option \<Rightarrow> string option" where
  "wanted f everything v =
     (case js_or (map_option (f \<circ> js_trim) v) None of None \<Rightarrow> None | Some x \<Rightarrow> if x = everything then None else Some x)"

definition ticket_summary_of :: "time \<Rightarrow> db \<Rightarrow> support_ticket \<Rightarrow> ticket_summary" where
  "ticket_summary_of now s t =
     \<lparr>ts_id = st_id t, ts_subject = subject_of t (ticket_messages (st_id t) s), ts_userName = user_name (st_userId t) s,
      ts_status = ticketStatusToWire (st_status t), ts_priority = st_priority t,
      ts_commercialPriority = ticket_tier now s t,
      ts_assignedAdminName = map_option (\<lambda>a. user_name a s) (st_assignedAdminId t),
      ts_lastMessageAt = st_lastMessageAt t, ts_createdAt = st_createdAt t\<rparr>"

definition selected_tickets :: "string option \<Rightarrow> string option \<Rightarrow> time \<Rightarrow> db \<Rightarrow> support_ticket list" where
  "selected_tickets status tier now s =
     sort_key (queue_key now s)
       (filter (\<lambda>t. (case status of None \<Rightarrow> True | Some w \<Rightarrow> Some (st_status t) = ticketStatusToDb w)
                    \<and> (case tier of None \<Rightarrow> True | Some c \<Rightarrow> ticket_tier now s t = c)) (db_tickets s))"

definition getAdminTickets :: "ticket_query \<Rightarrow> time \<Rightarrow> db \<Rightarrow> http_error + ticket_summary page" where
  "getAdminTickets query now s =
     (let page = page_number (tq_page query); sz = page_size (tq_pageSize query);
          status = wanted js_lower ''all'' (tq_status query);
          tier = wanted js_upper ''ALL'' (tq_commercialPriority query)
      in if (case status of None \<Rightarrow> False | Some w \<Rightarrow> w \<notin> set WIRE_TICKET_STATUSES)
         then Inl (BadRequest ''Invalid support ticket status'')
         else if (case tier of None \<Rightarrow> False | Some c \<Rightarrow> c \<notin> {''FREEMIUM'', ''OWNER_PLUS'', ''PREMIUM''})
         then Inl (BadRequest ''Invalid commercial priority'')
         else let ts = selected_tickets status tier now s
              in Inr \<lparr>pg_items = map (ticket_summary_of now s) (page_slice page sz ts), pg_total = int (length ts),
                      pg_page = page, pg_pageSize = sz\<rparr>)"

definition getUserTickets :: "uuid \<Rightarrow> time \<Rightarrow> db \<Rightarrow> ticket_summary list" where
  "getUserTickets userId now s =
     map (ticket_summary_of now s) (sort_key (\<lambda>t. - st_updatedAt t) (filter (\<lambda>t. st_userId t = userId) (db_tickets s)))"

section \<open>Replies and handling\<close>

definition addAdminReply :: "uuid \<Rightarrow> uuid \<Rightarrow> reply_dto \<Rightarrow> time \<Rightarrow> db \<Rightarrow> ticket_detail result" where
  "addAdminReply tid adminId dto now s =
     (case find (\<lambda>u. u_id u = adminId) (db_users s) of
        None \<Rightarrow> (Inl (NotFound ''ADMIN_NOT_FOUND''), s)
      | Some _ \<Rightarrow>
        (case ticket_of tid s of
           None \<Rightarrow> (Inl (NotFound ''TICKET_NOT_FOUND''), s)
         | Some t \<Rightarrow>
             let att = attachmentFields dto; internal = (re_internal dto = Some True);
                 content = (case re_content dto of None \<Rightarrow> '''' | Some c \<Rightarrow> js_trim c)
             in if content = [] \<and> js_or (at_url att) None = None then (Inl (BadRequest ''EMPTY_REPLY''), s)
                else
                  let s1 = create_message tid AUTHOR_ADMIN ''SUPPORT'' adminId content internal att now s;
                      s2 = update_ticket tid (\<lambda>x. x\<lparr>st_status := (if internal then st_status t else TK_WAITING),
                             st_lastMessageAt := now\<rparr>) now s1;
                      s3 = emit (SocketSupportToUser (st_userId t) tid internal content) s2;
                      s4 = (if internal then s3
                            else emit (Mail (user_email (st_userId t) s) ''SUPPORT_REPLY'')
                                   (notifyUser (st_userId t) NEW_MESSAGE (Some (''/support/tickets/'', Some tid)) now s3))
                  in (getTicketDetail tid None s4, s4)))"

definition addUserReply :: "uuid \<Rightarrow> uuid \<Rightarrow> reply_dto \<Rightarrow> time \<Rightarrow> db \<Rightarrow> ticket_detail result" where
  "addUserReply tid userId dto now s =
     (case ticket_of tid s of
        None \<Rightarrow> (Inl (NotFound ''TICKET_NOT_FOUND''), s)
      | Some t \<Rightarrow>
        if st_userId t \<noteq> userId then (Inl (Forbidden ''Access denied''), s)
        else
          let att = attachmentFields dto; content = (case re_content dto of None \<Rightarrow> '''' | Some c \<Rightarrow> js_trim c)
          in if content = [] \<and> js_or (at_url att) None = None then (Inl (BadRequest ''EMPTY_REPLY''), s)
             else
               let s1 = create_message tid AUTHOR_USER (user_name (st_userId t) s) userId content False att now s;
                   s2 = update_ticket tid (\<lambda>x. x\<lparr>st_lastMessageAt := now, st_status := TK_IN_PROGRESS\<rparr>) now s1;
                   s3 = emit (SocketSupportToAdmins tid content) s2;
                   s4 = (case st_assignedAdminId t of
                           None \<Rightarrow> s3
                         | Some a \<Rightarrow> notifyUser a NEW_MESSAGE (Some (''/admin/support/'', Some tid)) now s3)
               in (getTicketDetail tid (Some userId) s4, s4))"

text \<open>An \<open>update\<close> of a ticket that does not exist is Prisma's P2025.\<close>

definition assignToAdmin :: "uuid \<Rightarrow> uuid \<Rightarrow> time \<Rightarrow> db \<Rightarrow> ticket_detail result" where
  "assignToAdmin tid userId now s =
     (case ticket_of tid s of
        None \<Rightarrow> (Inl (Internal ''P2025''), s)
      | Some _ \<Rightarrow>
          let s1 = update_ticket tid (\<lambda>t. t\<lparr>st_assignedAdminId := Some userId, st_status := TK_IN_PROGRESS\<rparr>) now s
          in (getTicketDetail tid None s1, s1))"

text \<open>Prisma leaves a column alone whose new value is undefined.\<close>

definition updateStatus :: "uuid \<Rightarrow> string \<Rightarrow> time \<Rightarrow> db \<Rightarrow> ticket_detail result" where
  "updateStatus tid status now s =
     (case ticket_of tid s of
        None \<Rightarrow> (Inl (Internal ''P2025''), s)
      | Some _ \<Rightarrow>
          let s1 = update_ticket tid (\<lambda>t. case ticketStatusToDb (js_lower status) of
                     None \<Rightarrow> t | Some st \<Rightarrow> t\<lparr>st_status := st\<rparr>) now s
          in (getTicketDetail tid None s1, s1))"


section \<open>Lemmas\<close>

lemma create_message_simps [simp]:
  "db_seq (create_message t a n u c i att now s) = db_seq s + 1"
  "db_tickets (create_message t a n u c i att now s) = db_tickets s"
  "db_users (create_message t a n u c i att now s) = db_users s"
  "db_effects (create_message t a n u c i att now s) = db_effects s"
  "db_supportMessages (create_message t a n u c i att now s)
     = db_supportMessages s @ [support_row (db_seq s) t a n u c i att now]"
  by (simp_all add: create_message_def)

lemma update_ticket_simps [simp]:
  "db_seq (update_ticket t f now s) = db_seq s" "db_users (update_ticket t f now s) = db_users s"
  "db_supportMessages (update_ticket t f now s) = db_supportMessages s"
  "db_effects (update_ticket t f now s) = db_effects s"
  "db_tickets (update_ticket t f now s) = update_where (\<lambda>x. st_id x = t) (\<lambda>x. (f x)\<lparr>st_updatedAt := now\<rparr>) (db_tickets s)"
  by (simp_all add: update_ticket_def)

lemma set_ticket_messages: "set (ticket_messages tid s) = {m \<in> set (db_supportMessages s). sm_ticketId m = tid}"
  by (simp add: ticket_messages_def)

lemma mapToTicketDetail_simps [simp]:
  "td_id (mapToTicketDetail t u s) = st_id t" "td_status (mapToTicketDetail t u s) = ticketStatusToWire (st_status t)"
  by (simp_all add: mapToTicketDetail_def Let_def)

lemma set_td_messages: "set (td_messages (mapToTicketDetail t u s)) =
    support_line_of ` {m \<in> set (db_supportMessages s). sm_ticketId m = st_id t \<and> (sm_internal m \<longrightarrow> u \<noteq> Some (st_userId t))}"
  by (auto simp: mapToTicketDetail_def Let_def set_ticket_messages)

lemma ticket_of_update:
  assumes "ticket_of tid s = Some t" "\<And>x. st_id (f x) = st_id x"
  shows "ticket_of tid (update_ticket tid f now s) = Some ((f t)\<lparr>st_updatedAt := now\<rparr>)"
proof -
  have "find (\<lambda>x. st_id x = tid) (update_where (\<lambda>x. st_id x = tid) (\<lambda>x. (f x)\<lparr>st_updatedAt := now\<rparr>) ts)
      = map_option (\<lambda>x. (f x)\<lparr>st_updatedAt := now\<rparr>) (find (\<lambda>x. st_id x = tid) ts)" for ts
    by (induction ts) (simp_all add: assms(2))
  with assms(1) show ?thesis by (simp add: ticket_of_def)
qed

lemma status_wire_roundtrip [simp]: "ticketStatusToDb (ticketStatusToWire st) = Some st" "js_lower (ticketStatusToWire st) = ticketStatusToWire st"
  by (cases st; simp add: ticketStatusToDb_def js_lower_def js_lower_char_def)+

lemma wire_statuses: "ticketStatusToDb w = Some st \<longleftrightarrow> w = ticketStatusToWire st"
  by (cases st) (auto simp: ticketStatusToDb_def)

lemma updateStatus_wire:
  "ticket_of tid s = Some t \<Longrightarrow> \<exists>d s'. updateStatus tid (ticketStatusToWire st) now s = (Inr d, s') \<and> td_status d = ticketStatusToWire st"
  by (simp add: updateStatus_def Let_def getTicketDetail_def ticket_of_update)

text \<open>The hand-over into an open ticket.\<close>

lemma escalation_append:
  assumes "by_key (es_agentRunId input) s = None"
    and "first_desc st_updatedAt (\<lambda>t. st_userId t = userId \<and> st_status t \<noteq> TK_CLOSED) (db_tickets s) = Some t"
  shows "\<exists>d s'. createAgentEscalation userId input now s = (Inr d, s')
    \<and> db_tickets s' = db_tickets (update_ticket (st_id t) (\<lambda>t. t\<lparr>st_lastMessageAt := now, st_status := TK_IN_PROGRESS\<rparr>) now s)
    \<and> map sm_content (db_supportMessages s') = map sm_content (db_supportMessages s) @ [js_trim (es_message input)]"
  using assms by (simp add: createAgentEscalation_def Let_def emit_def support_row_def)

lemma by_key_update: "by_key k (update_ticket i (\<lambda>t. t\<lparr>st_lastMessageAt := now, st_status := st\<rparr>) now s) = None \<longleftrightarrow> by_key k s = None"
proof -
  have "by_key k s = None \<longleftrightarrow> (\<forall>x \<in> set (db_tickets s). st_agentEscalationKey x \<noteq> Some k)" for s
    by (auto simp: by_key_def find_None_iff)
  then show ?thesis by (simp add: ball_update_where)
qed

lemma by_key_cong: "db_tickets s = db_tickets s' \<Longrightarrow> by_key k s = by_key k s'"
  by (simp add: by_key_def)

section \<open>Properties\<close>

text \<open>C16: Internal notes reach exactly the wrong people. When an admin adds an internal note to a ticket,
  the ticket view of its owner leaves it out, but the text is pushed to the owner's sockets, and
  every other user who asks for the ticket by its id is shown it, because the view does not check
  who owns the ticket and hides internal notes from the owner only.\<close>

theorem internal_note_leaks:
  assumes "ticket_of tid s = Some t" "re_internal dto = Some True"
    and "addAdminReply tid adminId dto now s = (Inr d, s')" "stranger \<noteq> st_userId t"
    and "db_seq s \<notin> sm_id ` set (db_supportMessages s)"
  shows "\<exists>body own other l. SocketSupportToUser (st_userId t) tid True body \<in> set (db_effects s')
    \<and> getTicketDetail tid (Some (st_userId t)) s' = Inr own \<and> db_seq s \<notin> sl_id ` set (td_messages own)
    \<and> getTicketDetail tid (Some stranger) s' = Inr other \<and> l \<in> set (td_messages other)
    \<and> sl_id l = db_seq s \<and> sl_internal l \<and> sl_content l = body"
proof -
  let ?body = "case re_content dto of None \<Rightarrow> '''' | Some c \<Rightarrow> js_trim c"
  let ?row = "support_row (db_seq s) tid AUTHOR_ADMIN ''SUPPORT'' adminId ?body True (attachmentFields dto) now"
  from assms(1-3) have s': "db_tickets s' = db_tickets (update_ticket tid (\<lambda>x. x\<lparr>st_status := st_status t, st_lastMessageAt := now\<rparr>) now s)"
    "db_supportMessages s' = db_supportMessages s @ [?row]"
    "SocketSupportToUser (st_userId t) tid True ?body \<in> set (db_effects s')"
    by (auto simp: addAdminReply_def Let_def emit_def split: option.splits if_splits)
  let ?t = "t\<lparr>st_status := st_status t, st_lastMessageAt := now, st_updatedAt := now\<rparr>"
  have "ticket_of tid s' = Some ?t"
    using ticket_of_update[OF assms(1), of "\<lambda>x. x\<lparr>st_status := st_status t, st_lastMessageAt := now\<rparr>" now] s'(1)
    by (simp add: ticket_of_def)
  then have g: "getTicketDetail tid u s' = Inr (mapToTicketDetail ?t u s')" for u by (simp add: getTicketDetail_def)
  have id: "st_id t = tid" using assms(1) by (auto simp: ticket_of_def dest: find_SomeD)
  have "db_seq s \<notin> sl_id ` set (td_messages (mapToTicketDetail ?t (Some (st_userId t)) s'))"
    using assms(5) by (auto simp: set_td_messages s'(2) support_row_def support_line_of_def)
  moreover have "support_line_of ?row \<in> set (td_messages (mapToTicketDetail ?t (Some stranger) s'))"
    unfolding set_td_messages s'(2) using assms(4) id by (intro imageI) (simp add: support_row_def)
  moreover have "sl_id (support_line_of ?row) = db_seq s" "sl_internal (support_line_of ?row)" "sl_content (support_line_of ?row) = ?body"
    by (simp_all add: support_line_of_def support_row_def)
  ultimately show ?thesis using g s'(3) by metis
qed

text \<open>The hand-over of the assistant is idempotent only when it opens a ticket: then a second call with
  the same run id, also one that raced the first past its checks, returns the same ticket and
  changes nothing. When the customer already has an open ticket the run id is not recorded, and
  every repetition of the same run adds the same message again.\<close>

theorem escalation_retry:
  assumes "by_key (es_agentRunId input) s = None" "createAgentEscalation userId input now s = (Inr d, s1)"
  shows "if \<exists>t \<in> set (db_tickets s). st_userId t = userId \<and> st_status t \<noteq> TK_CLOSED
    then \<exists>d2 s2. createAgentEscalation userId input later s1 = (Inr d2, s2)
       \<and> length (db_supportMessages s2) = length (db_supportMessages s) + 2
       \<and> map sm_content (drop (length (db_supportMessages s)) (db_supportMessages s2))
           = [js_trim (es_message input), js_trim (es_message input)]
       \<and> map st_id (db_tickets s2) = map st_id (db_tickets s)
    else \<exists>d2. createAgentEscalation userId input later s1 = (Inr d2, s1) \<and> td_id d2 = td_id d
       \<and> escalation_write userId name input later s1 = (Inr d2, s1)
       \<and> map st_id (db_tickets s1) = map st_id (db_tickets s) @ [td_id d]"
proof (cases "first_desc st_updatedAt (\<lambda>t. st_userId t = userId \<and> st_status t \<noteq> TK_CLOSED) (db_tickets s)")
  case None
  then have n: "\<not> (\<exists>t \<in> set (db_tickets s). st_userId t = userId \<and> st_status t \<noteq> TK_CLOSED)"
    by (auto simp: first_desc_None)
  from assms None obtain full where w: "escalation_write userId full input now s = (Inr d, s1)"
    by (auto simp: createAgentEscalation_def split: option.splits)
  from w assms(1) obtain t where t: "db_tickets s1 = db_tickets s @ [t]" "st_id t = td_id d" "st_agentEscalationKey t = Some (es_agentRunId input)"
    by (auto simp: escalation_write_def create_ticket_def Let_def emit_def)
  have "by_key (es_agentRunId input) s1 = Some t"
    using assms(1) t(3) unfolding by_key_def t(1) by (simp add: find_append)
  then show ?thesis
    unfolding if_not_P[OF n] using t by (simp add: createAgentEscalation_def escalation_write_def)
next
  case (Some t)
  note t = first_desc_SomeD[OF Some]
  then have p: "\<exists>t \<in> set (db_tickets s). st_userId t = userId \<and> st_status t \<noteq> TK_CLOSED" by blast
  let ?c = "js_trim (es_message input)"
  from escalation_append[OF assms(1) Some, of now] assms(2)
  have s1: "db_tickets s1 = db_tickets (update_ticket (st_id t) (\<lambda>t. t\<lparr>st_lastMessageAt := now, st_status := TK_IN_PROGRESS\<rparr>) now s)"
    "map sm_content (db_supportMessages s1) = map sm_content (db_supportMessages s) @ [?c]" by auto
  have k: "by_key (es_agentRunId input) s1 = None"
    using assms(1) by_key_cong[OF s1(1)] by (simp only: by_key_update)
  have "t\<lparr>st_lastMessageAt := now, st_status := TK_IN_PROGRESS, st_updatedAt := now\<rparr> \<in> set (db_tickets s1)"
    unfolding s1(1) update_ticket_simps by (rule in_update_whereI[OF t(1)]) simp_all
  then have "first_desc st_updatedAt (\<lambda>t. st_userId t = userId \<and> st_status t \<noteq> TK_CLOSED) (db_tickets s1) \<noteq> None"
    unfolding first_desc_None using t(2) by force
  then obtain t1 where t1: "first_desc st_updatedAt (\<lambda>t. st_userId t = userId \<and> st_status t \<noteq> TK_CLOSED) (db_tickets s1) = Some t1"
    by blast
  from escalation_append[OF k t1, of later] obtain d2 s2 where r: "createAgentEscalation userId input later s1 = (Inr d2, s2)"
    "db_tickets s2 = db_tickets (update_ticket (st_id t1) (\<lambda>t. t\<lparr>st_lastMessageAt := later, st_status := TK_IN_PROGRESS\<rparr>) later s1)"
    "map sm_content (db_supportMessages s2) = map sm_content (db_supportMessages s) @ [?c, ?c]" using s1(2) by auto
  have "map st_id (db_tickets s2) = map st_id (db_tickets s)" by (simp add: r(2) s1(1) map_update_where)
  moreover have "length (db_supportMessages s2) = length (db_supportMessages s) + 2"
    using arg_cong[OF r(3), of length] by simp
  moreover have "map sm_content (drop (length (db_supportMessages s)) (db_supportMessages s2)) = [?c, ?c]"
    using arg_cong[OF r(3), of "drop (length (db_supportMessages s))"] by (simp add: drop_map)
  ultimately show ?thesis unfolding if_P[OF p] using r(1) by (intro exI[of _ d2] exI[of _ s2] conjI)
qed

definition page_items :: "http_error + 'i page \<Rightarrow> 'i list" where
  "page_items r = (case r of Inl _ \<Rightarrow> [] | Inr p \<Rightarrow> pg_items p)"

text \<open>The pages of the support queue put together are the whole queue: for any filter that is
  accepted, the pages 1 to n, as soon as they can hold the announced total, show every ticket of
  the filter exactly once, the most severe first, then the highest score, then the oldest; and a
  page has between 1 and 50 places whatever size was asked for.\<close>

theorem queue_pages:
  assumes "getAdminTickets query now s = Inr p" "pg_total p \<le> int n * pg_pageSize p"
  shows "\<exists>ts. concat (map (\<lambda>k. page_items (getAdminTickets (query\<lparr>tq_page := Some (int k)\<rparr>) now s)) [1..<Suc n])
        = map (ticket_summary_of now s) ts
    \<and> sorted (map (queue_key now s) ts) \<and> int (length ts) = pg_total p
    \<and> mset ts \<subseteq># mset (db_tickets s)
    \<and> (tq_status query = None \<and> tq_commercialPriority query = None \<longrightarrow> mset ts = mset (db_tickets s))
    \<and> 1 \<le> pg_pageSize p \<and> pg_pageSize p \<le> 50"
proof -
  let ?st = "wanted js_lower ''all'' (tq_status query)" and ?ti = "wanted js_upper ''ALL'' (tq_commercialPriority query)"
  let ?ts = "selected_tickets ?st ?ti now s" and ?sz = "page_size (tq_pageSize query)"
  from assms(1) have p: "pg_total p = int (length ?ts)" "pg_pageSize p = ?sz"
    and q: "getAdminTickets (query\<lparr>tq_page := Some k\<rparr>) now s
      = Inr \<lparr>pg_items = map (ticket_summary_of now s) (page_slice (page_number (Some k)) ?sz ?ts), pg_total = int (length ?ts),
             pg_page = page_number (Some k), pg_pageSize = ?sz\<rparr>" for k
    by (auto simp: getAdminTickets_def Let_def split: if_splits)
  have "page_number (Some (int k)) = int k" if "k \<in> set [1..<Suc n]" for k using that by (auto simp: page_number_def)
  then have "concat (map (\<lambda>k. page_items (getAdminTickets (query\<lparr>tq_page := Some (int k)\<rparr>) now s)) [1..<Suc n])
      = concat (map (\<lambda>k. map (ticket_summary_of now s) (page_slice (int k) ?sz ?ts)) [1..<Suc n])"
    by (intro arg_cong[of _ _ concat] map_cong) (simp_all add: q page_items_def)
  also have "\<dots> = map (ticket_summary_of now s) (concat (map (\<lambda>k. page_slice (int k) ?sz ?ts) [1..<Suc n]))"
    by (simp add: map_concat comp_def del: upt_Suc)
  also have "\<dots> = map (ticket_summary_of now s) (take (n * nat ?sz) ?ts)"
    using page_bounds(2)[of "tq_pageSize query"] by (subst pages_cover) simp_all
  also have "take (n * nat ?sz) ?ts = ?ts"
  proof -
    have "int (n * nat ?sz) = int n * ?sz" using page_bounds(2)[of "tq_pageSize query"] by simp
    with assms(2) have "length ?ts \<le> n * nat ?sz" unfolding p by linarith
    then show ?thesis by simp
  qed
  finally have "concat (map (\<lambda>k. page_items (getAdminTickets (query\<lparr>tq_page := Some (int k)\<rparr>) now s)) [1..<Suc n])
      = map (ticket_summary_of now s) ?ts" .
  moreover have "mset ?ts \<subseteq># mset (db_tickets s)"
    unfolding selected_tickets_def mset_sort mset_filter by simp
  moreover have "mset ?ts = mset (db_tickets s)" if "tq_status query = None" "tq_commercialPriority query = None"
    using that by (simp add: selected_tickets_def wanted_def)
  ultimately show ?thesis
    using page_bounds(2,3)[of "tq_pageSize query"] by (intro exI[of _ ?ts]) (auto simp: p selected_tickets_def)
qed

section \<open>Witnesses\<close>

definition support_db :: db where
  "support_db = snd (create_ticket 7 ''Mona'' HIGH None None None ''help'' 0
     (empty_db\<lparr>db_seq := 20, db_users := [new_user 7 ''Mona'' ''m'' '''' '''' LANDLORD 0, new_user 9 ''Ali'' ''a'' '''' '''' ADMIN 0]\<rparr>))"

definition note_example :: reply_dto where
  "note_example = \<lparr>re_content = Some ''fraud'', re_internal = Some True, re_attachmentUrl = None, re_attachmentType = None,
     re_attachmentName = None, re_attachmentDurationMs = None\<rparr>"

definition run_example :: escalation where
  "run_example = \<lparr>es_agentRunId = 77, es_message = ''help'', es_reason = ''angry'', es_priority = URGENT\<rparr>"

lemma support_db_simps:
  "db_users support_db = [new_user 7 ''Mona'' ''m'' '''' '''' LANDLORD 0, new_user 9 ''Ali'' ''a'' '''' '''' ADMIN 0]"
  "db_tickets support_db = [\<lparr>st_id = 20, st_userId = 7, st_status = TK_NEW, st_assignedAdminId = None, st_lastMessageAt = 0,
     st_escalationReason = None, st_agentEscalationKey = None, st_priority = HIGH, st_aiSummary = None, st_createdAt = 0,
     st_updatedAt = 0\<rparr>]"
  "map sm_id (db_supportMessages support_db) = [21]" "db_seq support_db = 22"
  by (simp_all add: support_db_def create_ticket_def Let_def empty_db_def create_message_def support_row_def)

theorem internal_note_leaks_witness:
  "\<exists>d s' l other. addAdminReply 20 9 note_example 5 support_db = (Inr d, s')
     \<and> getTicketDetail 20 (Some 8) s' = Inr other \<and> l \<in> set (td_messages other) \<and> sl_internal l"
proof -
  obtain t where t: "ticket_of 20 support_db = Some t" "st_userId t = 7"
    by (simp add: ticket_of_def support_db_simps)
  have b: "js_trim ''fraud'' \<noteq> []" by (simp add: js_trim_def js_space_def)
  have u: "find (\<lambda>u. u_id u = 9) (db_users support_db) \<noteq> None" by (simp add: support_db_simps new_user_def)
  obtain d s' where r: "addAdminReply 20 9 note_example 5 support_db = (Inr d, s')"
    using t b u ticket_of_update[OF t(1), of "\<lambda>x. x\<lparr>st_status := st_status t, st_lastMessageAt := 5\<rparr>"]
    by (auto simp: addAdminReply_def Let_def note_example_def getTicketDetail_def ticket_of_def emit_def)
  have n: "re_internal note_example = Some True" "(8::nat) \<noteq> st_userId t" by (simp_all add: note_example_def t(2))
  have i: "db_seq support_db \<notin> sm_id ` set (db_supportMessages support_db)"
    unfolding set_map[symmetric] support_db_simps by simp
  from internal_note_leaks[OF t(1) n(1) r n(2) i] r show ?thesis by blast
qed

theorem escalation_retry_witness:
  "\<exists>d s1 d2 s2. createAgentEscalation 7 run_example 5 support_db = (Inr d, s1)
     \<and> createAgentEscalation 7 run_example 6 s1 = (Inr d2, s2)
     \<and> length (db_supportMessages s2) = length (db_supportMessages support_db) + 2"
proof -
  have k: "by_key (es_agentRunId run_example) support_db = None" by (simp add: by_key_def support_db_simps)
  have "fst (createAgentEscalation 7 run_example 5 support_db) \<noteq> Inl e" for e
    using k by (auto simp: createAgentEscalation_def Let_def first_desc_def first_asc_def support_db_simps split: option.splits)
  then obtain d s1 where r: "createAgentEscalation 7 run_example 5 support_db = (Inr d, s1)"
    by (metis obj_sumE prod.collapse)
  have o: "\<exists>t \<in> set (db_tickets support_db). st_userId t = 7 \<and> st_status t \<noteq> TK_CLOSED"
    by (simp add: support_db_simps)
  from escalation_retry[OF k r, of 6] r show ?thesis unfolding if_P[OF o] by blast
qed

definition query_example :: ticket_query where
  "query_example = \<lparr>tq_status = None, tq_commercialPriority = None, tq_page = None, tq_pageSize = None\<rparr>"

theorem queue_pages_witness:
  "\<exists>ts. concat (map (\<lambda>k. page_items (getAdminTickets (query_example\<lparr>tq_page := Some (int k)\<rparr>) 9 support_db)) [1..<Suc 1])
      = map (ticket_summary_of 9 support_db) ts \<and> mset ts = mset (db_tickets support_db)"
proof -
  obtain p where p: "getAdminTickets query_example 9 support_db = Inr p" "pg_total p \<le> int 1 * pg_pageSize p"
    by (simp add: getAdminTickets_def query_example_def wanted_def page_size_def selected_tickets_def Let_def
        support_db_simps)
  from queue_pages[OF p] show ?thesis by (auto simp: query_example_def)
qed

end
