(* ===== verification/Accounts.thy ===== *)
theory Accounts
  imports Support
begin

text \<open>
  \<open>auth/auth.service.ts\<close>, \<open>users/users.service.ts\<close> and \<open>common/suspension.ts\<close>: sign-up with the
  mailed code, sessions, passwords, deletion; the guards that every request passes
  (\<open>jwt.strategy.ts\<close>, \<open>roles.guard.ts\<close>, \<open>verified.guard.ts\<close>, \<open>capabilities.guard.ts\<close>) and the
  handshake of the sockets. bcrypt, SHA-256, HMAC and JWT are parameters. Codes and tokens drawn at
  random are arguments of the operation that draws them. The mailer swallows its failures, so a
  mail is an effect.
\<close>

section \<open>External code and configuration\<close>

record token_payload =
  tp_sub :: uuid
  tp_email :: string
  tp_role :: user_role
  tp_tokenVersion :: "int option"

text \<open>
  \<open>au_verifyAccess\<close> and \<open>au_verifyRefresh\<close> are \<open>verifyAsync\<close> with the secret of that kind: None for a
  bad signature or an expired token; a refresh token carries its \<open>tokenType\<close> too. The two
  configured numbers are already parsed.
\<close>

record auth_env =
  au_hash :: "string \<Rightarrow> string"
  au_compare :: "string \<Rightarrow> string \<Rightarrow> bool"
  au_sha256 :: "string \<Rightarrow> string"
  au_hashOtp :: "string \<Rightarrow> string"
  au_signAccess :: "token_payload \<Rightarrow> time \<Rightarrow> string"
  au_signRefresh :: "token_payload \<Rightarrow> time \<Rightarrow> string"
  au_signTicket :: "token_payload \<Rightarrow> time \<Rightarrow> string"
  au_verifyAccess :: "string \<Rightarrow> time \<Rightarrow> token_payload option"
  au_verifyRefresh :: "string \<Rightarrow> time \<Rightarrow> (token_payload \<times> string option) option"
  au_bypass :: "string option"
  au_nodeEnv :: "string option"
  au_otpTtlMinutes :: int
  au_cooldownSeconds :: int

definition OTP_MAX_ATTEMPTS :: int where "OTP_MAX_ATTEMPTS = 5"
definition DEVELOPMENT_EMAIL_OTP :: string where "DEVELOPMENT_EMAIL_OTP = ''123456''"
definition FREE_OFFERS_MONTHLY_ALLOTMENT :: int where "FREE_OFFERS_MONTHLY_ALLOTMENT = 5"
definition FREE_AI_USES_MONTHLY_ALLOTMENT :: int where "FREE_AI_USES_MONTHLY_ALLOTMENT = 5"

definition normalizeEmail :: "string \<Rightarrow> string" where
  "normalizeEmail v = js_lower (js_trim v)"

section \<open>Users\<close>

definition findById :: "uuid \<Rightarrow> db \<Rightarrow> user option" where
  "findById uid s = find (\<lambda>u. u_id u = uid) (db_users s)"

definition findByEmail :: "string \<Rightarrow> db \<Rightarrow> user option" where
  "findByEmail email s = find (\<lambda>u. u_email u = normalizeEmail email) (db_users s)"

text \<open>\<open>user.update\<close> of an existing row; \<open>updatedAt\<close> is set by Prisma.\<close>

definition update_user :: "uuid \<Rightarrow> (user \<Rightarrow> user) \<Rightarrow> time \<Rightarrow> db \<Rightarrow> db" where
  "update_user uid f now s =
     s\<lparr>db_users := update_where (\<lambda>u. u_id u = uid) (\<lambda>u. (f u)\<lparr>u_updatedAt := now\<rparr>) (db_users s)\<rparr>"

record user_view =
  uv_id :: uuid
  uv_fullName :: string
  uv_email :: string
  uv_phoneNumber :: string
  uv_role :: string
  uv_avatarUrl :: "string option"
  uv_isActive :: bool
  uv_lastLoginAt :: "time option"
  uv_createdAt :: time
  uv_updatedAt :: time
  uv_verificationStatus :: string

fun verification_name :: "verification_status \<Rightarrow> string" where
  "verification_name VS_PENDING = ''PENDING''"
| "verification_name VS_APPROVED = ''APPROVED''"
| "verification_name VS_REJECTED = ''REJECTED''"
| "verification_name VS_RESUBMISSION_REQUIRED = ''RESUBMISSION_REQUIRED''"

definition verification_of :: "uuid \<Rightarrow> db \<Rightarrow> verification_status option" where
  "verification_of uid s = map_option iv_status (find (\<lambda>v. iv_userId v = uid) (db_identityVerifications s))"

definition transformUserToFrontend :: "user \<Rightarrow> verification_status option \<Rightarrow> user_view" where
  "transformUserToFrontend u v =
     \<lparr>uv_id = u_id u, uv_fullName = u_fullName u, uv_email = u_email u, uv_phoneNumber = u_phoneNumber u,
      uv_role = (if u_role u = ADMIN then ''admin'' else if u_role u = LANDLORD then ''landlord'' else ''tenant''),
      uv_avatarUrl = u_avatarUrl u, uv_isActive = u_isActive u, uv_lastLoginAt = u_lastLoginAt u,
      uv_createdAt = u_createdAt u, uv_updatedAt = u_updatedAt u,
      uv_verificationStatus = (case v of None \<Rightarrow> ''NOT_SUBMITTED'' | Some x \<Rightarrow> verification_name x)\<rparr>"

definition isSuspensionActive :: "user \<Rightarrow> time \<Rightarrow> bool" where
  "isSuspensionActive u now =
     (case u_suspendedAt u of
        None \<Rightarrow> False
      | Some _ \<Rightarrow> (case u_suspendedUntil u of None \<Rightarrow> True | Some t \<Rightarrow> now < t))"

section \<open>Sessions\<close>

record session =
  se_accessToken :: string
  se_refreshToken :: string
  se_user :: user_view

definition payload_of :: "user \<Rightarrow> token_payload" where
  "payload_of u = \<lparr>tp_sub = u_id u, tp_email = u_email u, tp_role = u_role u, tp_tokenVersion = Some (u_tokenVersion u)\<rparr>"

definition createPairToken :: "auth_env \<Rightarrow> user \<Rightarrow> user_view \<Rightarrow> time \<Rightarrow> session" where
  "createPairToken env u v now =
     \<lparr>se_accessToken = au_signAccess env (payload_of u) now, se_refreshToken = au_signRefresh env (payload_of u) now,
      se_user = v\<rparr>"

definition recordAdminLoginAttempt :: "uuid \<Rightarrow> string \<Rightarrow> bool \<Rightarrow> time \<Rightarrow> db \<Rightarrow> db" where
  "recordAdminLoginAttempt uid ip ok now s =
     s\<lparr>db_seq := db_seq s + 1,
       db_loginAttempts := db_loginAttempts s @
         [\<lparr>la_id = db_seq s, la_userId = uid, la_ip = ip, la_success = ok, la_createdAt = now\<rparr>]\<rparr>"

definition signIn :: "auth_env \<Rightarrow> string \<Rightarrow> string \<Rightarrow> string \<Rightarrow> time \<Rightarrow> db \<Rightarrow> session result" where
  "signIn env email password ip now s =
     (case findByEmail (normalizeEmail email) s of
        None \<Rightarrow> (Inl (Unauthorized ''INVALID_CREDENTIALS''), s)
      | Some u \<Rightarrow>
          let isMatch = au_compare env password (u_passwordHash u);
              s1 = (if u_role u = ADMIN then recordAdminLoginAttempt (u_id u) ip isMatch now s else s)
          in if \<not> isMatch then (Inl (Unauthorized ''INVALID_CREDENTIALS''), s1)
             else if \<not> u_isActive u then (Inl (Forbidden ''ACCOUNT_DISABLED''), s1)
             else if u_deletedAt u \<noteq> None then (Inl (Forbidden ''ACCOUNT_DELETED''), s1)
             else if isSuspensionActive u now then (Inl (Forbidden ''ACCOUNT_SUSPENDED''), s1)
             else if u_emailVerifiedAt u = None then (Inl (Forbidden ''EMAIL_NOT_VERIFIED''), s1)
             else (Inr (createPairToken env u (transformUserToFrontend u (verification_of (u_id u) s1)) now), s1))"

text \<open>The body is the one validated by \<open>SignupDto\<close>; the role is TENANT or LANDLORD.\<close>

record signup_dto =
  su_fullName :: string
  su_password :: string
  su_email :: string
  su_phoneNumber :: string
  su_landlord :: bool

record signup_answer =
  sa_verificationRequired :: bool
  sa_email :: string
  sa_resendAvailableAt :: time

definition otpExpiry :: "auth_env \<Rightarrow> time \<Rightarrow> time" where
  "otpExpiry env now = now + au_otpTtlMinutes env * 60 * 1000"

text \<open>The quota that a landlord starts with; the columns left out take the defaults of the schema.\<close>

definition new_landlord_quota :: "uuid \<Rightarrow> uuid \<Rightarrow> time \<Rightarrow> user_quota" where
  "new_landlord_quota qid uid now =
     \<lparr>uq_id = qid, uq_userId = uid, uq_planType = FREE, uq_planExpiresAt = None, uq_maxActiveListings = 1,
      uq_optimizerUsesLeft = FREE_AI_USES_MONTHLY_ALLOTMENT, uq_freeOffersLeft = FREE_OFFERS_MONTHLY_ALLOTMENT,
      uq_billingInterval = None, uq_currentPeriodStartsAt = None, uq_currentPeriodEndsAt = None, uq_boostCreditsLeft = 0,
      uq_listingGraceEndsAt = None, uq_pendingPlanType = None, uq_pendingBillingInterval = None,
      uq_pendingPlanStartsAt = None, uq_pendingPlanExpiresAt = None, uq_lastResetDate = now\<rparr>"

definition signup :: "auth_env \<Rightarrow> signup_dto \<Rightarrow> string \<Rightarrow> time \<Rightarrow> db \<Rightarrow> signup_answer result" where
  "signup env dto otp now s =
     (let email = normalizeEmail (su_email dto)
      in case findByEmail email s of
           Some _ \<Rightarrow> (Inl (Conflict ''EMAIL_EXISTS''), s)
         | None \<Rightarrow>
             let u = (new_user (db_seq s) (su_fullName dto) email (su_phoneNumber dto) (au_hash env (su_password dto))
                        (if su_landlord dto then LANDLORD else TENANT) now)
                     \<lparr>u_emailOtpHash := Some (au_hashOtp env otp), u_emailOtpExpiresAt := Some (otpExpiry env now),
                      u_emailOtpAttempts := 0, u_emailOtpSentAt := Some now\<rparr>;
                 s1 = s\<lparr>db_seq := db_seq s + 1, db_users := db_users s @ [u]\<rparr>;
                 s2 = (if su_landlord dto
                       then s1\<lparr>db_seq := db_seq s1 + 1,
                               db_userQuotas := db_userQuotas s1 @ [new_landlord_quota (db_seq s1) (db_seq s) now]\<rparr>
                       else s1)
             in (Inr \<lparr>sa_verificationRequired = True, sa_email = email,
                      sa_resendAvailableAt = now + au_cooldownSeconds env * 1000\<rparr>,
                 emit (Mail email (''EMAIL_VERIFICATION_OTP '' @ otp)) s2))"

text \<open>
  \<open>verifyEmail\<close> in two parts: what it reads and checks, with whether the code is right, and what
  it then writes. The comparison of attempts and their increment are in different parts.
\<close>

definition isDevelopmentEmailOtp :: "auth_env \<Rightarrow> string \<Rightarrow> bool" where
  "isDevelopmentEmailOtp env code \<longleftrightarrow>
     map_option (js_lower \<circ> js_trim) (au_bypass env) = Some ''true''
     \<and> js_lower (case au_nodeEnv env of None \<Rightarrow> '''' | Some e \<Rightarrow> e) \<noteq> ''production''
     \<and> code = DEVELOPMENT_EMAIL_OTP"

definition verifyEmail_read :: "auth_env \<Rightarrow> string \<Rightarrow> string \<Rightarrow> time \<Rightarrow> db \<Rightarrow> http_error + user \<times> bool" where
  "verifyEmail_read env email code now s =
     (case findByEmail (normalizeEmail email) s of
        None \<Rightarrow> Inl (BadRequest ''INVALID_OR_EXPIRED_OTP'')
      | Some u \<Rightarrow>
          if u_emailVerifiedAt u \<noteq> None then Inl (BadRequest ''INVALID_OR_EXPIRED_OTP'')
          else if isDevelopmentEmailOtp env code then Inr (u, True)
          else case (js_or (u_emailOtpHash u) None, u_emailOtpExpiresAt u) of
            (Some h, Some e) \<Rightarrow>
              if e \<le> now then Inl (BadRequest ''INVALID_OR_EXPIRED_OTP'')
              else if OTP_MAX_ATTEMPTS \<le> u_emailOtpAttempts u then Inl (BadRequest ''TOO_MANY_OTP_ATTEMPTS'')
              else Inr (u, au_hashOtp env code = h)
          | _ \<Rightarrow> Inl (BadRequest ''INVALID_OR_EXPIRED_OTP''))"

definition verified_user :: "time \<Rightarrow> user \<Rightarrow> user" where
  "verified_user now u = u\<lparr>u_emailVerifiedAt := Some now, u_emailOtpHash := None, u_emailOtpExpiresAt := None,
                           u_emailOtpAttempts := 0\<rparr>"

definition verifyEmail_write :: "auth_env \<Rightarrow> user \<Rightarrow> bool \<Rightarrow> time \<Rightarrow> db \<Rightarrow> session result" where
  "verifyEmail_write env u ok now s =
     (if \<not> ok
      then (Inl (BadRequest ''INVALID_OR_EXPIRED_OTP''),
            update_user (u_id u) (\<lambda>u. u\<lparr>u_emailOtpAttempts := u_emailOtpAttempts u + 1\<rparr>) now s)
      else
        let s1 = update_user (u_id u) (verified_user now) now s
        in case findById (u_id u) s1 of
             None \<Rightarrow> (Inl (Internal ''P2025''), s)
           | Some v \<Rightarrow> (Inr (createPairToken env v (transformUserToFrontend v (verification_of (u_id v) s1)) now), s1))"

definition verifyEmail :: "auth_env \<Rightarrow> string \<Rightarrow> string \<Rightarrow> time \<Rightarrow> db \<Rightarrow> session result" where
  "verifyEmail env email code now s =
     (case verifyEmail_read env email code now s of
        Inl e \<Rightarrow> (Inl e, s) | Inr (u, ok) \<Rightarrow> verifyEmail_write env u ok now s)"

text \<open>\<open>Math.ceil(x / 1000)\<close> of a whole number of milliseconds.\<close>

definition ceil_seconds :: "int \<Rightarrow> int" where "ceil_seconds x = - ((- x) div 1000)"

definition resendEmailVerification :: "auth_env \<Rightarrow> string \<Rightarrow> string \<Rightarrow> time \<Rightarrow> db \<Rightarrow> unit result" where
  "resendEmailVerification env email otp now s =
     (case findByEmail (normalizeEmail email) s of
        None \<Rightarrow> (Inr (), s)
      | Some u \<Rightarrow>
          if u_emailVerifiedAt u \<noteq> None then (Inr (), s)
          else let cooldown = au_cooldownSeconds env * 1000;
                   send = emit (Mail (u_email u) (''EMAIL_VERIFICATION_OTP '' @ otp))
                     (update_user (u_id u) (\<lambda>u. u\<lparr>u_emailOtpHash := Some (au_hashOtp env otp),
                        u_emailOtpExpiresAt := Some (otpExpiry env now), u_emailOtpAttempts := 0,
                        u_emailOtpSentAt := Some now\<rparr>) now s)
               in case u_emailOtpSentAt u of
                    Some t \<Rightarrow> if now < t + cooldown then (Inl (TooManyRequests (ceil_seconds (t + cooldown - now))), s)
                              else (Inr (), send)
                  | None \<Rightarrow> (Inr (), send))"

definition getMe :: "uuid \<Rightarrow> db \<Rightarrow> http_error + user_view" where
  "getMe uid s =
     (case findById uid s of
        None \<Rightarrow> Inl (Unauthorized ''USER_NOT_FOUND'')
      | Some u \<Rightarrow> Inr (transformUserToFrontend u (verification_of uid s)))"

definition refresh :: "auth_env \<Rightarrow> string \<Rightarrow> time \<Rightarrow> db \<Rightarrow> http_error + session" where
  "refresh env token now s =
     (case au_verifyRefresh env token now of
        None \<Rightarrow> Inl (Unauthorized ''INVALID_REFRESH_TOKEN'')
      | Some (p, ty) \<Rightarrow>
          if ty \<noteq> Some ''refresh'' then Inl (Unauthorized ''INVALID_REFRESH_TOKEN'')
          else case findById (tp_sub p) s of
            None \<Rightarrow> Inl (Unauthorized ''INVALID_REFRESH_TOKEN'')
          | Some u \<Rightarrow>
              if u_deletedAt u \<noteq> None \<or> isSuspensionActive u now \<or> tp_tokenVersion p \<noteq> Some (u_tokenVersion u)
              then Inl (Unauthorized ''INVALID_REFRESH_TOKEN'')
              else Inr (createPairToken env u (transformUserToFrontend u (verification_of (u_id u) s)) now))"

section \<open>Passwords\<close>

definition forgetPassword :: "auth_env \<Rightarrow> string \<Rightarrow> string \<Rightarrow> time \<Rightarrow> db \<Rightarrow> unit result" where
  "forgetPassword env email rawToken now s =
     (case findByEmail email s of
        None \<Rightarrow> (Inl (Unauthorized ''USER_NOT_FOUND''), s)
      | Some u \<Rightarrow>
          (Inr (), emit (Mail (u_email u) (''PASSWORD_RESET '' @ rawToken))
             (update_user (u_id u) (\<lambda>u. u\<lparr>u_resetToken := Some (au_sha256 env rawToken),
                u_resetTokenExpiry := Some (now + 60 * 60 * 1000)\<rparr>) now s)))"

definition resetPassword :: "auth_env \<Rightarrow> string \<Rightarrow> string \<Rightarrow> time \<Rightarrow> db \<Rightarrow> unit result" where
  "resetPassword env rawToken newPassword now s =
     (case find (\<lambda>u. u_resetToken u = Some (au_sha256 env rawToken)
                \<and> (case u_resetTokenExpiry u of None \<Rightarrow> False | Some e \<Rightarrow> now < e)) (db_users s) of
        None \<Rightarrow> (Inl (BadRequest ''INVALID_RESET_TOKEN''), s)
      | Some u \<Rightarrow>
          (Inr (), update_user (u_id u) (\<lambda>u. u\<lparr>u_passwordHash := au_hash env newPassword, u_resetToken := None,
                     u_resetTokenExpiry := None\<rparr>) now s))"

section \<open>Profile and deletion\<close>

text \<open>
  The body of \<open>PATCH auth/profile\<close> has an inline type, so the validation pipe lets every key of the
  JSON through and \<open>updateProfile\<close> hands the object to \<open>user.update\<close> as its data. A patch is the list
  of the columns it sets: the three declared ones and the others that the tables of this model
  keep and that Prisma accepts as they are.
\<close>

datatype user_column =
    SetFullName string | SetPhoneNumber string | SetAvatarUrl "string option"
  | SetRole user_role | SetAdminRole "admin_role option" | SetIsActive bool | SetDeletedAt "time option"
  | SetTokenVersion int | SetSuspendedAt "time option" | SetEmailVerifiedAt "time option" | SetPasswordHash string

fun set_column :: "user_column \<Rightarrow> user \<Rightarrow> user" where
  "set_column (SetFullName x) u = u\<lparr>u_fullName := x\<rparr>"
| "set_column (SetPhoneNumber x) u = u\<lparr>u_phoneNumber := x\<rparr>"
| "set_column (SetAvatarUrl x) u = u\<lparr>u_avatarUrl := x\<rparr>"
| "set_column (SetRole x) u = u\<lparr>u_role := x\<rparr>"
| "set_column (SetAdminRole x) u = u\<lparr>u_adminRole := x\<rparr>"
| "set_column (SetIsActive x) u = u\<lparr>u_isActive := x\<rparr>"
| "set_column (SetDeletedAt x) u = u\<lparr>u_deletedAt := x\<rparr>"
| "set_column (SetTokenVersion x) u = u\<lparr>u_tokenVersion := x\<rparr>"
| "set_column (SetSuspendedAt x) u = u\<lparr>u_suspendedAt := x\<rparr>"
| "set_column (SetEmailVerifiedAt x) u = u\<lparr>u_emailVerifiedAt := x\<rparr>"
| "set_column (SetPasswordHash x) u = u\<lparr>u_passwordHash := x\<rparr>"

text \<open>The columns that the declared type of the body names.\<close>

fun declared_column :: "user_column \<Rightarrow> bool" where
  "declared_column (SetFullName _) = True"
| "declared_column (SetPhoneNumber _) = True"
| "declared_column (SetAvatarUrl _) = True"
| "declared_column _ = False"

definition updateProfile :: "uuid \<Rightarrow> user_column list \<Rightarrow> time \<Rightarrow> db \<Rightarrow> user_view result" where
  "updateProfile uid patch now s =
     (let s1 = update_user uid (fold set_column patch) now s
      in case findById uid s1 of
           None \<Rightarrow> (Inl (Internal ''P2025''), s)
         | Some u \<Rightarrow> (Inr (transformUserToFrontend u (verification_of uid s1)), s1))"

text \<open>The two tables that a deleted account leaves archived.\<close>

definition archive_activity :: "uuid \<Rightarrow> db \<Rightarrow> db" where
  "archive_activity uid s =
     s\<lparr>db_tenantRequests := update_where (\<lambda>r. tr_tenantId r = uid \<and> tr_status r \<noteq> TR_ARCHIVED)
          (\<lambda>r. r\<lparr>tr_status := TR_ARCHIVED\<rparr>) (db_tenantRequests s),
       db_properties := update_where (\<lambda>p. p_ownerId p = uid \<and> p_status p \<noteq> P_ARCHIVED)
          (\<lambda>p. p\<lparr>p_status := P_ARCHIVED\<rparr>) (db_properties s)\<rparr>"

definition deleteAccount :: "uuid \<Rightarrow> time \<Rightarrow> db \<Rightarrow> unit result" where
  "deleteAccount uid now =
     transaction (\<lambda>s. if findById uid s = None then (Inl (Internal ''P2025''), s)
       else (Inr (), archive_activity uid
              (update_user uid (\<lambda>u. u\<lparr>u_deletedAt := Some now, u_tokenVersion := u_tokenVersion u + 1\<rparr>) now s)))"

definition createSocketTicket :: "auth_env \<Rightarrow> uuid \<Rightarrow> time \<Rightarrow> db \<Rightarrow> http_error + string" where
  "createSocketTicket env uid now s =
     (case findById uid s of
        None \<Rightarrow> Inl (Unauthorized '''') | Some u \<Rightarrow> Inr (au_signTicket env (payload_of u) now))"

section \<open>Reactivation\<close>

definition administrators :: "db \<Rightarrow> uuid list" where
  "administrators s = map u_id (filter (\<lambda>u. u_role u = ADMIN \<and> u_deletedAt u = None) (db_users s))"

fun activation_name :: "activation_status \<Rightarrow> string" where
  "activation_name AR_PENDING = ''PENDING''"
| "activation_name AR_APPROVED = ''APPROVED''"
| "activation_name AR_REJECTED = ''REJECTED''"

definition requestReactivation :: "auth_env \<Rightarrow> string \<Rightarrow> string \<Rightarrow> string option \<Rightarrow> time \<Rightarrow> db \<Rightarrow> (uuid \<times> string) result" where
  "requestReactivation env email password message now s =
     (case findByEmail (normalizeEmail email) s of
        None \<Rightarrow> (Inl (Unauthorized ''INVALID_CREDENTIALS''), s)
      | Some u \<Rightarrow>
          if \<not> au_compare env password (u_passwordHash u) then (Inl (Unauthorized ''INVALID_CREDENTIALS''), s)
          else if u_deletedAt u = None \<and> isSuspensionActive u now
          then (let (a, s1) = createSuspensionAppeal (u_id u) (u_fullName u) message now s in (Inr a, s1))
          else if u_deletedAt u = None then (Inl (Unauthorized ''INVALID_CREDENTIALS''), s)
          else case find (\<lambda>r. ar_userId r = u_id u \<and> ar_status r = AR_PENDING) (db_activationRequests s) of
            Some r \<Rightarrow> (Inr (ar_id r, activation_name (ar_status r)), s)
          | None \<Rightarrow>
              let r = \<lparr>ar_id = db_seq s, ar_userId = u_id u, ar_status = AR_PENDING, ar_createdAt = now\<rparr>;
                  s1 = s\<lparr>db_seq := db_seq s + 1, db_activationRequests := db_activationRequests s @ [r]\<rparr>
              in (Inr (ar_id r, activation_name (ar_status r)),
                  emit (SocketReactivationRequested (ar_id r) (u_id u))
                    (notifyUsers (administrators s1) REACTIVATION_REQUEST (Some (''/admin/reactivations'', None)) now s1)))"

section \<open>Guards\<close>

record request_user =
  ru_userId :: uuid
  ru_email :: string
  ru_role :: user_role

definition validate :: "token_payload \<Rightarrow> time \<Rightarrow> db \<Rightarrow> http_error + request_user" where
  "validate p now s =
     (case findById (tp_sub p) s of
        None \<Rightarrow> Inl (Unauthorized '''')
      | Some u \<Rightarrow>
          if tp_tokenVersion p \<noteq> Some (u_tokenVersion u) then Inl (Unauthorized '''')
          else if \<not> u_isActive u then Inl (Forbidden ''ACCOUNT_DISABLED'')
          else if u_deletedAt u \<noteq> None then Inl (Forbidden ''ACCOUNT_DELETED'')
          else if isSuspensionActive u now then Inl (Forbidden ''ACCOUNT_SUSPENDED'')
          else Inr \<lparr>ru_userId = tp_sub p, ru_email = tp_email p, ru_role = tp_role p\<rparr>)"

text \<open>The guard of the routes: public ones pass with no user, the others verify the bearer token.\<close>

definition jwtAuthGuard :: "auth_env \<Rightarrow> bool \<Rightarrow> string option \<Rightarrow> time \<Rightarrow> db \<Rightarrow> http_error + request_user option" where
  "jwtAuthGuard env isPublic token now s =
     (if isPublic then Inr None
      else case token of
        None \<Rightarrow> Inl (Unauthorized '''')
      | Some t \<Rightarrow> (case au_verifyAccess env t now of
          None \<Rightarrow> Inl (Unauthorized '''') | Some p \<Rightarrow> map_sum id Some (validate p now s)))"

definition optionalJwtAuthGuard :: "auth_env \<Rightarrow> string option \<Rightarrow> string option \<Rightarrow> time \<Rightarrow> db \<Rightarrow> http_error + request_user option" where
  "optionalJwtAuthGuard env header token now s =
     (if js_or header None = None then Inr None else jwtAuthGuard env False token now s)"

definition rolesGuard :: "user_role list option \<Rightarrow> request_user option \<Rightarrow> bool" where
  "rolesGuard required user =
     (case required of
        None \<Rightarrow> True
      | Some rs \<Rightarrow> (case user of None \<Rightarrow> False | Some u \<Rightarrow> ru_role u \<in> set rs))"

definition verifiedGuard :: "request_user option \<Rightarrow> db \<Rightarrow> http_error + bool" where
  "verifiedGuard user s =
     (case user of
        None \<Rightarrow> Inr False
      | Some u \<Rightarrow>
          if verification_of (ru_userId u) s = Some VS_APPROVED then Inr True
          else Inl (Forbidden ''VERIFICATION_REQUIRED''))"

datatype capability =
    PROPERTY_APPROVE | PROPERTY_REJECT | KYC_REVIEW | REQUEST_APPROVE | REQUEST_REJECT | REVIEW_MODERATE
  | PAYMENT_VIEW | COMMERCIAL_MANAGE | PARTNER_LEAD_VIEW | REPORT_EXPORT | TICKET_REPLY | AUDIT_VIEW
  | USER_SUSPEND | ADMIN_CREATE | ADMIN_MANAGE | USER_DELETE | USER_REACTIVATE

definition SUPER_ADMIN_CAPS :: "capability list" where
  "SUPER_ADMIN_CAPS =
     [PROPERTY_APPROVE, PROPERTY_REJECT, KYC_REVIEW, REQUEST_APPROVE, REQUEST_REJECT, REVIEW_MODERATE, PAYMENT_VIEW,
      COMMERCIAL_MANAGE, PARTNER_LEAD_VIEW, REPORT_EXPORT, TICKET_REPLY, AUDIT_VIEW, USER_SUSPEND, ADMIN_CREATE,
      ADMIN_MANAGE, USER_DELETE, USER_REACTIVATE]"

fun ROLE_CAPABILITIES :: "admin_role \<Rightarrow> capability list" where
  "ROLE_CAPABILITIES SUPER_ADMIN = SUPER_ADMIN_CAPS"
| "ROLE_CAPABILITIES LISTINGS_MANAGER = [PROPERTY_APPROVE, PROPERTY_REJECT]"
| "ROLE_CAPABILITIES KYC_REVIEWER = [KYC_REVIEW]"
| "ROLE_CAPABILITIES FINANCE_ADMIN = [PAYMENT_VIEW, COMMERCIAL_MANAGE, PARTNER_LEAD_VIEW, REPORT_EXPORT]"
| "ROLE_CAPABILITIES REVIEWS_MANAGER = [REVIEW_MODERATE, REQUEST_APPROVE, REQUEST_REJECT]"
| "ROLE_CAPABILITIES CUSTOMER_SUPPORT = [TICKET_REPLY]"
| "ROLE_CAPABILITIES READ_ONLY = []"

fun ADMIN_ROLE_SLUG :: "admin_role \<Rightarrow> string" where
  "ADMIN_ROLE_SLUG SUPER_ADMIN = ''super-admin''"
| "ADMIN_ROLE_SLUG LISTINGS_MANAGER = ''listings-manager''"
| "ADMIN_ROLE_SLUG KYC_REVIEWER = ''kyc-reviewer''"
| "ADMIN_ROLE_SLUG FINANCE_ADMIN = ''finance-admin''"
| "ADMIN_ROLE_SLUG REVIEWS_MANAGER = ''reviews-manager''"
| "ADMIN_ROLE_SLUG CUSTOMER_SUPPORT = ''customer-support''"
| "ADMIN_ROLE_SLUG READ_ONLY = ''read-only''"

definition role_or_super :: "admin_role option \<Rightarrow> admin_role" where
  "role_or_super r = (case r of None \<Rightarrow> SUPER_ADMIN | Some x \<Rightarrow> x)"

definition capabilitiesFor :: "admin_role option \<Rightarrow> capability list" where
  "capabilitiesFor r = ROLE_CAPABILITIES (role_or_super r)"

definition roleSlugFor :: "admin_role option \<Rightarrow> string" where
  "roleSlugFor r = ADMIN_ROLE_SLUG (role_or_super r)"

definition adminRoleFromSlug :: "string \<Rightarrow> admin_role option" where
  "adminRoleFromSlug slug =
     find (\<lambda>r. ADMIN_ROLE_SLUG r = slug)
       [SUPER_ADMIN, LISTINGS_MANAGER, KYC_REVIEWER, FINANCE_ADMIN, REVIEWS_MANAGER, CUSTOMER_SUPPORT, READ_ONLY]"

definition capabilitiesGuard :: "capability list option \<Rightarrow> request_user option \<Rightarrow> db \<Rightarrow> http_error + bool" where
  "capabilitiesGuard required user s =
     (case required of
        None \<Rightarrow> Inr True
      | Some [] \<Rightarrow> Inr True
      | Some cs \<Rightarrow>
        (case user of
           None \<Rightarrow> Inl (Forbidden '''')
         | Some u \<Rightarrow>
             let held = capabilitiesFor (case findById (ru_userId u) s of None \<Rightarrow> None | Some x \<Rightarrow> u_adminRole x)
             in if list_ex (\<lambda>c. c \<in> set held) cs then Inr True else Inl (Forbidden ''FORBIDDEN_CAPABILITY'')))"

section \<open>Sockets\<close>

text \<open>The handshake: the socket gets the user and the role of its token, or is refused.\<close>

definition socket_handshake :: "auth_env \<Rightarrow> string option \<Rightarrow> time \<Rightarrow> db \<Rightarrow> (uuid \<times> user_role) option" where
  "socket_handshake env token now s =
     (case js_or token None of
        None \<Rightarrow> None
      | Some t \<Rightarrow> (case au_verifyAccess env t now of
          None \<Rightarrow> None
        | Some p \<Rightarrow> (case findById (tp_sub p) s of
            None \<Rightarrow> None
          | Some u \<Rightarrow>
              if u_deletedAt u \<noteq> None \<or> tp_tokenVersion p \<noteq> Some (u_tokenVersion u) then None
              else Some (tp_sub p, tp_role p))))"

datatype room = USER_ROOM uuid | ADMIN_ROOM

definition handleConnection :: "uuid \<times> user_role \<Rightarrow> room list" where
  "handleConnection c = USER_ROOM (fst c) # (if snd c = ADMIN then [ADMIN_ROOM] else [])"

datatype typing_scope = SCOPE_MATCH | SCOPE_SUPPORT | SCOPE_OTHER

text \<open>The room that a typing event is forwarded to; the identifier None is an empty one.\<close>

definition handleTyping :: "uuid \<times> user_role \<Rightarrow> typing_scope \<Rightarrow> uuid option \<Rightarrow> db \<Rightarrow> room option" where
  "handleTyping c scope conv s =
     (case conv of
        None \<Rightarrow> None
      | Some k \<Rightarrow>
          if scope = SCOPE_MATCH
          then (case find (\<lambda>m. mc_id m = k) (db_matchConnections s) of
                  None \<Rightarrow> None
                | Some m \<Rightarrow> if mc_tenantId m = fst c then Some (USER_ROOM (mc_ownerId m))
                            else if mc_ownerId m = fst c then Some (USER_ROOM (mc_tenantId m)) else None)
          else if scope = SCOPE_SUPPORT
          then (case find (\<lambda>t. st_id t = k) (db_tickets s) of
                  None \<Rightarrow> None
                | Some t \<Rightarrow> if st_userId t = fst c then Some ADMIN_ROOM
                            else if snd c = ADMIN then Some (USER_ROOM (st_userId t)) else None)
          else None)"

end
