(* ===== verification/Administration.thy ===== *)
theory Administration
  imports Accounts
begin

text \<open>
  The accounts part of \<open>admin/admin.service.ts\<close>: suspension, the team of administrators, deletion,
  reactivation and the nightly anonymization, and what holds of accounts along every run of these
  requests and those of \<open>Accounts\<close>.
\<close>

section \<open>Users\<close>

record user_row =
  ur_id :: uuid
  ur_fullName :: string
  ur_email :: string
  ur_phoneNumber :: string
  ur_role :: user_role
  ur_isActive :: bool
  ur_createdAt :: time
  ur_deletedAt :: "time option"
  ur_suspended :: bool
  ur_suspendedUntil :: "time option"
  ur_suspendedAt :: "time option"
  ur_suspensionReason :: "string option"
  ur_suspensionReasonLabel :: "string option"
  ur_suspensionNote :: "string option"

text \<open>The Arabic labels are replaced by names.\<close>

definition SUSPENSION_REASONS :: "(string \<times> string) list" where
  "SUSPENSION_REASONS =
     map (\<lambda>c. (c, ''LABEL_'' @ c))
       [''SPAM'', ''FRAUD'', ''FAKE_LISTING'', ''HARASSMENT'', ''IDENTITY_ABUSE'', ''TERMS_VIOLATION'', ''OTHER'']"

definition reason_label :: "string \<Rightarrow> string" where
  "reason_label r = (case map_of SUSPENSION_REASONS r of None \<Rightarrow> r | Some l \<Rightarrow> l)"

definition toUserRow :: "time \<Rightarrow> user \<Rightarrow> user_row" where
  "toUserRow now u =
     (let suspended = isSuspensionActive u now
      in \<lparr>ur_id = u_id u, ur_fullName = u_fullName u, ur_email = u_email u, ur_phoneNumber = u_phoneNumber u,
          ur_role = u_role u, ur_isActive = u_isActive u, ur_createdAt = u_createdAt u, ur_deletedAt = u_deletedAt u,
          ur_suspended = suspended,
          ur_suspendedUntil = (if suspended then u_suspendedUntil u else None),
          ur_suspendedAt = (if suspended then u_suspendedAt u else None),
          ur_suspensionReason = (if suspended then u_suspensionReason u else None),
          ur_suspensionReasonLabel =
            (if suspended then map_option reason_label (js_or (u_suspensionReason u) None) else None),
          ur_suspensionNote = (if suspended then u_suspensionNote u else None)\<rparr>)"

datatype user_filter = FILTER_ACTIVE | FILTER_SUSPENDED | FILTER_DELETED | FILTER_ALL

record user_query =
  qu_status :: "user_filter option"
  qu_search :: "string option"
  qu_page :: "int option"
  qu_pageSize :: "int option"

fun status_matches :: "user_filter \<Rightarrow> time \<Rightarrow> user \<Rightarrow> bool" where
  "status_matches FILTER_DELETED now u \<longleftrightarrow> u_deletedAt u \<noteq> None"
| "status_matches FILTER_SUSPENDED now u \<longleftrightarrow>
     u_deletedAt u = None \<and> u_suspendedAt u \<noteq> None
     \<and> (case u_suspendedUntil u of None \<Rightarrow> True | Some t \<Rightarrow> now < t)"
| "status_matches FILTER_ACTIVE now u \<longleftrightarrow>
     u_deletedAt u = None \<and> (u_suspendedAt u = None \<or> (case u_suspendedUntil u of None \<Rightarrow> False | Some t \<Rightarrow> t \<le> now))"
| "status_matches FILTER_ALL now u \<longleftrightarrow> True"

definition search_matches :: "string option \<Rightarrow> user \<Rightarrow> bool" where
  "search_matches search u =
     (case js_or (map_option js_trim search) None of
        None \<Rightarrow> True
      | Some x \<Rightarrow> includes_nocase (u_fullName u) x \<or> includes_nocase (u_email u) x
                  \<or> js_includes (u_phoneNumber u) x)"

definition listed_users :: "user_query \<Rightarrow> time \<Rightarrow> db \<Rightarrow> user list" where
  "listed_users query now s =
     sort_key (\<lambda>u. - u_createdAt u)
       (filter (\<lambda>u. u_role u \<noteq> ADMIN
                  \<and> status_matches (case qu_status query of None \<Rightarrow> FILTER_ACTIVE | Some f \<Rightarrow> f) now u
                  \<and> search_matches (qu_search query) u) (db_users s))"

definition listUsers :: "user_query \<Rightarrow> time \<Rightarrow> db \<Rightarrow> user_row page" where
  "listUsers query now s =
     (let pn = page_number (qu_page query); sz = page_size (qu_pageSize query); us = listed_users query now s
      in \<lparr>pg_items = map (toUserRow now) (page_slice pn sz us), pg_total = int (length us), pg_page = pn, pg_pageSize = sz\<rparr>)"

record suspend_dto =
  sd_reason :: string
  sd_durationDays :: "int option"
  sd_note :: "string option"

definition suspend :: "uuid \<Rightarrow> suspend_dto \<Rightarrow> time \<Rightarrow> user \<Rightarrow> user" where
  "suspend actorId dto now u =
     u\<lparr>u_suspendedAt := Some now, u_suspendedUntil := map_option (\<lambda>d. now + d * 24 * 60 * 60 * 1000) (sd_durationDays dto),
       u_suspensionReason := Some (sd_reason dto), u_suspensionNote := js_or (map_option js_trim (sd_note dto)) None,
       u_suspendedById := Some actorId\<rparr>"

definition suspendUser :: "uuid \<Rightarrow> uuid \<Rightarrow> suspend_dto \<Rightarrow> time \<Rightarrow> db \<Rightarrow> user_row result" where
  "suspendUser actorId target dto now s =
     (if actorId = target then (Inl (BadRequest ''OWN_ACCOUNT''), s)
      else case findById target s of
        None \<Rightarrow> (Inl (NotFound ''USER_NOT_FOUND''), s)
      | Some u \<Rightarrow>
          if u_role u = ADMIN then (Inl (BadRequest ''ADMIN_ACCOUNT''), s)
          else
            let days = (case sd_durationDays dto of None \<Rightarrow> ''permanent'' | Some d \<Rightarrow> js_num d);
                updated = (suspend actorId dto now u)\<lparr>u_updatedAt := now\<rparr>;
                s1 = update_user target (suspend actorId dto now) now s;
                s2 = audit actorId (''user:suspend:'' @ sd_reason dto @ '':'' @ days) target now s1
            in (Inr (toUserRow now (updated\<lparr>u_deletedAt := None\<rparr>)),
                emit (Mail (u_email u) ''ACCOUNT_SUSPENDED'') (emit (SocketAccountSuspended target) s2)))"

definition unsuspend :: "user \<Rightarrow> user" where
  "unsuspend u = u\<lparr>u_suspendedAt := None, u_suspendedUntil := None, u_suspensionReason := None, u_suspensionNote := None,
                   u_suspendedById := None\<rparr>"

definition unsuspendUser :: "uuid \<Rightarrow> uuid \<Rightarrow> time \<Rightarrow> db \<Rightarrow> user_row result" where
  "unsuspendUser actorId target now s =
     (case findById target s of
        None \<Rightarrow> (Inl (NotFound ''USER_NOT_FOUND''), s)
      | Some u \<Rightarrow>
          (Inr (toUserRow now ((unsuspend u)\<lparr>u_deletedAt := None\<rparr>)),
           emit (Mail (u_email u) ''ACCOUNT_UNSUSPENDED'')
             (audit actorId ''user:unsuspend'' target now (update_user target unsuspend now s))))"

section \<open>The team\<close>

record create_admin_dto =
  ca_fullName :: string
  ca_email :: string
  ca_password :: string
  ca_phoneNumber :: string
  ca_role :: "string option"

text \<open>Who may create an administrator, and the sub-role of the new one.\<close>

definition may_create_admin :: "uuid option \<Rightarrow> db \<Rightarrow> http_error + bool" where
  "may_create_admin creatorId s =
     (if count_where (\<lambda>u. u_role u = ADMIN) (db_users s) = 0 then Inr True
      else case creatorId of
        None \<Rightarrow> Inl (Unauthorized ''ONLY_SUPER_ADMIN_CAN_CREATE_ADMIN'')
      | Some c \<Rightarrow> (case findById c s of
          None \<Rightarrow> Inl (Forbidden ''ONLY_SUPER_ADMIN_CAN_CREATE_ADMIN'')
        | Some u \<Rightarrow>
            if u_role u \<noteq> ADMIN \<or> ADMIN_CREATE \<notin> set (capabilitiesFor (u_adminRole u))
            then Inl (Forbidden ''ONLY_SUPER_ADMIN_CAN_CREATE_ADMIN'') else Inr False))"

definition new_admin_role :: "bool \<Rightarrow> string option \<Rightarrow> admin_role option" where
  "new_admin_role isBootstrap role =
     (case js_or role None of None \<Rightarrow> Some (if isBootstrap then SUPER_ADMIN else READ_ONLY) | Some r \<Rightarrow> adminRoleFromSlug r)"

definition createAdmin :: "auth_env \<Rightarrow> uuid option \<Rightarrow> create_admin_dto \<Rightarrow> time \<Rightarrow> db \<Rightarrow> user_view result" where
  "createAdmin env creatorId dto now s =
     (case may_create_admin creatorId s of
        Inl e \<Rightarrow> (Inl e, s)
      | Inr isBootstrap \<Rightarrow>
          let email = normalizeEmail (ca_email dto)
          in if find (\<lambda>u. u_email u = email) (db_users s) \<noteq> None then (Inl (Conflict ''EMAIL_EXISTS''), s)
             else case new_admin_role isBootstrap (ca_role dto) of
               None \<Rightarrow> (Inl (BadRequest ''INVALID_ADMIN_ROLE''), s)
             | Some r \<Rightarrow>
                 let u = (new_user (db_seq s) (ca_fullName dto) email (ca_phoneNumber dto) (au_hash env (ca_password dto)) ADMIN now)
                         \<lparr>u_adminRole := Some r, u_emailVerifiedAt := Some now\<rparr>
                 in (Inr (transformUserToFrontend u None),
                     emit (Mail email ''ADMIN_WELCOME'')
                       (s\<lparr>db_seq := db_seq s + 1, db_users := db_users s @ [u]\<rparr>)))"

record team_row =
  tm_id :: uuid
  tm_fullName :: string
  tm_email :: string
  tm_role :: string
  tm_capabilities :: "capability list"
  tm_disabled :: bool
  tm_lastLoginAt :: "time option"
  tm_createdAt :: time

definition team_row_of :: "user \<Rightarrow> team_row" where
  "team_row_of a =
     \<lparr>tm_id = u_id a, tm_fullName = u_fullName a, tm_email = u_email a, tm_role = roleSlugFor (u_adminRole a),
      tm_capabilities = capabilitiesFor (u_adminRole a), tm_disabled = (\<not> u_isActive a), tm_lastLoginAt = u_lastLoginAt a,
      tm_createdAt = u_createdAt a\<rparr>"

definition getTeam :: "db \<Rightarrow> team_row list" where
  "getTeam s = map team_row_of (sort_key (\<lambda>u. - u_createdAt u) (filter (\<lambda>u. u_role u = ADMIN) (db_users s)))"

definition SUPER_ADMIN_WHERE :: "user \<Rightarrow> bool" where
  "SUPER_ADMIN_WHERE u \<longleftrightarrow> u_role u = ADMIN \<and> u_isActive u \<and> (u_adminRole u = Some SUPER_ADMIN \<or> u_adminRole u = None)"

definition updateTeamMember :: "uuid \<Rightarrow> uuid \<Rightarrow> string option \<Rightarrow> bool option \<Rightarrow> time \<Rightarrow> db \<Rightarrow> team_row result" where
  "updateTeamMember actorId uid role disabled now s =
     (case findById uid s of
        None \<Rightarrow> (Inl (NotFound ''ADMIN_NOT_FOUND''), s)
      | Some target \<Rightarrow>
          if u_role target \<noteq> ADMIN then (Inl (NotFound ''ADMIN_NOT_FOUND''), s)
          else if u_id target = actorId then (Inl (Forbidden ''OWN_ROLE''), s)
          else if role \<noteq> None \<and> adminRoleFromSlug (the role) = None then (Inl (BadRequest ''INVALID_ADMIN_ROLE''), s)
          else
            let nextRole = (case role of None \<Rightarrow> u_adminRole target | Some r \<Rightarrow> adminRoleFromSlug r);
                nextActive = (case disabled of None \<Rightarrow> u_isActive target | Some d \<Rightarrow> \<not> d);
                was = (u_isActive target \<and> ADMIN_MANAGE \<in> set (capabilitiesFor (u_adminRole target)));
                stays = (nextActive \<and> ADMIN_MANAGE \<in> set (capabilitiesFor nextRole))
            in if was \<and> \<not> stays \<and> count_where (\<lambda>u. SUPER_ADMIN_WHERE u \<and> u_id u \<noteq> uid) (db_users s) = 0
               then (Inl (Forbidden ''LAST_SUPER_ADMIN''), s)
               else
                 let change = (\<lambda>u. u\<lparr>u_adminRole := (if role = None then u_adminRole u else nextRole),
                                    u_isActive := (if disabled = None then u_isActive u else nextActive)\<rparr>)
                 in (Inr (team_row_of (change target)),
                     emit (Mail (u_email target) ''ADMIN_ACCOUNT_UPDATED'')
                       (audit actorId ''admin:update'' uid now (update_user uid change now s))))"

definition resetAdminPassword :: "auth_env \<Rightarrow> uuid \<Rightarrow> uuid \<Rightarrow> string \<Rightarrow> time \<Rightarrow> db \<Rightarrow> unit result" where
  "resetAdminPassword env actorId uid rawToken now s =
     (case findById uid s of
        None \<Rightarrow> (Inl (NotFound ''ADMIN_NOT_FOUND''), s)
      | Some u \<Rightarrow>
          if u_role u \<noteq> ADMIN then (Inl (NotFound ''ADMIN_NOT_FOUND''), s)
          else (Inr (), emit (Mail (u_email u) (''PASSWORD_RESET '' @ rawToken))
                 (audit actorId ''admin:reset-password'' uid now
                   (update_user uid (\<lambda>u. u\<lparr>u_resetToken := Some (au_sha256 env rawToken),
                      u_resetTokenExpiry := Some (now + 60 * 60 * 1000)\<rparr>) now s))))"

section \<open>Deletion and reactivation\<close>

definition softDeleteUser :: "uuid \<Rightarrow> uuid \<Rightarrow> time \<Rightarrow> db \<Rightarrow> unit result" where
  "softDeleteUser adminId uid now s =
     (case findById uid s of
        None \<Rightarrow> (Inl (NotFound ''USER_NOT_FOUND''), s)
      | Some u \<Rightarrow>
          if u_deletedAt u \<noteq> None then (Inl (Conflict ''ALREADY_DELETED''), s)
          else if u_role u = ADMIN then (Inl (Forbidden ''ADMIN_ACCOUNT''), s)
          else if u_id u = adminId then (Inl (Forbidden ''OWN_ACCOUNT''), s)
          else (Inr (), emit (Mail (u_email u) ''ACCOUNT_DELETED'') (emit (SocketForceLogout uid)
                 (audit adminId ''user:delete'' uid now
                   (archive_activity uid (update_user uid (\<lambda>u. u\<lparr>u_deletedAt := Some now\<rparr>) now s))))))"

record reactivation_row =
  rr_id :: uuid
  rr_userId :: uuid
  rr_userFullName :: string
  rr_userEmail :: string
  rr_deletedAt :: "time option"
  rr_createdAt :: time

definition listReactivationRequests :: "db \<Rightarrow> reactivation_row list" where
  "listReactivationRequests s =
     map (\<lambda>r. \<lparr>rr_id = ar_id r, rr_userId = ar_userId r, rr_userFullName = user_name (ar_userId r) s,
               rr_userEmail = user_email (ar_userId r) s,
               rr_deletedAt = (case findById (ar_userId r) s of None \<Rightarrow> None | Some u \<Rightarrow> u_deletedAt u),
               rr_createdAt = ar_createdAt r\<rparr>)
       (sort_key ar_createdAt (filter (\<lambda>r. ar_status r = AR_PENDING) (db_activationRequests s)))"

definition set_request :: "uuid \<Rightarrow> activation_status \<Rightarrow> db \<Rightarrow> db" where
  "set_request rid st s =
     s\<lparr>db_activationRequests := update_where (\<lambda>r. ar_id r = rid) (\<lambda>r. r\<lparr>ar_status := st\<rparr>) (db_activationRequests s)\<rparr>"

definition approveReactivation :: "uuid \<Rightarrow> uuid \<Rightarrow> time \<Rightarrow> db \<Rightarrow> unit result" where
  "approveReactivation adminId rid now s =
     (case find (\<lambda>r. ar_id r = rid) (db_activationRequests s) of
        None \<Rightarrow> (Inl (NotFound ''REQUEST_NOT_FOUND''), s)
      | Some r \<Rightarrow>
          if ar_status r \<noteq> AR_PENDING then (Inl (Conflict ''ALREADY_REVIEWED''), s)
          else
            let uid = ar_userId r;
                s1 = set_request rid AR_APPROVED
                  (update_user uid (\<lambda>u. u\<lparr>u_deletedAt := None, u_tokenVersion := u_tokenVersion u + 1\<rparr>) now s)
            in (Inr (), emit (Mail (user_email uid s) ''ACCOUNT_REACTIVATED'')
                 (notifyUser uid ACCOUNT_REACTIVATED (Some (''/login'', None)) now
                   (audit adminId ''user:reactivate:approve'' uid now s1))))"

definition rejectReactivation :: "uuid \<Rightarrow> uuid \<Rightarrow> time \<Rightarrow> db \<Rightarrow> unit result" where
  "rejectReactivation adminId rid now s =
     (case find (\<lambda>r. ar_id r = rid) (db_activationRequests s) of
        None \<Rightarrow> (Inl (NotFound ''REQUEST_NOT_FOUND''), s)
      | Some r \<Rightarrow>
          if ar_status r \<noteq> AR_PENDING then (Inl (Conflict ''ALREADY_REVIEWED''), s)
          else
            let uid = ar_userId r
            in (Inr (), emit (Mail (user_email uid s) ''ACCOUNT_REACTIVATION_REJECTED'')
                 (notifyUser uid ACCOUNT_REACTIVATION_REJECTED None now
                   (audit adminId ''user:reactivate:reject'' uid now (set_request rid AR_REJECTED s)))))"

text \<open>
  The nightly job. The random texts of one user are a parameter: the part of the address, the
  password hash and the part of the phone number. The batches only pace the updates.
\<close>

definition anonymize :: "string \<times> string \<times> string \<Rightarrow> user \<Rightarrow> user" where
  "anonymize r u =
     u\<lparr>u_fullName := ''Deleted User'', u_email := ''deleted-'' @ fst r @ ''@propmatch.local'',
       u_passwordHash := fst (snd r), u_phoneNumber := ''deleted-'' @ snd (snd r), u_avatarUrl := None,
       u_resetToken := None, u_resetTokenExpiry := None\<rparr>"

definition expired_candidates :: "time \<Rightarrow> db \<Rightarrow> uuid list" where
  "expired_candidates now s =
     map u_id (filter (\<lambda>u. case u_deletedAt u of None \<Rightarrow> False | Some t \<Rightarrow> t < now - 30 * 24 * 60 * 60 * 1000) (db_users s))"

definition anonymizeExpiredUsers :: "(uuid \<Rightarrow> string \<times> string \<times> string) \<Rightarrow> time \<Rightarrow> db \<Rightarrow> db" where
  "anonymizeExpiredUsers random now s = fold (\<lambda>uid. update_user uid (anonymize (random uid)) now) (expired_candidates now s) s"

section \<open>History\<close>

record login_row =
  lh_id :: uuid
  lh_adminName :: string
  lh_ip :: string
  lh_at :: time
  lh_success :: bool

definition getLoginHistory :: "int option \<Rightarrow> int option \<Rightarrow> db \<Rightarrow> login_row page" where
  "getLoginHistory page pageSize s =
     (let pn = page_number page; sz = page_size pageSize
      in \<lparr>pg_items = map (\<lambda>a. \<lparr>lh_id = la_id a, lh_adminName = user_name (la_userId a) s, lh_ip = la_ip a,
                              lh_at = la_createdAt a, lh_success = la_success a\<rparr>)
            (page_slice pn sz (sort_key (\<lambda>a. - la_createdAt a) (db_loginAttempts s))),
          pg_total = int (length (db_loginAttempts s)), pg_page = pn, pg_pageSize = sz\<rparr>)"

record audit_row =
  au_id :: uuid
  au_actorName :: string
  au_action :: string
  au_subjectId :: uuid
  au_at :: time

definition getAuditLog :: "int option \<Rightarrow> int option \<Rightarrow> db \<Rightarrow> audit_row page" where
  "getAuditLog page pageSize s =
     (let pn = page_number page; sz = page_size pageSize
      in \<lparr>pg_items = map (\<lambda>e. \<lparr>au_id = ae_id e, au_actorName = user_name (ae_actorId e) s, au_action = ae_action e,
                              au_subjectId = ae_subjectId e, au_at = ae_at e\<rparr>)
            (page_slice pn sz (sort_key (\<lambda>e. - ae_at e) (db_auditLog s))),
          pg_total = int (length (db_auditLog s)), pg_page = pn, pg_pageSize = sz\<rparr>)"

section \<open>How accounts evolve\<close>

text \<open>
  An account keeps its id, its token version never falls, and a deleted account comes back only
  with a higher token version.
\<close>

definition account_edge :: "user \<Rightarrow> user \<Rightarrow> bool" where
  "account_edge u v \<longleftrightarrow> u_id v = u_id u \<and> u_tokenVersion u \<le> u_tokenVersion v
     \<and> (u_deletedAt v = None \<longrightarrow> u_deletedAt u = None \<or> u_tokenVersion u < u_tokenVersion v)"

definition users_evolve :: "user list \<Rightarrow> user list \<Rightarrow> bool" where
  "users_evolve us vs \<longleftrightarrow> (\<forall>k u. find (\<lambda>u. u_id u = k) us = Some u \<longrightarrow>
     (\<exists>v. find (\<lambda>u. u_id u = k) vs = Some v \<and> account_edge u v))"

named_theorems evolve_intros

lemma account_edge_refl [simp]: "account_edge u u"
  by (simp add: account_edge_def)

lemma account_edge_trans: "account_edge u v \<Longrightarrow> account_edge v w \<Longrightarrow> account_edge u w"
  unfolding account_edge_def by (cases "u_deletedAt v = None") auto

lemma users_evolve_refl [simp, evolve_intros]: "users_evolve us us"
  by (simp add: users_evolve_def)

lemma users_evolve_trans: "users_evolve us vs \<Longrightarrow> users_evolve vs ws \<Longrightarrow> users_evolve us ws"
  unfolding users_evolve_def by (meson account_edge_trans)

lemma users_evolve_append [evolve_intros]: "users_evolve us (us @ vs)"
  by (simp add: users_evolve_def find_append)

lemma users_evolve_update [evolve_intros]:
  assumes "\<And>u. account_edge u (f u)"
  shows "users_evolve us (update_where (\<lambda>u. u_id u = k) f us)"
proof -
  have i: "u_id (f u) = u_id u" for u using assms by (simp add: account_edge_def)
  have "find (\<lambda>u. u_id u = c) (update_where (\<lambda>u. u_id u = k) f us)
      = map_option (if c = k then f else id) (find (\<lambda>u. u_id u = c) us)" for c
    by (induction us) (auto simp: i)
  then show ?thesis using assms by (auto simp: users_evolve_def)
qed

lemma db_users_update_user [simp]:
  "db_users (update_user k f now s) = update_where (\<lambda>u. u_id u = k) (\<lambda>u. (f u)\<lparr>u_updatedAt := now\<rparr>) (db_users s)"
  by (simp add: update_user_def)

lemma db_users_archive [simp]: "db_users (archive_activity k s) = db_users s"
  by (simp add: archive_activity_def)

lemma db_users_set_request [simp]: "db_users (set_request r st s) = db_users s"
  by (simp add: set_request_def)

lemma db_users_appeal [simp]: "db_users (snd (createSuspensionAppeal k n m now s)) = db_users s"
  by (simp add: createSuspensionAppeal_def create_ticket_def create_message_def Let_def split: option.splits)

lemma edge_if: "account_edge u (if P then f u else g u) \<longleftrightarrow> (if P then account_edge u (f u) else account_edge u (g u))"
  by simp

text \<open>The updates of the requests are edges.\<close>

lemma edge_verified: "account_edge u ((verified_user n u)\<lparr>u_updatedAt := m\<rparr>)"
  by (simp add: account_edge_def verified_user_def)

lemma edge_suspend: "account_edge u ((suspend a d n u)\<lparr>u_updatedAt := m\<rparr>)"
  by (simp add: account_edge_def suspend_def)

lemma edge_unsuspend: "account_edge u ((unsuspend u)\<lparr>u_updatedAt := m\<rparr>)"
  by (simp add: account_edge_def unsuspend_def)

lemma edge_anonymize: "account_edge u ((anonymize r u)\<lparr>u_updatedAt := m\<rparr>)"
  by (simp add: account_edge_def anonymize_def)

lemma edge_set_column: "declared_column c \<Longrightarrow> account_edge u (set_column c u)"
  by (cases c) (simp_all add: account_edge_def)

lemma edge_profile: "list_all declared_column p \<Longrightarrow> account_edge u ((fold set_column p u)\<lparr>u_updatedAt := m\<rparr>)"
proof -
  assume "list_all declared_column p"
  then have "account_edge u (fold set_column p u)"
    by (induction p arbitrary: u) (auto intro: account_edge_trans edge_set_column)
  then show ?thesis by (simp add: account_edge_def)
qed

lemmas account_edges = edge_verified edge_suspend edge_unsuspend edge_anonymize edge_profile

section \<open>Runs\<close>

text \<open>A request on accounts, by anyone and in any order; profile patches name declared columns.\<close>

inductive account_step :: "auth_env \<Rightarrow> db \<Rightarrow> db \<Rightarrow> bool" for env :: auth_env where
  S_signIn: "account_step env s (snd (signIn env email pw ip now s))"
| S_signup: "account_step env s (snd (signup env su otp now s))"
| S_verify: "account_step env s (snd (verifyEmail env email code now s))"
| S_resend: "account_step env s (snd (resendEmailVerification env email otp now s))"
| S_forget: "account_step env s (snd (forgetPassword env email raw now s))"
| S_reset: "account_step env s (snd (resetPassword env raw pw now s))"
| S_profile: "list_all declared_column patch \<Longrightarrow> account_step env s (snd (updateProfile k patch now s))"
| S_delete: "account_step env s (snd (deleteAccount k now s))"
| S_appeal: "account_step env s (snd (requestReactivation env email pw msg now s))"
| S_suspend: "account_step env s (snd (suspendUser actor k sd now s))"
| S_unsuspend: "account_step env s (snd (unsuspendUser actor k now s))"
| S_createAdmin: "account_step env s (snd (createAdmin env creator ca now s))"
| S_team: "account_step env s (snd (updateTeamMember actor k role disabled now s))"
| S_resetAdmin: "account_step env s (snd (resetAdminPassword env actor k raw now s))"
| S_softDelete: "account_step env s (snd (softDeleteUser actor k now s))"
| S_approve: "account_step env s (snd (approveReactivation actor rid now s))"
| S_reject: "account_step env s (snd (rejectReactivation actor rid now s))"
| S_anonymize: "account_step env s (anonymizeExpiredUsers random now s)"

lemma evolve_eq: "db_users t = db_users s \<Longrightarrow> users_evolve (db_users s) (db_users t)"
  by simp

lemma evolve_update: "(\<And>u. account_edge u ((f u)\<lparr>u_updatedAt := now\<rparr>)) \<Longrightarrow> users_evolve (db_users s) (db_users (update_user k f now s))"
  by (simp add: users_evolve_update)

lemma evolve_sessions:
  "users_evolve (db_users s) (db_users (snd (signIn env email pw ip now s)))"
  "users_evolve (db_users s) (db_users (snd (signup env su otp now s)))"
  "users_evolve (db_users s) (db_users (snd (verifyEmail env email code now s)))"
  "users_evolve (db_users s) (db_users (snd (resendEmailVerification env email otp now s)))"
  "users_evolve (db_users s) (db_users (snd (requestReactivation env email pw msg now s)))"
  subgoal by (auto simp: signIn_def recordAdminLoginAttempt_def Let_def split: option.splits)
  subgoal by (auto simp: signup_def Let_def users_evolve_append split: option.splits)
  subgoal by (auto simp: verifyEmail_def verifyEmail_write_def Let_def account_edge_def verified_user_def
        intro!: users_evolve_update split: option.splits sum.splits)
  subgoal by (auto simp: resendEmailVerification_def Let_def account_edge_def intro!: users_evolve_update split: option.splits)
  subgoal by (auto simp: requestReactivation_def Let_def split: option.splits prod.splits)
       (metis db_users_appeal snd_conv users_evolve_refl)+
  done

lemma evolve_accounts:
  "users_evolve (db_users s) (db_users (snd (forgetPassword env email raw now s)))"
  "users_evolve (db_users s) (db_users (snd (resetPassword env raw pw now s)))"
  "list_all declared_column patch \<Longrightarrow> users_evolve (db_users s) (db_users (snd (updateProfile k patch now s)))"
  "users_evolve (db_users s) (db_users (snd (deleteAccount k now s)))"
  subgoal by (auto simp: forgetPassword_def account_edge_def intro!: users_evolve_update split: option.splits)
  subgoal by (auto simp: resetPassword_def account_edge_def intro!: users_evolve_update split: option.splits)
  subgoal by (auto simp: updateProfile_def Let_def edge_profile intro!: users_evolve_update split: option.splits)
  subgoal by (auto simp: deleteAccount_def transaction_def account_edge_def intro!: users_evolve_update)
  done

lemma evolve_administration:
  "users_evolve (db_users s) (db_users (snd (suspendUser actor k sd now s)))"
  "users_evolve (db_users s) (db_users (snd (unsuspendUser actor k now s)))"
  "users_evolve (db_users s) (db_users (snd (createAdmin env creator ca now s)))"
  "users_evolve (db_users s) (db_users (snd (updateTeamMember actor k role disabled now s)))"
  "users_evolve (db_users s) (db_users (snd (resetAdminPassword env actor k raw now s)))"
  subgoal by (auto simp: suspendUser_def Let_def edge_suspend intro!: users_evolve_update split: option.splits)
  subgoal by (auto simp: unsuspendUser_def edge_unsuspend intro!: users_evolve_update split: option.splits)
  subgoal by (auto simp: createAdmin_def Let_def users_evolve_append split: option.splits sum.splits)
  subgoal by (auto simp: updateTeamMember_def Let_def account_edge_def intro!: users_evolve_update split: option.splits)
  subgoal by (auto simp: resetAdminPassword_def account_edge_def intro!: users_evolve_update split: option.splits)
  done

lemma evolve_anonymize: "users_evolve (db_users s) (db_users (anonymizeExpiredUsers random now s))"
proof -
  have "users_evolve (db_users s) (db_users (fold (\<lambda>k. update_user k (anonymize (random k)) now) ks s))" for ks
  proof (induction ks arbitrary: s)
    case (Cons k ks)
    have "users_evolve (db_users s) (db_users (update_user k (anonymize (random k)) now s))"
      by (intro evolve_update edge_anonymize)
    with Cons.IH show ?case by (simp only: fold_simps comp_def) (blast intro: users_evolve_trans)
  qed simp
  then show ?thesis by (simp add: anonymizeExpiredUsers_def)
qed

lemma evolve_reactivation:
  "users_evolve (db_users s) (db_users (snd (softDeleteUser actor k now s)))"
  "users_evolve (db_users s) (db_users (snd (approveReactivation actor rid now s)))"
  "users_evolve (db_users s) (db_users (snd (rejectReactivation actor rid now s)))"
  subgoal by (auto simp: softDeleteUser_def account_edge_def intro!: users_evolve_update split: option.splits)
  subgoal by (auto simp: approveReactivation_def Let_def account_edge_def intro!: users_evolve_update split: option.splits)
  subgoal by (auto simp: rejectReactivation_def Let_def split: option.splits)
  done

lemmas evolve_all = evolve_sessions evolve_accounts evolve_administration evolve_anonymize evolve_reactivation

lemma account_step_evolve: "account_step env s t \<Longrightarrow> users_evolve (db_users s) (db_users t)"
  by (induction rule: account_step.induct) (simp_all add: evolve_all)

text \<open>A token version of an account that is dead: below the version of the account, or at it while deleted.\<close>

definition dead_version :: "db \<Rightarrow> uuid \<times> int \<Rightarrow> bool" where
  "dead_version s r \<longleftrightarrow> (\<exists>u. findById (fst r) s = Some u \<and> snd r \<le> u_tokenVersion u
     \<and> (u_deletedAt u = None \<longrightarrow> snd r < u_tokenVersion u))"

lemma dead_version_evolve:
  assumes "users_evolve (db_users s) (db_users t)" "dead_version s r"
  shows "dead_version t r"
  using assms(2) unfolding dead_version_def
proof (elim exE conjE)
  fix u
  assume u: "findById (fst r) s = Some u" "snd r \<le> u_tokenVersion u" "u_deletedAt u = None \<longrightarrow> snd r < u_tokenVersion u"
  from assms(1)[unfolded users_evolve_def, rule_format, OF u(1)[unfolded findById_def]]
  obtain v where v: "findById (fst r) t = Some v" "account_edge u v" unfolding findById_def by (elim exE conjE)
  from v(2) have e: "u_tokenVersion u \<le> u_tokenVersion v"
    "u_deletedAt v = None \<Longrightarrow> u_deletedAt u = None \<or> u_tokenVersion u < u_tokenVersion v"
    by (simp_all add: account_edge_def)
  have "u_deletedAt v = None \<longrightarrow> snd r < u_tokenVersion v" using e u(2,3) by linarith
  moreover have "snd r \<le> u_tokenVersion v" using e(1) u(2) by linarith
  ultimately show "\<exists>v. findById (fst r) t = Some v \<and> snd r \<le> u_tokenVersion v
      \<and> (u_deletedAt v = None \<longrightarrow> snd r < u_tokenVersion v)"
    using v(1) by (intro exI[of _ v] conjI)
qed

interpretation accounts: settled_machine "\<lambda>_. True" "account_step env" dead_version for env
proof
  show "dead_version t r" if "account_step env s t" "dead_version s r" for s t r
    using that by (rule dead_version_evolve[OF account_step_evolve])
qed simp

lemma js_or_None: "js_or (Some x) None = (if x = [] then None else Some x)"
  by (cases x) simp_all

lemma dead_version_rejected:
  assumes "dead_version s (tp_sub p, v)" "tp_tokenVersion p = Some v"
  shows "\<exists>e. validate p now s = Inl e"
    and "au_verifyAccess env tok now = Some p \<Longrightarrow> socket_handshake env (Some tok) now s = None"
    and "au_verifyRefresh env tok now = Some (p, ty) \<Longrightarrow> refresh env tok now s = Inl (Unauthorized ''INVALID_REFRESH_TOKEN'')"
  using assms js_or_None[of tok] unfolding dead_version_def
  by (auto simp: validate_def socket_handshake_def refresh_def split: option.splits if_splits)

section \<open>Properties\<close>


text \<open>Codes tried one after the other on one address.\<close>

fun verify_all :: "auth_env \<Rightarrow> string \<Rightarrow> (string \<times> time) list \<Rightarrow> db \<Rightarrow> bool \<times> db" where
  "verify_all env email [] s = (False, s)"
| "verify_all env email ((code, now) # rest) s =
     (case verifyEmail env email code now s of
        (Inr _, s1) \<Rightarrow> (True, s1) | (Inl _, s1) \<Rightarrow> verify_all env email rest s1)"

text \<open>The account of an address waits for the code with hash \<open>h\<close> until \<open>e\<close>, with \<open>n\<close> wrong attempts so far.\<close>

definition awaits_code :: "string \<Rightarrow> string \<Rightarrow> time \<Rightarrow> int \<Rightarrow> db \<Rightarrow> bool" where
  "awaits_code email h e n s \<longleftrightarrow> distinct (map u_id (db_users s)) \<and> h \<noteq> []
     \<and> (\<exists>u. findByEmail (normalizeEmail email) s = Some u \<and> u_emailVerifiedAt u = None
          \<and> u_emailOtpHash u = Some h \<and> u_emailOtpExpiresAt u = Some e \<and> u_emailOtpAttempts u = n)"

lemma find_first_update:
  assumes "find P us = Some u" "distinct (map u_id us)" "\<And>x. P (f x) = P x"
  shows "find P (update_where (\<lambda>x. u_id x = u_id u) f us) = Some (f u)"
  using assms(1,2)
proof (induction us)
  case (Cons x us)
  show ?case
  proof (cases "P x")
    case False
    with Cons.prems have "find P us = Some u" "u_id x \<noteq> u_id u"
      by (auto dest!: find_SomeD simp: image_iff)
    with Cons False show ?thesis by simp
  qed (use Cons.prems assms(3) in auto)
qed simp

lemma awaits_code_step:
  assumes "awaits_code email h e n s" "\<not> isDevelopmentEmailOtp env code"
    and "n < OTP_MAX_ATTEMPTS \<Longrightarrow> now < e \<Longrightarrow> au_hashOtp env code \<noteq> h"
  obtains (refused) x where "verifyEmail env email code now s = (Inl x, s)" "e \<le> now \<or> OTP_MAX_ATTEMPTS \<le> n"
  | (wrong) x s1 where "verifyEmail env email code now s = (Inl x, s1)" "awaits_code email h e (n + 1) s1"
proof (cases "e \<le> now \<or> OTP_MAX_ATTEMPTS \<le> n")
  case True
  with assms(1,2) have "\<exists>x. verifyEmail_read env email code now s = Inl x"
    by (auto simp: awaits_code_def verifyEmail_read_def js_or_None)
  with True show thesis by (auto simp: verifyEmail_def intro: refused)
next
  case False
  from assms(1) obtain u where u: "findByEmail (normalizeEmail email) s = Some u" "u_emailVerifiedAt u = None"
    "u_emailOtpHash u = Some h" "h \<noteq> []" "u_emailOtpExpiresAt u = Some e" "u_emailOtpAttempts u = n"
    "distinct (map u_id (db_users s))" by (auto simp: awaits_code_def)
  with False assms(2,3) have r: "verifyEmail_read env email code now s = Inr (u, False)"
    by (simp add: verifyEmail_read_def js_or_None)
  let ?inc = "\<lambda>u. u\<lparr>u_emailOtpAttempts := u_emailOtpAttempts u + 1, u_updatedAt := now\<rparr>"
  let ?s1 = "update_user (u_id u) (\<lambda>u. u\<lparr>u_emailOtpAttempts := u_emailOtpAttempts u + 1\<rparr>) now s"
  have "findByEmail (normalizeEmail email) ?s1 = Some (?inc u)"
    using find_first_update[OF u(1)[unfolded findByEmail_def] u(7), of ?inc] by (simp add: findByEmail_def)
  then have "awaits_code email h e (n + 1) ?s1" using u by (simp add: awaits_code_def map_update_where)
  then show thesis using r wrong by (simp add: verifyEmail_def verifyEmail_write_def)
qed

lemma verify_all_expired:
  assumes "awaits_code email h e n s" "list_all (\<lambda>c. \<not> isDevelopmentEmailOtp env (fst c) \<and> e \<le> snd c) codes"
  shows "\<not> fst (verify_all env email codes s)"
  using assms
proof (induction codes)
  case (Cons c codes)
  obtain code now where c: "c = (code, now)" by (cases c)
  have "\<exists>x. verifyEmail_read env email code now s = Inl x"
    using Cons.prems by (auto simp: c awaits_code_def verifyEmail_read_def js_or_None)
  then obtain x where "verifyEmail env email code now s = (Inl x, s)" by (auto simp: verifyEmail_def)
  with Cons c show ?case by simp
qed simp

lemma verify_all_locked:
  assumes "awaits_code email h e n s" "list_all (\<lambda>c. \<not> isDevelopmentEmailOtp env (fst c)) codes"
    and "list_all (\<lambda>c. au_hashOtp env (fst c) \<noteq> h) (take k codes)"
    and "OTP_MAX_ATTEMPTS \<le> n + int k" "sorted (map snd codes)"
  shows "\<not> fst (verify_all env email codes s)"
  using assms
proof (induction codes arbitrary: s n k)
  case (Cons c codes)
  obtain code now where c: "c = (code, now)" by (cases c)
  have d: "\<not> isDevelopmentEmailOtp env code" "list_all (\<lambda>c. \<not> isDevelopmentEmailOtp env (fst c)) codes"
    using Cons.prems(2) c by auto
  have w: "n < OTP_MAX_ATTEMPTS \<Longrightarrow> now < e \<Longrightarrow> au_hashOtp env code \<noteq> h"
    using Cons.prems(3,4) c by (cases k) auto
  have t: "sorted (map snd codes)" "list_all (\<lambda>c. now \<le> snd c) codes"
    using Cons.prems(5) c by (auto simp: list_all_iff)
  consider (refused) x where "verifyEmail env email code now s = (Inl x, s)" "e \<le> now \<or> OTP_MAX_ATTEMPTS \<le> n"
    | (wrong) x s1 where "verifyEmail env email code now s = (Inl x, s1)" "awaits_code email h e (n + 1) s1"
    using awaits_code_step[OF Cons.prems(1) d(1) w] by metis
  then show ?case
  proof cases
    case refused
    show ?thesis
    proof (cases "e \<le> now")
      case True
      with t(2) d(2) have "list_all (\<lambda>c. \<not> isDevelopmentEmailOtp env (fst c) \<and> e \<le> snd c) codes"
        by (auto simp: list_all_iff)
      with verify_all_expired[OF Cons.prems(1)] refused show ?thesis by (simp add: c)
    next
      case False
      with refused(2) have "\<not> fst (verify_all env email codes s)"
        using Cons.IH[OF Cons.prems(1) d(2), of 0] t(1) by simp
      with refused(1) show ?thesis by (simp add: c)
    qed
  next
    case wrong
    have "list_all (\<lambda>c. au_hashOtp env (fst c) \<noteq> h) (take (k - 1) codes)" using Cons.prems(3) by (cases k) auto
    moreover have "OTP_MAX_ATTEMPTS \<le> n + 1 + int (k - 1)" using Cons.prems(4) by (cases k) auto
    ultimately show ?thesis using Cons.IH[OF wrong(2) d(2) _ _ t(1)] wrong(1) by (simp add: c)
  qed
qed simp

lemma right_code_verifies:
  "findById (u_id u) (update_user (u_id u) (verified_user now) now t) \<noteq> None
   \<Longrightarrow> \<exists>d. fst (verifyEmail_write env u True now t) = Inr d"
  by (auto simp: verifyEmail_write_def Let_def)

lemma late_right_code:
  assumes "findByEmail x s = Some u"
  shows "\<exists>d. fst (verifyEmail_write env u True now (((\<lambda>t. snd (verifyEmail_write env u False now t)) ^^ n) s)) = Inr d"
proof -
  let ?s = "((\<lambda>t. snd (verifyEmail_write env u False now t)) ^^ n) s"
  have "u \<in> set (db_users s)" using assms by (auto simp: findByEmail_def dest: find_SomeD)
  have m: "map u_id (db_users ?s) = map u_id (db_users s)"
    by (induction n) (simp_all add: verifyEmail_write_def map_update_where)
  have "find (\<lambda>v. u_id v = u_id u) us \<noteq> None" if "u_id u \<in> set (map u_id us)" for us
    using that by (induction us) auto
  with \<open>u \<in> set (db_users s)\<close> have "findById (u_id u) ?s \<noteq> None"
    unfolding findById_def using m by (metis image_eqI image_set)
  then have "findById (u_id u) (update_user (u_id u) (verified_user now) now ?s) \<noteq> None"
    unfolding findById_def db_users_update_user by (subst find_update_key[of u_id]) (simp_all add: verified_user_def)
  then show ?thesis by (rule right_code_verifies)
qed

text \<open>C18: At most five guesses per code: when requests come one after the other, and none of the first
  five codes tried for an address is the one that was mailed, no later code verifies it, whatever
  it is. The bound rests on the order: five is compared when a request reads the account and
  counted when it writes, so requests that all read first are all evaluated; after any number of
  wrong ones the right one, read before, still verifies the address.\<close>

theorem otp_guess_bound:
  assumes "awaits_code email h e 0 s" "list_all (\<lambda>c. \<not> isDevelopmentEmailOtp env (fst c)) codes"
    and "list_all (\<lambda>c. au_hashOtp env (fst c) \<noteq> h) (take 5 codes)" "sorted (map snd codes)"
  shows "\<not> fst (verify_all env email codes s)
    \<and> (\<forall>code now n u. now < e \<longrightarrow> au_hashOtp env code = h \<longrightarrow> findByEmail (normalizeEmail email) s = Some u \<longrightarrow>
         verifyEmail_read env email code now s = Inr (u, True)
         \<and> (\<exists>d. fst (verifyEmail_write env u True now (((\<lambda>t. snd (verifyEmail_write env u False now t)) ^^ n) s)) = Inr d))"
proof (intro conjI allI impI)
  have "OTP_MAX_ATTEMPTS \<le> 0 + int 5" by (simp add: OTP_MAX_ATTEMPTS_def)
  then show "\<not> fst (verify_all env email codes s)" by (rule verify_all_locked[OF assms(1-3) _ assms(4)])
next
  fix code now n u
  assume a: "now < e" "au_hashOtp env code = h" "findByEmail (normalizeEmail email) s = Some u"
  with assms(1) have "u_emailVerifiedAt u = None" "u_emailOtpHash u = Some h" "h \<noteq> []" "u_emailOtpExpiresAt u = Some e"
    "u_emailOtpAttempts u = 0" by (simp_all add: awaits_code_def)
  with a show "verifyEmail_read env email code now s = Inr (u, True)"
    by (simp add: verifyEmail_read_def js_or_None OTP_MAX_ATTEMPTS_def)
  show "\<exists>d. fst (verifyEmail_write env u True now (((\<lambda>t. snd (verifyEmail_write env u False now t)) ^^ n) s)) = Inr d"
    using a(3) by (rule late_right_code)
qed

lemma findById_id: "findById k s = Some u \<Longrightarrow> u_id u = k"
  by (auto simp: findById_def dest: find_SomeD)

lemma findById_update:
  "(\<And>u. u_id (f u) = u_id u) \<Longrightarrow>
   findById k (update_user k f now s) = map_option (\<lambda>u. (f u)\<lparr>u_updatedAt := now\<rparr>) (findById k s)"
  by (simp add: findById_def find_update_key[of u_id])

lemma findById_cong: "db_users t = db_users s \<Longrightarrow> findById k t = findById k s"
  by (simp add: findById_def)

lemma validate_Inr:
  "validate p now s = Inr r \<longleftrightarrow>
   (\<exists>u. findById (tp_sub p) s = Some u \<and> tp_tokenVersion p = Some (u_tokenVersion u) \<and> u_isActive u
      \<and> u_deletedAt u = None \<and> \<not> isSuspensionActive u now
      \<and> r = \<lparr>ru_userId = tp_sub p, ru_email = tp_email p, ru_role = tp_role p\<rparr>)"
  by (auto simp: validate_def split: option.splits)

lemma suspended_user:
  assumes "suspendUser a k sd now s = (Inr d, t)" "findById k s = Some u"
  shows "findById k t = Some ((suspend a sd now u)\<lparr>u_updatedAt := now\<rparr>)"
proof -
  from assms have "db_users t = db_users (update_user k (suspend a sd now) now s)"
    by (auto simp: suspendUser_def Let_def split: if_splits)
  then have "findById k t = findById k (update_user k (suspend a sd now) now s)" by (rule findById_cong)
  then show ?thesis using assms(2) by (simp add: findById_update suspend_def)
qed

lemma disabled_member:
  assumes "updateTeamMember a k None (Some True) now s = (Inr d, t)" "findById k s = Some u"
  shows "findById k t = Some (u\<lparr>u_isActive := False, u_updatedAt := now\<rparr>)"
proof -
  from assms have "db_users t = db_users (update_user k (\<lambda>u. u\<lparr>u_adminRole := u_adminRole u, u_isActive := False\<rparr>) now s)"
    by (auto simp: updateTeamMember_def Let_def split: if_splits)
  then have "findById k t = findById k (update_user k (\<lambda>u. u\<lparr>u_adminRole := u_adminRole u, u_isActive := False\<rparr>) now s)"
    by (rule findById_cong)
  then show ?thesis using assms(2) by (simp add: findById_update)
qed

lemma isSuspensionActive_frame [simp]:
  "isSuspensionActive (u\<lparr>u_isActive := a\<rparr>) now = isSuspensionActive u now"
  "isSuspensionActive (u\<lparr>u_updatedAt := t\<rparr>) now = isSuspensionActive u now"
  "isSuspensionActive (u\<lparr>u_role := r\<rparr>) now = isSuspensionActive u now"
  "isSuspensionActive (u\<lparr>u_adminRole := m\<rparr>) now = isSuspensionActive u now"
  by (simp_all add: isSuspensionActive_def split: option.split)

lemma suspension_ends: "\<not> isSuspensionActive u now \<Longrightarrow> now \<le> later \<Longrightarrow> \<not> isSuspensionActive u later"
  by (auto simp: isSuspensionActive_def split: option.splits)

text \<open>Suspending a user or disabling an administrator ends their requests but not their sockets:
  with the token that worked before, every request is refused from then on, and yet the handshake
  of the sockets keeps accepting it, with the room of the administrators for a disabled
  administrator, who also keeps getting new sessions from the refresh.\<close>

theorem blocked_session_keeps_socket:
  assumes "validate p now s = Inr r" "au_verifyAccess env tok later = Some p" "tok \<noteq> []" "now \<le> later"
    and "sd_durationDays sd = None"
    and "(\<exists>d. suspendUser a (tp_sub p) sd now s = (Inr d, t)) \<noteq> (\<exists>d. updateTeamMember a (tp_sub p) None (Some True) now s = (Inr d, t))"
  shows "(\<exists>e. validate p later t = Inl (Forbidden e))
    \<and> socket_handshake env (Some tok) later t = Some (tp_sub p, tp_role p)
    \<and> (\<forall>d rt. updateTeamMember a (tp_sub p) None (Some True) now s = (Inr d, t)
         \<longrightarrow> au_verifyRefresh env rt later = Some (p, Some ''refresh'')
         \<longrightarrow> (\<exists>ses. refresh env rt later t = Inr ses \<and> \<not> uv_isActive (se_user ses)))"
proof -
  from assms(1) obtain u where u: "findById (tp_sub p) s = Some u" "tp_tokenVersion p = Some (u_tokenVersion u)"
    "u_isActive u" "u_deletedAt u = None" "\<not> isSuspensionActive u now" unfolding validate_Inr by (elim exE conjE)
  note later = suspension_ends[OF u(5) assms(4)]
  let ?v = "u\<lparr>u_isActive := False, u_updatedAt := now\<rparr>"
  have tok: "js_or (Some tok) None = Some tok" using assms(3) by (simp add: js_or_None)
  have team: "\<exists>ses. refresh env rt later t = Inr ses \<and> \<not> uv_isActive (se_user ses)"
    if "updateTeamMember a (tp_sub p) None (Some True) now s = (Inr d, t)" "au_verifyRefresh env rt later = Some (p, Some ''refresh'')" for d rt
    using disabled_member[OF that(1) u(1)] that(2) u(2,4) later
    by (simp add: refresh_def createPairToken_def transformUserToFrontend_def)
  from assms(6) consider d where "suspendUser a (tp_sub p) sd now s = (Inr d, t)"
    | d where "updateTeamMember a (tp_sub p) None (Some True) now s = (Inr d, t)" by blast
  then show ?thesis
  proof cases
    case 1
    from suspended_user[OF 1 u(1)] u(2-4) assms(2,5) tok have "(\<exists>e. validate p later t = Inl (Forbidden e))"
      "socket_handshake env (Some tok) later t = Some (tp_sub p, tp_role p)"
      by (simp_all add: validate_def socket_handshake_def suspend_def isSuspensionActive_def)
    with team show ?thesis by blast
  next
    case 2
    from disabled_member[OF 2 u(1)] u(2,4) assms(2) tok have "(\<exists>e. validate p later t = Inl (Forbidden e))"
      "socket_handshake env (Some tok) later t = Some (tp_sub p, tp_role p)"
      by (simp_all add: validate_def socket_handshake_def)
    with team show ?thesis by blast
  qed
qed

lemma all_capabilities: "c \<in> set SUPER_ADMIN_CAPS"
  by (cases c) (simp_all add: SUPER_ADMIN_CAPS_def)

lemma super_admin_passes: "findById (ru_userId r) s = Some u \<Longrightarrow> u_adminRole u = None \<Longrightarrow> capabilitiesGuard cs (Some r) s = Inr True"
  by (auto simp: capabilitiesGuard_def capabilitiesFor_def role_or_super_def all_capabilities list_ex_iff
      split: option.splits list.splits)

text \<open>C19: Any user can become a super administrator. A user whose session passes the guard sends a profile
  patch with the undeclared keys of the role; it is written; the next refresh of the same session
  signs an access token for the role ADMIN, which passes the guard of the routes, the guard of the
  administrators and the guard of every capability.\<close>

theorem profile_patch_escalates:
  assumes "validate p now s = Inr r" "au_verifyRefresh env rt now = Some (p, Some ''refresh'')"
  shows "\<exists>v t ses q r'. updateProfile (ru_userId r) [SetRole ADMIN, SetAdminRole None] now s = (Inr v, t)
    \<and> refresh env rt now t = Inr ses \<and> se_accessToken ses = au_signAccess env q now
    \<and> validate q now t = Inr r' \<and> ru_userId r' = ru_userId r
    \<and> rolesGuard (Some [ADMIN]) (Some r') \<and> (\<forall>cs. capabilitiesGuard cs (Some r') t = Inr True)"
proof -
  from assms(1) obtain u where u: "findById (tp_sub p) s = Some u" "tp_tokenVersion p = Some (u_tokenVersion u)"
    "u_isActive u" "u_deletedAt u = None" "\<not> isSuspensionActive u now" "ru_userId r = tp_sub p"
    unfolding validate_Inr by (elim exE conjE) simp
  let ?t = "update_user (tp_sub p) (fold set_column [SetRole ADMIN, SetAdminRole None]) now s"
  let ?u = "u\<lparr>u_role := ADMIN, u_adminRole := None, u_updatedAt := now\<rparr>"
  have id: "u_id u = tp_sub p" using u(1) by (rule findById_id)
  have f: "findById (tp_sub p) ?t = Some ?u" using u(1) by (simp add: findById_update)
  obtain v where "updateProfile (ru_userId r) [SetRole ADMIN, SetAdminRole None] now s = (Inr v, ?t)"
    using f u(6) by (simp add: updateProfile_def Let_def)
  moreover obtain ses where "refresh env rt now ?t = Inr ses" "se_accessToken ses = au_signAccess env (payload_of ?u) now"
    using f assms(2) u(2-5) by (simp add: refresh_def createPairToken_def)
  moreover have "validate (payload_of ?u) now ?t = Inr \<lparr>ru_userId = tp_sub p, ru_email = u_email u, ru_role = ADMIN\<rparr>"
    using f u(2-5) by (simp add: validate_def payload_of_def id)
  moreover have "capabilitiesGuard cs (Some \<lparr>ru_userId = tp_sub p, ru_email = u_email u, ru_role = ADMIN\<rparr>) ?t = Inr True" for cs
    using f by (intro super_admin_passes[of _ _ ?u]) simp_all
  ultimately show ?thesis using u(6)
    by (intro exI[of _ v] exI[of _ ?t] exI[of _ ses] exI[of _ "payload_of ?u"]
        exI[of _ "\<lparr>ru_userId = tp_sub p, ru_email = u_email u, ru_role = ADMIN\<rparr>"] conjI) (simp_all add: rolesGuard_def)
qed

text \<open>The only administrator can delete the own account, and the system is then locked: no session
  that passes the guard belongs to an administrator, and no caller that the route admits can
  create one, since the deleted account still counts against the bootstrap.\<close>

theorem last_admin_lockout:
  assumes "findById k s = Some u" "u_role u = ADMIN" "list_all (\<lambda>v. u_role v = ADMIN \<longrightarrow> u_id v = k) (db_users s)"
    and "deleteAccount k now s = (x, t)"
  shows "x = Inr ()
    \<and> (\<forall>p later r. validate p later t = Inr r \<longrightarrow> (\<exists>v. findById (ru_userId r) t = Some v \<and> u_role v \<noteq> ADMIN))
    \<and> (\<forall>creator dto later. creator = None \<or> (\<exists>p r. validate p later t = Inr r \<and> creator = Some (ru_userId r))
         \<longrightarrow> (\<exists>e. createAdmin env creator dto later t = (Inl e, t)))"
proof -
  from assms(1,4) have x: "x = Inr ()"
    and t: "db_users t = update_where (\<lambda>u. u_id u = k)
      (\<lambda>u. u\<lparr>u_deletedAt := Some now, u_tokenVersion := u_tokenVersion u + 1, u_updatedAt := now\<rparr>) (db_users s)"
    by (auto simp: deleteAccount_def transaction_def)
  have only: "v \<in> set (db_users t) \<Longrightarrow> u_role v = ADMIN \<Longrightarrow> u_id v = k \<and> u_deletedAt v \<noteq> None" for v
    using assms(3) unfolding t by (auto simp: set_update_where list_all_iff)
  have u: "u \<in> set (db_users s)" "u_id u = k" using assms(1) by (auto simp: findById_def dest: find_SomeD)
  have "\<exists>v \<in> set (db_users t). u_role v = ADMIN"
    unfolding t by (rule bexI[OF _ in_update_whereI[OF u(1) _ refl]]) (simp_all add: u assms(2))
  then have c: "count_where (\<lambda>u. u_role u = ADMIN) (db_users t) \<noteq> 0" unfolding count_where_zero_iff by blast
  have v: "\<exists>v. findById (ru_userId r) t = Some v \<and> u_role v \<noteq> ADMIN" if r: "validate p later t = Inr r" for p later r
  proof -
    from r obtain v where v: "findById (ru_userId r) t = Some v" "u_deletedAt v = None"
      unfolding validate_Inr by (elim exE conjE) simp
    then have "v \<in> set (db_users t)" by (auto simp: findById_def dest: find_SomeD)
    with only[of v] v show ?thesis by (intro exI[of _ v]) auto
  qed
  have "\<exists>e. createAdmin env creator dto later t = (Inl e, t)"
    if a: "creator = None \<or> (\<exists>p r. validate p later t = Inr r \<and> creator = Some (ru_userId r))" for creator dto later
  proof -
    from a c v have "\<exists>e. may_create_admin creator t = Inl e" by (fastforce simp: may_create_admin_def)
    then show ?thesis by (auto simp: createAdmin_def)
  qed
  with x v show ?thesis by blast
qed

section \<open>Witnesses\<close>

text \<open>Every token is the one of \<open>p\<close>; hashes are the identity.\<close>

definition env_for :: "token_payload \<Rightarrow> auth_env" where
  "env_for p =
     \<lparr>au_hash = (\<lambda>x. x), au_compare = (=), au_sha256 = (\<lambda>x. x), au_hashOtp = (\<lambda>x. x),
      au_signAccess = (\<lambda>p now. ''access''), au_signRefresh = (\<lambda>p now. ''refresh''), au_signTicket = (\<lambda>p now. ''ticket''),
      au_verifyAccess = (\<lambda>t now. Some p), au_verifyRefresh = (\<lambda>t now. Some (p, Some ''refresh'')),
      au_bypass = None, au_nodeEnv = None, au_otpTtlMinutes = 10, au_cooldownSeconds = 60\<rparr>"

definition mona :: user where "mona = new_user 7 ''Mona'' ''m'' ''01'' ''pw'' LANDLORD 0"
definition root_admin :: user where "root_admin = new_user 9 ''Root'' ''r'' ''02'' ''pw'' ADMIN 0"
definition deleted_mona :: user where "deleted_mona = mona\<lparr>u_deletedAt := Some 5, u_tokenVersion := 1\<rparr>"
definition waiting_mona :: user where
  "waiting_mona = mona\<lparr>u_emailOtpHash := Some ''123'', u_emailOtpExpiresAt := Some 600\<rparr>"

definition account_db :: "user \<Rightarrow> db" where
  "account_db u = empty_db\<lparr>db_seq := 20, db_users := [u, root_admin],
     db_activationRequests := [\<lparr>ar_id = 15, ar_userId = 7, ar_status = AR_PENDING, ar_createdAt = 6\<rparr>]\<rparr>"

lemma account_db_simps:
  "findById 7 (account_db u) = (if u_id u = 7 then Some u else None)"
  "findById 9 (account_db u) = (if u_id u = 9 then Some u else Some root_admin)"
  "db_users (account_db u) = [u, root_admin]"
  "db_activationRequests (account_db u) = [\<lparr>ar_id = 15, ar_userId = 7, ar_status = AR_PENDING, ar_createdAt = 6\<rparr>]"
  by (simp_all add: account_db_def findById_def root_admin_def new_user_def)

lemma mona_simps [simp]:
  "u_id mona = 7" "u_tokenVersion mona = 0" "u_isActive mona" "u_deletedAt mona = None" "\<not> isSuspensionActive mona now"
  "u_role mona = LANDLORD"
  by (simp_all add: mona_def new_user_def isSuspensionActive_def)

lemma validate_mona: "\<exists>r. validate (payload_of mona) now (account_db mona) = Inr r"
  by (simp add: validate_Inr account_db_simps payload_of_def)

lemma refresh_env_for: "au_verifyRefresh (env_for p) rt now = Some (p, Some ''refresh'')"
  by (simp add: env_for_def)

lemma access_env_for: "au_verifyAccess (env_for p) tok now = Some p"
  by (simp add: env_for_def)


theorem otp_guess_bound_witness:
  "\<not> fst (verify_all (env_for (payload_of mona)) ''m'' [(''1'', 1), (''2'', 2), (''3'', 3), (''4'', 4), (''5'', 5), (''123'', 6)]
            (account_db waiting_mona))"
proof -
  let ?e = "env_for (payload_of mona)" and ?c = "[(''1'', 1), (''2'', 2), (''3'', 3), (''4'', 4), (''5'', 5), (''123'', 6)] :: (string \<times> time) list"
  have n: "normalizeEmail ''m'' = ''m''" by (simp add: normalizeEmail_def js_lower_def js_lower_char_def js_trim_def js_space_def)
  have a: "awaits_code ''m'' ''123'' 600 0 (account_db waiting_mona)"
    by (simp add: awaits_code_def findByEmail_def n account_db_simps waiting_mona_def mona_def new_user_def root_admin_def)
  have "list_all (\<lambda>c. \<not> isDevelopmentEmailOtp ?e (fst c)) ?c" by (simp add: isDevelopmentEmailOtp_def env_for_def)
  moreover have "list_all (\<lambda>c. au_hashOtp ?e (fst c) \<noteq> ''123'') (take 5 ?c)" by (simp add: env_for_def)
  moreover have "sorted (map snd ?c)" by simp
  ultimately show ?thesis using otp_guess_bound[OF a, of ?e ?c] by blast
qed

theorem blocked_session_keeps_socket_witness:
  "\<exists>t e. validate (payload_of mona) 9 t = Inl (Forbidden e)
     \<and> socket_handshake (env_for (payload_of mona)) (Some ''tok'') 9 t = Some (7, LANDLORD)"
proof -
  let ?d = "\<lparr>sd_reason = ''SPAM'', sd_durationDays = None, sd_note = None\<rparr>"
  obtain r where r: "validate (payload_of mona) 8 (account_db mona) = Inr r" using validate_mona by blast
  obtain d t where t: "suspendUser 9 (tp_sub (payload_of mona)) ?d 8 (account_db mona) = (Inr d, t)"
    by (simp add: suspendUser_def account_db_simps payload_of_def Let_def)
  have "\<nexists>d. updateTeamMember 9 (tp_sub (payload_of mona)) None (Some True) 8 (account_db mona) = (Inr d, t)"
    by (simp add: updateTeamMember_def account_db_simps payload_of_def)
  with t have "(\<exists>d. suspendUser 9 (tp_sub (payload_of mona)) ?d 8 (account_db mona) = (Inr d, t))
    \<noteq> (\<exists>d. updateTeamMember 9 (tp_sub (payload_of mona)) None (Some True) 8 (account_db mona) = (Inr d, t))" by blast
  from blocked_session_keeps_socket[OF r access_env_for[of _ "''tok''"] _ _ _ this, of 9]
  show ?thesis by (auto simp: payload_of_def)
qed

theorem profile_patch_escalates_witness:
  "\<exists>v t q r. updateProfile 7 [SetRole ADMIN, SetAdminRole None] 9 (account_db mona) = (Inr v, t)
     \<and> validate q 9 t = Inr r \<and> rolesGuard (Some [ADMIN]) (Some r) \<and> capabilitiesGuard (Some [USER_DELETE]) (Some r) t = Inr True"
proof -
  obtain r where r: "validate (payload_of mona) 9 (account_db mona) = Inr r" using validate_mona by blast
  then have "ru_userId r = 7" by (auto simp: validate_Inr payload_of_def)
  with profile_patch_escalates[OF r refresh_env_for[of _ "''rt''"]] show ?thesis by fastforce
qed

theorem last_admin_lockout_witness:
  "\<exists>t. deleteAccount 9 5 (account_db mona) = (Inr (), t)
     \<and> (\<exists>e. createAdmin (env_for (payload_of mona)) None
          \<lparr>ca_fullName = ''A'', ca_email = ''a'', ca_password = ''p'', ca_phoneNumber = ''0'', ca_role = None\<rparr> 9 t = (Inl e, t))"
proof -
  obtain x t where t: "deleteAccount 9 5 (account_db mona) = (x, t)" by fastforce
  have f: "findById 9 (account_db mona) = Some root_admin" "u_role root_admin = ADMIN"
    by (simp_all add: account_db_simps root_admin_def new_user_def)
  have l: "list_all (\<lambda>v. u_role v = ADMIN \<longrightarrow> u_id v = 9) (db_users (account_db mona))"
    by (simp add: account_db_simps root_admin_def new_user_def)
  note L = last_admin_lockout[OF f l t]
  have x: "x = Inr ()" using L by (rule conjunct1)
  have "\<exists>e. createAdmin (env_for (payload_of mona)) None
      \<lparr>ca_fullName = ''A'', ca_email = ''a'', ca_password = ''p'', ca_phoneNumber = ''0'', ca_role = None\<rparr> 9 t = (Inl e, t)"
    by (rule L[THEN conjunct2, THEN conjunct2, rule_format]) simp
  with t x show ?thesis by (intro exI[of _ t] conjI) simp_all
qed

end
