(* ===== verification/Listings.thy ===== *)
theory Listings
  imports Quota Support
begin

text \<open>
  \<open>properties/mappers/property.mapper.ts\<close> and \<open>properties/properties.service.ts\<close>: the listings of
  a landlord, from creation to archive, and what others see of them. The semantic search over the
  vector database is not modelled; \<open>search\<close> takes its answer as an argument.
\<close>

section \<open>The mapper\<close>

record image_view =
  iw_id :: uuid
  iw_imageUrl :: string
  iw_displayOrder :: int
  iw_isCover :: bool

record property_summary =
  ps_id :: uuid
  ps_title :: string
  ps_governorate :: string
  ps_city :: string
  ps_district :: string
  ps_propertyType :: property_type
  ps_rentAmount :: real
  ps_areaM2 :: real
  ps_bedrooms :: int
  ps_bathrooms :: int
  ps_isFurnished :: bool
  ps_isBoosted :: bool
  ps_status :: property_status
  ps_coverImage :: "string option"
  ps_ownerVerified :: bool

record property_detail = property_summary +
  pd_description :: string
  pd_propertyAroundServices :: "string option"
  pd_hasElevator :: bool
  pd_hasParking :: bool
  pd_ownerId :: uuid
  pd_images :: "image_view list"
  pd_contactRevealed :: bool
  pd_manualAddress :: "string option"
  pd_ownerPhoneNumber :: "string option"
  pd_ownerName :: "string option"
  pd_rejectionReason :: "string option"
  pd_approvedAt :: "time option"
  pd_createdAt :: time

text \<open>A listing with the relations that the queries include; None is a relation that was not.\<close>

record listing =
  ls_property :: property
  ls_images :: "property_image list"
  ls_governorate :: "governorate option"
  ls_city :: "city option"
  ls_owner :: "user option"
  ls_ownerStatus :: "verification_status option"

definition extractCoverImage :: "property_image list \<Rightarrow> string option" where
  "extractCoverImage images =
     (case find pi_isCover images of
        Some i \<Rightarrow> Some (pi_imageUrl i)
      | None \<Rightarrow> (case images of [] \<Rightarrow> None | i # _ \<Rightarrow> Some (pi_imageUrl i)))"

definition transformImage :: "property_image \<Rightarrow> image_view" where
  "transformImage i = \<lparr>iw_id = pi_id i, iw_imageUrl = pi_imageUrl i, iw_displayOrder = pi_displayOrder i, iw_isCover = pi_isCover i\<rparr>"

definition isOwnerVerified :: "listing \<Rightarrow> bool" where
  "isOwnerVerified l \<longleftrightarrow> ls_owner l \<noteq> None \<and> ls_ownerStatus l = Some VS_APPROVED"

definition transformPropertyToSummary :: "string \<Rightarrow> listing \<Rightarrow> property_summary" where
  "transformPropertyToSummary lang l =
     (let p = ls_property l; isAr = (take 2 lang = ''ar'')
      in \<lparr>ps_id = p_id p, ps_title = p_title p,
          ps_governorate = (case ls_governorate l of None \<Rightarrow> '''' | Some g \<Rightarrow> if isAr then gv_nameAr g else gv_nameEn g),
          ps_city = (case ls_city l of None \<Rightarrow> '''' | Some c \<Rightarrow> if isAr then ct_nameAr c else ct_nameEn c),
          ps_district = p_district p, ps_propertyType = p_propertyType p, ps_rentAmount = p_rentAmount p,
          ps_areaM2 = p_areaM2 p, ps_bedrooms = p_bedrooms p, ps_bathrooms = p_bathrooms p, ps_isFurnished = p_isFurnished p,
          ps_isBoosted = p_isBoosted p, ps_status = p_status p, ps_coverImage = extractCoverImage (ls_images l),
          ps_ownerVerified = isOwnerVerified l\<rparr>)"

definition transformPropertyToDetail :: "string \<Rightarrow> listing \<Rightarrow> bool \<Rightarrow> property_detail" where
  "transformPropertyToDetail lang l contactRevealed =
     (let p = ls_property l; hide = (\<lambda>x. if contactRevealed then x else None)
      in property_summary.extend (transformPropertyToSummary lang l)
           (property_detail.fields (p_description p) (p_aroundServices p) (p_hasElevator p) (p_hasParking p) (p_ownerId p)
              (map transformImage (ls_images l)) contactRevealed (hide (Some (p_manualAddress p)))
              (hide (map_option u_phoneNumber (ls_owner l))) (hide (map_option u_fullName (ls_owner l)))
              (p_rejectionReason p) (p_approvedAt p) (p_createdAt p)))"

section \<open>Queries\<close>

definition images_of :: "uuid \<Rightarrow> db \<Rightarrow> property_image list" where
  "images_of pid s = sort_key pi_displayOrder (filter (\<lambda>i. pi_propertyId i = pid) (db_propertyImages s))"

definition user_of :: "uuid \<Rightarrow> db \<Rightarrow> user option" where
  "user_of uid s = find (\<lambda>u. u_id u = uid) (db_users s)"

definition identity_status :: "uuid \<Rightarrow> db \<Rightarrow> verification_status option" where
  "identity_status uid s = map_option iv_status (find (\<lambda>v. iv_userId v = uid) (db_identityVerifications s))"

text \<open>\<open>DETAIL_INCLUDE\<close>.\<close>

definition detail_of :: "db \<Rightarrow> property \<Rightarrow> listing" where
  "detail_of s p =
     \<lparr>ls_property = p, ls_images = images_of (p_id p) s,
      ls_governorate = find (\<lambda>g. gv_id g = p_governorateId p) (db_governorates s),
      ls_city = find (\<lambda>c. ct_id c = p_cityId p) (db_cities s),
      ls_owner = user_of (p_ownerId p) s, ls_ownerStatus = identity_status (p_ownerId p) s\<rparr>"

definition property_of :: "uuid \<Rightarrow> db \<Rightarrow> property option" where
  "property_of pid s = find (\<lambda>p. p_id p = pid) (db_properties s)"

definition owned_property :: "uuid \<Rightarrow> uuid \<Rightarrow> db \<Rightarrow> property option" where
  "owned_property ownerId pid s = find (\<lambda>p. p_id p = pid \<and> p_ownerId p = ownerId) (db_properties s)"

definition update_property :: "uuid \<Rightarrow> (property \<Rightarrow> property) \<Rightarrow> db \<Rightarrow> db" where
  "update_property pid f s = s\<lparr>db_properties := update_where (\<lambda>p. p_id p = pid) f (db_properties s)\<rparr>"

text \<open>The answer of a write: the detail of the stored row, with the contact, for its owner.\<close>

definition own_detail :: "string \<Rightarrow> uuid \<Rightarrow> db \<Rightarrow> property_detail result" where
  "own_detail lang pid s =
     (case property_of pid s of
        None \<Rightarrow> (Inl (Internal ''P2025''), s) | Some p \<Rightarrow> (Inr (transformPropertyToDetail lang (detail_of s p) True), s))"

section \<open>Creating\<close>

record property_dto =
  dt_title :: string
  dt_description :: string
  dt_governorate :: string
  dt_city :: string
  dt_district :: string
  dt_manualAddress :: string
  dt_propertyType :: property_type
  dt_aroundServices :: "string option"
  dt_rentAmount :: real
  dt_areaM2 :: real
  dt_bedrooms :: int
  dt_bathrooms :: int
  dt_isFurnished :: bool
  dt_hasElevator :: bool
  dt_hasParking :: bool

definition same_name :: "string \<Rightarrow> string \<Rightarrow> bool" where
  "same_name a b \<longleftrightarrow> js_lower a = js_lower b"

definition named_governorate :: "string \<Rightarrow> db \<Rightarrow> governorate option" where
  "named_governorate n s = find (\<lambda>g. same_name (gv_nameEn g) n \<or> same_name (gv_nameAr g) n) (db_governorates s)"

definition named_city :: "string \<Rightarrow> db \<Rightarrow> city option" where
  "named_city n s = find (\<lambda>c. same_name (ct_nameEn c) n \<or> same_name (ct_nameAr c) n) (db_cities s)"

text \<open>The columns that a dto and its region set.\<close>

definition write_dto :: "property_dto \<Rightarrow> governorate \<Rightarrow> city \<Rightarrow> property \<Rightarrow> property" where
  "write_dto dto g c p =
     p\<lparr>p_title := dt_title dto, p_description := dt_description dto, p_countryId := gv_countryId g, p_governorateId := gv_id g,
       p_cityId := ct_id c, p_district := dt_district dto, p_manualAddress := dt_manualAddress dto,
       p_propertyType := dt_propertyType dto, p_aroundServices := dt_aroundServices dto, p_rentAmount := dt_rentAmount dto,
       p_areaM2 := dt_areaM2 dto, p_bedrooms := dt_bedrooms dto, p_bathrooms := dt_bathrooms dto,
       p_isFurnished := dt_isFurnished dto, p_hasElevator := dt_hasElevator dto, p_hasParking := dt_hasParking dto\<rparr>"

text \<open>A row with the defaults of the schema, before its columns are set.\<close>

definition default_property :: "uuid \<Rightarrow> uuid \<Rightarrow> time \<Rightarrow> property" where
  "default_property pid ownerId now =
     \<lparr>p_id = pid, p_ownerId = ownerId, p_title = '''', p_description = '''', p_district = '''', p_manualAddress = '''',
      p_propertyType = APARTMENT, p_aroundServices = None, p_rentAmount = 0, p_bedrooms = 0, p_isFurnished = False,
      p_status = P_PENDING, p_rejectionReason = None, p_isBoosted = False, p_boostedUntil = None, p_embedding = [],
      p_approvedBy = None, p_approvedAt = None, p_createdAt = now, p_countryId = 0, p_governorateId = 0, p_cityId = 0,
      p_areaM2 = 0, p_bathrooms = 0, p_hasElevator = False, p_hasParking = False\<rparr>"

text \<open>\<open>propertyImage.createMany\<close>: the urls in order from a display order on; one of them may be the cover.\<close>

definition create_images :: "uuid \<Rightarrow> string list \<Rightarrow> int \<Rightarrow> bool \<Rightarrow> db \<Rightarrow> db" where
  "create_images pid urls start cover s =
     s\<lparr>db_seq := db_seq s + length urls,
       db_propertyImages := db_propertyImages s @
         map (\<lambda>k. \<lparr>pi_id = db_seq s + k, pi_propertyId = pid, pi_imageUrl = urls ! k, pi_displayOrder = start + int k,
                   pi_isCover = (cover \<and> k = 0)\<rparr>) [0..<length urls]\<rparr>"

definition create_tx :: "uuid \<Rightarrow> property_dto \<Rightarrow> string list \<Rightarrow> int \<Rightarrow> governorate \<Rightarrow> city \<Rightarrow> time \<Rightarrow> db \<Rightarrow> uuid result" where
  "create_tx ownerId dto images limit g c now =
     transaction (\<lambda>tx.
       if limit \<le> count_where (active_unit ownerId) (db_properties tx) then (Inl (Forbidden ''PLAN_LIMIT_REACHED''), tx)
       else
         let pid = db_seq tx;
             tx1 = tx\<lparr>db_seq := db_seq tx + 1,
                      db_properties := db_properties tx @ [write_dto dto g c (default_property pid ownerId now)]\<rparr>
         in (Inr pid, emit (SocketQueueItem ''property'' pid) (create_images pid images 0 True tx1)))"

definition create_property :: "string \<Rightarrow> uuid \<Rightarrow> property_dto \<Rightarrow> string list \<Rightarrow> time \<Rightarrow> db \<Rightarrow> property_detail result" where
  "create_property lang ownerId dto images now s =
     (let (cap, s1) = getListingCapacity ownerId now s
      in if cap_activeUnitLimit cap \<le> cap_activeUnitCount cap then (Inl (Forbidden ''PLAN_LIMIT_REACHED''), s1)
         else case (named_governorate (dt_governorate dto) s1, named_city (dt_city dto) s1) of
           (Some g, Some c) \<Rightarrow>
             if \<not> gv_status g \<or> \<not> ct_status c then (Inl (Forbidden ''Selected region is disabled.''), s1)
             else (case create_tx ownerId dto images (cap_activeUnitLimit cap) g c now s1 of
                     (Inl e, s2) \<Rightarrow> (Inl e, s2) | (Inr pid, s2) \<Rightarrow> own_detail lang pid s2)
         | _ \<Rightarrow> (Inl (Forbidden ''Selected region is not supported.''), s1))"

section \<open>Changing\<close>

definition delete_images :: "uuid list \<Rightarrow> db \<Rightarrow> db" where
  "delete_images ids s = s\<lparr>db_propertyImages := filter (\<lambda>i. pi_id i \<notin> set ids) (db_propertyImages s)\<rparr>"

definition place_image :: "uuid \<Rightarrow> nat \<Rightarrow> db \<Rightarrow> db" where
  "place_image iid k s =
     s\<lparr>db_propertyImages := update_where (\<lambda>i. pi_id i = iid)
         (\<lambda>i. i\<lparr>pi_displayOrder := int k, pi_isCover := (k = 0)\<rparr>) (db_propertyImages s)\<rparr>"

definition place_images :: "uuid list \<Rightarrow> db \<Rightarrow> db" where
  "place_images ids s = fold (\<lambda>(iid, k). place_image iid k) (zip ids [0..<length ids]) s"

text \<open>The checks of an edit on the images of the listing that it keeps, by id, and those it adds.\<close>

definition check_images :: "uuid list \<Rightarrow> property_image list \<Rightarrow> string list \<Rightarrow> http_error + unit" where
  "check_images existingIds stored uploaded =
     (if \<not> distinct existingIds then Inl (BadRequest ''INVALID_IMAGES'')
      else if list_ex (\<lambda>i. i \<notin> pi_id ` set stored) existingIds then Inl (BadRequest ''FOREIGN_IMAGE'')
      else if length existingIds + length uploaded < 1 then Inl (BadRequest ''NO_IMAGE'')
      else if 10 < length existingIds + length uploaded then Inl (BadRequest ''TOO_MANY_IMAGES'')
      else Inr ())"

definition check_region :: "property_dto \<Rightarrow> db \<Rightarrow> http_error + governorate \<times> city" where
  "check_region dto s =
     (case (named_governorate (dt_governorate dto) s, named_city (dt_city dto) s) of
        (Some g, Some c) \<Rightarrow>
          if ct_governorateId c \<noteq> gv_id g then Inl (Forbidden ''Selected region is not supported.'')
          else if \<not> gv_status g \<or> \<not> ct_status c then Inl (Forbidden ''Selected region is disabled.'')
          else Inr (g, c)
      | _ \<Rightarrow> Inl (Forbidden ''Selected region is not supported.''))"

text \<open>
  The transaction of an edit. A listing that is not active needs a free place: the capacity is
  read, and its grace period written, on a connection of its own before the writes.
\<close>

definition update_tx :: "uuid \<Rightarrow> property \<Rightarrow> property_dto \<Rightarrow> uuid list \<Rightarrow> uuid list \<Rightarrow> string list \<Rightarrow> governorate \<Rightarrow> city \<Rightarrow> time \<Rightarrow> db \<Rightarrow> unit result" where
  "update_tx ownerId existing dto retained removed uploaded g c now s =
     (let inactive = (p_status existing \<notin> {P_PENDING, P_APPROVED});
          (limit, s1) = (if inactive then (let (cap, s') = getListingCapacity ownerId now s in (cap_activeUnitLimit cap, s'))
                         else (0, s))
      in if inactive \<and> limit \<le> count_where (\<lambda>p. active_unit ownerId p \<and> p_id p \<noteq> p_id existing) (db_properties s1)
         then (Inl (Forbidden ''PLAN_LIMIT_REACHED''), s1)
         else
           let s2 = place_images retained (delete_images removed s1);
               s3 = create_images (p_id existing) uploaded (int (length retained)) (retained = []) s2
           in (Inr (), update_property (p_id existing)
                 (\<lambda>p. (write_dto dto g c p)\<lparr>p_status := P_PENDING, p_approvedBy := None\<rparr>) s3))"

definition announce :: "property \<Rightarrow> db \<Rightarrow> db" where
  "announce p = emit (SocketQueueItem (if p_approvedAt p \<noteq> None then ''propertyEdit'' else ''property'') (p_id p))"

definition update_listing ::
    "string \<Rightarrow> uuid \<Rightarrow> uuid \<Rightarrow> property_dto \<Rightarrow> uuid list \<Rightarrow> string list \<Rightarrow> time \<Rightarrow> db \<Rightarrow> (property_detail \<times> string list) result" where
  "update_listing lang ownerId pid dto existingImageIds uploaded now s =
     (case owned_property ownerId pid s of
        None \<Rightarrow> (Inl (NotFound ''PROPERTY_NOT_FOUND''), s)
      | Some existing \<Rightarrow>
          if p_status existing = P_ARCHIVED then (Inl (Forbidden ''ARCHIVED''), s)
          else (case check_images existingImageIds (images_of pid s) uploaded of
            Inl e \<Rightarrow> (Inl e, s)
          | Inr _ \<Rightarrow>
            (case check_region dto s of
               Inl e \<Rightarrow> (Inl e, s)
             | Inr (g, c) \<Rightarrow>
                 let removed = filter (\<lambda>i. pi_id i \<notin> set existingImageIds) (images_of pid s)
                 in (case update_tx ownerId existing dto existingImageIds (map pi_id removed) uploaded g c now s of
                       (Inl e, s1) \<Rightarrow> (Inl e, s1)
                     | (Inr _, s1) \<Rightarrow>
                         (case own_detail lang pid (announce existing s1) of
                            (Inl e, s2) \<Rightarrow> (Inl e, s2) | (Inr d, s2) \<Rightarrow> (Inr (d, map pi_imageUrl removed), s2))))))"

text \<open>The owner's other requests.\<close>

definition boost :: "uuid \<Rightarrow> uuid \<Rightarrow> time \<Rightarrow> db \<Rightarrow> boost_receipt result" where
  "boost ownerId pid now s =
     (case owned_property ownerId pid s of
        None \<Rightarrow> (Inl (NotFound ''PROPERTY_NOT_FOUND''), s) | Some _ \<Rightarrow> activatePlanBoost ownerId pid now s)"

definition archive :: "string \<Rightarrow> uuid \<Rightarrow> uuid \<Rightarrow> db \<Rightarrow> property_detail result" where
  "archive lang ownerId pid s =
     (case owned_property ownerId pid s of
        None \<Rightarrow> (Inl (NotFound ''PROPERTY_NOT_FOUND''), s)
      | Some _ \<Rightarrow> own_detail lang pid (update_property pid (\<lambda>p. p\<lparr>p_status := P_ARCHIVED\<rparr>) s))"

definition unarchive :: "string \<Rightarrow> uuid \<Rightarrow> uuid \<Rightarrow> db \<Rightarrow> property_detail result" where
  "unarchive lang ownerId pid s =
     (case owned_property ownerId pid s of
        None \<Rightarrow> (Inl (NotFound ''PROPERTY_NOT_FOUND''), s)
      | Some p \<Rightarrow> own_detail lang pid (announce p (update_property pid
          (\<lambda>p. p\<lparr>p_status := P_PENDING, p_isBoosted := False, p_boostedUntil := None, p_approvedBy := None\<rparr>) s)))"

definition remove_property :: "uuid \<Rightarrow> uuid \<Rightarrow> db \<Rightarrow> unit result" where
  "remove_property ownerId pid s =
     (case owned_property ownerId pid s of
        None \<Rightarrow> (Inl (NotFound ''PROPERTY_NOT_FOUND''), s)
      | Some p \<Rightarrow>
          if p_status p = P_ARCHIVED then (Inr (), s)
          else (Inr (), update_property pid
            (\<lambda>p. p\<lparr>p_status := P_ARCHIVED, p_isBoosted := False, p_boostedUntil := None, p_approvedBy := None\<rparr>) s))"

section \<open>Reading\<close>

text \<open>The optional session of the reader: the user and the role of the token.\<close>

definition has_accepted_offer :: "uuid \<Rightarrow> uuid \<Rightarrow> db \<Rightarrow> bool" where
  "has_accepted_offer tenantId pid s \<longleftrightarrow>
     list_ex (\<lambda>o'. oo_propertyId o' = Some pid \<and> oo_status o' = OO_ACCEPTED
       \<and> list_ex (\<lambda>r. tr_id r = oo_tenantRequestId o' \<and> tr_tenantId r = tenantId) (db_tenantRequests s)) (db_ownerOffers s)"

definition getPropertyById :: "string \<Rightarrow> uuid \<Rightarrow> (uuid \<times> user_role) option \<Rightarrow> db \<Rightarrow> http_error + property_detail" where
  "getPropertyById lang pid viewer s =
     (case property_of pid s of
        None \<Rightarrow> Inl (NotFound ''PROPERTY_NOT_FOUND'')
      | Some p \<Rightarrow>
          let isAdmin = (case viewer of None \<Rightarrow> False | Some (_, r) \<Rightarrow> r = ADMIN);
              isOwner = (case viewer of None \<Rightarrow> False | Some (u, _) \<Rightarrow> u = p_ownerId p);
              accepted = (case viewer of None \<Rightarrow> False | Some (u, _) \<Rightarrow> has_accepted_offer u pid s)
          in if p_status p = P_ARCHIVED \<and> \<not> isOwner \<and> \<not> isAdmin \<or> p_status p \<noteq> P_APPROVED \<and> \<not> isOwner \<and> \<not> isAdmin
             then Inl (NotFound ''PROPERTY_NOT_VISIBLE'')
             else Inr (transformPropertyToDetail lang (detail_of s p) (isOwner \<or> accepted)))"

record property_query =
  pq_q :: "string option"
  pq_city :: "string option"
  pq_propertyType :: "property_type option"
  pq_minRent :: "real option"
  pq_maxRent :: "real option"
  pq_bedrooms :: "int option"
  pq_isFurnished :: "bool option"

text \<open>A filter of the query that is left out, or is the empty string, matches every row.\<close>

definition given :: "'a option \<Rightarrow> ('a \<Rightarrow> bool) \<Rightarrow> bool" where
  "given v P \<longleftrightarrow> (case v of None \<Rightarrow> True | Some x \<Rightarrow> P x)"

definition text_matches :: "string \<Rightarrow> property \<Rightarrow> bool" where
  "text_matches q p \<longleftrightarrow> includes_nocase (p_title p) q \<or> includes_nocase (p_description p) q \<or> includes_nocase (p_district p) q
     \<or> (case p_aroundServices p of None \<Rightarrow> False | Some x \<Rightarrow> includes_nocase x q)"

definition in_city :: "string \<Rightarrow> db \<Rightarrow> property \<Rightarrow> bool" where
  "in_city n s p \<longleftrightarrow> (case find (\<lambda>c. ct_id c = p_cityId p) (db_cities s) of None \<Rightarrow> False | Some c \<Rightarrow> same_name (ct_nameEn c) n)"

definition facts_match :: "property_query \<Rightarrow> db \<Rightarrow> property \<Rightarrow> bool" where
  "facts_match query s p \<longleftrightarrow>
     p_status p = P_APPROVED \<and> given (js_or (pq_city query) None) (\<lambda>n. in_city n s p)
     \<and> given (pq_propertyType query) (\<lambda>t. p_propertyType p = t) \<and> given (pq_bedrooms query) (\<lambda>n. n \<le> p_bedrooms p)
     \<and> given (pq_minRent query) (\<lambda>x. x \<le> p_rentAmount p) \<and> given (pq_maxRent query) (\<lambda>x. p_rentAmount p \<le> x)"

text \<open>Boosted listings first, then the newest.\<close>

definition browse_order :: "property list \<Rightarrow> property list" where
  "browse_order ps = sort_key (\<lambda>p. (if p_isBoosted p then 0 :: int else 1, - p_createdAt p)) ps"

definition getAll :: "string \<Rightarrow> property_query \<Rightarrow> db \<Rightarrow> property_summary list \<times> int" where
  "getAll lang query s =
     (let ps = browse_order (filter (\<lambda>p. facts_match query s p \<and> given (pq_isFurnished query) (\<lambda>b. p_isFurnished p = b)
                 \<and> given (js_or (pq_q query) None) (\<lambda>q. text_matches q p)) (db_properties s))
      in (map (\<lambda>p. transformPropertyToSummary lang (detail_of s p)) ps, int (length ps)))"

text \<open>
  \<open>search\<close>: the ids that the embedding service and the vector database answer for the text are an
  argument; None is a failure of either. Only here is the id the last key of the order.
\<close>

definition search :: "string \<Rightarrow> property_query \<Rightarrow> (string \<Rightarrow> uuid list option) \<Rightarrow> db \<Rightarrow> property_summary page" where
  "search lang query vector s =
     (let wanted = (case js_or (map_option js_trim (pq_q query)) None of
            None \<Rightarrow> (\<lambda>p. True)
          | Some q \<Rightarrow> (case vector q of Some ids \<Rightarrow> (\<lambda>p. p_id p \<in> set ids) | None \<Rightarrow> text_matches q));
          ps = browse_order (sort_key (\<lambda>p. - int (p_id p)) (filter (\<lambda>p. facts_match query s p
                 \<and> (pq_isFurnished query = Some True \<longrightarrow> p_isFurnished p) \<and> wanted p) (db_properties s)))
      in \<lparr>pg_items = map (\<lambda>p. transformPropertyToSummary lang (detail_of s p)) ps, pg_total = int (length ps),
          pg_page = 1, pg_pageSize = int (length ps)\<rparr>)"

definition getMyProperties :: "string \<Rightarrow> uuid \<Rightarrow> db \<Rightarrow> property_summary list \<times> int" where
  "getMyProperties lang ownerId s =
     (let ps = filter (\<lambda>p. p_ownerId p = ownerId) (db_properties s)
      in (map (\<lambda>p. transformPropertyToSummary lang (detail_of s p)) ps, int (length ps)))"

definition getPendingProperties :: "string \<Rightarrow> db \<Rightarrow> property_detail list" where
  "getPendingProperties lang s =
     map (\<lambda>p. transformPropertyToDetail lang (detail_of s p) True) (filter (\<lambda>p. p_status p = P_PENDING) (db_properties s))"

record request_summary =
  rs_id :: uuid
  rs_minBudget :: real
  rs_maxBudget :: real
  rs_preferredLocations :: string
  rs_propertyType :: property_type
  rs_requiredBedrooms :: int
  rs_needsFurnished :: bool
  rs_flexibilityScore :: int
  rs_lifestyleRequirements :: string
  rs_offersCount :: int
  rs_createdAt :: time

definition getAllTenantRequests :: "db \<Rightarrow> request_summary list" where
  "getAllTenantRequests s =
     map (\<lambda>r. \<lparr>rs_id = tr_id r, rs_minBudget = tr_minBudget r, rs_maxBudget = tr_maxBudget r,
               rs_preferredLocations = tr_preferredLocations r, rs_propertyType = tr_propertyType r,
               rs_requiredBedrooms = tr_requiredBedrooms r, rs_needsFurnished = tr_needsFurnished r,
               rs_flexibilityScore = tr_flexibilityScore r, rs_lifestyleRequirements = tr_lifestyleRequirements r,
               rs_offersCount = count_where (\<lambda>x. oo_tenantRequestId x = tr_id r) (db_ownerOffers s), rs_createdAt = tr_createdAt r\<rparr>)
       (sort_key (\<lambda>r. - tr_createdAt r) (filter (\<lambda>r. tr_status r = TR_APPROVED) (db_tenantRequests s)))"

section \<open>Lemmas\<close>

lemma ensure_listing_frame [simp]:
  "db_propertyImages (snd (ensureCurrentPeriod u now s)) = db_propertyImages s"
  "db_governorates (snd (ensureCurrentPeriod u now s)) = db_governorates s"
  "db_cities (snd (ensureCurrentPeriod u now s)) = db_cities s"
  "db_seq s \<le> db_seq (snd (ensureCurrentPeriod u now s))"
  by (simp_all add: ensureCurrentPeriod_def update_quota_def Let_def split: option.splits)

lemma capacity_listing_frame [simp]:
  "db_propertyImages (snd (getListingCapacity u now s)) = db_propertyImages s"
  "db_governorates (snd (getListingCapacity u now s)) = db_governorates s"
  "db_cities (snd (getListingCapacity u now s)) = db_cities s"
  "db_seq s \<le> db_seq (snd (getListingCapacity u now s))"
  using ensure_listing_frame(4)[of s u now]
  by (simp_all add: getListingCapacity_def update_quota_def Let_def split_beta)

lemma own_detail_snd [simp]: "snd (own_detail lang pid s) = s"
  by (simp add: own_detail_def split: option.split)

lemma own_detail_Inr:
  "own_detail lang pid s = (Inr d, t) \<longleftrightarrow>
   t = s \<and> (\<exists>p. property_of pid s = Some p \<and> d = transformPropertyToDetail lang (detail_of s p) True)"
  by (auto simp: own_detail_def split: option.splits)

lemma detail_simps [simp]:
  "pd_contactRevealed (transformPropertyToDetail lang l b) = b"
  "pd_manualAddress (transformPropertyToDetail lang l b) = (if b then Some (p_manualAddress (ls_property l)) else None)"
  "pd_ownerPhoneNumber (transformPropertyToDetail lang l b) = (if b then map_option u_phoneNumber (ls_owner l) else None)"
  "pd_ownerName (transformPropertyToDetail lang l b) = (if b then map_option u_fullName (ls_owner l) else None)"
  "ps_status (transformPropertyToDetail lang l b) = p_status (ls_property l)"
  "ps_id (transformPropertyToDetail lang l b) = p_id (ls_property l)"
  by (simp_all add: transformPropertyToDetail_def transformPropertyToSummary_def property_summary.defs property_detail.defs Let_def)

lemma summary_status [simp]: "ps_status (transformPropertyToSummary lang l) = p_status (ls_property l)"
  by (simp add: transformPropertyToSummary_def Let_def)

lemma detail_of_property [simp]: "ls_property (detail_of s p) = p" "ls_owner (detail_of s p) = user_of (p_ownerId p) s"
  by (simp_all add: detail_of_def)

lemma property_of_update:
  "(\<And>p. p_id (f p) = p_id p) \<Longrightarrow> property_of pid (update_property pid f s) = map_option f (property_of pid s)"
  by (simp add: property_of_def update_property_def find_update_key[of p_id])

lemma property_of_emit [simp]: "property_of pid (emit e s) = property_of pid s"
  by (simp add: property_of_def)

lemma announce_frame [simp]:
  "db_properties (announce p s) = db_properties s" "db_propertyImages (announce p s) = db_propertyImages s"
  "property_of pid (announce q s) = property_of pid s"
  by (simp_all add: announce_def)

lemma update_property_frame [simp]:
  "db_properties (update_property pid f s) = update_where (\<lambda>p. p_id p = pid) f (db_properties s)"
  "db_propertyImages (update_property pid f s) = db_propertyImages s" "db_seq (update_property pid f s) = db_seq s"
  by (simp_all add: update_property_def)

lemma owned_property_of:
  assumes "distinct (map p_id (db_properties s))" "owned_property uid pid s = Some p"
  shows "property_of pid s = Some p" "p_ownerId p = uid" "p_id p = pid" "p \<in> set (db_properties s)"
proof -
  from assms(2) show p: "p_ownerId p = uid" "p_id p = pid" "p \<in> set (db_properties s)"
    by (auto simp: owned_property_def dest: find_SomeD)
  with find_unique[OF assms(1), of p] show "property_of pid s = Some p" by (simp add: property_of_def)
qed

lemma place_images_frame [simp]:
  "db_properties (place_images ids s) = db_properties s" "db_seq (place_images ids s) = db_seq s"
proof -
  have "db_properties (fold (\<lambda>(iid, k). place_image iid k) xs s) = db_properties s
      \<and> db_seq (fold (\<lambda>(iid, k). place_image iid k) xs s) = db_seq s" for xs s
    by (induction xs arbitrary: s) (auto simp: place_image_def)
  then show "db_properties (place_images ids s) = db_properties s" "db_seq (place_images ids s) = db_seq s"
    by (simp_all add: place_images_def)
qed

lemma create_images_frame [simp]:
  "db_properties (create_images pid urls st c s) = db_properties s"
  by (simp add: create_images_def)

lemma delete_images_frame [simp]:
  "db_properties (delete_images ids s) = db_properties s" "db_seq (delete_images ids s) = db_seq s"
  by (simp_all add: delete_images_def)

lemma update_tx_properties:
  assumes "update_tx ownerId p dto retained removed uploaded g c now s = (Inr u, t)"
  shows "db_properties t = update_where (\<lambda>q. p_id q = p_id p)
    (\<lambda>p. (write_dto dto g c p)\<lparr>p_status := P_PENDING, p_approvedBy := None\<rparr>) (db_properties s)"
  using assms by (auto simp: update_tx_def Let_def split_beta split: if_splits)

lemma write_dto_keys [simp]:
  "p_id (write_dto dto g c p) = p_id p" "p_ownerId (write_dto dto g c p) = p_ownerId p"
  "p_status (write_dto dto g c p) = p_status p" "p_approvedAt (write_dto dto g c p) = p_approvedAt p"
  by (simp_all add: write_dto_def)

lemma update_listing_Inr:
  assumes "update_listing lang ownerId pid dto kept uploaded now s = (Inr (d, urls), t)"
  obtains p g c t1 where "owned_property ownerId pid s = Some p" "p_status p \<noteq> P_ARCHIVED"
    "check_images kept (images_of pid s) uploaded = Inr ()" "check_region dto s = Inr (g, c)"
    "update_tx ownerId p dto kept (map pi_id (filter (\<lambda>i. pi_id i \<notin> set kept) (images_of pid s))) uploaded g c now s = (Inr (), t1)"
    "t = announce p t1" "urls = map pi_imageUrl (filter (\<lambda>i. pi_id i \<notin> set kept) (images_of pid s))"
    "own_detail lang pid t = (Inr d, t)"
  using assms unfolding update_listing_def Let_def
  by (auto split: option.splits if_splits sum.splits prod.splits simp: own_detail_Inr)

section \<open>Properties\<close>


lemma count_where_update_key:
  assumes "distinct (map k t)" "q \<in> set t" "\<And>r. u r \<longleftrightarrow> k r = k q"
  shows "count_where P (update_where u f t) = count_where P t - (if P q then 1 else 0) + (if P (f q) then 1 else 0)"
  using assms(1,2)
proof (induction t)
  case (Cons r t)
  show ?case
  proof (cases "r = q")
    case True
    with Cons.prems(1) have "k q \<notin> k ` set t" by simp
    then have "update_where u f t = t" by (rule update_where_absent) (simp add: assms(3))
    moreover have "u q" using assms(3) by simp
    ultimately show ?thesis using True by simp
  next
    case False
    with Cons.prems have q: "q \<in> set t" and d: "distinct (map k t)" by simp_all
    from Cons.prems(1) q have "k r \<noteq> k q" by (auto simp: image_iff)
    then have "\<not> u r" using assms(3) by blast
    with Cons.IH[OF d q] show ?thesis by simp
  qed
qed simp

lemma create_tx_count:
  assumes "create_tx ownerId dto images limit g c now s = (Inr pid, t)"
  shows "count_where (active_unit ownerId) (db_properties t) = count_where (active_unit ownerId) (db_properties s) + 1"
    "count_where (active_unit ownerId) (db_properties s) < limit"
  using assms
  by (auto simp: create_tx_def transaction_def active_unit_def write_dto_def default_property_def Let_def split: if_splits)

lemma create_property_count:
  assumes "create_property lang ownerId dto images now s = (Inr d, t)"
  shows "count_where (active_unit ownerId) (db_properties t) = count_where (active_unit ownerId) (db_properties s) + 1"
    "count_where (active_unit ownerId) (db_properties t) \<le> cap_activeUnitLimit (fst (getListingCapacity ownerId now s))"
proof -
  obtain cap s1 where c: "getListingCapacity ownerId now s = (cap, s1)" by fastforce
  with getListingCapacity_frame(1)[of ownerId now s] have p: "db_properties s1 = db_properties s" by simp
  from assms c obtain g ct pid s2 where "create_tx ownerId dto images (cap_activeUnitLimit cap) g ct now s1 = (Inr pid, s2)" "t = s2"
    by (auto simp: create_property_def own_detail_Inr split: if_splits option.splits prod.splits sum.splits)
  from create_tx_count[OF this(1)] this(2) c p
  show "count_where (active_unit ownerId) (db_properties t) = count_where (active_unit ownerId) (db_properties s) + 1"
    "count_where (active_unit ownerId) (db_properties t) \<le> cap_activeUnitLimit (fst (getListingCapacity ownerId now s))"
    by simp_all
qed

lemma update_listing_count:
  assumes "update_listing lang ownerId pid dto kept uploaded now s = (Inr r, t)" "distinct (map p_id (db_properties s))"
    and "property_of pid s = Some p" "p_status p \<notin> {P_PENDING, P_APPROVED}"
  shows "count_where (active_unit ownerId) (db_properties t) \<le> cap_activeUnitLimit (fst (getListingCapacity ownerId now s))"
proof -
  obtain d urls where r: "r = (d, urls)" by fastforce
  from assms(1)[unfolded r] obtain q g c t1 where w: "owned_property ownerId pid s = Some q" "t = announce q t1"
    "update_tx ownerId q dto kept (map pi_id (filter (\<lambda>i. pi_id i \<notin> set kept) (images_of pid s))) uploaded g c now s = (Inr (), t1)"
    by (rule update_listing_Inr)
  note o = owned_property_of[OF assms(2) w(1)]
  with assms(3) have q: "q = p" by simp
  let ?f = "\<lambda>p. (write_dto dto g c p)\<lparr>p_status := P_PENDING, p_approvedBy := None\<rparr>"
  obtain cap s' where cap: "getListingCapacity ownerId now s = (cap, s')" by fastforce
  with getListingCapacity_frame(1)[of ownerId now s] have ps: "db_properties s' = db_properties s" by simp
  have na: "\<not> active_unit ownerId q" "active_unit ownerId (?f q)" using assms(4) q o(2) by (simp_all add: active_unit_def)
  have "count_where (active_unit ownerId) (db_properties t) = count_where (active_unit ownerId) (db_properties s) + 1"
    unfolding w(2) announce_frame update_tx_properties[OF w(3)]
    using count_where_update_key[OF assms(2) o(4), of "\<lambda>r. p_id r = p_id q" "active_unit ownerId" ?f] na by simp
  moreover have "count_where (\<lambda>r. active_unit ownerId r \<and> p_id r \<noteq> p_id q) (db_properties s) < cap_activeUnitLimit cap"
    using w(3) assms(4) q cap ps by (auto simp: update_tx_def Let_def split: if_splits)
  moreover have "filter (\<lambda>r. active_unit ownerId r \<and> p_id r \<noteq> p_id q) (db_properties s) = filter (active_unit ownerId) (db_properties s)"
    using distinct_keyD[OF assms(2) _ o(4)] na(1) by (intro filter_cong) auto
  ultimately show ?thesis by (simp add: cap count_where_def)
qed

lemma unarchive_count:
  assumes "distinct (map p_id (db_properties s))" "owned_property ownerId pid s = Some p" "p_status p = P_ARCHIVED"
  shows "\<exists>d t. unarchive lang ownerId pid s = (Inr d, t)
    \<and> count_where (active_unit ownerId) (db_properties t) = count_where (active_unit ownerId) (db_properties s) + 1"
proof -
  note o = owned_property_of[OF assms(1,2)]
  let ?f = "\<lambda>p. p\<lparr>p_status := P_PENDING, p_isBoosted := False, p_boostedUntil := None, p_approvedBy := None\<rparr>"
  let ?t = "announce p (update_property pid ?f s)"
  have "property_of pid ?t = Some (?f p)" using o(1) by (simp add: property_of_update)
  then have "\<exists>d. unarchive lang ownerId pid s = (Inr d, ?t)" by (simp add: unarchive_def assms(2) own_detail_def)
  moreover have "count_where (active_unit ownerId) (db_properties ?t) = count_where (active_unit ownerId) (db_properties s) + 1"
    using count_where_update_key[OF assms(1) o(4), of "\<lambda>r. p_id r = pid" "active_unit ownerId" ?f] o(2,3) assms(3)
    by (simp add: active_unit_def)
  ultimately show ?thesis by blast
qed

text \<open>The plan limits the active listings of an owner when one is created and when a rejected one is
  submitted again: neither ever leaves more than the plan and the add-ons allow. Taking one out of
  the archive has no such check: an owner at the limit, who can create nothing, restores an
  archived listing and has more active listings than the limit.\<close>

theorem unarchive_exceeds_plan:
  assumes "distinct (map p_id (db_properties s))" "getListingCapacity ownerId now s = (cap, s1)"
    and "owned_property ownerId pid s = Some p" "p_status p = P_ARCHIVED" "cap_activeUnitLimit cap \<le> cap_activeUnitCount cap"
  shows "(\<forall>v d t. create_property lang ownerId dto images now v = (Inr d, t)
           \<longrightarrow> count_where (active_unit ownerId) (db_properties t) \<le> cap_activeUnitLimit (fst (getListingCapacity ownerId now v)))
    \<and> (\<forall>v r t q. distinct (map p_id (db_properties v)) \<longrightarrow> property_of pid v = Some q \<longrightarrow> p_status q = P_REJECTED
           \<longrightarrow> update_listing lang ownerId pid dto kept images now v = (Inr r, t)
           \<longrightarrow> count_where (active_unit ownerId) (db_properties t) \<le> cap_activeUnitLimit (fst (getListingCapacity ownerId now v)))
    \<and> create_property lang ownerId dto images now s = (Inl (Forbidden ''PLAN_LIMIT_REACHED''), s1)
    \<and> (\<exists>d t. unarchive lang ownerId pid s = (Inr d, t)
         \<and> cap_activeUnitLimit cap < count_where (active_unit ownerId) (db_properties t))"
proof (intro conjI allI impI)
  fix v d t assume "create_property lang ownerId dto images now v = (Inr d, t)"
  then show "count_where (active_unit ownerId) (db_properties t) \<le> cap_activeUnitLimit (fst (getListingCapacity ownerId now v))"
    by (rule create_property_count(2))
next
  fix v r t q
  assume a: "distinct (map p_id (db_properties v))" "property_of pid v = Some q" "p_status q = P_REJECTED"
    "update_listing lang ownerId pid dto kept images now v = (Inr r, t)"
  show "count_where (active_unit ownerId) (db_properties t) \<le> cap_activeUnitLimit (fst (getListingCapacity ownerId now v))"
    using update_listing_count[OF a(4,1,2)] a(3) by simp
next
  show "create_property lang ownerId dto images now s = (Inl (Forbidden ''PLAN_LIMIT_REACHED''), s1)"
    using assms(2,5) by (simp add: create_property_def)
next
  have "cap_activeUnitCount cap = count_where (active_unit ownerId) (db_properties s)"
    using getListingCapacity_count[of ownerId now s] assms(2) by simp
  with unarchive_count[OF assms(1,3,4), of lang] assms(5)
  show "\<exists>d t. unarchive lang ownerId pid s = (Inr d, t)
         \<and> cap_activeUnitLimit cap < count_where (active_unit ownerId) (db_properties t)" by force
qed

text \<open>The image that \<open>place_images\<close> makes of one: at its index in the list of ids, if it is there.\<close>

definition placed :: "(uuid \<times> nat) list \<Rightarrow> property_image \<Rightarrow> property_image" where
  "placed xs i = (case map_of xs (pi_id i) of None \<Rightarrow> i | Some k \<Rightarrow> i\<lparr>pi_displayOrder := int k, pi_isCover := (k = 0)\<rparr>)"

lemma placed_keys [simp]:
  "pi_id (placed xs i) = pi_id i" "pi_propertyId (placed xs i) = pi_propertyId i" "pi_imageUrl (placed xs i) = pi_imageUrl i"
  by (simp_all add: placed_def split: option.split)

lemma placed_none: "pi_id i \<notin> fst ` set xs \<Longrightarrow> placed xs i = i"
  by (simp add: placed_def map_of_eq_None_iff[THEN iffD2])

lemma fold_place_image:
  "distinct (map fst xs) \<Longrightarrow>
   db_propertyImages (fold (\<lambda>(iid, k). place_image iid k) xs s) = map (placed xs) (db_propertyImages s)"
proof (induction xs arbitrary: s)
  case Nil
  show ?case by (simp add: placed_def map_idI)
next
  case (Cons x xs)
  obtain iid k where x: "x = (iid, k)" by fastforce
  have n: "iid \<notin> fst ` set xs" using Cons.prems x by simp
  have e: "placed xs (if pi_id i = iid then i\<lparr>pi_displayOrder := int k, pi_isCover := (k = 0)\<rparr> else i) = placed ((iid, k) # xs) i" for i
    using placed_none[of "i\<lparr>pi_displayOrder := int k, pi_isCover := (k = 0)\<rparr>" xs] n by (auto simp: placed_def)
  from Cons show ?case by (simp add: x place_image_def update_where_def comp_def e)
qed

lemma place_images_eq:
  "distinct ids \<Longrightarrow> db_propertyImages (place_images ids s) = map (placed (zip ids [0..<length ids])) (db_propertyImages s)"
  by (simp add: place_images_def fold_place_image)

lemma new_image_simps:
  "map pi_imageUrl (map (\<lambda>k. \<lparr>pi_id = n + k, pi_propertyId = pid, pi_imageUrl = urls ! k, pi_displayOrder = st + int k,
      pi_isCover = (c \<and> k = 0)\<rparr>) [0..<length urls]) = urls"
  by (simp add: comp_def map_nth)

text \<open>Sorting the kept images with their new places, and the new ones after them.\<close>

lemma sort_placed:
  assumes "distinct (map pi_id imgs)" "distinct kept" "set kept \<subseteq> pi_id ` set imgs"
    and news: "map pi_displayOrder news = map (\<lambda>k. int (length kept) + int k) [0..<length news]"
  shows "sort_key pi_displayOrder (map (placed (zip kept [0..<length kept])) (filter (\<lambda>i. pi_id i \<in> set kept) imgs) @ news)
    = map (\<lambda>k. (the (find (\<lambda>i. pi_id i = kept ! k) imgs))\<lparr>pi_displayOrder := int k, pi_isCover := (k = 0)\<rparr>) [0..<length kept] @ news"
    (is "sort_key _ (map ?g ?A @ news) = ?E @ news")
proof (rule sort_key_inj_key_eq)
  let ?img = "\<lambda>iid. the (find (\<lambda>i. pi_id i = iid) imgs)"
  have img: "?img (pi_id i) = i" if "i \<in> set imgs" for i using find_unique[OF assms(1) that] by simp
  have id: "pi_id (?img iid) = iid" "?img iid \<in> set imgs" if "iid \<in> set kept" for iid
    using that assms(3) img by force+
  have "mset ?A = mset (map ?img kept)"
  proof (rule set_eq_iff_mset_eq_distinct[THEN iffD1])
    show "distinct ?A" using assms(1) by (simp add: distinct_map)
    show "distinct (map ?img kept)" using assms(2) id(1) by (auto simp: distinct_map inj_on_def) (metis id(1))
    show "set ?A = set (map ?img kept)" using id img by (auto simp: image_iff) (metis img)
  qed
  then have "mset (map ?g ?A) = mset (map ?g (map ?img kept))" by (simp only: mset_map)
  also have "map ?g (map ?img kept) = ?E"
  proof (rule nth_equalityI)
    fix k assume "k < length (map ?g (map ?img kept))"
    then have k: "k < length kept" by simp
    then have "map_of (zip kept [0..<length kept]) (kept ! k) = Some k" using assms(2) by (simp add: map_of_zip_nth)
    with k id(1)[of "kept ! k"] show "map ?g (map ?img kept) ! k = ?E ! k" by (simp add: placed_def)
  qed simp
  finally show m: "mset (map ?g ?A @ news) = mset (?E @ news)" by simp
  have o: "map pi_displayOrder (?E @ news) = map int [0..<length kept + length news]"
  proof -
    have "[0..<length kept + length news] = [0..<length kept] @ map (\<lambda>k. length kept + k) [0..<length news]"
      by (rule nth_equalityI) (auto simp: nth_append)
    then show ?thesis by (simp add: news comp_def)
  qed
  show "sorted (map pi_displayOrder (?E @ news))" unfolding o by (simp add: sorted_map)
  have "distinct (map pi_displayOrder (?E @ news))" unfolding o by (simp add: distinct_map)
  then have "inj_on pi_displayOrder (set (?E @ news))" by (simp only: distinct_map)
  moreover have "set (map ?g ?A @ news) = set (?E @ news)" using m by (rule mset_eq_setD)
  ultimately show "inj_on pi_displayOrder (set (map ?g ?A @ news))" by simp
qed

lemma update_tx_images:
  assumes "update_tx ownerId p dto kept removed uploaded g c now s = (Inr u, t)" "distinct kept"
  obtains n where "db_seq s \<le> n" "db_seq t = n + length uploaded"
    "db_propertyImages t = map (placed (zip kept [0..<length kept])) (filter (\<lambda>i. pi_id i \<notin> set removed) (db_propertyImages s))
       @ map (\<lambda>k. \<lparr>pi_id = n + k, pi_propertyId = p_id p, pi_imageUrl = uploaded ! k, pi_displayOrder = int (length kept) + int k,
                   pi_isCover = (kept = [] \<and> k = 0)\<rparr>) [0..<length uploaded]"
proof -
  let ?ina = "p_status p \<notin> {P_PENDING, P_APPROVED}"
  define s1 where "s1 = (if ?ina then snd (getListingCapacity ownerId now s) else s)"
  have f: "db_propertyImages s1 = db_propertyImages s" "db_seq s \<le> db_seq s1" by (simp_all add: s1_def)
  let ?s2 = "place_images kept (delete_images removed s1)"
  let ?s3 = "create_images (p_id p) uploaded (int (length kept)) (kept = []) ?s2"
  from assms(1) have "db_propertyImages t = db_propertyImages ?s3" "db_seq t = db_seq ?s3"
    unfolding update_tx_def Let_def s1_def by (auto split: if_splits prod.splits)
  with f show thesis
    by (intro that[of "db_seq s1"]) (simp_all add: create_images_def place_images_eq[OF assms(2)] delete_images_def)
qed

text \<open>C21: The pictures after an edit. A listing that is edited shows exactly the pictures it was told to
  keep, in the given order, and then the uploaded ones; they are numbered from 0 without a gap, the
  first one and only it is the cover, there are between one and ten; the pictures of other listings
  stay as they are, and the files handed back for deletion are those of the pictures left out.\<close>

theorem update_images_exact:
  assumes "keys_ok (db_seq s) (map pi_id (db_propertyImages s))"
    and "update_listing lang ownerId pid dto kept uploaded now s = (Inr (d, urls), t)"
  shows "map pi_imageUrl (images_of pid t)
      = map (\<lambda>i. pi_imageUrl (the (find (\<lambda>m. pi_id m = i) (db_propertyImages s)))) kept @ uploaded
    \<and> map pi_displayOrder (images_of pid t) = map int [0..<length kept + length uploaded]
    \<and> map pi_isCover (images_of pid t) = map (\<lambda>k. k = 0) [0..<length kept + length uploaded]
    \<and> length (images_of pid t) \<in> {1..10}
    \<and> (\<forall>q. q \<noteq> pid \<longrightarrow> images_of q t = images_of q s)
    \<and> urls = map pi_imageUrl (filter (\<lambda>i. pi_id i \<notin> set kept) (images_of pid s))
    \<and> keys_ok (db_seq t) (map pi_id (db_propertyImages t))"
proof (intro conjI allI impI)
  let ?I = "db_propertyImages s" and ?g = "placed (zip kept [0..<length kept])"
  let ?F = "filter (\<lambda>i. pi_propertyId i = pid) ?I" and ?R = "map pi_id (filter (\<lambda>i. pi_id i \<notin> set kept) (images_of pid s))"
  from assms(2) obtain p g c t1 where w: "owned_property ownerId pid s = Some p" "t = announce p t1"
    "check_images kept (images_of pid s) uploaded = Inr ()"
    "update_tx ownerId p dto kept ?R uploaded g c now s = (Inr (), t1)"
    "urls = map pi_imageUrl (filter (\<lambda>i. pi_id i \<notin> set kept) (images_of pid s))"
    by (rule update_listing_Inr)
  define removed where "removed = ?R"
  have pid: "p_id p = pid" using w(1) by (auto simp: owned_property_def dest: find_SomeD)
  have dI: "distinct (map pi_id ?I)" using assms(1) by (rule keys_okD)
  then have dF: "distinct (map pi_id ?F)" by (rule distinct_map_filter)
  have sF: "set (images_of pid s) = set ?F" by (simp add: images_of_def)
  from w(3) have k: "distinct kept" "set kept \<subseteq> pi_id ` set ?F" "\<not> length kept + length uploaded < 1"
    "length kept + length uploaded \<le> 10"
    unfolding check_images_def sF by (simp_all add: list_ex_iff subset_iff split: if_splits)
  obtain n where n: "db_seq s \<le> n" "db_seq t1 = n + length uploaded"
    "db_propertyImages t1 = map ?g (filter (\<lambda>i. pi_id i \<notin> set removed) ?I) @ map (\<lambda>k. \<lparr>pi_id = n + k, pi_propertyId = p_id p,
       pi_imageUrl = uploaded ! k, pi_displayOrder = int (length kept) + int k, pi_isCover = (kept = [] \<and> k = 0)\<rparr>) [0..<length uploaded]"
    unfolding removed_def by (rule update_tx_images[OF w(4) k(1)])
  let ?N = "map (\<lambda>k. \<lparr>pi_id = n + k, pi_propertyId = pid, pi_imageUrl = uploaded ! k,
      pi_displayOrder = int (length kept) + int k, pi_isCover = (kept = [] \<and> k = 0)\<rparr>) [0..<length uploaded]"
  have T: "db_propertyImages t = map ?g (filter (\<lambda>i. pi_id i \<notin> set removed) ?I) @ ?N" "db_seq t = n + length uploaded"
    using n(2,3) pid w(2) by (simp_all add: announce_def)
  have R: "pi_id i \<notin> set removed \<longleftrightarrow> pi_propertyId i = pid \<longrightarrow> pi_id i \<in> set kept" if "i \<in> set ?I" for i
    using that distinct_keyD[OF dI that] by (auto simp: removed_def sF image_iff)
  have "filter (\<lambda>i. pi_propertyId i = pid) (db_propertyImages t) = map ?g (filter (\<lambda>i. pi_id i \<in> set kept) ?F) @ ?N"
    unfolding T filter_append filter_map comp_def placed_keys filter_filter
    by (intro arg_cong2[of _ _ _ _ "(@)"] arg_cong[of _ _ "map _"] filter_cong) (auto simp: R)
  then have E: "images_of pid t = map (\<lambda>k. (the (find (\<lambda>i. pi_id i = kept ! k) ?F))\<lparr>pi_displayOrder := int k, pi_isCover := (k = 0)\<rparr>)
      [0..<length kept] @ ?N"
    unfolding images_of_def by (subst sort_placed[OF dF k(1,2), symmetric]) simp_all
  have find: "find (\<lambda>i. pi_id i = iid) ?F = find (\<lambda>i. pi_id i = iid) ?I" if "iid \<in> set kept" for iid
  proof -
    from that k(2) obtain i where i: "i \<in> set ?F" "pi_id i = iid" by auto
    from find_unique[OF dF i(1)] find_unique[OF dI, of i] i show ?thesis by auto
  qed
  have "map pi_imageUrl (map (\<lambda>k. (the (find (\<lambda>i. pi_id i = kept ! k) ?F))\<lparr>pi_displayOrder := int k, pi_isCover := (k = 0)\<rparr>) [0..<length kept])
      = map (\<lambda>i. pi_imageUrl (the (find (\<lambda>m. pi_id m = i) ?I))) kept"
    by (rule nth_equalityI) (auto simp: find)
  then show "map pi_imageUrl (images_of pid t) = map (\<lambda>i. pi_imageUrl (the (find (\<lambda>m. pi_id m = i) ?I))) kept @ uploaded"
    unfolding E map_append new_image_simps by simp
  have u: "[0..<length kept + length uploaded] = [0..<length kept] @ map (\<lambda>k. length kept + k) [0..<length uploaded]"
    by (rule nth_equalityI) (auto simp: nth_append)
  show "map pi_displayOrder (images_of pid t) = map int [0..<length kept + length uploaded]" unfolding E u by simp
  show "map pi_isCover (images_of pid t) = map (\<lambda>k. k = 0) [0..<length kept + length uploaded]"
    unfolding E u by (auto simp: comp_def)
  have "length (images_of pid t) = length kept + length uploaded" unfolding E by simp
  with k(3,4) show "length (images_of pid t) \<in> {1..10}" unfolding atLeastAtMost_iff by linarith
  show "urls = map pi_imageUrl (filter (\<lambda>i. pi_id i \<notin> set kept) (images_of pid s))" by (rule w(5))
  show "images_of q t = images_of q s" if "q \<noteq> pid" for q
  proof -
    have "?g i = i" if "i \<in> set ?I" "pi_propertyId i = q" for i
    proof (rule placed_none)
      have "pi_id i \<notin> set kept"
      proof
        assume "pi_id i \<in> set kept"
        with k(2) obtain j where "j \<in> set ?I" "pi_propertyId j = pid" "pi_id j = pi_id i" by auto
        with distinct_keyD[OF dI that(1)] that(2) \<open>q \<noteq> pid\<close> show False by metis
      qed
      then show "pi_id i \<notin> fst ` set (zip kept [0..<length kept])" by (simp add: set_map[symmetric] del: set_map)
    qed
    then have "map ?g (filter (\<lambda>i. pi_propertyId i = q) ?I) = filter (\<lambda>i. pi_propertyId i = q) ?I" by (intro map_idI) simp
    moreover have "filter (\<lambda>i. pi_propertyId i = q) (db_propertyImages t) = map ?g (filter (\<lambda>i. pi_propertyId i = q) ?I)"
      unfolding T filter_append filter_map comp_def placed_keys filter_filter
      using that by (simp add: filter_empty_conv) (intro arg_cong[of _ _ "map _"] filter_cong, auto simp: R)
    ultimately show ?thesis by (simp add: images_of_def)
  qed
  show "keys_ok (db_seq t) (map pi_id (db_propertyImages t))"
  proof -
    have "keys_ok n (map pi_id (filter (\<lambda>i. pi_id i \<notin> set removed) ?I))"
      using keys_ok_mono[OF assms(1) n(1)] by (auto simp: keys_ok_def distinct_map_filter)
    moreover have "map pi_id ?N = map (\<lambda>k. n + k) [0..<length uploaded]" by simp
    ultimately show ?thesis unfolding T map_append map_map comp_def placed_keys
      by (auto simp: keys_ok_def distinct_map inj_on_def)
  qed
qed

section \<open>Witnesses\<close>

definition flat_dto :: property_dto where
  "flat_dto = \<lparr>dt_title = ''Flat'', dt_description = ''Two rooms'', dt_governorate = ''Cairo'', dt_city = ''Maadi'', dt_district = ''Degla'',
     dt_manualAddress = ''9 Road 200'', dt_propertyType = APARTMENT, dt_aroundServices = None, dt_rentAmount = 9000, dt_areaM2 = 90,
     dt_bedrooms = 2, dt_bathrooms = 1, dt_isFurnished = True, dt_hasElevator = False, dt_hasParking = False\<rparr>"

definition shown_flat :: property where
  "shown_flat = (default_property 4 7 0)\<lparr>p_status := P_APPROVED, p_manualAddress := ''9 Road 200''\<rparr>"

definition stored_flat :: property where "stored_flat = (default_property 5 7 0)\<lparr>p_status := P_ARCHIVED\<rparr>"

definition flat_image :: "nat \<Rightarrow> property_image" where
  "flat_image k = \<lparr>pi_id = 10 + k, pi_propertyId = 4, pi_imageUrl = ''a'', pi_displayOrder = int k, pi_isCover = (k = 0)\<rparr>"

definition listing_db :: db where
  "listing_db = empty_db\<lparr>db_seq := 20, db_properties := [shown_flat, stored_flat],
     db_propertyImages := [flat_image 0, flat_image 2],
     db_governorates := [\<lparr>gv_id = 3, gv_countryId = 2, gv_nameAr = ''Cairo'', gv_nameEn = ''Cairo'', gv_status = True\<rparr>],
     db_cities := [\<lparr>ct_id = 6, ct_governorateId = 3, ct_nameAr = ''Maadi'', ct_nameEn = ''Maadi'', ct_status = True\<rparr>]\<rparr>"

lemmas flat_defs = shown_flat_def stored_flat_def default_property_def flat_image_def

lemma listing_db_keys:
  "distinct (map p_id (db_properties listing_db))" "keys_ok (db_seq listing_db) (map pi_id (db_propertyImages listing_db))"
  by (simp_all add: listing_db_def flat_defs keys_ok_def)


lemma flat_capacity:
  "\<exists>cap s1. getListingCapacity 7 9 listing_db = (cap, s1) \<and> cap_activeUnitLimit cap = 1 \<and> cap_activeUnitCount cap = 1"
proof -
  obtain cap s1 where c: "getListingCapacity 7 9 listing_db = (cap, s1)" by fastforce
  have n: "cap_activeUnitCount cap = 1"
    using getListingCapacity_count[of 7 9 listing_db] c by (simp add: listing_db_def flat_defs active_unit_def)
  have "cap_activeUnitLimit cap = 1"
    using c by (auto simp: getListingCapacity_def Let_def ensureCurrentPeriod_def quota_of_def listing_db_def empty_db_def
        fresh_quota_def activeGrantQuantity_def sum_where_def split_beta getPlanAllowances_def)
  with c n show ?thesis by auto
qed

theorem unarchive_exceeds_plan_witness:
  "\<exists>d t. unarchive ''ar'' 7 5 listing_db = (Inr d, t) \<and> count_where (active_unit 7) (db_properties t) > 1"
proof -
  obtain cap s1 where c: "getListingCapacity 7 9 listing_db = (cap, s1)" "cap_activeUnitLimit cap = 1" "cap_activeUnitCount cap = 1"
    using flat_capacity by blast
  have o: "owned_property 7 5 listing_db = Some stored_flat" "p_status stored_flat = P_ARCHIVED"
    by (simp_all add: owned_property_def listing_db_def flat_defs)
  from unarchive_exceeds_plan[OF listing_db_keys(1) c(1) o, of "''ar''"] c(2,3) show ?thesis by auto
qed

theorem update_images_exact_witness:
  "\<exists>d urls t. update_listing ''ar'' 7 4 flat_dto [12] [''b''] 9 listing_db = (Inr (d, urls), t)
     \<and> map pi_imageUrl (images_of 4 t) = [''a'', ''b'']"
proof -
  have o: "owned_property 7 4 listing_db = Some shown_flat" "p_status shown_flat = P_APPROVED"
    by (simp_all add: owned_property_def listing_db_def flat_defs)
  have i: "set (images_of 4 listing_db) = {flat_image 0, flat_image 2}"
    by (auto simp: images_of_def listing_db_def flat_defs)
  have k: "check_images [12] (images_of 4 listing_db) [''b''] = Inr ()" by (simp add: check_images_def i flat_image_def)
  obtain g c where r: "check_region flat_dto listing_db = Inr (g, c)"
    by (simp add: check_region_def named_governorate_def named_city_def same_name_def flat_dto_def listing_db_def)
  obtain d urls t where u: "update_listing ''ar'' 7 4 flat_dto [12] [''b''] 9 listing_db = (Inr (d, urls), t)"
  proof -
    let ?R = "map pi_id (filter (\<lambda>i. pi_id i \<notin> {12}) (images_of 4 listing_db))"
    obtain t1 where t1: "update_tx 7 shown_flat flat_dto [12] ?R [''b''] g c 9 listing_db = (Inr (), t1)"
      using o(2) by (simp add: update_tx_def)
    have "property_of 4 t1 \<noteq> None"
      unfolding property_of_def update_tx_properties[OF t1] by (simp add: listing_db_def flat_defs)
    then have "\<exists>d. own_detail ''ar'' 4 (announce shown_flat t1) = (Inr d, announce shown_flat t1)" by (auto simp: own_detail_Inr)
    then show thesis using that o k r t1 by (auto simp: update_listing_def Let_def)
  qed
  from update_images_exact[OF listing_db_keys(2) u] u show ?thesis
    by (auto simp: listing_db_def flat_image_def)
qed

end
