(* ===== verification/Matching.thy ===== *)
theory Matching
  imports Schema "HOL-Library.Multiset"
begin

text \<open>
  The matcher: \<open>offers/match-score.util.ts\<close>, \<open>matching/matching.math.util.ts\<close>,
  \<open>matching/hybrid-match-reasons.util.ts\<close>, \<open>OffersService.computeHybridMatch\<close> and the worker
  \<open>matching/matching.worker.ts\<close>. The embedding service is a parameter. Scores are whole numbers,
  similarities reals.
\<close>

section \<open>Scores\<close>

lemma dropWhile_shorter:
  assumes "dropWhile (\<lambda>c. \<not> P c) s = c # rest"
  shows "length (dropWhile P (c # rest)) < length s"
proof -
  have "P c" using assms hd_dropWhile[of "\<lambda>c. \<not> P c" s] by auto
  then have "length (dropWhile P (c # rest)) \<le> length rest" using length_dropWhile_le[of P rest] by simp
  also have "\<dots> < length s" using length_dropWhile_le[of "\<lambda>c. \<not> P c" s] assms by simp
  finally show ?thesis .
qed

text \<open>\<open>s.split(/\s+/)\<close>: the pieces between runs of white space, empty ones at the ends included.\<close>

function split_spaces :: "string \<Rightarrow> string list" where
  "split_spaces s =
     (case dropWhile (\<lambda>c. \<not> js_space c) s of
        [] \<Rightarrow> [s]
      | rest \<Rightarrow> takeWhile (\<lambda>c. \<not> js_space c) s # split_spaces (dropWhile js_space rest))"
  by pat_completeness auto
termination
  by (relation "measure length") (auto dest: dropWhile_shorter)

declare split_spaces.simps [simp del]

definition lifestyle_words :: "string \<Rightarrow> string list" where
  "lifestyle_words s = filter (\<lambda>w. 3 < length w) (split_spaces s)"

definition within_budget :: "tenant_request \<Rightarrow> property \<Rightarrow> bool" where
  "within_budget r p \<longleftrightarrow> tr_minBudget r \<le> p_rentAmount p \<and> p_rentAmount p \<le> tr_maxBudget r"

definition scoreRequestAgainstProperty :: "tenant_request \<Rightarrow> property \<Rightarrow> int" where
  "scoreRequestAgainstProperty r p =
     (let haystack = p_description p @ '' '' @ (case p_aroundServices p of None \<Rightarrow> '''' | Some x \<Rightarrow> x);
          hits = length (filter (js_includes haystack) (lifestyle_words (tr_lifestyleRequirements r)));
          score = 50 + (if within_budget r p then 18 else -22)
            + (if js_includes (tr_preferredLocations r) (p_district p) then 12 else 0)
            + (if p_propertyType p = tr_propertyType r then 8 else 0)
            + (if tr_requiredBedrooms r \<le> p_bedrooms p then 5 else 0)
            + (if \<not> tr_needsFurnished r \<or> p_isFurnished p then 5 else 0)
            + min 10 (int hits * 2)
            + js_round (of_int (tr_flexibilityScore r - 5) * (6 / 10))
            + (if p_isBoosted p then 2 else 0)
      in max 5 (min 98 score))"

definition combineHybridScore :: "int \<Rightarrow> real option \<Rightarrow> int" where
  "combineHybridScore ruleScore sem =
     (case sem of
        None \<Rightarrow> ruleScore
      | Some x \<Rightarrow> max 0 (min 100 (js_round (of_int ruleScore * (1 / 2) + (max 0 (min 1 x) * 100) * (1 / 2)))))"

text \<open>The loop over the two vectors, with its three accumulators.\<close>

fun dot_loop :: "real list \<Rightarrow> real list \<Rightarrow> real \<times> real \<times> real \<Rightarrow> real \<times> real \<times> real" where
  "dot_loop (x # xs) (y # ys) (d, m, n) = dot_loop xs ys (d + x * y, m + x * x, n + y * y)"
| "dot_loop _ _ acc = acc"

definition cosineSimilarity :: "real list \<Rightarrow> real list \<Rightarrow> real option" where
  "cosineSimilarity a b =
     (if a = [] \<or> b = [] \<or> length a \<noteq> length b then None
      else let (d, m, n) = dot_loop a b (0, 0, 0)
           in if m = 0 \<or> n = 0 then None else Some (d / (sqrt m * sqrt n)))"

datatype match_reason =
    WITHIN_BUDGET | PREFERRED_LOCATION | PROPERTY_TYPE_MATCH | BEDROOMS_MATCH | FURNISHING_MATCH | SEMANTIC_SIMILARITY

definition buildHybridMatchReasons :: "tenant_request \<Rightarrow> property \<Rightarrow> real option \<Rightarrow> real \<Rightarrow> match_reason list" where
  "buildHybridMatchReasons r p sem minSimilarity =
     take 4
       ((if within_budget r p then [WITHIN_BUDGET] else [])
        @ (if js_includes (tr_preferredLocations r) (p_district p) then [PREFERRED_LOCATION] else [])
        @ (if p_propertyType p = tr_propertyType r then [PROPERTY_TYPE_MATCH] else [])
        @ (if tr_requiredBedrooms r \<le> p_bedrooms p then [BEDROOMS_MATCH] else [])
        @ (if \<not> tr_needsFurnished r \<or> p_isFurnished p then [FURNISHING_MATCH] else [])
        @ (case sem of None \<Rightarrow> [] | Some x \<Rightarrow> if minSimilarity \<le> x then [SEMANTIC_SIMILARITY] else []))"

text \<open>What the cards of the two parties show.\<close>

definition computeHybridMatch :: "real \<Rightarrow> tenant_request \<Rightarrow> property \<Rightarrow> int \<times> match_reason list" where
  "computeHybridMatch minSimilarity r p =
     (let sem = (if tr_embedding r \<noteq> [] \<and> p_embedding p \<noteq> [] then cosineSimilarity (tr_embedding r) (p_embedding p) else None)
      in (combineHybridScore (scoreRequestAgainstProperty r p) sem, buildHybridMatchReasons r p sem minSimilarity))"

section \<open>The worker\<close>

definition HIGH_MATCH_NOTIFICATION_THRESHOLD :: int where "HIGH_MATCH_NOTIFICATION_THRESHOLD = 75"

record ranked_match =
  rm_propertyId :: uuid
  rm_ownerId :: uuid
  rm_title :: string
  rm_ruleScore :: int
  rm_semanticSimilarity :: "real option"
  rm_finalScore :: int
  rm_matchReasons :: "match_reason list"

fun join :: "string \<Rightarrow> string list \<Rightarrow> string" where
  "join sep [] = ''''"
| "join sep [x] = x"
| "join sep (x # y # xs) = x @ sep @ join sep (y # xs)"

fun property_type_name :: "property_type \<Rightarrow> string" where
  "property_type_name APARTMENT = ''APARTMENT''"
| "property_type_name VILLA = ''VILLA''"
| "property_type_name STUDIO = ''STUDIO''"

text \<open>The text that is embedded; \<open>filter(Boolean)\<close> drops the empty parts.\<close>

definition embedding_query :: "tenant_request \<Rightarrow> string" where
  "embedding_query r =
     join '', '' (filter (\<lambda>x. x \<noteq> [])
       [property_type_name (tr_propertyType r), tr_preferredLocations r,
        if tr_requiredBedrooms r \<noteq> 0 then js_num (tr_requiredBedrooms r) @ '' bedrooms'' else '''',
        if tr_needsFurnished r then ''furnished'' else '''', tr_lifestyleRequirements r])"

definition ranked_of :: "real \<Rightarrow> tenant_request \<Rightarrow> real list option \<Rightarrow> property \<Rightarrow> ranked_match" where
  "ranked_of minSimilarity r vector p =
     (let sem = (case vector of None \<Rightarrow> None | Some v \<Rightarrow> if p_embedding p \<noteq> [] then cosineSimilarity v (p_embedding p) else None);
          rule = scoreRequestAgainstProperty r p
      in \<lparr>rm_propertyId = p_id p, rm_ownerId = p_ownerId p, rm_title = p_title p, rm_ruleScore = rule,
          rm_semanticSimilarity = sem, rm_finalScore = combineHybridScore rule sem,
          rm_matchReasons = buildHybridMatchReasons r p sem minSimilarity\<rparr>)"

definition candidates :: "tenant_request \<Rightarrow> db \<Rightarrow> property list" where
  "candidates r s = filter (\<lambda>p. p_status p = P_APPROVED \<and> within_budget r p) (db_properties s)"

definition ranking :: "real \<Rightarrow> tenant_request \<Rightarrow> real list option \<Rightarrow> db \<Rightarrow> ranked_match list" where
  "ranking minSimilarity r vector s = sort_key (\<lambda>m. - rm_finalScore m) (map (ranked_of minSimilarity r vector) (candidates r s))"

text \<open>
  One job. The embedding of the text is None when both providers fail; else it is stored with the
  request. The row read at the start is used to the end.
\<close>

definition store_embedding :: "uuid \<Rightarrow> real list option \<Rightarrow> db \<Rightarrow> db" where
  "store_embedding rid vector s =
     (case vector of
        None \<Rightarrow> s
      | Some v \<Rightarrow> s\<lparr>db_tenantRequests := update_where (\<lambda>r. tr_id r = rid) (\<lambda>r. r\<lparr>tr_embedding := v\<rparr>) (db_tenantRequests s)\<rparr>)"

definition process_match :: "(string \<Rightarrow> real list option) \<Rightarrow> real \<Rightarrow> uuid \<Rightarrow> time \<Rightarrow> db \<Rightarrow> db" where
  "process_match embedder minSimilarity rid now s =
     (case find (\<lambda>r. tr_id r = rid) (db_tenantRequests s) of
        None \<Rightarrow> s
      | Some r \<Rightarrow>
          let vector = embedder (embedding_query r);
              s1 = store_embedding rid vector s;
              high = filter (\<lambda>m. HIGH_MATCH_NOTIFICATION_THRESHOLD < rm_finalScore m) (ranking minSimilarity r vector s1)
          in if high = [] then s1
             else notifyUsers (map rm_ownerId high) HIGH_MATCH_TENANT_REQUEST (Some (''/landlord/requests'', None)) now s1)"


section \<open>What the scores mean\<close>

text \<open>The loop keeps the inequality of Cauchy and Schwarz between its accumulators.\<close>

lemma four_products: "4 * a * b \<le> (a + b)\<^sup>2" for a b :: real
proof -
  have "(a + b)\<^sup>2 = 4 * a * b + (a - b)\<^sup>2" by (simp add: power2_eq_square algebra_simps)
  then show ?thesis by simp
qed

lemma cauchy_schwarz_step:
  fixes d m n x y :: real
  assumes "d * d \<le> m * n" "0 \<le> m" "0 \<le> n"
  shows "(d + x * y) * (d + x * y) \<le> (m + x * x) * (n + y * y)"
proof -
  let ?a = "m * (y * y)" and ?b = "n * (x * x)"
  have nn: "0 \<le> ?a" "0 \<le> ?b" using assms by simp_all
  have "(2 * (d * (x * y)))\<^sup>2 = 4 * ((d * d) * (x * y)\<^sup>2)" by (simp add: power2_eq_square)
  also have "\<dots> \<le> 4 * ((m * n) * (x * y)\<^sup>2)"
    by (rule mult_left_mono[OF mult_right_mono[OF assms(1) zero_le_power2]]) simp
  also have "\<dots> = 4 * ?a * ?b" by (simp add: power2_eq_square)
  also have "\<dots> \<le> (?a + ?b)\<^sup>2" by (rule four_products)
  finally have "(2 * (d * (x * y)))\<^sup>2 \<le> (?a + ?b)\<^sup>2" .
  then have "2 * (d * (x * y)) \<le> ?a + ?b" by (rule power2_le_imp_le) (use nn in linarith)
  moreover have "(d + x * y) * (d + x * y) = d * d + 2 * (d * (x * y)) + (x * x) * (y * y)" by (simp add: distrib_left distrib_right)
  moreover have "(m + x * x) * (n + y * y) = m * n + (?a + ?b) + (x * x) * (y * y)" by (simp add: distrib_left distrib_right)
  ultimately show ?thesis using assms(1) by (simp only: add_mono order_refl)
qed

lemma dot_loop_invariant:
  assumes "d * d \<le> m * n" "0 \<le> m" "0 \<le> n" "dot_loop a b (d, m, n) = (d', m', n')"
  shows "d' * d' \<le> m' * n' \<and> 0 \<le> m' \<and> 0 \<le> n'"
  using assms
proof (induction a b "(d, m, n)" arbitrary: d m n rule: dot_loop.induct)
  case (1 x xs y ys d m n)
  then show ?case using cauchy_schwarz_step[OF "1.prems"(1-3)] by simp
qed auto

lemma cosine_range:
  assumes "cosineSimilarity a b = Some c"
  shows "-1 \<le> c \<and> c \<le> 1"
proof -
  obtain d m n where l: "dot_loop a b (0, 0, 0) = (d, m, n)" by (cases "dot_loop a b (0, 0, 0)") auto
  have i: "d * d \<le> m * n" "0 \<le> m" "0 \<le> n" using dot_loop_invariant[OF _ _ _ l] by simp_all
  have c: "c = d / (sqrt m * sqrt n)" and p: "0 < sqrt m * sqrt n"
    using assms i by (auto simp: cosineSimilarity_def l split: if_splits)
  have "\<bar>d\<bar> \<le> sqrt m * sqrt n" using i(1) real_sqrt_le_mono[of "d * d" "m * n"] by (simp add: real_sqrt_mult)
  then show ?thesis using p by (auto simp: c field_simps abs_le_iff)
qed

lemma dot_loop_self: "dot_loop a a (d, d, d) = (d', m', n') \<Longrightarrow> m' = d' \<and> n' = d'"
  by (induction a arbitrary: d) auto

lemma dot_loop_comm: "dot_loop b a (d, n, m) = (case dot_loop a b (d, m, n) of (d', m', n') \<Rightarrow> (d', n', m'))"
  by (induction a b "(d, m, n)" arbitrary: d m n rule: dot_loop.induct) (auto simp: mult.commute elim: dot_loop.elims)

lemma cosine_comm: "cosineSimilarity a b = cosineSimilarity b a"
  by (auto simp: cosineSimilarity_def dot_loop_comm[of a b] mult.commute split: prod.splits)

lemma cosine_self: "cosineSimilarity a a = Some c \<Longrightarrow> c = 1"
proof -
  assume a: "cosineSimilarity a a = Some c"
  obtain d m n where l: "dot_loop a a (0, 0, 0) = (d, m, n)" by (cases "dot_loop a a (0, 0, 0)") auto
  have "m = d" "n = d" "0 \<le> m" using dot_loop_self[OF l] dot_loop_invariant[OF _ _ _ l] by auto
  then show "c = 1" using a by (auto simp: cosineSimilarity_def l split: if_splits)
qed

lemma clamp_range: "5 \<le> max 5 (min 98 k) \<and> max 5 (min 98 k) \<le> (98::int)"
  by simp

lemma rule_score_range: "5 \<le> scoreRequestAgainstProperty r p \<and> scoreRequestAgainstProperty r p \<le> 98"
  unfolding scoreRequestAgainstProperty_def Let_def by (rule clamp_range)

lemma hybrid_range:
  assumes "5 \<le> k" "k \<le> 98"
  shows "3 \<le> combineHybridScore k sem \<and> combineHybridScore k sem \<le> 99"
proof (cases sem)
  case None
  then show ?thesis using assms by (simp add: combineHybridScore_def)
next
  case (Some x)
  have three: "js_round (5 / 2) = 3" and nine: "js_round 99 = 99" unfolding js_round_def by linarith+
  define y :: real where "y = max 0 (min 1 x)"
  define v where "v = of_int k * (1 / 2) + (y * 100) * (1 / 2)"
  have y: "0 \<le> y" "y \<le> 1" by (simp_all add: y_def)
  have "(5::real) \<le> of_int k" "of_int k \<le> (98::real)" using assms by linarith+
  then have "5 / 2 \<le> v" "v \<le> 99" using y unfolding v_def by linarith+
  from js_round_mono[OF this(1)] js_round_mono[OF this(2)] have r: "3 \<le> js_round v" "js_round v \<le> 99" by (simp_all only: three nine)
  have "combineHybridScore k sem = max 0 (min 100 (js_round v))" by (simp only: combineHybridScore_def Some option.case v_def y_def)
  with r show ?thesis by simp
qed

lemma combine_mono:
  assumes "k \<le> k'" "x \<le> x'"
  shows "combineHybridScore k (Some x) \<le> combineHybridScore k' (Some x')"
proof -
  have "of_int k * (1 / 2) + (max 0 (min 1 x) * 100) * (1 / 2) \<le> of_int k' * (1 / 2) + (max 0 (min 1 x') * 100) * (1 / 2 :: real)"
    using assms by (intro add_mono mult_right_mono) (auto simp: max_def min_def)
  from js_round_mono[OF this] show ?thesis unfolding combineHybridScore_def option.case by linarith
qed


lemma reasons_bounded: "length (buildHybridMatchReasons r p sem m) \<le> 4"
  by (simp add: buildHybridMatchReasons_def)


subsection \<open>The words of a text\<close>

lemma takeWhile_no_space: "c \<in> set (takeWhile (\<lambda>c. \<not> js_space c) s) \<Longrightarrow> \<not> js_space c"
  by (auto dest: set_takeWhileD)

lemma filter_dropWhile: "filter (\<lambda>c. \<not> P c) (dropWhile P s) = filter (\<lambda>c. \<not> P c) s"
  by (induction s) auto

lemma filter_dropWhile_le: "length (filter P (dropWhile Q s)) \<le> length (filter P s)"
  by (induction s) auto

lemma filter_takeWhile_split: "takeWhile (\<lambda>c. \<not> P c) s @ filter (\<lambda>c. \<not> P c) (dropWhile (\<lambda>c. \<not> P c) s) = filter (\<lambda>c. \<not> P c) s"
  by (induction s) auto

lemma split_spaces_cases:
  obtains (whole) "split_spaces s = [s]" "\<forall>c \<in> set s. \<not> js_space c"
  | (more) c rest where "dropWhile (\<lambda>c. \<not> js_space c) s = c # rest" "js_space c"
      "split_spaces s = takeWhile (\<lambda>c. \<not> js_space c) s # split_spaces (dropWhile js_space (c # rest))"
proof (cases "dropWhile (\<lambda>c. \<not> js_space c) s")
  case Nil
  then have "split_spaces s = [s]" by (subst split_spaces.simps) (simp only: list.case)
  then show ?thesis using that(1) Nil by (simp add: dropWhile_eq_Nil_conv)
next
  case (Cons c rest)
  then have "js_space c" using hd_dropWhile[of "\<lambda>c. \<not> js_space c" s] by auto
  then show ?thesis using that(2)[OF Cons] Cons by (simp add: split_spaces.simps[of s])
qed



section \<open>The cards and the notifications\<close>

lemma facts_kept:
  "tr_minBudget (r\<lparr>tr_embedding := e\<rparr>) = tr_minBudget r"
  "tr_maxBudget (r\<lparr>tr_embedding := e\<rparr>) = tr_maxBudget r"
  "tr_preferredLocations (r\<lparr>tr_embedding := e\<rparr>) = tr_preferredLocations r"
  "tr_propertyType (r\<lparr>tr_embedding := e\<rparr>) = tr_propertyType r"
  "tr_requiredBedrooms (r\<lparr>tr_embedding := e\<rparr>) = tr_requiredBedrooms r"
  "tr_needsFurnished (r\<lparr>tr_embedding := e\<rparr>) = tr_needsFurnished r"
  "tr_flexibilityScore (r\<lparr>tr_embedding := e\<rparr>) = tr_flexibilityScore r"
  "tr_lifestyleRequirements (r\<lparr>tr_embedding := e\<rparr>) = tr_lifestyleRequirements r"
  by simp_all

lemma ranked_card:
  assumes "e = (case vector of None \<Rightarrow> [] | Some v \<Rightarrow> v)"
  shows "computeHybridMatch ms (r\<lparr>tr_embedding := e\<rparr>) p = (rm_finalScore (ranked_of ms r vector p), rm_matchReasons (ranked_of ms r vector p))"
proof -
  have f: "scoreRequestAgainstProperty (r\<lparr>tr_embedding := e\<rparr>) p = scoreRequestAgainstProperty r p"
      "buildHybridMatchReasons (r\<lparr>tr_embedding := e\<rparr>) p sem ms = buildHybridMatchReasons r p sem ms" for sem
    unfolding scoreRequestAgainstProperty_def buildHybridMatchReasons_def within_budget_def facts_kept by (rule refl)+
  have sel: "tr_embedding (r\<lparr>tr_embedding := e\<rparr>) = e" by simp
  have "(if e \<noteq> [] \<and> p_embedding p \<noteq> [] then cosineSimilarity e (p_embedding p) else None)
      = (case vector of None \<Rightarrow> None | Some v \<Rightarrow> if p_embedding p \<noteq> [] then cosineSimilarity v (p_embedding p) else None)"
    by (cases vector) (simp_all add: assms cosineSimilarity_def)
  then show ?thesis unfolding computeHybridMatch_def ranked_of_def Let_def f sel by simp
qed

lemma store_embedding_properties [simp]: "db_properties (store_embedding k v s) = db_properties s"
  "db_notifications (store_embedding k v s) = db_notifications s"
  by (simp_all add: store_embedding_def split: option.split)

lemma find_store_embedding:
  assumes "find (\<lambda>r. tr_id r = k) (db_tenantRequests s) = Some r"
  shows "find (\<lambda>r. tr_id r = k) (db_tenantRequests (store_embedding k vector s))
    = Some (r\<lparr>tr_embedding := (case vector of None \<Rightarrow> tr_embedding r | Some v \<Rightarrow> v)\<rparr>)"
proof -
  have "find (\<lambda>r. tr_id r = k) (update_where (\<lambda>r. tr_id r = k) (\<lambda>r. r\<lparr>tr_embedding := v\<rparr>) (db_tenantRequests s))
      = Some (r\<lparr>tr_embedding := v\<rparr>)" for v
    using find_update_key[of tr_id "\<lambda>r. r\<lparr>tr_embedding := v\<rparr>" k "db_tenantRequests s"] assms by simp
  then show ?thesis using assms by (cases vector) (simp_all add: store_embedding_def)
qed

definition high_matches :: "real \<Rightarrow> tenant_request \<Rightarrow> real list option \<Rightarrow> db \<Rightarrow> ranked_match list" where
  "high_matches ms r vector s = filter (\<lambda>m. HIGH_MATCH_NOTIFICATION_THRESHOLD < rm_finalScore m) (ranking ms r vector s)"

lemma mset_high_matches:
  "mset (map rm_ownerId (high_matches ms r vector s))
     = mset (map p_ownerId (filter (\<lambda>p. HIGH_MATCH_NOTIFICATION_THRESHOLD < rm_finalScore (ranked_of ms r vector p)) (candidates r s)))"
proof -
  have "rm_ownerId (ranked_of ms r vector p) = p_ownerId p" for p by (simp add: ranked_of_def Let_def)
  then show ?thesis
    by (simp add: high_matches_def ranking_def filter_mset_image_mset image_mset.compositionality o_def)
qed

lemma process_match_outcome:
  assumes "find (\<lambda>r. tr_id r = rid) (db_tenantRequests s) = Some r" and "vector = embedder (embedding_query r)"
  obtains ns where "db_notifications (process_match embedder ms rid now s) = db_notifications s @ ns"
    and "map n_userId ns = map rm_ownerId (high_matches ms r vector (store_embedding rid vector s))"
    and "db_tenantRequests (process_match embedder ms rid now s) = db_tenantRequests (store_embedding rid vector s)"
proof -
  let ?s1 = "store_embedding rid vector s" and ?high = "high_matches ms r vector (store_embedding rid vector s)"
  have p: "process_match embedder ms rid now s =
      (if ?high = [] then ?s1
       else notifyUsers (map rm_ownerId ?high) HIGH_MATCH_TENANT_REQUEST (Some (''/landlord/requests'', None)) now ?s1)"
    by (simp add: process_match_def assms high_matches_def Let_def)
  obtain n ns es where "notifyUsers (map rm_ownerId ?high) HIGH_MATCH_TENANT_REQUEST (Some (''/landlord/requests'', None)) now ?s1
      = ?s1\<lparr>db_seq := n, db_notifications := db_notifications ?s1 @ ns, db_effects := es\<rparr>" "map n_userId ns = map rm_ownerId ?high"
    using notifyUsers_split[of "map rm_ownerId ?high" HIGH_MATCH_TENANT_REQUEST "Some (''/landlord/requests'', None)" now ?s1]
    by (elim exE conjE)
  then show ?thesis by (cases "?high = []") (auto intro: that[of "[]"] that[of ns] simp: p)
qed



text \<open>A request for a furnished flat, a flat that fits it, and the job that embeds it.\<close>

definition seeker :: "real list \<Rightarrow> tenant_request" where
  "seeker e = \<lparr>tr_id = 3, tr_tenantId = 8, tr_minBudget = 1000, tr_maxBudget = 5000, tr_preferredLocations = ''Maadi'',
     tr_propertyType = APARTMENT, tr_requiredBedrooms = 2, tr_needsFurnished = False, tr_flexibilityScore = 5,
     tr_lifestyleRequirements = ''quiet'', tr_status = TR_APPROVED, tr_approvedBy = Some 1, tr_createdAt = 0, tr_embedding = e\<rparr>"

definition plain_flat :: property where
  "plain_flat = \<lparr>p_id = 4, p_ownerId = 7, p_title = ''Flat'', p_description = ''Sunny'', p_district = ''Nasr City'',
     p_manualAddress = '''', p_propertyType = VILLA, p_aroundServices = None, p_rentAmount = 3000, p_bedrooms = 2,
     p_isFurnished = False, p_status = P_APPROVED, p_rejectionReason = None, p_isBoosted = False, p_boostedUntil = None,
     p_embedding = [1], p_approvedBy = Some 1, p_approvedAt = Some 0, p_createdAt = 0, p_countryId = 1, p_governorateId = 2,
     p_cityId = 3, p_areaM2 = 90, p_bathrooms = 1, p_hasElevator = False, p_hasParking = False\<rparr>"

definition match_db :: "real list \<Rightarrow> db" where
  "match_db e = empty_db\<lparr>db_seq := 20, db_tenantRequests := [seeker e], db_properties := [plain_flat]\<rparr>"

lemma split_quiet: "split_spaces ''quiet'' = [''quiet'']"
  by (subst split_spaces.simps) (simp add: js_space_def)

lemma plain_score: "scoreRequestAgainstProperty (seeker e) plain_flat = 78"
  by (simp add: scoreRequestAgainstProperty_def seeker_def plain_flat_def within_budget_def lifestyle_words_def split_quiet js_round_def)



text \<open>
  A run whose embedding fails keeps a vector stored by an earlier attempt: the owner is notified of
  the rule score of 78 while the card shows 39.
\<close>

lemma stale_vector_diverges:
  "map n_userId (db_notifications (process_match (\<lambda>q. None) ms 3 now (match_db [-1]))) = [7]
    \<and> db_tenantRequests (process_match (\<lambda>q. None) ms 3 now (match_db [-1])) = [seeker [-1]]
    \<and> fst (computeHybridMatch ms (seeker [-1]) plain_flat) = 39"
proof (intro conjI)
  have r: "find (\<lambda>r. tr_id r = 3) (db_tenantRequests (match_db [-1])) = Some (seeker [-1])" by (simp add: match_db_def seeker_def)
  have "candidates (seeker [-1]) (match_db [-1]) = [plain_flat]"
    by (simp add: candidates_def match_db_def plain_flat_def seeker_def within_budget_def)
  then have h: "map rm_ownerId (high_matches ms (seeker [-1]) None (match_db [-1])) = [7]"
    by (simp add: high_matches_def ranking_def ranked_of_def Let_def plain_score combineHybridScore_def HIGH_MATCH_NOTIFICATION_THRESHOLD_def)
      (simp add: plain_flat_def)
  obtain ns where "db_notifications (process_match (\<lambda>q. None) ms 3 now (match_db [-1])) = db_notifications (match_db [-1]) @ ns"
      "map n_userId ns = map rm_ownerId (high_matches ms (seeker [-1]) None (store_embedding 3 None (match_db [-1])))"
      "db_tenantRequests (process_match (\<lambda>q. None) ms 3 now (match_db [-1])) = db_tenantRequests (store_embedding 3 None (match_db [-1]))"
    by (rule process_match_outcome[where embedder = "\<lambda>q. None", OF r refl])
  then show "map n_userId (db_notifications (process_match (\<lambda>q. None) ms 3 now (match_db [-1]))) = [7]"
    "db_tenantRequests (process_match (\<lambda>q. None) ms 3 now (match_db [-1])) = [seeker [-1]]"
    using h by (simp_all add: store_embedding_def match_db_def empty_db_def)
  have "cosineSimilarity [-1] [1] = Some (-1)" by (simp add: cosineSimilarity_def)
  then show "fst (computeHybridMatch ms (seeker [-1]) plain_flat) = 39"
    unfolding computeHybridMatch_def Let_def plain_score
    by (simp add: seeker_def plain_flat_def combineHybridScore_def js_round_def)
qed

end
