(* ===== verification/Offers.thy ===== *)
theory Offers
  imports Listings Matching
begin

text \<open>
  \<open>offers/offers.service.ts\<close>: landlords answer the approved requests of tenants with a listing and a
  price; \<open>tenant-requests/tenant-requests.service.ts\<close>: the requests themselves. The quota and analytics
  services are always injected. Looking at an offer and accepting one are given as a read and a write,
  so that requests can be interleaved between them.
\<close>

section \<open>What the landlord sees\<close>

definition request_of :: "uuid \<Rightarrow> db \<Rightarrow> tenant_request option" where
  "request_of rid s = find (\<lambda>r. tr_id r = rid) (db_tenantRequests s)"

definition approved_listings :: "uuid \<Rightarrow> db \<Rightarrow> property list" where
  "approved_listings ownerId s = filter (\<lambda>p. p_ownerId p = ownerId \<and> p_status p = P_APPROVED) (db_properties s)"

text \<open>\<open>scored.reduce\<close>: the first listing of the highest score.\<close>

definition best_of :: "(property \<times> int \<times> match_reason list) list \<Rightarrow> (property \<times> int \<times> match_reason list) option" where
  "best_of scored =
     (case scored of [] \<Rightarrow> None | x # _ \<Rightarrow> Some (foldl (\<lambda>a b. if fst (snd a) < fst (snd b) then b else a) x scored))"

record request_card =
  rc_id :: uuid
  rc_minBudget :: real
  rc_maxBudget :: real
  rc_preferredLocations :: string
  rc_propertyType :: property_type
  rc_requiredBedrooms :: int
  rc_needsFurnished :: bool
  rc_flexibilityScore :: int
  rc_lifestyleRequirements :: string
  rc_createdAt :: time
  rc_matchScore :: "int option"
  rc_matchReasons :: "match_reason list"
  rc_alreadyOffered :: bool
  rc_bestMatchingProperty :: "(uuid \<times> string) option"

definition request_card_of :: "real \<Rightarrow> property list \<Rightarrow> uuid list \<Rightarrow> tenant_request \<Rightarrow> request_card" where
  "request_card_of ms myProperties offered r =
     (let best = best_of (map (\<lambda>p. (p, computeHybridMatch ms r p)) myProperties)
      in \<lparr>rc_id = tr_id r, rc_minBudget = tr_minBudget r, rc_maxBudget = tr_maxBudget r,
          rc_preferredLocations = tr_preferredLocations r, rc_propertyType = tr_propertyType r,
          rc_requiredBedrooms = tr_requiredBedrooms r, rc_needsFurnished = tr_needsFurnished r,
          rc_flexibilityScore = tr_flexibilityScore r, rc_lifestyleRequirements = tr_lifestyleRequirements r,
          rc_createdAt = tr_createdAt r, rc_matchScore = map_option (\<lambda>(p, k, rs). k) best,
          rc_matchReasons = (case best of None \<Rightarrow> [] | Some (p, k, rs) \<Rightarrow> rs), rc_alreadyOffered = (tr_id r \<in> set offered),
          rc_bestMatchingProperty = map_option (\<lambda>(p, k, rs). (p_id p, p_title p)) best\<rparr>)"

definition score_or_zero :: "int option \<Rightarrow> int" where
  "score_or_zero k = (case k of None \<Rightarrow> 0 | Some n \<Rightarrow> n)"

definition browseRequests :: "real \<Rightarrow> uuid \<Rightarrow> db \<Rightarrow> request_card list" where
  "browseRequests ms landlordId s =
     sort_key (\<lambda>c. - score_or_zero (rc_matchScore c))
       (map (request_card_of ms (approved_listings landlordId s)
               (map oo_tenantRequestId (filter (\<lambda>x. oo_ownerId x = landlordId) (db_ownerOffers s))))
         (filter (\<lambda>r. tr_status r = TR_APPROVED) (db_tenantRequests s)))"

definition getPropertyScoresForRequest :: "real \<Rightarrow> uuid \<Rightarrow> uuid \<Rightarrow> db \<Rightarrow> http_error + (uuid \<times> int \<times> match_reason list) list" where
  "getPropertyScoresForRequest ms landlordId rid s =
     (case request_of rid s of
        None \<Rightarrow> Inl (NotFound ''REQUEST_NOT_FOUND'')
      | Some r \<Rightarrow> Inr (map (\<lambda>p. (p_id p, computeHybridMatch ms r p)) (approved_listings landlordId s)))"

text \<open>\<open>PROPERTY_SUMMARY_INCLUDE\<close> leaves the governorate and the city out.\<close>

definition offer_listing :: "db \<Rightarrow> property \<Rightarrow> listing" where
  "offer_listing s p = (detail_of s p)\<lparr>ls_governorate := None, ls_city := None\<rparr>"

text \<open>The match that an accepted offer created, as both inboxes look it up.\<close>

definition offer_connection :: "owner_offer \<Rightarrow> uuid \<Rightarrow> match_connection \<Rightarrow> bool" where
  "offer_connection x tenantId c \<longleftrightarrow> mc_tenantId c = tenantId \<and> mc_ownerId c = oo_ownerId x
     \<and> Some (mc_propertyId c) = oo_propertyId x \<and> mc_tenantRequestId c = Some (oo_tenantRequestId x) \<and> mc_status c = CONNECTED"

record sent_offer =
  so_id :: uuid
  so_tenantRequestId :: uuid
  so_property :: property_summary
  so_pitchMessage :: string
  so_proposedPrice :: real
  so_status :: owner_offer_status
  so_createdAt :: time
  so_tenantName :: "string option"
  so_tenantPhoneNumber :: "string option"
  so_matchConnectionId :: "uuid option"

text \<open>The relations of a row, None when a required one is missing.\<close>

definition offer_property :: "owner_offer \<Rightarrow> db \<Rightarrow> property option" where
  "offer_property x s = (case oo_propertyId x of None \<Rightarrow> None | Some pid \<Rightarrow> property_of pid s)"

definition offer_tenant :: "owner_offer \<Rightarrow> db \<Rightarrow> user option" where
  "offer_tenant x s = (case request_of (oo_tenantRequestId x) s of None \<Rightarrow> None | Some r \<Rightarrow> user_of (tr_tenantId r) s)"

definition sent_offer_of :: "string \<Rightarrow> db \<Rightarrow> owner_offer \<Rightarrow> http_error + sent_offer" where
  "sent_offer_of lang s x =
     (case (offer_property x s, offer_tenant x s) of
        (Some p, Some t) \<Rightarrow>
          let accepted = (oo_status x = OO_ACCEPTED);
              connection = (if accepted then find (offer_connection x (u_id t)) (db_matchConnections s) else None)
          in Inr \<lparr>so_id = oo_id x, so_tenantRequestId = oo_tenantRequestId x,
                  so_property = transformPropertyToSummary lang (offer_listing s p), so_pitchMessage = oo_pitchMessage x,
                  so_proposedPrice = oo_proposedPrice x, so_status = oo_status x, so_createdAt = oo_createdAt x,
                  so_tenantName = (if accepted then Some (u_fullName t) else None),
                  so_tenantPhoneNumber = (if accepted then Some (u_phoneNumber t) else None),
                  so_matchConnectionId = map_option mc_id connection\<rparr>
      | _ \<Rightarrow> Inl (Internal ''TypeError''))"

text \<open>\<open>Promise.all\<close> over the rows: the values in order, or an exception.\<close>

fun all_rows :: "('a \<Rightarrow> http_error + 'b) \<Rightarrow> 'a list \<Rightarrow> http_error + 'b list" where
  "all_rows f [] = Inr []"
| "all_rows f (x # xs) =
     (case f x of Inl e \<Rightarrow> Inl e | Inr y \<Rightarrow> (case all_rows f xs of Inl e \<Rightarrow> Inl e | Inr ys \<Rightarrow> Inr (y # ys)))"

definition getSentOffers :: "string \<Rightarrow> uuid \<Rightarrow> db \<Rightarrow> http_error + sent_offer list" where
  "getSentOffers lang landlordId s =
     all_rows (sent_offer_of lang s)
       (sort_key (\<lambda>x. - oo_createdAt x) (filter (\<lambda>x. oo_ownerId x = landlordId) (db_ownerOffers s)))"

section \<open>Sending\<close>

record owner_offer_dto =
  od_tenantRequestId :: uuid
  od_propertyId :: uuid
  od_pitchMessage :: string
  od_proposedPrice :: real

record sending_receipt =
  or_id :: uuid
  or_status :: owner_offer_status
  or_freeOffersLeft :: int

definition new_owner_offer :: "uuid \<Rightarrow> uuid \<Rightarrow> owner_offer_dto \<Rightarrow> time \<Rightarrow> owner_offer" where
  "new_owner_offer oid landlordId dto now =
     \<lparr>oo_id = oid, oo_ownerId = landlordId, oo_tenantRequestId = od_tenantRequestId dto,
      oo_propertyId = Some (od_propertyId dto), oo_pitchMessage = od_pitchMessage dto,
      oo_proposedPrice = od_proposedPrice dto, oo_status = SENT, oo_createdAt = now\<rparr>"

definition insert_owner_offer :: "uuid \<Rightarrow> owner_offer_dto \<Rightarrow> time \<Rightarrow> db \<Rightarrow> owner_offer result" where
  "insert_owner_offer landlordId dto now tx =
     (let x = new_owner_offer (db_seq tx) landlordId dto now
      in (Inr x, tx\<lparr>db_seq := db_seq tx + 1, db_ownerOffers := db_ownerOffers tx @ [x]\<rparr>))"

definition createOffer_check :: "uuid \<Rightarrow> owner_offer_dto \<Rightarrow> db \<Rightarrow> http_error + tenant_request" where
  "createOffer_check landlordId dto s =
     (case find (\<lambda>r. tr_id r = od_tenantRequestId dto \<and> tr_status r = TR_APPROVED) (db_tenantRequests s) of
        None \<Rightarrow> Inl (NotFound ''REQUEST_NOT_AVAILABLE'')
      | Some r \<Rightarrow>
          (case owned_property landlordId (od_propertyId dto) s of
             None \<Rightarrow> Inl (NotFound ''PROPERTY_NOT_FOUND'')
           | Some p \<Rightarrow>
               if p_status p \<noteq> P_APPROVED then Inl (Forbidden ''PROPERTY_NOT_APPROVED'')
               else if find (\<lambda>x. oo_tenantRequestId x = od_tenantRequestId dto \<and> oo_ownerId x = landlordId) (db_ownerOffers s) \<noteq> None
               then Inl (Conflict ''ALREADY_OFFERED'') else Inr r))"

definition createOffer_write :: "uuid \<Rightarrow> owner_offer_dto \<Rightarrow> tenant_request \<Rightarrow> time \<Rightarrow> db \<Rightarrow> sending_receipt result" where
  "createOffer_write landlordId dto r now s =
     (case withConsumedOffer landlordId (insert_owner_offer landlordId dto now) now s of
        (Inl e, s1) \<Rightarrow> (Inl e, s1)
      | (Inr (x, remaining), s1) \<Rightarrow>
          (Inr \<lparr>or_id = oo_id x, or_status = oo_status x, or_freeOffersLeft = remaining\<rparr>,
           notifyUser (tr_tenantId r) NEW_OFFER_RECEIVED (Some (''/tenant/offers'', None)) now
             (emit (AnalyticsCounter (od_propertyId dto) ''ownerOffers'') s1)))"

definition createOffer :: "uuid \<Rightarrow> owner_offer_dto \<Rightarrow> time \<Rightarrow> db \<Rightarrow> sending_receipt result" where
  "createOffer landlordId dto now s =
     (case createOffer_check landlordId dto s of
        Inl e \<Rightarrow> (Inl e, s) | Inr r \<Rightarrow> createOffer_write landlordId dto r now s)"

section \<open>What the tenant sees and decides\<close>

record received_offer =
  ro_id :: uuid
  ro_tenantRequestId :: uuid
  ro_property :: property_summary
  ro_pitchMessage :: string
  ro_proposedPrice :: real
  ro_status :: owner_offer_status
  ro_matchScore :: "int option"
  ro_matchReasons :: "match_reason list"
  ro_createdAt :: time
  ro_ownerName :: "string option"
  ro_ownerPhoneNumber :: "string option"
  ro_manualAddress :: "string option"
  ro_matchConnectionId :: "uuid option"

definition toReceivedOffer :: "string \<Rightarrow> real \<Rightarrow> db \<Rightarrow> owner_offer \<Rightarrow> http_error + received_offer" where
  "toReceivedOffer lang ms s x =
     (case (offer_property x s, request_of (oo_tenantRequestId x) s) of
        (Some p, Some r) \<Rightarrow>
          let owner = user_of (oo_ownerId x) s; accepted = (oo_status x = OO_ACCEPTED);
              connection = (if accepted then find (offer_connection x (tr_tenantId r)) (db_matchConnections s) else None);
              hybrid = computeHybridMatch ms r p
          in Inr \<lparr>ro_id = oo_id x, ro_tenantRequestId = oo_tenantRequestId x,
                  ro_property = transformPropertyToSummary lang (offer_listing s p), ro_pitchMessage = oo_pitchMessage x,
                  ro_proposedPrice = oo_proposedPrice x, ro_status = oo_status x, ro_matchScore = Some (fst hybrid),
                  ro_matchReasons = snd hybrid, ro_createdAt = oo_createdAt x,
                  ro_ownerName = (if accepted then map_option u_fullName owner else None),
                  ro_ownerPhoneNumber = (if accepted then map_option u_phoneNumber owner else None),
                  ro_manualAddress = (if accepted then Some (p_manualAddress p) else None),
                  ro_matchConnectionId = map_option mc_id connection\<rparr>
      | _ \<Rightarrow> Inl (Internal ''TypeError''))"

definition offer_for :: "uuid \<Rightarrow> db \<Rightarrow> owner_offer \<Rightarrow> bool" where
  "offer_for tenantId s x \<longleftrightarrow> list_ex (\<lambda>r. tr_id r = oo_tenantRequestId x \<and> tr_tenantId r = tenantId) (db_tenantRequests s)"

definition getReceivedOffers :: "string \<Rightarrow> real \<Rightarrow> uuid \<Rightarrow> db \<Rightarrow> http_error + received_offer list" where
  "getReceivedOffers lang ms tenantId s =
     (case all_rows (toReceivedOffer lang ms s)
             (sort_key (\<lambda>x. - oo_createdAt x) (filter (offer_for tenantId s) (db_ownerOffers s))) of
        Inl e \<Rightarrow> Inl e | Inr items \<Rightarrow> Inr (sort_key (\<lambda>y. - score_or_zero (ro_matchScore y)) items))"

definition findOwnedOffer :: "uuid \<Rightarrow> uuid \<Rightarrow> db \<Rightarrow> http_error + owner_offer" where
  "findOwnedOffer tenantId offerId s =
     (case find (\<lambda>x. oo_id x = offerId \<and> offer_for tenantId s x) (db_ownerOffers s) of
        None \<Rightarrow> Inl (NotFound ''OFFER_NOT_FOUND'') | Some x \<Rightarrow> Inr x)"

definition set_owner_offers :: "(owner_offer \<Rightarrow> bool) \<Rightarrow> owner_offer_status \<Rightarrow> db \<Rightarrow> db" where
  "set_owner_offers P st s = s\<lparr>db_ownerOffers := update_where P (\<lambda>x. x\<lparr>oo_status := st\<rparr>) (db_ownerOffers s)\<rparr>"

definition open_offer :: "owner_offer \<Rightarrow> bool" where
  "open_offer x \<longleftrightarrow> oo_status x = SENT \<or> oo_status x = VIEWED"

definition viewOffer_write :: "owner_offer \<Rightarrow> time \<Rightarrow> db \<Rightarrow> db" where
  "viewOffer_write x now s =
     (if oo_status x = SENT
      then notifyUser (oo_ownerId x) NEW_OFFER_RECEIVED (Some (''/landlord/offers'', None)) now
             (set_owner_offers (\<lambda>y. oo_id y = oo_id x) VIEWED s)
      else s)"

definition viewOffer :: "string \<Rightarrow> real \<Rightarrow> uuid \<Rightarrow> uuid \<Rightarrow> time \<Rightarrow> db \<Rightarrow> received_offer result" where
  "viewOffer lang ms tenantId offerId now s =
     (case findOwnedOffer tenantId offerId s of
        Inl e \<Rightarrow> (Inl e, s)
      | Inr x \<Rightarrow>
          let s1 = viewOffer_write x now s
          in (case find (\<lambda>y. oo_id y = offerId) (db_ownerOffers s1) of
                None \<Rightarrow> (Inl (Internal ''P2025''), s1) | Some y \<Rightarrow> (toReceivedOffer lang ms s1 y, s1)))"

record acceptance =
  ap_offer :: owner_offer
  ap_property :: property
  ap_owner :: user
  ap_matchScore :: int

definition acceptOffer_check :: "real \<Rightarrow> uuid \<Rightarrow> uuid \<Rightarrow> db \<Rightarrow> http_error + acceptance" where
  "acceptOffer_check ms tenantId offerId s =
     (case findOwnedOffer tenantId offerId s of
        Inl e \<Rightarrow> Inl e
      | Inr x \<Rightarrow>
          if \<not> open_offer x then Inl (Conflict ''OFFER_STATE'')
          else (case offer_property x s of
            None \<Rightarrow> Inl (Forbidden ''PROPERTY_NOT_AVAILABLE'')
          | Some p \<Rightarrow>
              if p_status p \<noteq> P_APPROVED then Inl (Forbidden ''PROPERTY_NOT_AVAILABLE'')
              else (case request_of (oo_tenantRequestId x) s of
                None \<Rightarrow> Inl (Internal ''P2025'')
              | Some r \<Rightarrow>
                  if tr_status r \<noteq> TR_APPROVED then Inl (Conflict ''REQUEST_NOT_AVAILABLE'')
                  else (case user_of (oo_ownerId x) s of
                    None \<Rightarrow> Inl (Internal ''P2025'')
                  | Some u \<Rightarrow> Inr \<lparr>ap_offer = x, ap_property = p, ap_owner = u, ap_matchScore = fst (computeHybridMatch ms r p)\<rparr>))))"

definition new_match :: "uuid \<Rightarrow> uuid \<Rightarrow> acceptance \<Rightarrow> time \<Rightarrow> match_connection" where
  "new_match cid tenantId a now =
     \<lparr>mc_id = cid, mc_tenantId = tenantId, mc_propertyId = p_id (ap_property a), mc_ownerId = oo_ownerId (ap_offer a),
      mc_tenantRequestId = Some (oo_tenantRequestId (ap_offer a)), mc_matchScore = of_int (ap_matchScore a),
      mc_status = CONNECTED, mc_agreementReachedAt = None, mc_createdAt = now\<rparr>"

definition acceptOffer_tx :: "uuid \<Rightarrow> acceptance \<Rightarrow> time \<Rightarrow> db \<Rightarrow> uuid result" where
  "acceptOffer_tx tenantId a now =
     transaction (\<lambda>tx.
       let x = ap_offer a; may = (\<lambda>y. oo_id y = oo_id x \<and> open_offer y); tx1 = set_owner_offers may OO_ACCEPTED tx
       in if find (\<lambda>r. tr_id r = oo_tenantRequestId x \<and> tr_status r = TR_APPROVED) (db_tenantRequests tx) = None
          then (Inl (Conflict ''REQUEST_NOT_AVAILABLE''), tx)
          else if count_where may (db_ownerOffers tx) \<noteq> 1 then (Inl (Conflict ''OFFER_STATE''), tx1)
          else (Inr (db_seq tx1), tx1\<lparr>db_seq := db_seq tx1 + 1,
                  db_matchConnections := db_matchConnections tx1 @ [new_match (db_seq tx1) tenantId a now]\<rparr>))"

record accepted_offer =
  ao_offerId :: uuid
  ao_ownerName :: string
  ao_ownerPhoneNumber :: string
  ao_manualAddress :: string
  ao_matchConnectionId :: uuid

definition acceptOffer_write :: "uuid \<Rightarrow> acceptance \<Rightarrow> time \<Rightarrow> db \<Rightarrow> accepted_offer result" where
  "acceptOffer_write tenantId a now s =
     (case acceptOffer_tx tenantId a now s of
        (Inl e, s1) \<Rightarrow> (Inl e, s1)
      | (Inr cid, s1) \<Rightarrow>
          (Inr \<lparr>ao_offerId = oo_id (ap_offer a), ao_ownerName = u_fullName (ap_owner a), ao_ownerPhoneNumber = u_phoneNumber (ap_owner a),
                ao_manualAddress = p_manualAddress (ap_property a), ao_matchConnectionId = cid\<rparr>,
           notifyUser (oo_ownerId (ap_offer a)) NEW_MATCH (Some (''/landlord/offers'', None)) now
             (emit (AnalyticsCounter (p_id (ap_property a)) ''matches'') s1)))"

definition acceptOffer :: "real \<Rightarrow> uuid \<Rightarrow> uuid \<Rightarrow> time \<Rightarrow> db \<Rightarrow> accepted_offer result" where
  "acceptOffer ms tenantId offerId now s =
     (case acceptOffer_check ms tenantId offerId s of
        Inl e \<Rightarrow> (Inl e, s) | Inr a \<Rightarrow> acceptOffer_write tenantId a now s)"

definition rejectOffer :: "uuid \<Rightarrow> uuid \<Rightarrow> time \<Rightarrow> db \<Rightarrow> unit result" where
  "rejectOffer tenantId offerId now s =
     (case findOwnedOffer tenantId offerId s of
        Inl e \<Rightarrow> (Inl e, s)
      | Inr x \<Rightarrow>
          if \<not> open_offer x then (Inl (Conflict ''OFFER_STATE''), s)
          else let may = (\<lambda>y. oo_id y = offerId \<and> open_offer y); s1 = set_owner_offers may OO_REJECTED s
               in if count_where may (db_ownerOffers s) \<noteq> 1 then (Inl (Conflict ''OFFER_STATE''), s1)
                  else (Inr (), notifyUser (oo_ownerId x) NEW_OFFER_RECEIVED (Some (''/landlord/offers'', None)) now s1))"


section \<open>The requests of tenants\<close>

record tenant_request_dto =
  qd_minBudget :: real
  qd_maxBudget :: real
  qd_preferredLocations :: string
  qd_propertyType :: property_type
  qd_requiredBedrooms :: int
  qd_needsFurnished :: bool
  qd_flexibilityScore :: int
  qd_lifestyleRequirements :: string

record tenant_request_view =
  qv_id :: uuid
  qv_tenantId :: uuid
  qv_minBudget :: real
  qv_maxBudget :: real
  qv_preferredLocations :: string
  qv_propertyType :: property_type
  qv_requiredBedrooms :: int
  qv_needsFurnished :: bool
  qv_flexibilityScore :: int
  qv_lifestyleRequirements :: string
  qv_status :: request_status
  qv_rejectionReason :: "string option"
  qv_offersCount :: int
  qv_createdAt :: time

definition transformTenantRequest :: "tenant_request \<Rightarrow> int option \<Rightarrow> tenant_request_view" where
  "transformTenantRequest r offers =
     \<lparr>qv_id = tr_id r, qv_tenantId = tr_tenantId r, qv_minBudget = tr_minBudget r, qv_maxBudget = tr_maxBudget r,
      qv_preferredLocations = tr_preferredLocations r, qv_propertyType = tr_propertyType r,
      qv_requiredBedrooms = tr_requiredBedrooms r, qv_needsFurnished = tr_needsFurnished r,
      qv_flexibilityScore = tr_flexibilityScore r, qv_lifestyleRequirements = tr_lifestyleRequirements r, qv_status = tr_status r,
      qv_rejectionReason = None, qv_offersCount = (case offers of None \<Rightarrow> 0 | Some n \<Rightarrow> n), qv_createdAt = tr_createdAt r\<rparr>"

definition new_request :: "uuid \<Rightarrow> uuid \<Rightarrow> tenant_request_dto \<Rightarrow> time \<Rightarrow> tenant_request" where
  "new_request rid tenantId dto now =
     \<lparr>tr_id = rid, tr_tenantId = tenantId, tr_minBudget = qd_minBudget dto, tr_maxBudget = qd_maxBudget dto,
      tr_preferredLocations = qd_preferredLocations dto, tr_propertyType = qd_propertyType dto,
      tr_requiredBedrooms = qd_requiredBedrooms dto, tr_needsFurnished = qd_needsFurnished dto,
      tr_flexibilityScore = qd_flexibilityScore dto, tr_lifestyleRequirements = qd_lifestyleRequirements dto,
      tr_status = TR_PENDING, tr_approvedBy = None, tr_createdAt = now, tr_embedding = []\<rparr>"

definition create_request :: "uuid \<Rightarrow> tenant_request_dto \<Rightarrow> time \<Rightarrow> db \<Rightarrow> tenant_request_view result" where
  "create_request tenantId dto now s =
     (let r = new_request (db_seq s) tenantId dto now
      in (Inr (transformTenantRequest r None),
          emit (SocketQueueItem ''request'' (tr_id r))
            (s\<lparr>db_seq := db_seq s + 1, db_tenantRequests := db_tenantRequests s @ [r]\<rparr>)))"

definition findMine :: "uuid \<Rightarrow> db \<Rightarrow> tenant_request_view list" where
  "findMine tenantId s =
     map (\<lambda>r. transformTenantRequest r (Some (count_where (\<lambda>x. oo_tenantRequestId x = tr_id r) (db_ownerOffers s))))
       (sort_key (\<lambda>r. - tr_createdAt r) (filter (\<lambda>r. tr_tenantId r = tenantId) (db_tenantRequests s)))"

definition close_request :: "uuid \<Rightarrow> uuid \<Rightarrow> db \<Rightarrow> unit result" where
  "close_request tenantId rid s =
     (if find (\<lambda>r. tr_id r = rid \<and> tr_tenantId r = tenantId) (db_tenantRequests s) = None
      then (Inl (NotFound ''REQUEST_NOT_FOUND''), s)
      else (Inr (), s\<lparr>db_tenantRequests := update_where (\<lambda>r. tr_id r = rid) (\<lambda>r. r\<lparr>tr_status := TR_CLOSED\<rparr>) (db_tenantRequests s)\<rparr>))"

text \<open>Whole requests, one after the other, by anyone, at any time.\<close>

inductive owner_offer_step :: "db \<Rightarrow> db \<Rightarrow> bool" where
  Send: "owner_offer_step s (snd (createOffer landlordId dto now s))"
| View: "owner_offer_step s (snd (viewOffer lang ms tenantId offerId now s))"
| Accept: "owner_offer_step s (snd (acceptOffer ms tenantId offerId now s))"
| Reject: "owner_offer_step s (snd (rejectOffer tenantId offerId now s))"
| Ask: "owner_offer_step s (snd (create_request tenantId qdto now s))"
| Close: "owner_offer_step s (snd (close_request tenantId rid s))"

inductive_cases owner_offer_stepE: "owner_offer_step s t"

section \<open>What one request does to the offers\<close>

lemma set_owner_offers_simps [simp]:
  "db_ownerOffers (set_owner_offers P st s) = update_where P (\<lambda>x. x\<lparr>oo_status := st\<rparr>) (db_ownerOffers s)"
  "db_matchConnections (set_owner_offers P st s) = db_matchConnections s" "db_seq (set_owner_offers P st s) = db_seq s"
  "db_tenantRequests (set_owner_offers P st s) = db_tenantRequests s" "db_properties (set_owner_offers P st s) = db_properties s"
  "db_users (set_owner_offers P st s) = db_users s"
  by (simp_all add: set_owner_offers_def)

text \<open>Spending a credit leaves the tables of the offers alone.\<close>

definition same_market :: "db \<Rightarrow> db \<Rightarrow> bool" where
  "same_market s t \<longleftrightarrow> db_ownerOffers t = db_ownerOffers s \<and> db_matchConnections t = db_matchConnections s
     \<and> db_tenantRequests t = db_tenantRequests s \<and> db_seq s \<le> db_seq t"

lemma same_market_ensure: "same_market s (snd (ensureCurrentPeriod uid now s))"
  by (simp add: same_market_def ensureCurrentPeriod_def update_quota_def Let_def split: option.splits)

lemma same_market_consume: "same_market s (snd (consumeSoonestExpiringWithClient uid ty fld now s))"
  by (simp add: same_market_def consumeSoonestExpiringWithClient_def take_from_grant_def take_from_plan_def Let_def
      split: option.splits)

lemma same_market_trans: "same_market s t \<Longrightarrow> same_market t u \<Longrightarrow> same_market s u"
  by (simp add: same_market_def)

lemma createOffer_write_market:
  obtains (refused) e t where "createOffer_write landlordId dto r now s = (Inl e, t)" "same_market s t"
  | (sent) k t v where "createOffer_write landlordId dto r now s = (Inr v, t)" "db_seq s \<le> k" "k < db_seq t"
      "db_ownerOffers t = db_ownerOffers s @ [new_owner_offer k landlordId dto now]"
      "db_matchConnections t = db_matchConnections s" "db_tenantRequests t = db_tenantRequests s"
proof -
  define s0 where "s0 = snd (ensureCurrentPeriod landlordId now s)"
  have m0: "same_market s s0" unfolding s0_def by (rule same_market_ensure)
  obtain x s1 where c: "consumeSoonestExpiringWithClient landlordId MATCHED_OFFER FreeOffersLeft now s0 = (x, s1)" by fastforce
  have m1: "same_market s s1" using same_market_trans[OF m0] same_market_consume[of s0] c by (metis snd_conv)
  note w = createOffer_write_def withConsumedOffer_def transaction_def s0_def[symmetric] c insert_owner_offer_def Let_def
  show thesis
  proof (cases x)
    case (Inl e)
    then show thesis using that(1)[of e s0] m0 by (simp add: w)
  next
    case (Inr y)
    show thesis
    proof (cases y)
      case None
      then show thesis using that(1)[OF _ m0] Inr by (simp add: w)
    next
      case (Some k)
      then show thesis using Inr m1 by (intro that(2)) (simp add: w, simp_all add: same_market_def)
    qed
  qed
qed


text \<open>The three possible effects of a request.\<close>

definition parties :: "db \<Rightarrow> (uuid \<times> uuid) list" where
  "parties s = map (\<lambda>r. (tr_id r, tr_tenantId r)) (db_tenantRequests s)"

definition matched :: "db \<Rightarrow> owner_offer \<Rightarrow> bool" where
  "matched s x \<longleftrightarrow> (\<exists>tenantId. (oo_tenantRequestId x, tenantId) \<in> set (parties s)
     \<and> (\<exists>c \<in> set (db_matchConnections s). offer_connection x tenantId c))"

definition owner_offers_kept :: "db \<Rightarrow> db \<Rightarrow> bool" where
  "owner_offers_kept s t \<longleftrightarrow> db_ownerOffers t = db_ownerOffers s \<and> db_matchConnections t = db_matchConnections s
     \<and> db_seq s \<le> db_seq t \<and> set (parties s) \<subseteq> set (parties t)"

definition owner_offer_sent :: "db \<Rightarrow> db \<Rightarrow> bool" where
  "owner_offer_sent s t \<longleftrightarrow> db_matchConnections t = db_matchConnections s \<and> parties t = parties s
     \<and> (\<exists>k landlordId dto now. db_seq s \<le> k \<and> k < db_seq t
         \<and> db_ownerOffers t = db_ownerOffers s @ [new_owner_offer k landlordId dto now]
         \<and> (\<forall>x \<in> set (db_ownerOffers s). (oo_ownerId x, oo_tenantRequestId x) \<noteq> (landlordId, od_tenantRequestId dto)))"

definition owner_offer_moved :: "db \<Rightarrow> db \<Rightarrow> bool" where
  "owner_offer_moved s t \<longleftrightarrow> db_seq s \<le> db_seq t \<and> parties t = parties s
     \<and> set (db_matchConnections s) \<subseteq> set (db_matchConnections t)
     \<and> (\<exists>x st. x \<in> set (db_ownerOffers s) \<and> open_offer x
         \<and> db_ownerOffers t = update_where (\<lambda>z. oo_id z = oo_id x) (\<lambda>z. x\<lparr>oo_status := st\<rparr>) (db_ownerOffers s)
         \<and> (st = OO_ACCEPTED \<longrightarrow> matched t x))"

lemma same_market_kept: "same_market s t \<Longrightarrow> owner_offers_kept s t"
  by (simp add: same_market_def owner_offers_kept_def parties_def)

lemma same_market_refl: "same_market s s"
  by (simp add: same_market_def)

lemma findOwnedOffer_Inr:
  assumes "findOwnedOffer tenantId offerId s = Inr x"
  shows "x \<in> set (db_ownerOffers s)" "oo_id x = offerId" "(oo_tenantRequestId x, tenantId) \<in> set (parties s)"
  using assms by (auto simp: findOwnedOffer_def offer_for_def parties_def list_ex_iff split: option.splits dest!: find_SomeD intro: rev_image_eqI)

text \<open>A guarded write by id touches exactly the row it was checked on.\<close>

lemma guarded_write:
  assumes "distinct (map oo_id t)" "x \<in> set t" "open_offer x"
  shows "update_where (\<lambda>y. oo_id y = oo_id x \<and> open_offer y) (\<lambda>y. y\<lparr>oo_status := st\<rparr>) t
    = update_where (\<lambda>z. oo_id z = oo_id x) (\<lambda>z. x\<lparr>oo_status := st\<rparr>) t"
    "update_where (\<lambda>y. oo_id y = oo_id x) (\<lambda>y. y\<lparr>oo_status := st\<rparr>) t
    = update_where (\<lambda>z. oo_id z = oo_id x) (\<lambda>z. x\<lparr>oo_status := st\<rparr>) t"
  using distinct_keyD[OF assms(1) _ assms(2)] assms(3) unfolding update_where_def by (auto intro!: map_cong)

lemma guarded_count:
  assumes "distinct (map oo_id t)" "x \<in> set t" "open_offer x"
  shows "count_where (\<lambda>y. oo_id y = oo_id x \<and> open_offer y) t = 1"
  by (rule count_where_key_one[of oo_id, OF assms(1,2)]) (use assms(3) in simp_all)

lemma moved_by_write:
  assumes "distinct (map oo_id (db_ownerOffers s))" "x \<in> set (db_ownerOffers s)" "open_offer x"
    and "db_ownerOffers t = update_where (\<lambda>z. oo_id z = oo_id x) (\<lambda>z. x\<lparr>oo_status := st\<rparr>) (db_ownerOffers s)"
    and "db_seq s \<le> db_seq t" "db_tenantRequests t = db_tenantRequests s" "set (db_matchConnections s) \<subseteq> set (db_matchConnections t)"
    and "st = OO_ACCEPTED \<Longrightarrow> matched t x"
  shows "owner_offer_moved s t"
  unfolding owner_offer_moved_def using assms by (intro conjI exI[of _ x] exI[of _ st]) (simp_all add: parties_def)

lemma view_effect:
  assumes "distinct (map oo_id (db_ownerOffers s))" "x \<in> set (db_ownerOffers s)"
  shows "owner_offers_kept s (viewOffer_write x now s) \<or> owner_offer_moved s (viewOffer_write x now s)"
proof (cases "oo_status x = SENT")
  case True
  then have o: "open_offer x" by (simp add: open_offer_def)
  show ?thesis
    by (rule disjI2, rule moved_by_write[OF assms o, of _ VIEWED]) (simp_all add: viewOffer_write_def True guarded_write(2)[OF assms o])
next
  case False
  then show ?thesis by (simp add: viewOffer_write_def same_market_kept same_market_refl)
qed

lemma acceptOffer_check_Inr:
  assumes "acceptOffer_check ms tenantId offerId s = Inr a"
  shows "ap_offer a \<in> set (db_ownerOffers s)" "oo_id (ap_offer a) = offerId" "open_offer (ap_offer a)"
    "(oo_tenantRequestId (ap_offer a), tenantId) \<in> set (parties s)"
    "oo_propertyId (ap_offer a) = Some (p_id (ap_property a))"
    "find (\<lambda>r. tr_id r = oo_tenantRequestId (ap_offer a) \<and> tr_status r = TR_APPROVED) (db_tenantRequests s) \<noteq> None"
proof -
  obtain x p r u where f: "findOwnedOffer tenantId offerId s = Inr x" "open_offer x" "offer_property x s = Some p"
    "request_of (oo_tenantRequestId x) s = Some r" "tr_status r = TR_APPROVED"
    and a: "a = \<lparr>ap_offer = x, ap_property = p, ap_owner = u, ap_matchScore = fst (computeHybridMatch ms r p)\<rparr>"
    using assms unfolding acceptOffer_check_def by (auto split: sum.splits if_splits option.splits)
  from f(3) have "oo_propertyId x = Some (p_id p)"
    by (auto simp: offer_property_def property_of_def split: option.splits dest: find_SomeD)
  moreover from f(4) have "r \<in> set (db_tenantRequests s)" "tr_id r = oo_tenantRequestId x"
    by (auto simp: request_of_def dest: find_SomeD)
  ultimately show "ap_offer a \<in> set (db_ownerOffers s)" "oo_id (ap_offer a) = offerId" "open_offer (ap_offer a)"
    "(oo_tenantRequestId (ap_offer a), tenantId) \<in> set (parties s)"
    "oo_propertyId (ap_offer a) = Some (p_id (ap_property a))"
    "find (\<lambda>r. tr_id r = oo_tenantRequestId (ap_offer a) \<and> tr_status r = TR_APPROVED) (db_tenantRequests s) \<noteq> None"
    using findOwnedOffer_Inr[OF f(1)] f(2,5) by (auto simp: a find_None_iff)
qed

lemma new_match_connection:
  assumes "oo_propertyId (ap_offer a) = Some (p_id (ap_property a))"
  shows "offer_connection (ap_offer a) tenantId (new_match cid tenantId a now)"
  using assms by (simp add: offer_connection_def new_match_def)

text \<open>An acceptance whose guards hold when it writes.\<close>

lemma acceptOffer_write_ok:
  assumes "count_where (\<lambda>y. oo_id y = oo_id (ap_offer a) \<and> open_offer y) (db_ownerOffers s) = 1"
    and "find (\<lambda>r. tr_id r = oo_tenantRequestId (ap_offer a) \<and> tr_status r = TR_APPROVED) (db_tenantRequests s) \<noteq> None"
  obtains v t where "acceptOffer_write tenantId a now s = (Inr v, t)" "ao_matchConnectionId v = db_seq s" "db_seq s < db_seq t"
    "db_ownerOffers t = update_where (\<lambda>y. oo_id y = oo_id (ap_offer a) \<and> open_offer y) (\<lambda>y. y\<lparr>oo_status := OO_ACCEPTED\<rparr>) (db_ownerOffers s)"
    "db_matchConnections t = db_matchConnections s @ [new_match (db_seq s) tenantId a now]"
    "db_tenantRequests t = db_tenantRequests s" "db_properties t = db_properties s" "db_users t = db_users s"
proof -
  define u where "u = (set_owner_offers (\<lambda>y. oo_id y = oo_id (ap_offer a) \<and> open_offer y) OO_ACCEPTED s)
      \<lparr>db_seq := db_seq s + 1, db_matchConnections := db_matchConnections s @ [new_match (db_seq s) tenantId a now]\<rparr>"
  have "acceptOffer_write tenantId a now s =
      (Inr \<lparr>ao_offerId = oo_id (ap_offer a), ao_ownerName = u_fullName (ap_owner a), ao_ownerPhoneNumber = u_phoneNumber (ap_owner a),
            ao_manualAddress = p_manualAddress (ap_property a), ao_matchConnectionId = db_seq s\<rparr>,
       notifyUser (oo_ownerId (ap_offer a)) NEW_MATCH (Some (''/landlord/offers'', None)) now
         (emit (AnalyticsCounter (p_id (ap_property a)) ''matches'') u))"
    using assms by (simp add: acceptOffer_write_def acceptOffer_tx_def transaction_def Let_def u_def)
  from that[OF this] show thesis by (simp add: u_def)
qed

lemma accept_effect:
  assumes "distinct (map oo_id (db_ownerOffers s))" "acceptOffer_check ms tenantId offerId s = Inr a"
  shows "owner_offer_moved s (snd (acceptOffer_write tenantId a now s))"
proof -
  note c = acceptOffer_check_Inr[OF assms(2)]
  obtain v t where w: "acceptOffer_write tenantId a now s = (Inr v, t)" "ao_matchConnectionId v = db_seq s" "db_seq s < db_seq t"
    "db_ownerOffers t = update_where (\<lambda>y. oo_id y = oo_id (ap_offer a) \<and> open_offer y) (\<lambda>y. y\<lparr>oo_status := OO_ACCEPTED\<rparr>) (db_ownerOffers s)"
    "db_matchConnections t = db_matchConnections s @ [new_match (db_seq s) tenantId a now]"
    "db_tenantRequests t = db_tenantRequests s" "db_properties t = db_properties s" "db_users t = db_users s"
    by (rule acceptOffer_write_ok[OF guarded_count[OF assms(1) c(1,3)] c(6)])
  have "matched t (ap_offer a)"
    unfolding matched_def parties_def w(5,6)
    using c(4) new_match_connection[OF c(5), of tenantId "db_seq s" now]
    by (intro exI[of _ tenantId]) (simp add: parties_def)
  then show ?thesis
    unfolding w(1) snd_conv using w(3,5,6)
    by (intro moved_by_write[OF assms(1) c(1,3), of _ OO_ACCEPTED]) (auto simp: w(4) guarded_write(1)[OF assms(1) c(1,3)])
qed

lemma owner_offer_step_effect:
  assumes "owner_offer_step s t" "distinct (map oo_id (db_ownerOffers s))"
  shows "owner_offers_kept s t \<or> owner_offer_sent s t \<or> owner_offer_moved s t"
  using assms(1)
proof cases
  case (Send landlordId dto now)
  show ?thesis
  proof (cases "createOffer_check landlordId dto s")
    case (Inl e)
    then show ?thesis by (simp add: Send createOffer_def same_market_kept same_market_refl)
  next
    case (Inr r)
    then have n: "\<forall>x \<in> set (db_ownerOffers s). (oo_ownerId x, oo_tenantRequestId x) \<noteq> (landlordId, od_tenantRequestId dto)"
      by (auto simp: createOffer_check_def find_None_iff split: option.splits if_splits)
    show ?thesis
    proof (cases rule: createOffer_write_market[of landlordId dto r now s])
      case (refused e u)
      then show ?thesis using Inr by (simp add: Send createOffer_def same_market_kept)
    next
      case (sent k u v)
      have "owner_offer_sent s u"
        unfolding owner_offer_sent_def using sent n
        by (intro conjI exI[of _ k] exI[of _ landlordId] exI[of _ dto] exI[of _ now]) (simp_all add: parties_def)
      then show ?thesis using Inr sent(1) by (simp add: Send createOffer_def)
    qed
  qed
next
  case (View lang ms tenantId offerId now)
  show ?thesis
  proof (cases "findOwnedOffer tenantId offerId s")
    case (Inl e)
    then show ?thesis by (simp add: View viewOffer_def same_market_kept same_market_refl)
  next
    case (Inr x)
    then have "t = viewOffer_write x now s" by (simp add: View viewOffer_def Let_def split: option.split)
    then show ?thesis using view_effect[OF assms(2) findOwnedOffer_Inr(1)[OF Inr]] by auto
  qed
next
  case (Accept ms tenantId offerId now)
  then show ?thesis
    using accept_effect[OF assms(2), of ms tenantId offerId]
    by (cases "acceptOffer_check ms tenantId offerId s") (auto simp: acceptOffer_def same_market_kept same_market_refl)
next
  case (Reject tenantId offerId now)
  show ?thesis
  proof (cases "findOwnedOffer tenantId offerId s")
    case (Inl e)
    then show ?thesis by (simp add: Reject rejectOffer_def same_market_kept same_market_refl)
  next
    case (Inr x)
    note f = findOwnedOffer_Inr[OF Inr]
    show ?thesis
    proof (cases "open_offer x")
      case False
      then show ?thesis using Inr by (simp add: Reject rejectOffer_def same_market_kept same_market_refl)
    next
      case True
      have t: "t = notifyUser (oo_ownerId x) NEW_OFFER_RECEIVED (Some (''/landlord/offers'', None)) now
          (set_owner_offers (\<lambda>y. oo_id y = oo_id x \<and> open_offer y) OO_REJECTED s)"
        using guarded_count[OF assms(2) f(1) True] f(2) by (simp add: Reject rejectOffer_def Inr True Let_def)
      show ?thesis
        by (intro disjI2 moved_by_write[OF assms(2) f(1) True, of _ OO_REJECTED])
          (simp_all add: t guarded_write(1)[OF assms(2) f(1) True])
    qed
  qed
next
  case (Ask tenantId qdto now)
  then show ?thesis by (auto simp: create_request_def Let_def owner_offers_kept_def parties_def)
next
  case (Close tenantId rid)
  have "parties (s\<lparr>db_tenantRequests := update_where (\<lambda>r. tr_id r = rid) (\<lambda>r. r\<lparr>tr_status := TR_CLOSED\<rparr>) (db_tenantRequests s)\<rparr>) = parties s"
    unfolding parties_def by (simp del: map_map) (rule map_update_where, simp)
  then show ?thesis by (simp add: Close close_request_def owner_offers_kept_def)
qed


section \<open>Invariant\<close>

definition owner_offers_inv :: "db \<Rightarrow> bool" where
  "owner_offers_inv s \<longleftrightarrow> keys_ok (db_seq s) (map oo_id (db_ownerOffers s))
     \<and> distinct (map (\<lambda>x. (oo_ownerId x, oo_tenantRequestId x)) (db_ownerOffers s))
     \<and> (\<forall>x \<in> set (db_ownerOffers s). oo_status x = OO_ACCEPTED \<longrightarrow> matched s x)"

definition closed_owner_offer :: "db \<Rightarrow> owner_offer \<Rightarrow> bool" where
  "closed_owner_offer s x \<longleftrightarrow> x \<in> set (db_ownerOffers s) \<and> \<not> open_offer x"

lemma matched_mono:
  "matched s x \<Longrightarrow> set (parties s) \<subseteq> set (parties t) \<Longrightarrow> set (db_matchConnections s) \<subseteq> set (db_matchConnections t) \<Longrightarrow> matched t x"
  unfolding matched_def by blast

lemma matched_status [simp]: "matched s (x\<lparr>oo_status := st\<rparr>) \<longleftrightarrow> matched s x"
  by (simp add: matched_def offer_connection_def)

lemma sent_inv:
  assumes "owner_offers_inv s" "owner_offer_sent s t"
  shows "owner_offers_inv t" "closed_owner_offer s z \<Longrightarrow> closed_owner_offer t z"
proof -
  obtain k l dto now where c: "db_seq s \<le> k" "k < db_seq t" "db_ownerOffers t = db_ownerOffers s @ [new_owner_offer k l dto now]"
    "\<forall>x \<in> set (db_ownerOffers s). (oo_ownerId x, oo_tenantRequestId x) \<noteq> (l, od_tenantRequestId dto)"
    "db_matchConnections t = db_matchConnections s" "parties t = parties s"
    using assms(2) unfolding owner_offer_sent_def by (elim exE conjE)
  note i = assms(1)[unfolded owner_offers_inv_def]
  have "keys_ok (Suc k) (map oo_id (db_ownerOffers s) @ [k])" by (rule keys_ok_snoc[OF keys_ok_mono[OF conjunct1[OF i] c(1)]])
  then have "keys_ok (db_seq t) (map oo_id (db_ownerOffers t))"
    using c(2) by (simp add: c(3) new_owner_offer_def) (erule keys_ok_mono, simp)
  moreover have "distinct (map (\<lambda>x. (oo_ownerId x, oo_tenantRequestId x)) (db_ownerOffers t))"
    using i c(4) by (auto simp: c(3) new_owner_offer_def)
  moreover have "matched t x" if "x \<in> set (db_ownerOffers t)" "oo_status x = OO_ACCEPTED" for x
    using that i c(5,6) by (auto simp: c(3) new_owner_offer_def intro: matched_mono)
  ultimately show "owner_offers_inv t" by (simp add: owner_offers_inv_def)
  show "closed_owner_offer s z \<Longrightarrow> closed_owner_offer t z" by (simp add: closed_owner_offer_def c(3))
qed

lemma moved_inv:
  assumes "owner_offers_inv s" "owner_offer_moved s t"
  shows "owner_offers_inv t" "closed_owner_offer s z \<Longrightarrow> closed_owner_offer t z"
proof -
  obtain x st where m: "x \<in> set (db_ownerOffers s)" "open_offer x"
    "db_ownerOffers t = update_where (\<lambda>z. oo_id z = oo_id x) (\<lambda>z. x\<lparr>oo_status := st\<rparr>) (db_ownerOffers s)"
    "st = OO_ACCEPTED \<longrightarrow> matched t x" "db_seq s \<le> db_seq t" "parties t = parties s"
    "set (db_matchConnections s) \<subseteq> set (db_matchConnections t)"
    using assms(2) unfolding owner_offer_moved_def by (elim exE conjE)
  note i = assms(1)[unfolded owner_offers_inv_def]
  have k: "q = x" if "q \<in> set (db_ownerOffers s)" "oo_id q = oo_id x" for q
    using distinct_keyD[OF _ that(1) m(1) that(2)] i by (auto dest: keys_okD)
  have same: "map f (db_ownerOffers t) = map f (db_ownerOffers s)" if "\<And>y. f (y\<lparr>oo_status := st\<rparr>) = f y" for f :: "owner_offer \<Rightarrow> 'a"
    unfolding m(3) update_where_def using k that by (auto intro!: map_cong)
  have "keys_ok (db_seq t) (map oo_id (db_ownerOffers t))" using i m(5) by (simp add: same) (blast intro: keys_ok_mono)
  moreover have "distinct (map (\<lambda>x. (oo_ownerId x, oo_tenantRequestId x)) (db_ownerOffers t))" using i by (simp add: same)
  moreover have "matched t y" if "y \<in> set (db_ownerOffers t)" "oo_status y = OO_ACCEPTED" for y
    using that(1) unfolding m(3)
  proof (cases rule: in_update_whereE)
    case kept
    then show ?thesis using i that(2) matched_mono[OF _ _ m(7)] m(6) by auto
  next
    case (changed q)
    then show ?thesis using that(2) m(4) by simp
  qed
  ultimately show "owner_offers_inv t" by (simp add: owner_offers_inv_def)
  show "closed_owner_offer t z" if "closed_owner_offer s z"
  proof -
    have "oo_id z \<noteq> oo_id x" using that k m(2) by (auto simp: closed_owner_offer_def)
    with that show ?thesis by (auto simp: closed_owner_offer_def m(3) set_update_where)
  qed
qed

lemma kept_inv:
  assumes "owner_offers_inv s" "owner_offers_kept s t"
  shows "owner_offers_inv t" "closed_owner_offer s z \<Longrightarrow> closed_owner_offer t z"
  using assms unfolding owner_offers_inv_def owner_offers_kept_def closed_owner_offer_def
  by (auto intro: keys_ok_mono matched_mono)

lemma owner_offer_step_inv:
  assumes "owner_offers_inv s" "owner_offer_step s t"
  shows "owner_offers_inv t \<and> (closed_owner_offer s z \<longrightarrow> closed_owner_offer t z)"
proof -
  have "distinct (map oo_id (db_ownerOffers s))" using assms(1) by (auto simp: owner_offers_inv_def dest: keys_okD)
  from owner_offer_step_effect[OF assms(2) this] show ?thesis
    using kept_inv[OF assms(1)] sent_inv[OF assms(1)] moved_inv[OF assms(1)] by (elim disjE) simp_all
qed

interpretation owner_offers: settled_machine owner_offers_inv owner_offer_step closed_owner_offer
  by unfold_locales (use owner_offer_step_inv in blast)+

section \<open>Properties\<close>

text \<open>C25: Along every run of whole requests of landlords and tenants, a landlord has at most one offer on a
  request, every accepted offer has its CONNECTED match between its landlord, its listing, its request
  and the tenant of that request, and an offer that was accepted or rejected never changes again.\<close>

theorem owner_offers_safe:
  assumes "owner_offers_inv s" "owner_offer_step\<^sup>*\<^sup>* s t"
  shows "distinct (map (\<lambda>x. (oo_ownerId x, oo_tenantRequestId x)) (db_ownerOffers t))
    \<and> (\<forall>x \<in> set (db_ownerOffers t). oo_status x = OO_ACCEPTED \<longrightarrow>
         (\<exists>r \<in> set (db_tenantRequests t). \<exists>c \<in> set (db_matchConnections t).
            tr_id r = oo_tenantRequestId x \<and> offer_connection x (tr_tenantId r) c))
    \<and> (\<forall>x \<in> set (db_ownerOffers s). oo_status x \<in> {OO_ACCEPTED, OO_REJECTED} \<longrightarrow> x \<in> set (db_ownerOffers t))"
proof (intro conjI ballI impI)
  have i: "owner_offers_inv t" by (rule owner_offers.run_inv[OF assms(2,1)])
  then show "distinct (map (\<lambda>x. (oo_ownerId x, oo_tenantRequestId x)) (db_ownerOffers t))" by (simp add: owner_offers_inv_def)
  show "\<exists>r \<in> set (db_tenantRequests t). \<exists>c \<in> set (db_matchConnections t). tr_id r = oo_tenantRequestId x \<and> offer_connection x (tr_tenantId r) c"
    if x: "x \<in> set (db_ownerOffers t)" "oo_status x = OO_ACCEPTED" for x
  proof -
    obtain tn c where m: "(oo_tenantRequestId x, tn) \<in> set (parties t)" "c \<in> set (db_matchConnections t)" "offer_connection x tn c"
      using mp[OF bspec[OF conjunct2[OF conjunct2[OF i[unfolded owner_offers_inv_def]]] x(1)] x(2)]
      unfolding matched_def by (elim exE bexE conjE)
    then obtain r where "r \<in> set (db_tenantRequests t)" "tr_id r = oo_tenantRequestId x" "tr_tenantId r = tn"
      by (auto simp: parties_def)
    then show ?thesis using m by (intro bexI[of _ r] bexI[of _ c]) simp_all
  qed
  show "x \<in> set (db_ownerOffers t)" if "x \<in> set (db_ownerOffers s)" "oo_status x \<in> {OO_ACCEPTED, OO_REJECTED}" for x
    using owner_offers.settled_forever[OF assms(2,1), of x] that by (auto simp: closed_owner_offer_def open_offer_def)
qed


lemma find_update_id:
  "(\<And>y. oo_id (f y) = oo_id y) \<Longrightarrow> (\<And>y. Q (f y) \<longleftrightarrow> Q y) \<Longrightarrow>
   find (\<lambda>y. oo_id y = c \<and> Q y) (update_where (\<lambda>y. oo_id y = c) f t) = map_option f (find (\<lambda>y. oo_id y = c \<and> Q y) t)"
  by (induction t) auto

lemma rewritten_offers:
  "update_where (\<lambda>y. oo_id y = c) (\<lambda>y. y\<lparr>oo_status := v\<rparr>) (update_where (\<lambda>y. oo_id y = c \<and> P y) (\<lambda>y. y\<lparr>oo_status := w\<rparr>) t)
   = update_where (\<lambda>y. oo_id y = c) (\<lambda>y. y\<lparr>oo_status := v\<rparr>) t"
  by (induction t) auto

lemma offer_for_cong: "db_tenantRequests t = db_tenantRequests s \<Longrightarrow> offer_for tenantId t x = offer_for tenantId s x"
  by (simp add: offer_for_def)

lemma offer_for_status [simp]: "offer_for tenantId s (x\<lparr>oo_status := st\<rparr>) = offer_for tenantId s x"
  by (simp add: offer_for_def)

lemma findOwnedOffer_reopened:
  assumes "findOwnedOffer tenantId offerId s = Inr x" "db_tenantRequests u = db_tenantRequests s"
    and "db_ownerOffers u = update_where (\<lambda>y. oo_id y = offerId) (\<lambda>y. y\<lparr>oo_status := st\<rparr>) (db_ownerOffers s)"
  shows "findOwnedOffer tenantId offerId u = Inr (x\<lparr>oo_status := st\<rparr>)"
proof -
  have "find (\<lambda>y. oo_id y = offerId \<and> offer_for tenantId s y) (db_ownerOffers s) = Some x"
    using assms(1) by (simp add: findOwnedOffer_def split: option.splits)
  moreover have "offer_for tenantId u = offer_for tenantId s" by (rule ext) (rule offer_for_cong[OF assms(2)])
  ultimately show ?thesis
    using find_update_id[of "\<lambda>y. y\<lparr>oo_status := st\<rparr>" "offer_for tenantId s" offerId "db_ownerOffers s"]
    by (simp add: findOwnedOffer_def assms(3))
qed

lemma acceptOffer_check_reopened:
  assumes "acceptOffer_check ms tenantId offerId s = Inr a" "findOwnedOffer tenantId offerId s = Inr x"
    and "findOwnedOffer tenantId offerId u = Inr (x\<lparr>oo_status := VIEWED\<rparr>)"
    and "db_properties u = db_properties s" "db_tenantRequests u = db_tenantRequests s" "db_users u = db_users s"
  shows "ap_offer a = x" "acceptOffer_check ms tenantId offerId u = Inr (a\<lparr>ap_offer := x\<lparr>oo_status := VIEWED\<rparr>\<rparr>)"
proof -
  have f: "offer_property (x\<lparr>oo_status := VIEWED\<rparr>) u = offer_property x s" "request_of k u = request_of k s" "user_of k u = user_of k s" for k
    using assms(4-6) by (simp_all add: offer_property_def property_of_def request_of_def user_of_def split: option.split)
  have o: "open_offer (x\<lparr>oo_status := VIEWED\<rparr>)" by (simp add: open_offer_def)
  show "ap_offer a = x" "acceptOffer_check ms tenantId offerId u = Inr (a\<lparr>ap_offer := x\<lparr>oo_status := VIEWED\<rparr>\<rparr>)"
    using assms(1) by (auto simp: acceptOffer_check_def assms(2,3) f o split: if_splits option.splits)
qed

text \<open>Looking at an offer is not safe against a simultaneous acceptance: a view that read the offer as SENT
  and writes after the tenant has accepted it sets it back to VIEWED, because its write is not guarded
  by the status; the tenant can then accept the offer again, and a second CONNECTED match between
  the same parties is created.\<close>

theorem stale_view_reopens_offer:
  assumes "distinct (map oo_id (db_ownerOffers s))"
    and "findOwnedOffer tenantId offerId s = Inr x" "oo_status x = SENT"
    and "acceptOffer ms tenantId offerId now s = (Inr v, t)"
  shows "\<exists>v' t'. acceptOffer ms tenantId offerId later (viewOffer_write x between t) = (Inr v', t')
    \<and> ao_matchConnectionId v' \<noteq> ao_matchConnectionId v
    \<and> count_where (offer_connection x tenantId) (db_matchConnections t')
      = count_where (offer_connection x tenantId) (db_matchConnections s) + 2"
proof -
  obtain a where a: "acceptOffer_check ms tenantId offerId s = Inr a" and w: "acceptOffer_write tenantId a now s = (Inr v, t)"
    using assms(4) by (auto simp: acceptOffer_def split: sum.splits)
  note c = acceptOffer_check_Inr[OF a] and x = findOwnedOffer_Inr[OF assms(2)]
  define u where "u = viewOffer_write x between t"
  have ax: "ap_offer a = x" using a assms(2) by (auto simp: acceptOffer_check_def split: if_splits option.splits)
  obtain v0 t0 where t0: "acceptOffer_write tenantId a now s = (Inr v0, t0)" "ao_matchConnectionId v0 = db_seq s" "db_seq s < db_seq t0"
    "db_ownerOffers t0 = update_where (\<lambda>y. oo_id y = oo_id (ap_offer a) \<and> open_offer y) (\<lambda>y. y\<lparr>oo_status := OO_ACCEPTED\<rparr>) (db_ownerOffers s)"
    "db_matchConnections t0 = db_matchConnections s @ [new_match (db_seq s) tenantId a now]"
    "db_tenantRequests t0 = db_tenantRequests s" "db_properties t0 = db_properties s" "db_users t0 = db_users s"
    by (rule acceptOffer_write_ok[OF guarded_count[OF assms(1) c(1,3)] c(6)])
  have tt: "t0 = t" "v0 = v" using t0(1) w by simp_all
  have u: "db_ownerOffers u = update_where (\<lambda>y. oo_id y = offerId) (\<lambda>y. y\<lparr>oo_status := VIEWED\<rparr>) (db_ownerOffers s)"
    "db_tenantRequests u = db_tenantRequests s" "db_properties u = db_properties s" "db_users u = db_users s"
    "db_matchConnections u = db_matchConnections t" "db_seq t \<le> db_seq u"
    using t0(4,6-8) x(2) by (simp_all add: u_def viewOffer_write_def assms(3) rewritten_offers ax tt)
  let ?a = "a\<lparr>ap_offer := x\<lparr>oo_status := VIEWED\<rparr>\<rparr>"
  have a': "acceptOffer_check ms tenantId offerId u = Inr ?a"
    by (rule acceptOffer_check_reopened(2)[OF a assms(2) findOwnedOffer_reopened[OF assms(2) u(2,1)] u(3,2,4)])
  have d: "distinct (map oo_id (db_ownerOffers u))" unfolding u(1) using assms(1) by (simp add: map_update_where)
  note c' = acceptOffer_check_Inr[OF a']
  obtain v' t' where t': "acceptOffer_write tenantId ?a later u = (Inr v', t')" "ao_matchConnectionId v' = db_seq u"
    "db_matchConnections t' = db_matchConnections u @ [new_match (db_seq u) tenantId ?a later]"
    by (rule acceptOffer_write_ok[OF guarded_count[OF d c'(1,3)] c'(6)])
  have "offer_connection x tenantId (new_match (db_seq s) tenantId a now)" using new_match_connection[OF c(5)] ax by simp
  moreover have "offer_connection x tenantId (new_match (db_seq u) tenantId ?a later)"
    using new_match_connection[OF c'(5), of tenantId "db_seq u" later] by (simp add: offer_connection_def)
  ultimately have "count_where (offer_connection x tenantId) (db_matchConnections t')
      = count_where (offer_connection x tenantId) (db_matchConnections s) + 2"
    by (simp add: t'(3) u(5) t0(5)[unfolded tt] count_where_def)
  moreover have "ao_matchConnectionId v' \<noteq> ao_matchConnectionId v" using t'(2) t0(2,3) u(6) tt by simp
  ultimately show ?thesis
    by (intro exI[of _ v'] exI[of _ t'] conjI) (simp_all add: acceptOffer_def a' t'(1) flip: u_def)
qed


lemma tenant_facts_kept:
  "tr_minBudget (r\<lparr>tr_tenantId := e\<rparr>) = tr_minBudget r" "tr_maxBudget (r\<lparr>tr_tenantId := e\<rparr>) = tr_maxBudget r"
  "tr_preferredLocations (r\<lparr>tr_tenantId := e\<rparr>) = tr_preferredLocations r"
  "tr_propertyType (r\<lparr>tr_tenantId := e\<rparr>) = tr_propertyType r"
  "tr_requiredBedrooms (r\<lparr>tr_tenantId := e\<rparr>) = tr_requiredBedrooms r"
  "tr_needsFurnished (r\<lparr>tr_tenantId := e\<rparr>) = tr_needsFurnished r"
  "tr_flexibilityScore (r\<lparr>tr_tenantId := e\<rparr>) = tr_flexibilityScore r"
  "tr_lifestyleRequirements (r\<lparr>tr_tenantId := e\<rparr>) = tr_lifestyleRequirements r"
  "tr_embedding (r\<lparr>tr_tenantId := e\<rparr>) = tr_embedding r" "tr_id (r\<lparr>tr_tenantId := e\<rparr>) = tr_id r"
  "tr_status (r\<lparr>tr_tenantId := e\<rparr>) = tr_status r" "tr_createdAt (r\<lparr>tr_tenantId := e\<rparr>) = tr_createdAt r"
  by simp_all

lemma card_anonymous: "request_card_of ms ps offered (r\<lparr>tr_tenantId := e\<rparr>) = request_card_of ms ps offered r"
  unfolding request_card_of_def computeHybridMatch_def scoreRequestAgainstProperty_def buildHybridMatchReasons_def
    within_budget_def tenant_facts_kept by (rule refl)

lemma scores_anonymous: "computeHybridMatch ms (r\<lparr>tr_tenantId := e\<rparr>) p = computeHybridMatch ms r p"
  unfolding computeHybridMatch_def scoreRequestAgainstProperty_def buildHybridMatchReasons_def
    within_budget_def tenant_facts_kept by (rule refl)

text \<open>The database with other tenants behind the requests.\<close>

definition reassigned :: "(uuid \<Rightarrow> uuid) \<Rightarrow> user list \<Rightarrow> db \<Rightarrow> db" where
  "reassigned f users s = s\<lparr>db_tenantRequests := map (\<lambda>r. r\<lparr>tr_tenantId := f (tr_id r)\<rparr>) (db_tenantRequests s), db_users := users\<rparr>"

lemma all_rows_Inr: "all_rows f xs = Inr ys \<Longrightarrow> y \<in> set ys \<Longrightarrow> \<exists>x \<in> set xs. f x = Inr y"
  by (induction xs arbitrary: ys) (auto split: sum.splits)

text \<open>C26: A landlord never learns who is behind a request before an offer is accepted: the page of the requests and
  the scores of the own listings are the same whoever the tenants are, and an offer that was sent shows
  a name, a phone number and a match only when it is accepted.\<close>

theorem tenant_identity_hidden:
  shows "browseRequests ms landlordId (reassigned f users s) = browseRequests ms landlordId s
    \<and> getPropertyScoresForRequest ms landlordId rid (reassigned f users s) = getPropertyScoresForRequest ms landlordId rid s
    \<and> (case getSentOffers lang landlordId s of
         Inl e \<Rightarrow> True
       | Inr vs \<Rightarrow> list_all (\<lambda>v. so_status v = OO_ACCEPTED
           \<or> so_tenantName v = None \<and> so_tenantPhoneNumber v = None \<and> so_matchConnectionId v = None) vs)"
proof (intro conjI)
  have a: "approved_listings landlordId (reassigned f users s) = approved_listings landlordId s"
    by (simp add: approved_listings_def reassigned_def)
  show "browseRequests ms landlordId (reassigned f users s) = browseRequests ms landlordId s"
    by (simp add: browseRequests_def a) (simp add: reassigned_def filter_map o_def card_anonymous)
  have "find (\<lambda>r. tr_id r = rid) (map (\<lambda>r. r\<lparr>tr_tenantId := f (tr_id r)\<rparr>) t)
      = map_option (\<lambda>r. r\<lparr>tr_tenantId := f (tr_id r)\<rparr>) (find (\<lambda>r. tr_id r = rid) t)" for t
    by (induction t) simp_all
  then have "request_of rid (reassigned f users s) = map_option (\<lambda>r. r\<lparr>tr_tenantId := f (tr_id r)\<rparr>) (request_of rid s)"
    by (simp add: request_of_def reassigned_def)
  then show "getPropertyScoresForRequest ms landlordId rid (reassigned f users s) = getPropertyScoresForRequest ms landlordId rid s"
    by (simp add: getPropertyScoresForRequest_def a scores_anonymous split: option.split)
  have "so_status v = OO_ACCEPTED \<or> so_tenantName v = None \<and> so_tenantPhoneNumber v = None \<and> so_matchConnectionId v = None"
    if "sent_offer_of lang s x = Inr v" for x v
    using that by (auto simp: sent_offer_of_def Let_def split: option.splits if_splits)
  then show "case getSentOffers lang landlordId s of
         Inl e \<Rightarrow> True
       | Inr vs \<Rightarrow> list_all (\<lambda>v. so_status v = OO_ACCEPTED
           \<or> so_tenantName v = None \<and> so_tenantPhoneNumber v = None \<and> so_matchConnectionId v = None) vs"
    using all_rows_Inr[of "sent_offer_of lang s"]
    by (auto simp: getSentOffers_def list_all_iff split: sum.split) blast+
qed


subsection \<open>Examples\<close>

definition sent_example :: owner_offer where
  "sent_example = new_owner_offer 5 7 \<lparr>od_tenantRequestId = 3, od_propertyId = 4, od_pitchMessage = ''Come and see'', od_proposedPrice = 2900\<rparr> 50"

definition market_db :: db where
  "market_db = empty_db\<lparr>db_seq := 20, db_tenantRequests := [seeker []], db_properties := [plain_flat],
     db_users := [new_user 7 ''Omar'' ''o'' ''010'' '''' LANDLORD 0, new_user 8 ''Tala'' ''t'' ''011'' '''' TENANT 0],
     db_ownerOffers := [sent_example]\<rparr>"

lemma market_db_inv: "owner_offers_inv market_db"
  by (simp add: owner_offers_inv_def market_db_def sent_example_def new_owner_offer_def keys_ok_def)

lemma market_found: "findOwnedOffer 8 5 market_db = Inr sent_example"
  by (simp add: findOwnedOffer_def offer_for_def market_db_def sent_example_def new_owner_offer_def seeker_def)

lemma market_check: "\<exists>a. acceptOffer_check ms 8 5 market_db = Inr a"
proof -
  have "open_offer sent_example" "oo_propertyId sent_example = Some 4" "oo_tenantRequestId sent_example = 3" "oo_ownerId sent_example = 7"
    by (simp_all add: open_offer_def sent_example_def new_owner_offer_def)
  moreover have "property_of 4 market_db = Some plain_flat" "request_of 3 market_db = Some (seeker [])"
    "user_of 7 market_db = Some (new_user 7 ''Omar'' ''o'' ''010'' '''' LANDLORD 0)"
    by (simp_all add: property_of_def request_of_def user_of_def market_db_def plain_flat_def seeker_def new_user_def)
  moreover have "p_status plain_flat = P_APPROVED" "tr_status (seeker []) = TR_APPROVED" by (simp_all add: plain_flat_def seeker_def)
  ultimately show ?thesis by (simp add: acceptOffer_check_def market_found offer_property_def)
qed

lemma market_accept: "\<exists>v t. acceptOffer ms 8 5 now market_db = (Inr v, t)"
proof -
  obtain a where a: "acceptOffer_check ms 8 5 market_db = Inr a" using market_check[of ms] by (elim exE)
  note c = acceptOffer_check_Inr[OF a]
  have d: "distinct (map oo_id (db_ownerOffers market_db))" by (simp add: market_db_def)
  obtain v t where "acceptOffer_write 8 a now market_db = (Inr v, t)"
    by (rule acceptOffer_write_ok[OF guarded_count[OF d c(1,3)] c(6)])
  then show ?thesis by (simp add: acceptOffer_def a)
qed

lemma owner_offers_safe_witness:
  "distinct (map (\<lambda>x. (oo_ownerId x, oo_tenantRequestId x)) (db_ownerOffers (snd (acceptOffer (1 / 2) 8 5 60 market_db))))"
  using owner_offers_safe[OF market_db_inv r_into_rtranclp[of owner_offer_step, OF Accept[of market_db "1 / 2" 8 5 60]]]
  by (rule conjunct1)

lemma stale_view_reopens_offer_witness:
  "\<exists>v t v' t'. acceptOffer (1 / 2) 8 5 60 market_db = (Inr v, t)
    \<and> acceptOffer (1 / 2) 8 5 62 (viewOffer_write sent_example 61 t) = (Inr v', t')
    \<and> ao_matchConnectionId v' \<noteq> ao_matchConnectionId v
    \<and> count_where (offer_connection sent_example 8) (db_matchConnections t') = 2"
proof -
  obtain v t where w: "acceptOffer (1 / 2) 8 5 60 market_db = (Inr v, t)" using market_accept[of "1 / 2" 60] by (elim exE)
  have d: "distinct (map oo_id (db_ownerOffers market_db))" "oo_status sent_example = SENT" "db_matchConnections market_db = []"
    by (simp_all add: market_db_def sent_example_def new_owner_offer_def empty_db_def)
  obtain v' t' where "acceptOffer (1 / 2) 8 5 62 (viewOffer_write sent_example 61 t) = (Inr v', t')"
    "ao_matchConnectionId v' \<noteq> ao_matchConnectionId v"
    "count_where (offer_connection sent_example 8) (db_matchConnections t')
      = count_where (offer_connection sent_example 8) (db_matchConnections market_db) + 2"
    using stale_view_reopens_offer[OF d(1) market_found d(2) w, of 62 61] by (elim exE conjE)
  with w show ?thesis by (intro exI conjI) (assumption | simp add: d(3))+
qed

end
