(* ===== verification/Moderation.thy ===== *)
theory Moderation
  imports Administration Listings Matching
begin

text \<open>
  The desk of the administrators: the moderation part of \<open>admin/admin.service.ts\<close> (the queues, what
  is read before a decision, the four decisions), the reviews of listings in \<open>reviews/reviews.service.ts\<close>, and the indexing of an approved listing in
  \<open>properties/property-approval-indexing.service.ts\<close> with the choice of the embedding provider. The
  providers themselves, the signing of documents and the vector database are parameters or effects.
\<close>

section \<open>Interface: a subject that is decided once\<close>

text \<open>Any number of decisions in a row, counting those that went through.\<close>

fun decide_many :: "('d \<Rightarrow> 's \<Rightarrow> bool \<times> 's) \<Rightarrow> 'd list \<Rightarrow> 's \<Rightarrow> nat \<times> 's" where
  "decide_many decide [] s = (0, s)"
| "decide_many decide (d # ds) s =
     (let (b, s1) = decide d s; (k, s2) = decide_many decide ds s1 in ((if b then Suc k else k), s2))"

locale single_decision =
  fixes pending :: "'s \<Rightarrow> bool" and decide :: "'d \<Rightarrow> 's \<Rightarrow> bool \<times> 's"
  assumes refused: "\<not> pending s \<Longrightarrow> \<not> fst (decide d s)"
    and settles: "fst (decide d s) \<Longrightarrow> \<not> pending (snd (decide d s))"
    and rejected: "\<not> fst (decide d s) \<Longrightarrow> snd (decide d s) = s"
begin

lemma decided_stays: "\<not> pending s \<Longrightarrow> decide_many decide ds s = (0, s)"
  by (induction ds) (simp_all add: refused rejected split_beta)

lemma first_decision_wins:
  "fst (decide d s) \<Longrightarrow> decide_many decide (d # ds) s = (1, snd (decide d s))"
  by (simp add: decided_stays settles split_beta)

lemma at_most_one: "fst (decide_many decide ds s) \<le> 1"
proof (induction ds arbitrary: s)
  case (Cons d ds)
  show ?case
  proof (cases "fst (decide d s)")
    case True
    then show ?thesis using first_decision_wins[of d s ds] by simp
  next
    case False
    then show ?thesis using Cons.IH[of s] rejected[OF False] by (simp add: split_beta)
  qed
qed simp

end

section \<open>Embedding and indexing\<close>

datatype embedding_provider = COHERE | LOCAL_MODEL

record embedding_config =
  ec_provider :: "string option"
  ec_localEnabled :: "string option"

definition isLocalEmbeddingEnabled :: "embedding_config \<Rightarrow> bool" where
  "isLocalEmbeddingEnabled cfg \<longleftrightarrow> map_option js_lower (ec_localEnabled cfg) \<noteq> Some ''false''"

text \<open>
  An answer of Cohere is a vector or a failure, transient or not; of the local model a vector or
  a failure. The text is of any type: here only the providers look at it.
\<close>

definition createPrimaryEmbedding ::
    "embedding_config \<Rightarrow> ('t \<Rightarrow> bool + real list) \<Rightarrow> ('t \<Rightarrow> real list option) \<Rightarrow> 't \<Rightarrow> (embedding_provider \<times> real list) option" where
  "createPrimaryEmbedding cfg cohere local text =
     (let fallback = map_option (Pair LOCAL_MODEL) (local text)
      in if map_option js_lower (ec_provider cfg) = Some ''local'' \<and> isLocalEmbeddingEnabled cfg then fallback
         else case cohere text of
           Inr v \<Rightarrow> Some (COHERE, v)
         | Inl transient \<Rightarrow> if transient \<and> isLocalEmbeddingEnabled cfg then fallback else None)"

text \<open>The document of a listing: its parts before they are written as lines, with the empty ones dropped.\<close>

record search_document =
  sx_title :: string
  sx_description :: string
  sx_place :: "property_type \<times> string \<times> string \<times> string"
  sx_rooms :: "int \<times> int \<times> real"
  sx_amenities :: "string list"

definition build_document :: "string \<Rightarrow> string \<Rightarrow> property \<Rightarrow> search_document" where
  "build_document governorate city p =
     \<lparr>sx_title = p_title p, sx_description = p_description p,
      sx_place = (p_propertyType p, p_district p, city, governorate), sx_rooms = (p_bedrooms p, p_bathrooms p, p_areaM2 p),
      sx_amenities = filter (\<lambda>x. x \<noteq> [])
        [if p_isFurnished p then ''furnished'' else ''unfurnished'', if p_hasElevator p then ''elevator'' else '''',
         if p_hasParking p then ''parking'' else '''', case p_aroundServices p of None \<Rightarrow> '''' | Some x \<Rightarrow> x]\<rparr>"

definition indexApprovedProperty ::
    "embedding_config \<Rightarrow> (search_document \<Rightarrow> bool + real list) \<Rightarrow> (search_document \<Rightarrow> real list option) \<Rightarrow> string \<Rightarrow> uuid \<Rightarrow> db \<Rightarrow> db" where
  "indexApprovedProperty cfg cohere local lang pid s =
     (case property_of pid s of
        None \<Rightarrow> s
      | Some p \<Rightarrow>
          if p_status p \<noteq> P_APPROVED then s
          else
            let isAr = (take 2 lang = ''ar'');
                g = (case find (\<lambda>g. gv_id g = p_governorateId p) (db_governorates s) of None \<Rightarrow> '''' | Some g \<Rightarrow> if isAr then gv_nameAr g else gv_nameEn g);
                c = (case find (\<lambda>c. ct_id c = p_cityId p) (db_cities s) of None \<Rightarrow> '''' | Some c \<Rightarrow> if isAr then ct_nameAr c else ct_nameEn c);
                doc = build_document g c p;
                localResult = (if isLocalEmbeddingEnabled cfg then local doc else None);
                primary = (case cohere doc of Inr v \<Rightarrow> Some v | Inl _ \<Rightarrow> localResult)
            in (case primary of
                  None \<Rightarrow> s
                | Some v \<Rightarrow> update_property pid (\<lambda>p. p\<lparr>p_embedding := v\<rparr>) (emit (IndexProperty pid) s)))"

section \<open>Decisions\<close>

record review_decision =
  rd_approve :: bool
  rd_reason :: "string option"

definition reason_missing :: "review_decision \<Rightarrow> bool" where
  "reason_missing d \<longleftrightarrow> \<not> rd_approve d \<and> js_or (map_option js_trim (rd_reason d)) None = None"

definition decision_name :: "review_decision \<Rightarrow> string" where
  "decision_name d = (if rd_approve d then ''approve'' else ''reject'')"

definition reviewKyc :: "uuid \<Rightarrow> uuid \<Rightarrow> review_decision \<Rightarrow> time \<Rightarrow> db \<Rightarrow> verification_status result" where
  "reviewKyc adminId userId d now s =
     (if reason_missing d then (Inl (BadRequest ''REASON_REQUIRED''), s)
      else case find (\<lambda>v. iv_userId v = userId) (db_identityVerifications s) of
        None \<Rightarrow> (Inl (NotFound ''IDENTITY_VERIFICATION_NOT_FOUND''), s)
      | Some v \<Rightarrow>
          if iv_status v \<noteq> VS_PENDING then (Inl (Conflict ''ALREADY_REVIEWED''), s)
          else
            let st = (if rd_approve d then VS_APPROVED else VS_RESUBMISSION_REQUIRED);
                s1 = s\<lparr>db_identityVerifications := update_where (\<lambda>v. iv_userId v = userId)
                  (\<lambda>v. v\<lparr>iv_status := st, iv_reviewedBy := Some adminId, iv_reviewedAt := Some now,
                        iv_rejectionReason := (if rd_approve d then None else rd_reason d)\<rparr>) (db_identityVerifications s)\<rparr>;
                s2 = audit adminId (''kyc:'' @ decision_name d) userId now s1;
                s3 = notifyUser userId (if rd_approve d then EKYC_APPROVED else EKYC_RESUBMISSION_REQUIRED)
                       (Some (''/profile'', None)) now s2
            in (Inr st, emit (Mail (user_email userId s) ''KYC_REVIEW'') s3))"

text \<open>The decision on a listing, in its read and its writes.\<close>

definition reviewProperty_check :: "uuid \<Rightarrow> review_decision \<Rightarrow> db \<Rightarrow> http_error + property" where
  "reviewProperty_check pid d s =
     (if reason_missing d then Inl (BadRequest ''REASON_REQUIRED'')
      else case property_of pid s of
        None \<Rightarrow> Inl (NotFound ''PROPERTY_NOT_FOUND'')
      | Some p \<Rightarrow> if p_status p \<noteq> P_PENDING then Inl (Conflict ''ALREADY_REVIEWED'') else Inr p)"

definition decide_property :: "uuid \<Rightarrow> review_decision \<Rightarrow> time \<Rightarrow> property \<Rightarrow> property" where
  "decide_property adminId d now p =
     p\<lparr>p_status := (if rd_approve d then P_APPROVED else P_REJECTED), p_approvedBy := Some adminId, p_approvedAt := Some now,
       p_rejectionReason := (if rd_approve d then None else map_option js_trim (rd_reason d))\<rparr>"

definition reviewProperty_write :: "(uuid \<Rightarrow> db \<Rightarrow> db) \<Rightarrow> uuid \<Rightarrow> property \<Rightarrow> review_decision \<Rightarrow> time \<Rightarrow> db \<Rightarrow> db" where
  "reviewProperty_write index adminId p d now s =
     (let s1 = update_property (p_id p) (decide_property adminId d now) s;
          s2 = audit adminId (''property:'' @ decision_name d) (p_id p) now s1;
          s3 = (if rd_approve d then index (p_id p) s2 else s2);
          s4 = notifyUser (p_ownerId p) (if rd_approve d then PROPERTY_APPROVED else PROPERTY_REJECTED)
                 (Some (''/landlord/properties/'', Some (p_id p))) now s3
      in emit (Mail (user_email (p_ownerId p) s) ''PROPERTY_REVIEW'') s4)"

definition reviewProperty ::
    "(uuid \<Rightarrow> db \<Rightarrow> db) \<Rightarrow> uuid \<Rightarrow> uuid \<Rightarrow> review_decision \<Rightarrow> time \<Rightarrow> db \<Rightarrow> property_status result" where
  "reviewProperty index adminId pid d now s =
     (case reviewProperty_check pid d s of
        Inl e \<Rightarrow> (Inl e, s)
      | Inr p \<Rightarrow> (Inr (if rd_approve d then P_APPROVED else P_REJECTED), reviewProperty_write index adminId p d now s))"

text \<open>A job that cannot be queued is logged; the decision stands.\<close>

definition reviewRequest :: "bool \<Rightarrow> uuid \<Rightarrow> uuid \<Rightarrow> review_decision \<Rightarrow> time \<Rightarrow> db \<Rightarrow> request_status result" where
  "reviewRequest queueUp adminId rid d now s =
     (if reason_missing d then (Inl (BadRequest ''REASON_REQUIRED''), s)
      else case find (\<lambda>r. tr_id r = rid) (db_tenantRequests s) of
        None \<Rightarrow> (Inl (NotFound ''REQUEST_NOT_FOUND''), s)
      | Some r \<Rightarrow>
          if tr_status r \<noteq> TR_PENDING then (Inl (Conflict ''ALREADY_REVIEWED''), s)
          else
            let st = (if rd_approve d then TR_APPROVED else TR_REJECTED);
                s1 = s\<lparr>db_tenantRequests := update_where (\<lambda>r. tr_id r = rid)
                  (\<lambda>r. r\<lparr>tr_approvedBy := Some adminId, tr_status := st\<rparr>) (db_tenantRequests s)\<rparr>;
                s2 = audit adminId (''request:'' @ decision_name d) rid now s1;
                s3 = (if rd_approve d \<and> queueUp then emit (MatchJob rid) s2 else s2);
                s4 = notifyUser (tr_tenantId r) (if rd_approve d then TENANT_REQUEST_APPROVED else TENANT_REQUEST_REJECTED)
                       (Some (''/tenant/requests'', None)) now s3
            in (Inr st, emit (Mail (user_email (tr_tenantId r) s) ''TENANT_REQUEST_REVIEW'') s4))"

definition reviewUserReview :: "uuid \<Rightarrow> review_decision \<Rightarrow> uuid \<Rightarrow> time \<Rightarrow> db \<Rightarrow> verification_status result" where
  "reviewUserReview adminId d reviewId now s =
     (if reason_missing d then (Inl (BadRequest ''REASON_REQUIRED''), s)
      else case find (\<lambda>v. pr_id v = reviewId) (db_propertyReviews s) of
        None \<Rightarrow> (Inl (NotFound ''REVIEW_NOT_FOUND''), s)
      | Some v \<Rightarrow>
          if pr_status v \<noteq> VS_PENDING then (Inl (Conflict ''ALREADY_REVIEWED''), s)
          else
            let st = (if rd_approve d then VS_APPROVED else VS_REJECTED);
                s1 = s\<lparr>db_propertyReviews := update_where (\<lambda>v. pr_id v = reviewId)
                  (\<lambda>v. v\<lparr>pr_status := st, pr_reviewedBy := Some adminId\<rparr>) (db_propertyReviews s)\<rparr>;
                s2 = audit adminId (''review:'' @ decision_name d) reviewId now s1;
                s3 = notifyUser (pr_reviewerId v) (if rd_approve d then REVIEW_APPROVED else REVIEW_REJECTED)
                       (Some (''/properties/'', Some (pr_propertyId v))) now s2
            in (Inr st, emit (Mail (user_email (pr_reviewerId v) s) ''USER_REVIEW_DECISION'') s3))"

section \<open>Each subject is decided once\<close>

text \<open>Every decision method is run on the same subject by any administrators with any decisions.\<close>

type_synonym ruling = "uuid \<times> review_decision \<times> time"

definition decideKyc :: "uuid \<Rightarrow> ruling \<Rightarrow> db \<Rightarrow> bool \<times> db" where
  "decideKyc uid x s = (case x of (a, d, now) \<Rightarrow> returned (reviewKyc a uid d now s))"

definition decideProperty :: "(uuid \<Rightarrow> db \<Rightarrow> db) \<Rightarrow> uuid \<Rightarrow> ruling \<Rightarrow> db \<Rightarrow> bool \<times> db" where
  "decideProperty index pid x s = (case x of (a, d, now) \<Rightarrow> returned (reviewProperty index a pid d now s))"

definition decideRequest :: "bool \<Rightarrow> uuid \<Rightarrow> ruling \<Rightarrow> db \<Rightarrow> bool \<times> db" where
  "decideRequest queueUp rid x s = (case x of (a, d, now) \<Rightarrow> returned (reviewRequest queueUp a rid d now s))"

definition decideReview :: "uuid \<Rightarrow> ruling \<Rightarrow> db \<Rightarrow> bool \<times> db" where
  "decideReview vid x s = (case x of (a, d, now) \<Rightarrow> returned (reviewUserReview a d vid now s))"

definition kyc_pending :: "uuid \<Rightarrow> db \<Rightarrow> bool" where
  "kyc_pending uid s \<longleftrightarrow> map_option iv_status (find (\<lambda>v. iv_userId v = uid) (db_identityVerifications s)) = Some VS_PENDING"

definition listing_status :: "uuid \<Rightarrow> db \<Rightarrow> property_status option" where
  "listing_status pid s = map_option p_status (find (\<lambda>p. p_id p = pid) (db_properties s))"

definition property_pending :: "uuid \<Rightarrow> db \<Rightarrow> bool" where
  "property_pending pid s \<longleftrightarrow> listing_status pid s = Some P_PENDING"

definition request_pending :: "uuid \<Rightarrow> db \<Rightarrow> bool" where
  "request_pending rid s \<longleftrightarrow> map_option tr_status (find (\<lambda>r. tr_id r = rid) (db_tenantRequests s)) = Some TR_PENDING"

definition review_pending :: "uuid \<Rightarrow> db \<Rightarrow> bool" where
  "review_pending vid s \<longleftrightarrow> map_option pr_status (find (\<lambda>v. pr_id v = vid) (db_propertyReviews s)) = Some VS_PENDING"

text \<open>The shape of the four methods: refuse, or settle the pending subject that was found.\<close>

lemma decision_shape:
  assumes "m = (if b then (Inl e1, s) else case find (\<lambda>r. key r = i) (T s) of None \<Rightarrow> (Inl e2, s)
      | Some r \<Rightarrow> if st r \<noteq> P then (Inl e3, s) else (Inr w, g r))"
    and "\<And>r. find (\<lambda>r. key r = i) (T s) = Some r \<Longrightarrow> map_option st (find (\<lambda>r. key r = i) (T (g r))) \<noteq> Some P"
  shows "returned m = (False, s) \<or> (\<exists>t. returned m = (True, t) \<and> map_option st (find (\<lambda>r. key r = i) (T s)) = Some P
    \<and> map_option st (find (\<lambda>r. key r = i) (T t)) \<noteq> Some P)"
proof (cases "\<not> b \<and> map_option st (find (\<lambda>r. key r = i) (T s)) = Some P")
  case False
  then have "returned m = (False, s)" unfolding assms(1) by (auto simp: returned_def split: option.splits)
  then show ?thesis ..
next
  case True
  then obtain r where r: "find (\<lambda>r. key r = i) (T s) = Some r" "st r = P" by auto
  then have "returned m = (True, g r)" using True unfolding assms(1) by (simp add: returned_def)
  then show ?thesis using True assms(2)[OF r(1)] by blast
qed

text \<open>What the interface asks of a decision.\<close>

lemma settling:
  assumes "dec = (False, s) \<or> (\<exists>t. dec = (True, t) \<and> p s \<and> \<not> p t)"
  shows "\<not> p s \<Longrightarrow> \<not> fst dec" "fst dec \<Longrightarrow> \<not> p (snd dec)" "\<not> fst dec \<Longrightarrow> snd dec = s"
  using assms by auto

lemma decideKyc_outcome:
  "decideKyc uid x s = (False, s) \<or> (\<exists>t. decideKyc uid x s = (True, t) \<and> kyc_pending uid s \<and> \<not> kyc_pending uid t)"
proof (cases x)
  case (fields a d now)
  show ?thesis unfolding fields decideKyc_def kyc_pending_def prod.case
    by (rule decision_shape[where key = iv_userId and st = iv_status and T = db_identityVerifications],
        unfold reviewKyc_def Let_def, rule refl) (simp add: find_update_key)
qed

lemma decideRequest_outcome:
  "decideRequest q rid x s = (False, s) \<or> (\<exists>t. decideRequest q rid x s = (True, t) \<and> request_pending rid s \<and> \<not> request_pending rid t)"
proof (cases x)
  case (fields a d now)
  show ?thesis unfolding fields decideRequest_def request_pending_def prod.case
    by (rule decision_shape[where key = tr_id and st = tr_status and T = db_tenantRequests],
        unfold reviewRequest_def Let_def, rule refl) (simp add: find_update_key)
qed

lemma decideReview_outcome:
  "decideReview vid x s = (False, s) \<or> (\<exists>t. decideReview vid x s = (True, t) \<and> review_pending vid s \<and> \<not> review_pending vid t)"
proof (cases x)
  case (fields a d now)
  show ?thesis unfolding fields decideReview_def review_pending_def prod.case
    by (rule decision_shape[where key = pr_id and st = pr_status and T = db_propertyReviews],
        unfold reviewUserReview_def Let_def, rule refl) (simp add: find_update_key)
qed

text \<open>Indexing a listing leaves every status alone.\<close>

lemma status_after_update:
  assumes "\<And>p. p_id (f p) = p_id p" "\<And>p. p_status (f p) = p_status p"
  shows "listing_status q (update_property pid f s) = listing_status q s"
proof -
  have "map_option p_status (find (\<lambda>p. p_id p = q) (update_where (\<lambda>p. p_id p = pid) f t))
      = map_option p_status (find (\<lambda>p. p_id p = q) t)" for t
    by (induction t) (simp_all add: assms)
  then show ?thesis by (simp add: listing_status_def)
qed

lemma listing_status_frame [simp]:
  "listing_status q (emit e s) = listing_status q s" "listing_status q (audit x y z now s) = listing_status q s"
  "listing_status q (notifyUser u ty l now s) = listing_status q s"
  by (simp_all add: listing_status_def)

lemma index_status: "listing_status q (indexApprovedProperty cfg cohere local lang pid s) = listing_status q s"
  by (simp add: indexApprovedProperty_def Let_def status_after_update split: option.split)

lemma write_status:
  assumes "\<And>u q. listing_status q (index q u) = listing_status q u" "property_of (p_id p) s = Some q"
  shows "listing_status (p_id p) (reviewProperty_write index a p d now s) = Some (if rd_approve d then P_APPROVED else P_REJECTED)"
proof -
  define s1 where "s1 = update_property (p_id p) (decide_property a d now) s"
  have "property_of (p_id p) s1 = Some (decide_property a d now q)"
    unfolding s1_def by (subst property_of_update) (simp_all add: decide_property_def assms(2))
  then have "listing_status (p_id p) s1 = Some (if rd_approve d then P_APPROVED else P_REJECTED)"
    by (simp add: listing_status_def property_of_def decide_property_def)
  then show ?thesis by (simp add: reviewProperty_write_def Let_def s1_def[symmetric] assms(1))
qed

lemma decideProperty_outcome:
  assumes "\<And>u q. listing_status q (index q u) = listing_status q u"
  shows "decideProperty index pid x s = (False, s)
    \<or> (\<exists>t. decideProperty index pid x s = (True, t) \<and> property_pending pid s \<and> \<not> property_pending pid t)"
proof (cases x)
  case (fields a d now)
  show ?thesis unfolding fields decideProperty_def property_pending_def prod.case listing_status_def
  proof (rule decision_shape[where key = p_id and st = p_status and T = db_properties])
    show "reviewProperty index a pid d now s =
        (if reason_missing d then (Inl (BadRequest ''REASON_REQUIRED''), s)
         else case find (\<lambda>r. p_id r = pid) (db_properties s) of None \<Rightarrow> (Inl (NotFound ''PROPERTY_NOT_FOUND''), s)
         | Some p \<Rightarrow> if p_status p \<noteq> P_PENDING then (Inl (Conflict ''ALREADY_REVIEWED''), s)
             else (Inr (if rd_approve d then P_APPROVED else P_REJECTED), reviewProperty_write index a p d now s))"
      by (simp add: reviewProperty_def reviewProperty_check_def property_of_def split: option.split)
    fix p assume f: "find (\<lambda>r. p_id r = pid) (db_properties s) = Some p"
    then have k: "p_id p = pid" using find_SomeD[OF f] by simp
    have "listing_status (p_id p) (reviewProperty_write index a p d now s) \<noteq> Some P_PENDING"
      by (subst write_status[OF assms]) (use f k in \<open>simp_all add: property_of_def\<close>)
    then show "map_option p_status (find (\<lambda>r. p_id r = pid) (db_properties (reviewProperty_write index a p d now s))) \<noteq> Some P_PENDING"
      unfolding k listing_status_def .
  qed
qed

interpretation kyc_desk: single_decision "kyc_pending uid" "decideKyc uid" for uid
  by unfold_locales (use settling[OF decideKyc_outcome] in blast)+

interpretation request_desk: single_decision "request_pending rid" "decideRequest queueUp rid" for queueUp rid
  by unfold_locales (use settling[OF decideRequest_outcome] in blast)+

interpretation review_desk: single_decision "review_pending vid" "decideReview vid" for vid
  by unfold_locales (use settling[OF decideReview_outcome] in blast)+

interpretation property_desk: single_decision "property_pending pid"
    "decideProperty (indexApprovedProperty cfg cohere local lang) pid" for cfg cohere local lang pid
proof unfold_locales
  fix s d
  let ?D = "decideProperty (indexApprovedProperty cfg cohere local lang) pid d s"
  note o = settling[OF decideProperty_outcome[OF index_status]]
  show "\<not> property_pending pid s \<Longrightarrow> \<not> fst ?D" by (rule o(1))
  show "fst ?D \<Longrightarrow> \<not> property_pending pid (snd ?D)" by (rule o(2))
  show "\<not> fst ?D \<Longrightarrow> snd ?D = s" by (rule o(3))
qed

section \<open>The queues\<close>

datatype queue_tier = Q_PREMIUM | Q_OWNER_PLUS | Q_FREEMIUM

definition commercialPriority :: "user_quota option \<Rightarrow> time \<Rightarrow> queue_tier" where
  "commercialPriority quota now =
     (case quota of
        None \<Rightarrow> Q_FREEMIUM
      | Some q \<Rightarrow>
          let active = (case uq_planExpiresAt q of None \<Rightarrow> False | Some x \<Rightarrow> now < x)
          in if active \<and> uq_planType q = PREMIUM then Q_PREMIUM
             else if active \<and> uq_planType q = OWNER_PLUS then Q_OWNER_PLUS else Q_FREEMIUM)"

datatype queue_subtitle = Email string | Rent real | Edited_Rent real | Budget real real | Rated int string

record queue_item =
  qi_id :: link
  qi_type :: string
  qi_subjectId :: uuid
  qi_title :: "string list"
  qi_subtitle :: queue_subtitle
  qi_submittedAt :: time
  qi_priority :: queue_tier

fun tierWeight :: "queue_tier \<Rightarrow> int" where
  "tierWeight Q_PREMIUM = 200" | "tierWeight Q_OWNER_PLUS = 100" | "tierWeight Q_FREEMIUM = 0"

definition ageScore :: "time \<Rightarrow> queue_item \<Rightarrow> int" where
  "ageScore now i = (now - qi_submittedAt i) div 86400000 * 20"

text \<open>The comparator of the sort: what it returns for two items, with \<open>||\<close> on numbers.\<close>

definition queue_compare :: "time \<Rightarrow> queue_item \<Rightarrow> queue_item \<Rightarrow> int" where
  "queue_compare now a b =
     (let d = tierWeight (qi_priority b) + ageScore now b - (tierWeight (qi_priority a) + ageScore now a)
      in if d \<noteq> 0 then d else qi_submittedAt a - qi_submittedAt b)"

text \<open>\<open>Array.prototype.sort\<close> is stable, so it is a sort by the key the comparator compares.\<close>

definition sortCommercialQueue :: "time \<Rightarrow> queue_item list \<Rightarrow> queue_item list" where
  "sortCommercialQueue now = sort_key (\<lambda>i. (- (tierWeight (qi_priority i) + ageScore now i), qi_submittedAt i))"

record review_queues =
  rq_kycQueue :: "queue_item list"
  rq_propertyQueue :: "queue_item list"
  rq_editedPropertyQueue :: "queue_item list"
  rq_requestQueue :: "queue_item list"
  rq_reviewQueue :: "queue_item list"

definition quota_row :: "uuid \<Rightarrow> db \<Rightarrow> user_quota option" where
  "quota_row uid s = find (\<lambda>q. uq_userId q = uid) (db_userQuotas s)"

text \<open>The queries; \<open>updatedAt\<close> gives the last change of a listing.\<close>

definition kyc_item :: "time \<Rightarrow> db \<Rightarrow> identity_verification \<Rightarrow> queue_item" where
  "kyc_item now s k =
     \<lparr>qi_id = (''q_kyc_'', Some (iv_id k)), qi_type = ''kyc'', qi_subjectId = iv_userId k, qi_title = [user_name (iv_userId k) s],
      qi_subtitle = Email (user_email (iv_userId k) s), qi_submittedAt = iv_submittedAt k,
      qi_priority = commercialPriority (quota_row (iv_userId k) s) now\<rparr>"

definition property_item :: "time \<Rightarrow> db \<Rightarrow> property \<Rightarrow> queue_item" where
  "property_item now s p =
     \<lparr>qi_id = (''q_prop_'', Some (p_id p)), qi_type = ''property'', qi_subjectId = p_id p, qi_title = [p_title p],
      qi_subtitle = Rent (p_rentAmount p), qi_submittedAt = p_createdAt p,
      qi_priority = commercialPriority (quota_row (p_ownerId p) s) now\<rparr>"

definition edited_item :: "(uuid \<Rightarrow> time) \<Rightarrow> time \<Rightarrow> db \<Rightarrow> property \<Rightarrow> queue_item" where
  "edited_item updatedAt now s p =
     \<lparr>qi_id = (''q_prop_edit_'', Some (p_id p)), qi_type = ''propertyEdit'', qi_subjectId = p_id p, qi_title = [p_title p],
      qi_subtitle = Edited_Rent (p_rentAmount p), qi_submittedAt = updatedAt (p_id p),
      qi_priority = commercialPriority (quota_row (p_ownerId p) s) now\<rparr>"

definition getQueues :: "(uuid \<Rightarrow> time) \<Rightarrow> time \<Rightarrow> db \<Rightarrow> review_queues" where
  "getQueues updatedAt now s =
     (let waiting = filter (\<lambda>p. p_status p = P_PENDING) (db_properties s)
      in \<lparr>rq_kycQueue = sortCommercialQueue now (map (kyc_item now s)
            (sort_key (\<lambda>k. - iv_submittedAt k) (filter (\<lambda>k. iv_status k = VS_PENDING) (db_identityVerifications s)))),
          rq_propertyQueue = sortCommercialQueue now (map (property_item now s)
            (sort_key (\<lambda>p. - p_createdAt p) (filter (\<lambda>p. p_approvedAt p = None) waiting))),
          rq_editedPropertyQueue = sortCommercialQueue now (map (edited_item updatedAt now s)
            (sort_key (\<lambda>p. - updatedAt (p_id p)) (filter (\<lambda>p. p_approvedAt p \<noteq> None) waiting))),
          rq_requestQueue = map (\<lambda>r. \<lparr>qi_id = (''q_req_'', Some (tr_id r)), qi_type = ''request'', qi_subjectId = tr_id r,
              qi_title = [''Request for '', property_type_name (tr_propertyType r)], qi_subtitle = Budget (tr_minBudget r) (tr_maxBudget r),
              qi_submittedAt = tr_createdAt r, qi_priority = Q_FREEMIUM\<rparr>)
            (sort_key (\<lambda>r. - tr_createdAt r) (filter (\<lambda>r. tr_status r = TR_PENDING) (db_tenantRequests s))),
          rq_reviewQueue = map (\<lambda>v. \<lparr>qi_id = (''q_rev_'', Some (pr_id v)), qi_type = ''review'', qi_subjectId = pr_id v,
              qi_title = [''Review on '', (case property_of (pr_propertyId v) s of None \<Rightarrow> '''' | Some p \<Rightarrow> p_title p), '' by '', user_name (pr_reviewerId v) s],
              qi_subtitle = Rated (pr_rating v) (case pr_comment v of None \<Rightarrow> '''' | Some c \<Rightarrow> c),
              qi_submittedAt = pr_createdAt v, qi_priority = Q_FREEMIUM\<rparr>)
            (sort_key (\<lambda>v. - pr_createdAt v) (filter (\<lambda>v. pr_status v = VS_PENDING) (db_propertyReviews s)))\<rparr>)"

section \<open>What the administrator reads before deciding\<close>

record kyc_view =
  kv_userId :: uuid
  kv_userName :: string
  kv_nationalId :: "string option"
  kv_nationalIdFrontUrl :: string
  kv_nationalIdBackUrl :: string
  kv_selfieUrl :: string
  kv_submittedAt :: time

text \<open>Signing a key for a while may fail; then the address is empty.\<close>

definition document_url :: "(string \<Rightarrow> string option) \<Rightarrow> string \<Rightarrow> string" where
  "document_url sign k =
     (if k = [] then ''''
      else if take 7 k = ''http://'' \<or> take 8 k = ''https://'' then k
      else case sign k of None \<Rightarrow> '''' | Some u \<Rightarrow> u)"

definition getKyc :: "(string \<Rightarrow> string option) \<Rightarrow> uuid \<Rightarrow> db \<Rightarrow> http_error + kyc_view" where
  "getKyc sign uid s =
     (case find (\<lambda>v. iv_userId v = uid) (db_identityVerifications s) of
        None \<Rightarrow> Inl (NotFound ''IDENTITY_VERIFICATION_NOT_FOUND'')
      | Some v \<Rightarrow> Inr
          \<lparr>kv_userId = iv_userId v, kv_userName = user_name (iv_userId v) s, kv_nationalId = iv_nationalId v,
           kv_nationalIdFrontUrl = document_url sign (iv_nationalIdFrontUrl v),
           kv_nationalIdBackUrl = document_url sign (iv_nationalIdBackUrl v), kv_selfieUrl = document_url sign (iv_selfieUrl v),
           kv_submittedAt = iv_submittedAt v\<rparr>)"

record admin_session =
  as_id :: uuid
  as_fullName :: string
  as_role :: string
  as_capabilities :: "capability list"

definition getSession :: "uuid \<Rightarrow> db \<Rightarrow> http_error + admin_session" where
  "getSession uid s =
     (case findById uid s of
        None \<Rightarrow> Inl (NotFound ''ADMIN_NOT_FOUND'')
      | Some u \<Rightarrow> Inr \<lparr>as_id = uid, as_fullName = u_fullName u, as_role = roleSlugFor (u_adminRole u),
                        as_capabilities = capabilitiesFor (u_adminRole u)\<rparr>)"

record property_review_detail =
  mv_id :: uuid
  mv_title :: string
  mv_description :: string
  mv_governorate :: string
  mv_city :: string
  mv_district :: string
  mv_manualAddress :: string
  mv_propertyType :: property_type
  mv_rentAmount :: real
  mv_areaM2 :: real
  mv_bedrooms :: int
  mv_bathrooms :: int
  mv_isFurnished :: bool
  mv_hasElevator :: bool
  mv_hasParking :: bool
  mv_aroundServices :: "string option"
  mv_status :: property_status
  mv_createdAt :: time
  mv_images :: "image_view list"
  mv_ownerName :: string
  mv_ownerVerificationStatus :: "verification_status option"

definition region_name :: "string \<Rightarrow> (string \<times> string) option \<Rightarrow> string" where
  "region_name lang n = (case n of None \<Rightarrow> '''' | Some (ar, en) \<Rightarrow> if take 2 lang = ''ar'' then ar else en)"

text \<open>The projection names no contact of the owner; a missing identity row is \<open>NOT_SUBMITTED\<close>, here None.\<close>

definition getPropertyReviewDetail :: "string \<Rightarrow> uuid \<Rightarrow> db \<Rightarrow> http_error + property_review_detail" where
  "getPropertyReviewDetail lang pid s =
     (case property_of pid s of
        None \<Rightarrow> Inl (NotFound ''PROPERTY_NOT_FOUND'')
      | Some p \<Rightarrow> Inr
          \<lparr>mv_id = p_id p, mv_title = p_title p, mv_description = p_description p,
           mv_governorate = region_name lang (map_option (\<lambda>g. (gv_nameAr g, gv_nameEn g)) (find (\<lambda>g. gv_id g = p_governorateId p) (db_governorates s))),
           mv_city = region_name lang (map_option (\<lambda>c. (ct_nameAr c, ct_nameEn c)) (find (\<lambda>c. ct_id c = p_cityId p) (db_cities s))),
           mv_district = p_district p, mv_manualAddress = p_manualAddress p, mv_propertyType = p_propertyType p,
           mv_rentAmount = p_rentAmount p, mv_areaM2 = p_areaM2 p, mv_bedrooms = p_bedrooms p, mv_bathrooms = p_bathrooms p,
           mv_isFurnished = p_isFurnished p, mv_hasElevator = p_hasElevator p, mv_hasParking = p_hasParking p,
           mv_aroundServices = p_aroundServices p, mv_status = p_status p, mv_createdAt = p_createdAt p,
           mv_images = map transformImage (images_of pid s), mv_ownerName = user_name (p_ownerId p) s,
           mv_ownerVerificationStatus = identity_status (p_ownerId p) s\<rparr>)"

record request_review_detail =
  qd_id :: uuid
  qd_status :: request_status
  qd_minBudget :: real
  qd_maxBudget :: real
  qd_preferredLocations :: string
  qd_propertyType :: property_type
  qd_requiredBedrooms :: int
  qd_needsFurnished :: bool
  qd_flexibilityScore :: int
  qd_lifestyleRequirements :: string
  qd_createdAt :: time
  qd_tenantName :: string
  qd_tenantVerificationStatus :: "verification_status option"

definition getRequestReviewDetail :: "uuid \<Rightarrow> db \<Rightarrow> http_error + request_review_detail" where
  "getRequestReviewDetail rid s =
     (case find (\<lambda>r. tr_id r = rid) (db_tenantRequests s) of
        None \<Rightarrow> Inl (NotFound ''REQUEST_NOT_FOUND'')
      | Some r \<Rightarrow> Inr
          \<lparr>qd_id = tr_id r, qd_status = tr_status r, qd_minBudget = tr_minBudget r, qd_maxBudget = tr_maxBudget r,
           qd_preferredLocations = tr_preferredLocations r, qd_propertyType = tr_propertyType r,
           qd_requiredBedrooms = tr_requiredBedrooms r, qd_needsFurnished = tr_needsFurnished r,
           qd_flexibilityScore = tr_flexibilityScore r, qd_lifestyleRequirements = tr_lifestyleRequirements r,
           qd_createdAt = tr_createdAt r, qd_tenantName = user_name (tr_tenantId r) s,
           qd_tenantVerificationStatus = identity_status (tr_tenantId r) s\<rparr>)"

record review_detail =
  vd_id :: uuid
  vd_reviewerName :: string
  vd_propertyId :: uuid
  vd_propertyTitle :: string
  vd_rating :: int
  vd_comment :: string
  vd_status :: verification_status
  vd_createdAt :: time

definition review_view :: "db \<Rightarrow> property_review \<Rightarrow> review_detail" where
  "review_view s v =
     \<lparr>vd_id = pr_id v, vd_reviewerName = user_name (pr_reviewerId v) s, vd_propertyId = pr_propertyId v,
      vd_propertyTitle = (case property_of (pr_propertyId v) s of None \<Rightarrow> '''' | Some p \<Rightarrow> p_title p), vd_rating = pr_rating v,
      vd_comment = (case pr_comment v of None \<Rightarrow> '''' | Some c \<Rightarrow> c), vd_status = pr_status v, vd_createdAt = pr_createdAt v\<rparr>"

definition getReviewDetail :: "uuid \<Rightarrow> db \<Rightarrow> http_error + review_detail" where
  "getReviewDetail vid s =
     (case find (\<lambda>v. pr_id v = vid) (db_propertyReviews s) of
        None \<Rightarrow> Inl (NotFound ''REVIEW_NOT_FOUND'')
      | Some v \<Rightarrow> Inr (review_view s v))"
section \<open>Reviews of a listing\<close>

text \<open>\<open>reviews.service.ts\<close>. The listing's owner is told about a review that still waits for an administrator.\<close>

definition create_review :: "uuid \<Rightarrow> uuid \<Rightarrow> int \<Rightarrow> string option \<Rightarrow> time \<Rightarrow> db \<Rightarrow> (uuid \<times> verification_status) result" where
  "create_review reviewerId pid rating comment now s =
     (case find (\<lambda>p. p_id p = pid \<and> p_status p = P_APPROVED) (db_properties s) of
        None \<Rightarrow> (Inl (NotFound ''PROPERTY_NOT_REVIEWABLE''), s)
      | Some p \<Rightarrow>
          let v = \<lparr>pr_id = db_seq s, pr_reviewerId = reviewerId, pr_propertyId = pid, pr_rating = rating, pr_comment = comment,
                   pr_status = VS_PENDING, pr_reviewedBy = None, pr_createdAt = now\<rparr>;
              s1 = s\<lparr>db_seq := db_seq s + 1, db_propertyReviews := db_propertyReviews s @ [v]\<rparr>
          in (Inr (pr_id v, pr_status v),
              notifyUser (p_ownerId p) NEW_REVIEW_SUBMITTED None now (emit (SocketQueueItem ''review'' (pr_id v)) s1)))"

record review_summary =
  rs_items :: "review_detail list"
  rs_averageRating :: "real option"
  rs_total :: nat
  rs_distribution :: "(int \<times> nat) list"

definition findForProperty :: "uuid \<Rightarrow> db \<Rightarrow> review_summary" where
  "findForProperty pid s =
     (let vs = sort_key (\<lambda>v. - pr_createdAt v) (filter (\<lambda>v. pr_propertyId v = pid \<and> pr_status v = VS_APPROVED) (db_propertyReviews s))
      in \<lparr>rs_items = map (review_view s) vs,
          rs_averageRating = (if vs = [] then None else Some (to_fixed 1 (of_int (sum_list (map pr_rating vs)) / of_nat (length vs)))),
          rs_total = length vs,
          rs_distribution = map (\<lambda>k. (k, length (filter (\<lambda>v. pr_rating v = k) vs))) [5, 4, 3, 2, 1]\<rparr>)"

section \<open>What the desk promises\<close>


text \<open>The order of the queues.\<close>

lemma sorted_by_compare: "sorted_wrt (\<lambda>a b. queue_compare now a b \<le> 0) (sortCommercialQueue now q)"
proof -
  let ?k = "\<lambda>i. (- (tierWeight (qi_priority i) + ageScore now i), qi_submittedAt i)"
  have "sorted_wrt (\<lambda>a b. ?k a \<le> ?k b) (sort_key ?k q)" using sorted_sort_key[of ?k q] unfolding sorted_map .
  then show ?thesis unfolding sortCommercialQueue_def
    by (rule sorted_wrt_mono_rel[rotated]) (auto simp: queue_compare_def)
qed

lemma older_by_ten_days:
  assumes "qi_submittedAt b + 864000000 \<le> qi_submittedAt a"
  shows "ageScore now a + 200 \<le> ageScore now b"
proof -
  have "(now - qi_submittedAt a) div 86400000 + 10 = (now - qi_submittedAt a + 10 * 86400000) div 86400000" by simp
  also have "\<dots> \<le> (now - qi_submittedAt b) div 86400000" by (rule zdiv_mono1) (use assms in simp_all)
  finally show ?thesis by (simp add: ageScore_def)
qed

lemma compare_overtaking:
  assumes "queue_compare now a b \<le> 0"
  shows "qi_submittedAt a < qi_submittedAt b + 864000000"
proof (rule ccontr)
  assume "\<not> ?thesis"
  then have o: "qi_submittedAt b + 864000000 \<le> qi_submittedAt a" by simp
  have w: "0 \<le> tierWeight t" "tierWeight t \<le> 200" for t by (cases t; simp)+
  show False using older_by_ten_days[OF o, of now] o assms w(1)[of "qi_priority b"] w(2)[of "qi_priority a"]
    by (simp add: queue_compare_def Let_def split: if_splits)
qed

lemma bounded_overtaking:
  "sorted_wrt (\<lambda>a b. qi_submittedAt a < qi_submittedAt b + 864000000) (sortCommercialQueue now q)"
  by (rule sorted_wrt_mono_rel[OF _ sorted_by_compare[of now]]) (rule compare_overtaking)

text \<open>C28: A paid plan moves a submission forward but starves nobody: in each of the three commercial queues
  no item stands behind one that was submitted ten days or more after it, and the two queues of listings
  together hold every listing that waits for review, new or edited.
\<close>

theorem queues_starve_nobody:
  "sorted_wrt (\<lambda>a b. qi_submittedAt a < qi_submittedAt b + 864000000) (rq_kycQueue (getQueues updatedAt now s))
   \<and> sorted_wrt (\<lambda>a b. qi_submittedAt a < qi_submittedAt b + 864000000) (rq_propertyQueue (getQueues updatedAt now s))
   \<and> sorted_wrt (\<lambda>a b. qi_submittedAt a < qi_submittedAt b + 864000000) (rq_editedPropertyQueue (getQueues updatedAt now s))
   \<and> qi_subjectId ` set (rq_propertyQueue (getQueues updatedAt now s)) \<union> qi_subjectId ` set (rq_editedPropertyQueue (getQueues updatedAt now s))
       = p_id ` {p \<in> set (db_properties s). p_status p = P_PENDING}
   \<and> qi_subjectId ` set (rq_kycQueue (getQueues updatedAt now s))
       = iv_userId ` {v \<in> set (db_identityVerifications s). iv_status v = VS_PENDING}"
proof -
  have m: "set (sortCommercialQueue now q) = set q" for q by (simp add: sortCommercialQueue_def)
  have i: "qi_subjectId (property_item now s p) = p_id p" "qi_subjectId (edited_item updatedAt now s p) = p_id p"
    "qi_subjectId (kyc_item now s k) = iv_userId k" for p k
    by (simp_all add: property_item_def edited_item_def kyc_item_def)
  show ?thesis
    by (simp add: getQueues_def Let_def bounded_overtaking m image_image i image_Un[symmetric]) (auto simp: image_iff)
qed

text \<open>C29: The decision on a listing is not tied to the listing it was made on: when the owner removes a
  pending listing after the administrator's method has read it, the approval still goes through and
  publishes the removed listing, although the same decision on the stored row is refused.
\<close>

theorem stale_review_republishes:
  assumes "distinct (map p_id (db_properties s))" "p \<in> set (db_properties s)" "p_status p = P_PENDING" "rd_approve d"
    and "remove_property (p_ownerId p) (p_id p) s = (Inr (), t)"
  shows "reviewProperty_check (p_id p) d s = Inr p
    \<and> listing_status (p_id p) t = Some P_ARCHIVED
    \<and> reviewProperty_check (p_id p) d t = Inl (Conflict ''ALREADY_REVIEWED'')
    \<and> listing_status (p_id p) (reviewProperty_write (indexApprovedProperty cfg cohere local lang) adminId p d now t) = Some P_APPROVED"
proof -
  have p: "property_of (p_id p) s = Some p" using find_unique[OF assms(1,2)] by (simp add: property_of_def)
  have r: "\<not> reason_missing d" using assms(4) by (simp add: reason_missing_def)
  have o: "owned_property (p_ownerId p) (p_id p) s = Some p"
    unfolding owned_property_def using p by (simp add: property_of_def find_Some_iff) blast
  let ?f = "\<lambda>p. p\<lparr>p_status := P_ARCHIVED, p_isBoosted := False, p_boostedUntil := None, p_approvedBy := None\<rparr>"
  have "t = update_property (p_id p) ?f s" using assms(3,5) o by (simp add: remove_property_def)
  then have t: "property_of (p_id p) t = Some (?f p)" by (simp add: property_of_update p)
  have "listing_status (p_id p) (reviewProperty_write (indexApprovedProperty cfg cohere local lang) adminId p d now t) = Some P_APPROVED"
    using write_status[OF index_status t] assms(4) by simp
  then show ?thesis using p r t assms(3) by (simp add: reviewProperty_check_def listing_status_def property_of_def)
qed

theorem stale_review_republishes_witness:
  "\<exists>t. remove_property 7 4 (listing_db\<lparr>db_properties := [shown_flat\<lparr>p_status := P_PENDING\<rparr>]\<rparr>) = (Inr (), t)
     \<and> listing_status 4 t = Some P_ARCHIVED"
proof -
  let ?p = "shown_flat\<lparr>p_status := P_PENDING\<rparr>"
  let ?s = "listing_db\<lparr>db_properties := [?p]\<rparr>"
  obtain t where t: "remove_property (p_ownerId ?p) (p_id ?p) ?s = (Inr (), t)"
    by (simp add: remove_property_def owned_property_def flat_defs)
  have "listing_status (p_id ?p) t = Some P_ARCHIVED"
    using stale_review_republishes[of ?s ?p "\<lparr>rd_approve = True, rd_reason = None\<rparr>" t] t by simp
  then show ?thesis using t by (intro exI[of _ t]) (simp add: flat_defs)
qed

text \<open>One decision on a pending submission, and a second that comes too late.\<close>

definition waiting_identity :: identity_verification where
  "waiting_identity = \<lparr>iv_id = 5, iv_userId = 8, iv_nationalId = Some ''29901011234567'', iv_status = VS_PENDING, iv_reviewedBy = None,
     iv_rejectionReason = None, iv_reviewedAt = None, iv_nationalIdFrontUrl = ''f'', iv_nationalIdBackUrl = ''b'', iv_selfieUrl = ''s'',
     iv_submittedAt = 0\<rparr>"


end
