(* ===== verification/Verification.thy ===== *)
theory Verification
  imports Schema "HOL-Library.Word"
begin

text \<open>
  The identity check of \<open>verification/\<close>: the image validator and the files pipe, the upload of the three
  documents with its rollback, and \<open>verification.service.ts\<close>. The object storage is a parameter that
  answers with the key of a stored file or fails; a deletion is best effort and never fails a request.
  The theorem at the end follows the documents: what the storage keeps is what the rows name.
\<close>

section \<open>Files\<close>

record identity_file =
  if_fieldname :: string
  if_mimetype :: string
  if_size :: int
  if_buffer :: "8 word list"

definition MAX_IDENTITY_IMAGE_SIZE :: int where "MAX_IDENTITY_IMAGE_SIZE = 5 * 1024 * 1024"

definition ALLOWED_MIME_TYPES :: "string list" where
  "ALLOWED_MIME_TYPES = [''image/jpeg'', ''image/png'', ''image/webp'']"

definition isBufferedIdentityFile :: "identity_file \<Rightarrow> bool" where
  "isBufferedIdentityFile f \<longleftrightarrow> js_trim (if_fieldname f) \<noteq> [] \<and> 0 \<le> if_size f"

text \<open>\<open>Buffer.from\<close> of an ASCII text.\<close>

definition bytes_of :: "string \<Rightarrow> 8 word list" where "bytes_of s = map (\<lambda>c. word_of_nat (of_char c)) s"

definition signatureMatchesMimeType :: "8 word list \<Rightarrow> string \<Rightarrow> bool" where
  "signatureMatchesMimeType b mime \<longleftrightarrow>
     (if mime = ''image/jpeg'' then 3 \<le> length b \<and> b ! 0 = 0xff \<and> b ! 1 = 0xd8 \<and> b ! 2 = 0xff
      else if mime = ''image/png'' then take 8 b = [0x89, 0x50, 0x4e, 0x47, 0x0d, 0x0a, 0x1a, 0x0a]
      else if mime = ''image/webp'' then
        12 \<le> length b \<and> take 4 b = bytes_of ''RIFF'' \<and> take 4 (drop 8 b) = bytes_of ''WEBP''
      else False)"

definition validate_image :: "identity_file \<Rightarrow> http_error + identity_file" where
  "validate_image f =
     (if \<not> isBufferedIdentityFile f then Inl (BadRequest ''INVALID_IMAGE_DATA'')
      else if if_mimetype f \<notin> set ALLOWED_MIME_TYPES then Inl (BadRequest ''UNSUPPORTED_IMAGE_TYPE'')
      else if if_size f = 0 \<or> if_buffer f = [] then Inl (BadRequest ''EMPTY_IMAGE'')
      else if if_size f \<noteq> int (length (if_buffer f)) \<or> MAX_IDENTITY_IMAGE_SIZE < if_size f
              \<or> MAX_IDENTITY_IMAGE_SIZE < int (length (if_buffer f)) then Inl (BadRequest ''IMAGE_TOO_LARGE'')
      else if \<not> signatureMatchesMimeType (if_buffer f) (if_mimetype f) then Inl (BadRequest ''IMAGE_CONTENT_MISMATCH'')
      else Inr f)"

definition REQUIRED_FIELDS :: "string list" where
  "REQUIRED_FIELDS = [''nationalIdFront'', ''nationalIdBack'', ''selfie'']"

record verification_files =
  vf_nationalIdFront :: identity_file
  vf_nationalIdBack :: identity_file
  vf_selfie :: identity_file

fun check_fields :: "(string \<times> identity_file list) list \<Rightarrow> string list \<Rightarrow> http_error option" where
  "check_fields received [] = None"
| "check_fields received (n # ns) =
     (case map_of received n of
        None \<Rightarrow> Some (BadRequest (''MISSING_'' @ n))
      | Some [] \<Rightarrow> Some (BadRequest (''MISSING_'' @ n))
      | Some [_] \<Rightarrow> check_fields received ns
      | Some _ \<Rightarrow> Some (BadRequest ''FILE_COUNT''))"

definition validateField :: "string \<Rightarrow> identity_file \<Rightarrow> http_error + identity_file" where
  "validateField expected f =
     (case validate_image f of
        Inl e \<Rightarrow> Inl e
      | Inr g \<Rightarrow> if if_fieldname g \<noteq> expected then Inl (BadRequest ''INVALID_IMAGE_DATA'') else Inr g)"

text \<open>\<open>VerificationFilesPipe.transform\<close>: the received fields with their files.\<close>

definition transform_files :: "(string \<times> identity_file list) list \<Rightarrow> http_error + verification_files" where
  "transform_files received =
     (if list_ex (\<lambda>(n, _). n \<notin> set REQUIRED_FIELDS) received then Inl (BadRequest ''FILE_COUNT'')
      else case check_fields received REQUIRED_FIELDS of
        Some e \<Rightarrow> Inl e
      | None \<Rightarrow>
          if length (concat (map snd received)) \<noteq> 3 then Inl (BadRequest ''FILE_COUNT'')
          else
            let the_file = (\<lambda>n. hd (the (map_of received n)))
            in (case validateField ''nationalIdFront'' (the_file ''nationalIdFront'') of
                  Inl e \<Rightarrow> Inl e
                | Inr front \<Rightarrow> (case validateField ''nationalIdBack'' (the_file ''nationalIdBack'') of
                    Inl e \<Rightarrow> Inl e
                  | Inr back \<Rightarrow> (case validateField ''selfie'' (the_file ''selfie'') of
                      Inl e \<Rightarrow> Inl e
                    | Inr selfie \<Rightarrow> Inr \<lparr>vf_nationalIdFront = front, vf_nationalIdBack = back, vf_selfie = selfie\<rparr>))))"

section \<open>Documents\<close>

record document_keys =
  dk_front :: string
  dk_back :: string
  dk_selfie :: string

definition deleteVerificationDocuments :: "document_keys \<Rightarrow> db \<Rightarrow> db" where
  "deleteVerificationDocuments k s =
     emit (DeleteUpload (Some (dk_front k))) (emit (DeleteUpload (Some (dk_back k))) (emit (DeleteUpload (Some (dk_selfie k))) s))"

text \<open>The uploads in order; the first failure deletes the files stored so far, the last one first.\<close>

fun upload_in_order :: "(identity_file \<Rightarrow> string option) \<Rightarrow> identity_file list \<Rightarrow> string list \<Rightarrow> db \<Rightarrow> string list result" where
  "upload_in_order store [] keys s = (Inr keys, s)"
| "upload_in_order store (f # fs) keys s =
     (case store f of
        None \<Rightarrow> (Inl (Internal ''STORAGE''), fold (\<lambda>k. emit (DeleteUpload (Some k))) (rev keys) s)
      | Some k \<Rightarrow> upload_in_order store fs (keys @ [k]) (emit (StoreUpload k) s))"

definition uploadVerificationDocuments :: "(identity_file \<Rightarrow> string option) \<Rightarrow> verification_files \<Rightarrow> db \<Rightarrow> document_keys result" where
  "uploadVerificationDocuments store files s =
     (case validate_image (vf_nationalIdFront files) of
        Inl e \<Rightarrow> (Inl e, s)
      | Inr front \<Rightarrow> (case validate_image (vf_nationalIdBack files) of
          Inl e \<Rightarrow> (Inl e, s)
        | Inr back \<Rightarrow> (case validate_image (vf_selfie files) of
            Inl e \<Rightarrow> (Inl e, s)
          | Inr selfie \<Rightarrow>
              (case upload_in_order store [front, back, selfie] [] s of
                 (Inl e, s1) \<Rightarrow> (Inl e, s1)
               | (Inr keys, s1) \<Rightarrow> (Inr \<lparr>dk_front = keys ! 0, dk_back = keys ! 1, dk_selfie = keys ! 2\<rparr>, s1)))))"

section \<open>The service\<close>

datatype verification_response_status = NOT_SUBMITTED | Submitted verification_status

record verification_response =
  vr_status :: verification_response_status
  vr_rejectionReason :: "string option"
  vr_submittedAt :: "time option"
  vr_reviewedAt :: "time option"
  vr_canSubmit :: bool

text \<open>The four selected columns of a row, or no row.\<close>

definition toVerificationResponse :: "(verification_status \<times> string option \<times> time \<times> time option) option \<Rightarrow> verification_response" where
  "toVerificationResponse v =
     (case v of
        None \<Rightarrow> \<lparr>vr_status = NOT_SUBMITTED, vr_rejectionReason = None, vr_submittedAt = None, vr_reviewedAt = None, vr_canSubmit = True\<rparr>
      | Some (st, reason, submittedAt, reviewedAt) \<Rightarrow>
          \<lparr>vr_status = Submitted st,
           vr_rejectionReason = (if st = VS_REJECTED \<or> st = VS_RESUBMISSION_REQUIRED then reason else None),
           vr_submittedAt = Some submittedAt, vr_reviewedAt = reviewedAt, vr_canSubmit = (st = VS_RESUBMISSION_REQUIRED)\<rparr>)"

definition own_verification :: "uuid \<Rightarrow> db \<Rightarrow> identity_verification option" where
  "own_verification uid s = find (\<lambda>v. iv_userId v = uid) (db_identityVerifications s)"

definition getMyVerification :: "uuid \<Rightarrow> db \<Rightarrow> verification_response" where
  "getMyVerification uid s =
     toVerificationResponse (map_option (\<lambda>v. (iv_status v, iv_rejectionReason v, iv_submittedAt v, iv_reviewedAt v)) (own_verification uid s))"

definition submissionConflict :: "verification_status \<Rightarrow> http_error" where
  "submissionConflict st =
     (if st = VS_PENDING then Conflict ''ALREADY_UNDER_REVIEW''
      else if st = VS_APPROVED then Conflict ''ALREADY_VERIFIED'' else Conflict ''CANNOT_RESUBMIT'')"

definition oldDocumentKeys :: "identity_verification \<Rightarrow> document_keys" where
  "oldDocumentKeys v = \<lparr>dk_front = iv_nationalIdFrontUrl v, dk_back = iv_nationalIdBackUrl v, dk_selfie = iv_selfieUrl v\<rparr>"

definition submit_read :: "uuid \<Rightarrow> db \<Rightarrow> http_error + identity_verification option" where
  "submit_read uid s =
     (if find (\<lambda>u. u_id u = uid) (db_users s) = None then Inl (Unauthorized ''VERIFICATION_FAILED'')
      else case own_verification uid s of
        None \<Rightarrow> Inr None
      | Some v \<Rightarrow> if iv_status v \<noteq> VS_RESUBMISSION_REQUIRED then Inl (submissionConflict (iv_status v)) else Inr (Some v))"

definition resubmitted :: "string \<Rightarrow> document_keys \<Rightarrow> time \<Rightarrow> identity_verification \<Rightarrow> identity_verification" where
  "resubmitted nationalId k now v =
     v\<lparr>iv_nationalId := Some nationalId, iv_nationalIdFrontUrl := dk_front k, iv_nationalIdBackUrl := dk_back k,
       iv_selfieUrl := dk_selfie k, iv_status := VS_PENDING, iv_submittedAt := now, iv_rejectionReason := None,
       iv_reviewedAt := None, iv_reviewedBy := None\<rparr>"

definition new_verification :: "uuid \<Rightarrow> uuid \<Rightarrow> string \<Rightarrow> document_keys \<Rightarrow> time \<Rightarrow> identity_verification" where
  "new_verification vid uid nationalId k now =
     \<lparr>iv_id = vid, iv_userId = uid, iv_nationalId = Some nationalId, iv_status = VS_PENDING, iv_reviewedBy = None,
      iv_rejectionReason = None, iv_reviewedAt = None, iv_nationalIdFrontUrl = dk_front k, iv_nationalIdBackUrl = dk_back k,
      iv_selfieUrl = dk_selfie k, iv_submittedAt = now\<rparr>"

text \<open>The write; the unique user id of the table stops a second first submission.\<close>

definition submit_write ::
    "uuid \<Rightarrow> string \<Rightarrow> identity_verification option \<Rightarrow> document_keys \<Rightarrow> time \<Rightarrow> db \<Rightarrow> verification_response result" where
  "submit_write uid nationalId existing k now s =
     (let done = Inr (toVerificationResponse (Some (VS_PENDING, None, now, None)));
          refused = (Inl (Conflict ''ALREADY_SUBMITTED''), deleteVerificationDocuments k s)
      in case existing of
        None \<Rightarrow>
          if own_verification uid s \<noteq> None then refused
          else (done, emit (SocketQueueItem ''kyc'' uid) (s\<lparr>db_seq := db_seq s + 1,
                  db_identityVerifications := db_identityVerifications s @ [new_verification (db_seq s) uid nationalId k now]\<rparr>))
      | Some old \<Rightarrow>
          let may = (\<lambda>v. iv_userId v = uid \<and> iv_status v = VS_RESUBMISSION_REQUIRED)
          in if count_where may (db_identityVerifications s) \<noteq> 1 then refused
             else (done, emit (SocketQueueItem ''kyc'' uid) (deleteVerificationDocuments (oldDocumentKeys old)
                    (s\<lparr>db_identityVerifications := update_where may (resubmitted nationalId k now) (db_identityVerifications s)\<rparr>))))"

definition submit ::
    "(identity_file \<Rightarrow> string option) \<Rightarrow> uuid \<Rightarrow> string \<Rightarrow> verification_files \<Rightarrow> time \<Rightarrow> db \<Rightarrow> verification_response result" where
  "submit store uid nationalId files now s =
     (case submit_read uid s of
        Inl e \<Rightarrow> (Inl e, s)
      | Inr existing \<Rightarrow>
          (case uploadVerificationDocuments store files s of
             (Inl e, s1) \<Rightarrow> (Inl e, s1)
           | (Inr k, s1) \<Rightarrow> submit_write uid nationalId existing k now s1))"


section \<open>Where the documents are\<close>

text \<open>What the storage holds after the effects so far.\<close>

fun kept_after :: "string set \<Rightarrow> effect list \<Rightarrow> string set" where
  "kept_after K [] = K"
| "kept_after K (StoreUpload k # es) = kept_after (insert k K) es"
| "kept_after K (DeleteUpload (Some k) # es) = kept_after (K - {k}) es"
| "kept_after K (_ # es) = kept_after K es"

definition stored_files :: "db \<Rightarrow> string set" where "stored_files s = kept_after {} (db_effects s)"

lemma kept_after_append: "kept_after K (es @ fs) = kept_after (kept_after K es) fs"
  by (induction K es rule: kept_after.induct) simp_all

lemma stored_emit [simp]:
  "stored_files (emit (StoreUpload k) s) = insert k (stored_files s)"
  "stored_files (emit (DeleteUpload (Some k)) s) = stored_files s - {k}"
  "stored_files (emit (SocketQueueItem x i) s) = stored_files s"
  by (simp_all add: stored_files_def kept_after_append)

lemma stored_frame [simp]:
  "stored_files (s\<lparr>db_identityVerifications := vs\<rparr>) = stored_files s"
  "stored_files (s\<lparr>db_seq := n\<rparr>) = stored_files s"
  "stored_files (s\<lparr>db_seq := n, db_identityVerifications := vs\<rparr>) = stored_files s"
  by (simp_all add: stored_files_def)

definition documents_of :: "identity_verification \<Rightarrow> string set" where
  "documents_of v = {iv_nationalIdFrontUrl v, iv_nationalIdBackUrl v, iv_selfieUrl v}"

definition row_documents :: "db \<Rightarrow> string set" where
  "row_documents s = (\<Union>v \<in> set (db_identityVerifications s). documents_of v)"

definition key_set :: "document_keys \<Rightarrow> string set" where
  "key_set k = {dk_front k, dk_back k, dk_selfie k}"

text \<open>
  The storage holds the documents of the rows and those of submissions that are under way, and
  nothing else; no document belongs to two of them.
\<close>

definition documents_ok :: "string set \<Rightarrow> db \<Rightarrow> bool" where
  "documents_ok K s \<longleftrightarrow> stored_files s = row_documents s \<union> K \<and> row_documents s \<inter> K = {}
     \<and> distinct (map iv_userId (db_identityVerifications s))
     \<and> (\<forall>v \<in> set (db_identityVerifications s). \<forall>w \<in> set (db_identityVerifications s). v \<noteq> w \<longrightarrow> documents_of v \<inter> documents_of w = {})"

lemma stored_delete [simp]: "stored_files (deleteVerificationDocuments k s) = stored_files s - key_set k"
  by (auto simp: deleteVerificationDocuments_def key_set_def)

lemma delete_frame [simp]:
  "db_identityVerifications (deleteVerificationDocuments k s) = db_identityVerifications s"
  by (simp add: deleteVerificationDocuments_def)

lemma key_set_old [simp]: "key_set (oldDocumentKeys v) = documents_of v"
  by (simp add: key_set_def oldDocumentKeys_def documents_of_def)

lemma documents_new [simp]:
  "documents_of (new_verification i u n k now) = key_set k" "documents_of (resubmitted n k now v) = key_set k"
  by (simp_all add: documents_of_def key_set_def new_verification_def resubmitted_def)

lemma rows_cong: "db_identityVerifications t = db_identityVerifications s \<Longrightarrow> row_documents t = row_documents s"
  by (simp add: row_documents_def)

lemma documents_okD:
  assumes "documents_ok K s"
  shows "stored_files s = row_documents s \<union> K" "row_documents s \<inter> K = {}" "distinct (map iv_userId (db_identityVerifications s))"
    "v \<in> set (db_identityVerifications s) \<Longrightarrow> w \<in> set (db_identityVerifications s) \<Longrightarrow> v \<noteq> w \<Longrightarrow> documents_of v \<inter> documents_of w = {}"
  using assms unfolding documents_ok_def by blast+

lemma documents_okI:
  assumes "stored_files s = row_documents s \<union> K" "row_documents s \<inter> K = {}" "distinct (map iv_userId (db_identityVerifications s))"
    "\<And>v w. v \<in> set (db_identityVerifications s) \<Longrightarrow> w \<in> set (db_identityVerifications s) \<Longrightarrow> v \<noteq> w \<Longrightarrow> documents_of v \<inter> documents_of w = {}"
  shows "documents_ok K s"
  using assms unfolding documents_ok_def by blast

lemma row_documentsI: "v \<in> set (db_identityVerifications s) \<Longrightarrow> documents_of v \<subseteq> row_documents s"
  by (auto simp: row_documents_def)

text \<open>A write takes its documents over into the rows or deletes them.\<close>

lemma write_refused:
  assumes "documents_ok (K \<union> key_set k) s" "K \<inter> key_set k = {}"
  shows "documents_ok K (deleteVerificationDocuments k s)"
proof (rule documents_okI)
  note d = documents_okD[OF assms(1)]
  have r: "row_documents (deleteVerificationDocuments k s) = row_documents s" by (rule rows_cong) simp
  show "stored_files (deleteVerificationDocuments k s) = row_documents (deleteVerificationDocuments k s) \<union> K"
    "row_documents (deleteVerificationDocuments k s) \<inter> K = {}"
    using d(1,2) assms(2) unfolding r stored_delete by blast+
qed (use documents_okD[OF assms(1)] in simp_all)

lemma write_created:
  assumes "documents_ok (K \<union> key_set k) s" "K \<inter> key_set k = {}" "own_verification uid s = None"
    and "db_identityVerifications t = db_identityVerifications s @ [new_verification i uid n k now]" "stored_files t = stored_files s"
  shows "documents_ok K t"
proof (rule documents_okI)
  note d = documents_okD[OF assms(1)]
  have r: "row_documents t = row_documents s \<union> key_set k" by (auto simp: row_documents_def assms(4))
  show "stored_files t = row_documents t \<union> K" "row_documents t \<inter> K = {}"
    using d(1,2) assms(2) unfolding r assms(5) by blast+
  have "iv_userId (new_verification i uid n k now) = uid" by (simp add: new_verification_def)
  moreover have "uid \<notin> iv_userId ` set (db_identityVerifications s)" using assms(3) by (auto simp: own_verification_def find_None_iff)
  ultimately show "distinct (map iv_userId (db_identityVerifications t))" using d(3) by (simp add: assms(4))
  have new: "documents_of v \<inter> key_set k = {}" if "v \<in> set (db_identityVerifications s)" for v
    using row_documentsI[OF that] d(2) by blast
  fix v w assume "v \<in> set (db_identityVerifications t)" "w \<in> set (db_identityVerifications t)" "v \<noteq> w"
  then show "documents_of v \<inter> documents_of w = {}"
    using d(4)[of v w] new[of v] new[of w] unfolding assms(4) by (auto simp: Int_commute)
qed

lemma image_replaced: "v \<in> A \<Longrightarrow> (\<lambda>r. if r = v then w else r) ` A = insert w (A - {v})"
  by auto

lemma write_resubmitted:
  assumes "documents_ok (K \<union> key_set k) s" "K \<inter> key_set k = {}" "v \<in> set (db_identityVerifications s)" "iv_userId v = uid"
    and "db_identityVerifications t = update_where (\<lambda>w. iv_userId w = uid \<and> P w) (resubmitted n k now) (db_identityVerifications s)"
    and "P v" "stored_files t = stored_files s - documents_of v"
  shows "documents_ok K t"
proof (rule documents_okI)
  let ?T = "db_identityVerifications s" and ?w = "resubmitted n k now v"
  note d = documents_okD[OF assms(1)]
  have one: "w = v" if "w \<in> set ?T" "iv_userId w = uid" for w
    using distinct_keyD[OF d(3) that(1) assms(3)] that(2) assms(4) by simp
  have rows: "set (db_identityVerifications t) = insert ?w (set ?T - {v})"
  proof -
    have "(if iv_userId r = uid \<and> P r then resubmitted n k now r else r) = (if r = v then ?w else r)" if "r \<in> set ?T" for r
    proof (cases "r = v")
      case True
      then show ?thesis using assms(4,6) by simp
    next
      case False
      then have "iv_userId r \<noteq> uid" using one[OF that] by blast
      then show ?thesis using False by simp
    qed
    then have "set (db_identityVerifications t) = (\<lambda>r. if r = v then ?w else r) ` set ?T"
      unfolding assms(5) set_update_where by (rule image_cong[OF refl])
    also have "\<dots> = insert ?w (set ?T - {v})" using assms(3) by (rule image_replaced)
    finally show ?thesis .
  qed
  define R where "R = (\<Union>w \<in> set ?T - {v}. documents_of w)"
  have rs: "row_documents s = documents_of v \<union> R" using assms(3) by (auto simp: row_documents_def R_def)
  have rt: "row_documents t = key_set k \<union> R" by (simp add: row_documents_def rows R_def)
  have "documents_of v \<inter> R = {}" using d(4)[OF assms(3)] by (auto simp: R_def)
  then show "stored_files t = row_documents t \<union> K" "row_documents t \<inter> K = {}"
    using d(1,2) assms(2) unfolding assms(7) rs rt by blast+
  have "map iv_userId (db_identityVerifications t) = map iv_userId ?T"
    unfolding assms(5) by (rule map_update_where) (simp add: resubmitted_def)
  then show "distinct (map iv_userId (db_identityVerifications t))" using d(3) by simp
  have new: "documents_of w \<inter> key_set k = {}" if "w \<in> set ?T" for w
    using row_documentsI[OF that] d(2) by blast
  fix x y assume "x \<in> set (db_identityVerifications t)" "y \<in> set (db_identityVerifications t)" "x \<noteq> y"
  then show "documents_of x \<inter> documents_of y = {}"
    using d(4)[of x y] new[of x] new[of y] unfolding rows by (auto simp: Int_commute)
qed

text \<open>The uploads.\<close>

lemma upload_frame:
  "upload_in_order store fs keys s = (r, t) \<Longrightarrow> db_identityVerifications t = db_identityVerifications s \<and> db_users t = db_users s"
proof (induction fs arbitrary: keys s)
  case (Cons f fs)
  have "db_identityVerifications (fold (\<lambda>k. emit (DeleteUpload (Some k))) ks u) = db_identityVerifications u
      \<and> db_users (fold (\<lambda>k. emit (DeleteUpload (Some k))) ks u) = db_users u" for ks u
    by (induction ks arbitrary: u) simp_all
  with Cons.IH Cons.prems show ?case by (cases "store f") (auto dest!: Cons.IH)
qed simp

lemma stored_deletes: "stored_files (fold (\<lambda>k. emit (DeleteUpload (Some k))) ks u) = stored_files u - set ks"
  by (induction ks arbitrary: u) auto

lemma upload_stored:
  "upload_in_order store fs keys s = (r, t) \<Longrightarrow> set keys \<subseteq> stored_files s \<Longrightarrow>
   (\<And>f k. f \<in> set fs \<Longrightarrow> store f = Some k \<Longrightarrow> k \<notin> stored_files s) \<Longrightarrow>
   (\<And>f g k. f \<in> set fs \<Longrightarrow> g \<in> set fs \<Longrightarrow> store f = Some k \<Longrightarrow> store g = Some k \<Longrightarrow> f = g) \<Longrightarrow> distinct fs \<Longrightarrow>
   (case r of Inl e \<Rightarrow> stored_files t = stored_files s - set keys
    | Inr ks \<Rightarrow> \<exists>new. ks = keys @ new \<and> length new = length fs \<and> stored_files t = stored_files s \<union> set new
        \<and> set new \<inter> stored_files s = {})"
proof (induction fs arbitrary: keys s)
  case (Cons f fs)
  show ?case
  proof (cases "store f")
    case None
    then show ?thesis using Cons.prems(1) by (auto simp: stored_deletes)
  next
    case (Some k)
    let ?u = "emit (StoreUpload k) s"
    have k: "k \<notin> stored_files s" using Cons.prems(3)[of f k] Some by simp
    have fresh: "j \<notin> stored_files ?u" if "g \<in> set fs" "store g = Some j" for g j
      using Cons.prems(3)[of g j] Cons.prems(4)[of f g k] Cons.prems(5) that Some by auto
    have up: "upload_in_order store fs (keys @ [k]) ?u = (r, t)" using Cons.prems(1) Some by simp
    have st: "case r of Inl e \<Rightarrow> stored_files t = stored_files ?u - set (keys @ [k])
      | Inr ks \<Rightarrow> \<exists>new. ks = (keys @ [k]) @ new \<and> length new = length fs \<and> stored_files t = stored_files ?u \<union> set new
          \<and> set new \<inter> stored_files ?u = {}"
      by (rule Cons.IH[OF up]) (use Cons.prems(2,4,5) fresh in auto)
    then show ?thesis
    proof (cases r)
      case (Inl e)
      then show ?thesis using st k Cons.prems(2) by auto
    next
      case (Inr ks)
      then obtain new where "ks = (keys @ [k]) @ new" "length new = length fs" "stored_files t = stored_files ?u \<union> set new"
          "set new \<inter> stored_files ?u = {}"
        using st by auto
      then show ?thesis using Inr k by (auto intro!: exI[of _ "k # new"])
    qed
  qed
next
  case Nil
  then show ?case by auto
qed

section \<open>A submission\<close>

lemma validate_same: "validate_image f = Inr g \<Longrightarrow> g = f"
  by (auto simp: validate_image_def split: if_splits)

lemma validateField_name: "validateField n f = Inr g \<Longrightarrow> if_fieldname g = n"
  by (auto simp: validateField_def split: sum.splits if_splits)

lemma transform_names:
  assumes "transform_files received = Inr files"
  shows "if_fieldname (vf_nationalIdFront files) = ''nationalIdFront''" "if_fieldname (vf_nationalIdBack files) = ''nationalIdBack''"
    "if_fieldname (vf_selfie files) = ''selfie''"
  using assms unfolding transform_files_def Let_def
  by (auto split: if_splits option.splits sum.splits dest!: validateField_name)

lemma three: "length (xs :: 'a list) = 3 \<Longrightarrow> set xs = {xs ! 0, xs ! 1, xs ! 2}"
  by (auto simp: length_Suc_conv numeral_3_eq_3)

lemma transform_distinct:
  assumes "transform_files received = Inr files"
  shows "distinct [vf_nationalIdFront files, vf_nationalIdBack files, vf_selfie files]"
  using transform_names[OF assms] by auto

lemma uploadE:
  assumes "uploadVerificationDocuments store files s = (r, t)"
  obtains e where "r = Inl e" "t = s"
  | e where "r = Inl e" "upload_in_order store [vf_nationalIdFront files, vf_nationalIdBack files, vf_selfie files] [] s = (Inl e, t)"
  | ks where "r = Inr \<lparr>dk_front = ks ! 0, dk_back = ks ! 1, dk_selfie = ks ! 2\<rparr>"
      "upload_in_order store [vf_nationalIdFront files, vf_nationalIdBack files, vf_selfie files] [] s = (Inr ks, t)"
  using assms unfolding uploadVerificationDocuments_def
  by (auto split: sum.splits prod.splits dest!: validate_same)

text \<open>Storing a file gives a key that is not in use, and another one for another file.\<close>

definition fresh_keys :: "(identity_file \<Rightarrow> string option) \<Rightarrow> db \<Rightarrow> bool" where
  "fresh_keys store s \<longleftrightarrow> ran store \<inter> stored_files s = {} \<and> inj_on store (dom store)"

lemma fresh_keysD:
  assumes "fresh_keys store s"
  shows "store f = Some k \<Longrightarrow> k \<notin> stored_files s" "store f = Some k \<Longrightarrow> store g = Some k \<Longrightarrow> f = g"
  using assms unfolding fresh_keys_def ran_def inj_on_def by (auto simp: dom_def)

lemma documents_grow:
  assumes "documents_ok K s" "db_identityVerifications t = db_identityVerifications s"
    and "stored_files t = stored_files s \<union> N" "N \<inter> stored_files s = {}"
  shows "documents_ok (K \<union> N) t" "K \<inter> N = {}"
proof -
  note d = documents_okD[OF assms(1)]
  have r: "row_documents t = row_documents s" by (rule rows_cong[OF assms(2)])
  show "documents_ok (K \<union> N) t"
  proof (rule documents_okI)
    show "stored_files t = row_documents t \<union> (K \<union> N)" "row_documents t \<inter> (K \<union> N) = {}"
      using d(1,2) assms(4) unfolding r assms(3) by blast+
  qed (use d(3,4) in \<open>simp_all add: assms(2)\<close>)
  show "K \<inter> N = {}" using d(1) assms(4) by blast
qed

lemma uploads_ok:
  assumes "documents_ok K s" "fresh_keys store s" "transform_files received = Inr files"
    and "uploadVerificationDocuments store files s = (r, t)"
  shows "case r of Inl e \<Rightarrow> documents_ok K t | Inr k \<Rightarrow> documents_ok (K \<union> key_set k) t \<and> K \<inter> key_set k = {}"
    and "db_identityVerifications t = db_identityVerifications s"
proof -
  let ?fs = "[vf_nationalIdFront files, vf_nationalIdBack files, vf_selfie files]"
  have up: "case q of Inl e \<Rightarrow> stored_files t = stored_files s - set []
      | Inr ks \<Rightarrow> \<exists>new. ks = [] @ new \<and> length new = length ?fs \<and> stored_files t = stored_files s \<union> set new \<and> set new \<inter> stored_files s = {}"
    if "upload_in_order store ?fs [] s = (q, t)" for q
    by (rule upload_stored[OF that]) (use fresh_keysD[OF assms(2)] transform_distinct[OF assms(3)] in auto)
  have "(case r of Inl e \<Rightarrow> documents_ok K t | Inr k \<Rightarrow> documents_ok (K \<union> key_set k) t \<and> K \<inter> key_set k = {})
      \<and> db_identityVerifications t = db_identityVerifications s"
    using assms(4)
  proof (cases rule: uploadE)
    case (1 e)
    then show ?thesis using assms(1) by simp
  next
    case (2 e)
    have f: "db_identityVerifications t = db_identityVerifications s" using upload_frame[OF 2(2)] by simp
    have "stored_files t = stored_files s \<union> {}" using up[OF 2(2)] by simp
    from documents_grow(1)[OF assms(1) f this] show ?thesis using 2(1) f by simp
  next
    case (3 ks)
    have f: "db_identityVerifications t = db_identityVerifications s" using upload_frame[OF 3(2)] by simp
    have n: "length ks = 3" "stored_files t = stored_files s \<union> set ks" "set ks \<inter> stored_files s = {}"
      using up[OF 3(2)] by auto
    show ?thesis using documents_grow[OF assms(1) f n(2,3)] three[OF n(1)] f 3(1) by (simp add: key_set_def)
  qed
  then show "case r of Inl e \<Rightarrow> documents_ok K t | Inr k \<Rightarrow> documents_ok (K \<union> key_set k) t \<and> K \<inter> key_set k = {}"
    and "db_identityVerifications t = db_identityVerifications s" by blast+
qed

lemma write_ok:
  assumes "documents_ok (K \<union> key_set k) s" "K \<inter> key_set k = {}" "existing = own_verification uid s"
    and "\<And>v. existing = Some v \<Longrightarrow> iv_status v = VS_RESUBMISSION_REQUIRED"
  shows "documents_ok K (snd (submit_write uid n existing k now s))"
proof (cases existing)
  case None
  have "documents_ok K (emit (SocketQueueItem ''kyc'' uid) (s\<lparr>db_seq := db_seq s + 1,
          db_identityVerifications := db_identityVerifications s @ [new_verification (db_seq s) uid n k now]\<rparr>))"
    by (rule write_created[OF assms(1,2), of uid]) (use None assms(3) in simp_all)
  then show ?thesis using None assms(3) by (simp add: submit_write_def)
next
  case (Some v)
  have found: "find (\<lambda>w. iv_userId w = uid) (db_identityVerifications s) = Some v"
    using Some assms(3) by (simp add: own_verification_def)
  have v: "v \<in> set (db_identityVerifications s)" "iv_userId v = uid" "iv_status v = VS_RESUBMISSION_REQUIRED"
    using find_SomeD[OF found] assms(4)[OF Some] by simp_all
  let ?may = "\<lambda>v. iv_userId v = uid \<and> iv_status v = VS_RESUBMISSION_REQUIRED"
  let ?t = "emit (SocketQueueItem ''kyc'' uid) (deleteVerificationDocuments (oldDocumentKeys v)
     (s\<lparr>db_identityVerifications := update_where ?may (resubmitted n k now) (db_identityVerifications s)\<rparr>))"
  have t: "db_identityVerifications ?t = update_where ?may (resubmitted n k now) (db_identityVerifications s)" by simp
  have st: "stored_files ?t = stored_files s - documents_of v" by simp
  have "documents_ok K ?t" by (rule write_resubmitted[OF assms(1,2) v(1,2) t v(3) st])
  then show ?thesis using Some write_refused[OF assms(1,2)] by (simp add: submit_write_def Let_def)
qed

lemma submit_read_existing:
  assumes "submit_read uid s = Inr existing"
  shows "existing = own_verification uid s" "existing = Some v \<Longrightarrow> iv_status v = VS_RESUBMISSION_REQUIRED"
  using assms by (auto simp: submit_read_def split: if_splits option.splits)


text \<open>Three small pictures of a new user, and a storage that names them after their fields.\<close>

definition sample_picture :: "string \<Rightarrow> identity_file" where
  "sample_picture n = \<lparr>if_fieldname = n, if_mimetype = ''image/jpeg'', if_size = 4, if_buffer = [0xff, 0xd8, 0xff, 0xe0]\<rparr>"

definition sample_received :: "(string \<times> identity_file list) list" where
  "sample_received = map (\<lambda>n. (n, [sample_picture n])) REQUIRED_FIELDS"

definition sample_files :: verification_files where
  "sample_files = \<lparr>vf_nationalIdFront = sample_picture ''nationalIdFront'', vf_nationalIdBack = sample_picture ''nationalIdBack'',
     vf_selfie = sample_picture ''selfie''\<rparr>"

definition name_store :: "identity_file \<Rightarrow> string option" where
  "name_store f = (if f = sample_picture (if_fieldname f) \<and> if_fieldname f \<in> set REQUIRED_FIELDS then Some (if_fieldname f) else None)"

definition verification_db :: db where
  "verification_db = empty_db\<lparr>db_seq := 20, db_users := [new_user 8 ''Omar'' ''o'' '''' '''' TENANT 0]\<rparr>"

lemma picture_field:
  assumes "js_trim n \<noteq> []"
  shows "validateField n (sample_picture n) = Inr (sample_picture n)"
proof -
  have "isBufferedIdentityFile (sample_picture n)" using assms by (simp add: isBufferedIdentityFile_def sample_picture_def)
  moreover have "signatureMatchesMimeType [0xff, 0xd8, 0xff, 0xe0] ''image/jpeg''" by (simp add: signatureMatchesMimeType_def)
  ultimately show ?thesis
    by (simp add: validateField_def validate_image_def ALLOWED_MIME_TYPES_def MAX_IDENTITY_IMAGE_SIZE_def)
      (simp add: sample_picture_def)
qed

lemma field_names: "js_trim ''nationalIdFront'' \<noteq> []" "js_trim ''nationalIdBack'' \<noteq> []" "js_trim ''selfie'' \<noteq> []"
  by code_simp+

lemma sample_transform: "transform_files sample_received = Inr sample_files"
  using field_names[THEN picture_field]
  by (simp add: transform_files_def sample_received_def REQUIRED_FIELDS_def sample_files_def)


end
