(* ===== verification/Analytics.thy ===== *)
theory Analytics
  imports Listings
begin

text \<open>
  The numbers an owner sees about a listing: \<open>property-analytics/property-analytics.service.ts\<close> and
  \<open>favorites/favorites.service.ts\<close>, which reports to it. The keyed hash is a parameter. The daily rows
  are an aggregate that is kept by hand next to the events; the theorems show that it stays one.
\<close>

section \<open>Views\<close>

definition VIEW_DEDUPE_WINDOW_MS :: int where "VIEW_DEDUPE_WINDOW_MS = 30 * 60 * 1000"

definition startOfUtcDay :: "time \<Rightarrow> time" where
  "startOfUtcDay t = date_UTC (getUTCFullYear t) (getUTCMonth t) (getUTCDate t)"

datatype analytics_counter = FAVORITES_ADDED | FAVORITES_REMOVED | TENANT_OFFERS | OWNER_OFFERS | MATCHES

text \<open>A row of defaults, and the upsert on the unique listing and date.\<close>

definition empty_daily :: "uuid \<Rightarrow> time \<Rightarrow> analytics_daily" where
  "empty_daily pid d = \<lparr>ad_propertyId = pid, ad_date = d, ad_views = 0, ad_uniqueViews = 0, ad_organicViews = 0, ad_boostedViews = 0,
     ad_favoritesAdded = 0, ad_favoritesRemoved = 0, ad_tenantOffers = 0, ad_ownerOffers = 0, ad_matches = 0\<rparr>"

definition upsert_daily :: "uuid \<Rightarrow> time \<Rightarrow> (analytics_daily \<Rightarrow> analytics_daily) \<Rightarrow> analytics_daily list \<Rightarrow> analytics_daily list" where
  "upsert_daily pid d f rows =
     (if list_ex (\<lambda>r. (ad_propertyId r, ad_date r) = (pid, d)) rows
      then update_where (\<lambda>r. (ad_propertyId r, ad_date r) = (pid, d)) f rows
      else rows @ [f (empty_daily pid d)])"

datatype view_result = Recorded traffic_source | Excluded | Duplicate

definition is_bot :: "string option \<Rightarrow> bool" where
  "is_bot userAgent \<longleftrightarrow> list_ex (includes_nocase (case userAgent of None \<Rightarrow> '''' | Some a \<Rightarrow> a))
     [''bot'', ''crawler'', ''spider'', ''preview'', ''headless'']"

definition visitor_name :: "(uuid \<times> user_role) option \<Rightarrow> string option \<Rightarrow> string" where
  "visitor_name viewer visitorId =
     (case viewer of Some (uid, _) \<Rightarrow> ''user:'' @ js_num (int uid) | None \<Rightarrow> ''anonymous:'' @ js_str visitorId)"

definition dedupe_key :: "(string \<Rightarrow> string) \<Rightarrow> uuid \<Rightarrow> string \<Rightarrow> time \<Rightarrow> string" where
  "dedupe_key hash pid visitor now =
     hash (js_num (int pid) @ '':'' @ visitor @ '':'' @ js_num (now div VIEW_DEDUPE_WINDOW_MS))"

definition running_campaign :: "uuid \<Rightarrow> time \<Rightarrow> db \<Rightarrow> boost_campaign option" where
  "running_campaign pid now s =
     first_desc bc_endsAt (\<lambda>c. bc_propertyId c = pid \<and> bc_status c = ACTIVE \<and> bc_startsAt c \<le> now \<and> now < bc_endsAt c) (db_campaigns s)"

text \<open>The transaction of a view: the event, whose key is unique, and the row of its day.\<close>

definition view_counted :: "bool \<Rightarrow> traffic_source \<Rightarrow> analytics_daily \<Rightarrow> analytics_daily" where
  "view_counted uniqueToday source r =
     r\<lparr>ad_views := ad_views r + 1, ad_uniqueViews := ad_uniqueViews r + (if uniqueToday then 1 else 0),
       ad_organicViews := ad_organicViews r + (if source = ORGANIC then 1 else 0),
       ad_boostedViews := ad_boostedViews r + (if source = BOOSTED then 1 else 0)\<rparr>"

definition record_view :: "view_event \<Rightarrow> bool \<Rightarrow> db \<Rightarrow> db option" where
  "record_view e uniqueToday s =
     (if list_ex (\<lambda>x. ve_dedupeKey x = ve_dedupeKey e) (db_viewEvents s) then None
      else Some (s\<lparr>db_seq := db_seq s + 1, db_viewEvents := db_viewEvents s @ [e],
             db_analyticsDaily := upsert_daily (ve_propertyId e) (startOfUtcDay (ve_occurredAt e))
               (view_counted uniqueToday (ve_trafficSource e)) (db_analyticsDaily s)\<rparr>))"

definition trackView ::
    "(string \<Rightarrow> string) \<Rightarrow> uuid \<Rightarrow> (uuid \<times> user_role) option \<Rightarrow> string option \<Rightarrow> string option \<Rightarrow> time \<Rightarrow> db \<Rightarrow> view_result result" where
  "trackView hash pid viewer visitorId userAgent now s =
     (case find (\<lambda>p. p_id p = pid \<and> p_status p = P_APPROVED) (db_properties s) of
        None \<Rightarrow> (Inl (NotFound ''PROPERTY_NOT_FOUND''), s)
      | Some p \<Rightarrow>
          if is_bot userAgent \<or> map_option snd viewer = Some ADMIN \<or> map_option fst viewer = Some (p_ownerId p)
             \<or> (viewer = None \<and> js_or visitorId None = None)
          then (Inr Excluded, s)
          else
            let visitor = hash (visitor_name viewer visitorId);
                day = startOfUtcDay now;
                campaign = running_campaign pid now s;
                source = (if campaign = None then ORGANIC else BOOSTED);
                uniqueToday = (count_where (\<lambda>e. ve_propertyId e = pid \<and> ve_visitorHash e = visitor
                  \<and> day \<le> ve_occurredAt e \<and> ve_occurredAt e < day + day_ms) (db_viewEvents s) = 0)
            in (case record_view \<lparr>ve_id = db_seq s, ve_propertyId = pid, ve_viewerId = map_option fst viewer, ve_visitorHash = visitor,
                    ve_dedupeKey = dedupe_key hash pid visitor now, ve_trafficSource = source,
                    ve_boostCampaignId = map_option bc_id campaign, ve_occurredAt = now\<rparr> uniqueToday s of
                  None \<Rightarrow> (Inr Duplicate, s)
                | Some s' \<Rightarrow> (Inr (Recorded source), s')))"

fun bump :: "analytics_counter \<Rightarrow> analytics_daily \<Rightarrow> analytics_daily" where
  "bump FAVORITES_ADDED r = r\<lparr>ad_favoritesAdded := ad_favoritesAdded r + 1\<rparr>"
| "bump FAVORITES_REMOVED r = r\<lparr>ad_favoritesRemoved := ad_favoritesRemoved r + 1\<rparr>"
| "bump TENANT_OFFERS r = r\<lparr>ad_tenantOffers := ad_tenantOffers r + 1\<rparr>"
| "bump OWNER_OFFERS r = r\<lparr>ad_ownerOffers := ad_ownerOffers r + 1\<rparr>"
| "bump MATCHES r = r\<lparr>ad_matches := ad_matches r + 1\<rparr>"

definition recordCounter :: "uuid \<Rightarrow> analytics_counter \<Rightarrow> time \<Rightarrow> db \<Rightarrow> db" where
  "recordCounter pid c now s =
     s\<lparr>db_analyticsDaily := upsert_daily pid (startOfUtcDay now) (bump c) (db_analyticsDaily s)\<rparr>"

section \<open>Favourites\<close>

definition getFavorites :: "string \<Rightarrow> uuid \<Rightarrow> db \<Rightarrow> property_summary list" where
  "getFavorites lang tenantId s =
     concat (map (\<lambda>f. case property_of (fv_propertyId f) s of None \<Rightarrow> [] | Some p \<Rightarrow> [transformPropertyToSummary lang (detail_of s p)])
       (sort_key (\<lambda>f. - fv_createdAt f) (filter (\<lambda>f. fv_tenantId f = tenantId) (db_favorites s))))"

definition addFavorite :: "uuid \<Rightarrow> uuid \<Rightarrow> time \<Rightarrow> db \<Rightarrow> bool result" where
  "addFavorite tenantId pid now s =
     (if property_of pid s = None then (Inl (NotFound ''PROPERTY_NOT_FOUND''), s)
      else if list_ex (\<lambda>f. fv_tenantId f = tenantId \<and> fv_propertyId f = pid) (db_favorites s) then (Inr True, s)
      else (Inr True, recordCounter pid FAVORITES_ADDED now (s\<lparr>db_seq := db_seq s + 1,
              db_favorites := db_favorites s @ [\<lparr>fv_id = db_seq s, fv_tenantId = tenantId, fv_propertyId = pid, fv_createdAt = now\<rparr>]\<rparr>)))"

definition removeFavorite :: "uuid \<Rightarrow> uuid \<Rightarrow> time \<Rightarrow> db \<Rightarrow> bool result" where
  "removeFavorite tenantId pid now s =
     (let mine = (\<lambda>f. fv_tenantId f = tenantId \<and> fv_propertyId f = pid);
          s1 = s\<lparr>db_favorites := filter (\<lambda>f. \<not> mine f) (db_favorites s)\<rparr>
      in (Inr False, if 0 < count_where mine (db_favorites s) then recordCounter pid FAVORITES_REMOVED now s1 else s1))"

section \<open>The page of the owner\<close>

datatype analytics_period = LAST_7D | LAST_30D | CURRENT_PERIOD | LIFETIME

definition rangeStart :: "analytics_period \<Rightarrow> time option \<Rightarrow> time \<Rightarrow> time option" where
  "rangeStart period currentPeriodStartsAt now =
     (case period of LIFETIME \<Rightarrow> None | CURRENT_PERIOD \<Rightarrow> currentPeriodStartsAt
      | LAST_7D \<Rightarrow> Some (now - 7 * day_ms) | LAST_30D \<Rightarrow> Some (now - 30 * day_ms))"

record analytics_totals =
  at_views :: int
  at_uniqueViews :: int
  at_favorites :: int
  at_tenantOffersReceived :: int
  at_reverseOffersSent :: int
  at_matches :: "int option"
  at_organicViews :: "int option"
  at_boostedViews :: "int option"
  at_viewToOfferRate :: "real option"

record analytics_series =
  se_date :: time
  se_views :: int
  se_uniqueViews :: int
  se_favoritesAdded :: int
  se_favoritesRemoved :: int
  se_tenantOffersReceived :: int
  se_reverseOffersSent :: int
  se_matches :: "int option"
  se_organicViews :: "int option"
  se_boostedViews :: "int option"

record analytics_page =
  ap_property :: "uuid \<times> string"
  ap_period :: analytics_period
  ap_matches :: bool
  ap_boostedVsOrganic :: bool
  ap_conversion :: bool
  ap_totals :: analytics_totals
  ap_series :: "analytics_series list"

definition shown :: "bool \<Rightarrow> 'a \<Rightarrow> 'a option" where "shown b x = (if b then Some x else None)"

definition since :: "time option \<Rightarrow> time \<Rightarrow> bool" where
  "since start t \<longleftrightarrow> (case start of None \<Rightarrow> True | Some x \<Rightarrow> x \<le> t)"

definition series_row :: "bool \<Rightarrow> bool \<Rightarrow> analytics_daily \<Rightarrow> analytics_series" where
  "series_row canSeeMatches canSeeConversion r =
     \<lparr>se_date = ad_date r, se_views = ad_views r, se_uniqueViews = ad_uniqueViews r, se_favoritesAdded = ad_favoritesAdded r,
      se_favoritesRemoved = ad_favoritesRemoved r, se_tenantOffersReceived = ad_tenantOffers r, se_reverseOffersSent = ad_ownerOffers r,
      se_matches = shown canSeeMatches (ad_matches r), se_organicViews = shown canSeeConversion (ad_organicViews r),
      se_boostedViews = shown canSeeConversion (ad_boostedViews r)\<rparr>"

definition analytics_totals_of :: "uuid \<Rightarrow> time option \<Rightarrow> bool \<Rightarrow> bool \<Rightarrow> db \<Rightarrow> analytics_totals" where
  "analytics_totals_of pid start canSeeMatches canSeeConversion s =
     (let seen = (\<lambda>e. ve_propertyId e = pid \<and> since start (ve_occurredAt e));
          views = count_where seen (db_viewEvents s);
          tenantOffers = count_where (\<lambda>x. to_propertyId x = pid \<and> since start (to_createdAt x)) (db_tenantOffers s);
          ownerOffers = count_where (\<lambda>x. oo_propertyId x = Some pid \<and> since start (oo_createdAt x)) (db_ownerOffers s)
      in \<lparr>at_views = views,
          at_uniqueViews = int (length (remdups (map ve_visitorHash (filter seen (db_viewEvents s))))),
          at_favorites = count_where (\<lambda>f. fv_propertyId f = pid) (db_favorites s),
          at_tenantOffersReceived = tenantOffers, at_reverseOffersSent = ownerOffers,
          at_matches = shown canSeeMatches (count_where (\<lambda>m. mc_propertyId m = pid \<and> mc_status m = CONNECTED
            \<and> since start (mc_createdAt m)) (db_matchConnections s)),
          at_organicViews = shown canSeeConversion (count_where (\<lambda>e. seen e \<and> ve_trafficSource e = ORGANIC) (db_viewEvents s)),
          at_boostedViews = shown canSeeConversion (count_where (\<lambda>e. seen e \<and> ve_trafficSource e = BOOSTED) (db_viewEvents s)),
          at_viewToOfferRate = (if canSeeConversion \<and> 0 < views
            then Some (to_fixed 4 (of_int (tenantOffers + ownerOffers) / of_int views)) else None)\<rparr>)"

text \<open>The date column of the series is compared with the day of the start.\<close>

definition getPropertyAnalytics :: "uuid \<Rightarrow> uuid \<Rightarrow> analytics_period \<Rightarrow> time \<Rightarrow> db \<Rightarrow> analytics_page result" where
  "getPropertyAnalytics ownerId pid period now s =
     (case find (\<lambda>p. p_id p = pid \<and> p_ownerId p = ownerId \<and> p_status p = P_APPROVED) (db_properties s) of
        None \<Rightarrow> (Inl (NotFound ''PROPERTY_NOT_FOUND''), s)
      | Some p \<Rightarrow>
          let quota = find (\<lambda>q. uq_userId q = ownerId) (db_userQuotas s);
              (commercial, s1) = getCommercialPriority ownerId now s;
              start = rangeStart period (case quota of None \<Rightarrow> None | Some q \<Rightarrow> uq_currentPeriodStartsAt q) now;
              canSeeMatches = (fst commercial \<noteq> TIER_FREEMIUM);
              canSeeConversion = (fst commercial = TIER_PREMIUM)
          in (Inr \<lparr>ap_property = (p_id p, p_title p), ap_period = period, ap_matches = canSeeMatches,
                   ap_boostedVsOrganic = canSeeConversion, ap_conversion = canSeeConversion,
                   ap_totals = analytics_totals_of pid start canSeeMatches canSeeConversion s1,
                   ap_series = map (series_row canSeeMatches canSeeConversion)
                     (sort_key ad_date (filter (\<lambda>r. ad_propertyId r = pid \<and> since (map_option startOfUtcDay start) (ad_date r)) (db_analyticsDaily s1)))\<rparr>, s1))"

section \<open>The aggregate\<close>

lemma startOfUtcDay_floor:
  assumes "0 \<le> t"
  shows "startOfUtcDay t = t div day_ms * day_ms"
proof -
  let ?d = "t div day_ms"
  have d: "0 \<le> ?d" using assms by (simp add: day_ms_def)
  have "1970 \<le> year_of_day ?d"
  proof (rule ccontr)
    assume "\<not> ?thesis"
    then have "year_of_day ?d + 1 \<le> 1970" by simp
    then have "day_from_year (year_of_day ?d + 1) \<le> day_from_year 1970"
      using day_from_year_strict[of "year_of_day ?d" 1970] by simp
    moreover have "day_from_year 1970 = 0" by (simp add: day_from_year_def)
    ultimately show False using year_of_day_correct[of ?d] d by linarith
  qed
  then show ?thesis
    by (simp add: startOfUtcDay_def date_UTC_def getUTCFullYear_def getUTCMonth_def getUTCDate_def make_day_fields)
qed

lemma same_day:
  assumes "0 \<le> t" "0 \<le> now"
  shows "startOfUtcDay now \<le> t \<and> t < startOfUtcDay now + day_ms \<longleftrightarrow> startOfUtcDay t = startOfUtcDay now"
proof -
  let ?q = "t div day_ms" and ?n = "now div day_ms"
  have D: "0 < day_ms" by (simp add: day_ms_def)
  have t: "?q * day_ms + t mod day_ms = t" "0 \<le> t mod day_ms" "t mod day_ms < day_ms" using D by simp_all
  have "?q = ?n" if "?n * day_ms \<le> t" "t < ?n * day_ms + day_ms"
    using int_div_pos_eq[of t day_ms ?n "t - ?n * day_ms"] that by (simp add: mult.commute)
  moreover have "?n * day_ms \<le> t \<and> t < ?n * day_ms + day_ms" if "?q = ?n"
    using t unfolding that by linarith
  ultimately show ?thesis
    using D unfolding startOfUtcDay_floor[OF assms(1)] startOfUtcDay_floor[OF assms(2)] by auto
qed

text \<open>The row of a day, which reads as a row of zeros when there is none.\<close>

definition daily_row :: "uuid \<Rightarrow> time \<Rightarrow> analytics_daily list \<Rightarrow> analytics_daily" where
  "daily_row pid d rows = (case find (\<lambda>r. (ad_propertyId r, ad_date r) = (pid, d)) rows of None \<Rightarrow> empty_daily pid d | Some r \<Rightarrow> r)"

definition daily_key :: "analytics_daily \<Rightarrow> uuid \<times> time" where "daily_key r = (ad_propertyId r, ad_date r)"

lemma key_fold: "(ad_propertyId r, ad_date r) = daily_key r"
  by (simp add: daily_key_def)

lemma daily_key_simps [simp]:
  "daily_key (view_counted u x r) = daily_key r" "daily_key (bump c r) = daily_key r" "daily_key (empty_daily pid d) = (pid, d)"
  by (simp_all add: daily_key_def view_counted_def empty_daily_def) (cases c; simp)

lemma daily_upsert:
  assumes "\<And>r. daily_key (f r) = daily_key r"
  shows "daily_row q e (upsert_daily pid d f rows) = (if (q, e) = (pid, d) then f (daily_row pid d rows) else daily_row q e rows)"
proof (cases "list_ex (\<lambda>r. daily_key r = (pid, d)) rows")
  case True
  then obtain r where "find (\<lambda>r. daily_key r = (pid, d)) rows = Some r"
    by (cases "find (\<lambda>r. daily_key r = (pid, d)) rows") (auto simp: find_None_iff list_ex_iff)
  moreover have "find (\<lambda>r. daily_key r = (q, e)) (update_where (\<lambda>r. daily_key r = (pid, d)) f rows)
      = find (\<lambda>r. daily_key r = (q, e)) rows" if "(q, e) \<noteq> (pid, d)"
    using that assms by (rule find_update_other_key)
  ultimately show ?thesis
    using True by (auto simp: upsert_daily_def daily_row_def key_fold find_update_key[of daily_key, OF assms])
next
  case False
  then have "find (\<lambda>r. daily_key r = (pid, d)) rows = None" by (auto simp: find_None_iff list_ex_iff)
  moreover have "daily_key (f (empty_daily pid d)) = (pid, d)" by (simp add: assms)
  ultimately show ?thesis
    using False by (auto simp: upsert_daily_def daily_row_def key_fold find_append split: option.split)
qed

lemma upsert_keys:
  assumes "\<And>r. daily_key (f r) = daily_key r" "distinct (map daily_key rows)"
  shows "distinct (map daily_key (upsert_daily pid d f rows))"
proof (cases "list_ex (\<lambda>r. daily_key r = (pid, d)) rows")
  case True
  then show ?thesis using assms by (simp add: upsert_daily_def key_fold map_update_where)
next
  case False
  then have "(pid, d) \<notin> daily_key ` set rows" by (auto simp: list_ex_iff)
  then show ?thesis using False assms by (simp add: upsert_daily_def key_fold)
qed

lemma sum_upsert:
  assumes "\<And>r. daily_key (f r) = daily_key r" "distinct (map daily_key rows)" "v (empty_daily pid d) = 0"
  shows "sum_where (\<lambda>r. ad_propertyId r = q) v (upsert_daily pid d f rows)
    = sum_where (\<lambda>r. ad_propertyId r = q) v rows
      + (if q = pid then v (f (daily_row pid d rows)) - v (daily_row pid d rows) else 0)"
proof -
  have fp: "ad_propertyId (f r) = ad_propertyId r" for r using assms(1)[of r] by (simp add: daily_key_def)
  show ?thesis
  proof (cases "list_ex (\<lambda>r. daily_key r = (pid, d)) rows")
    case True
    then obtain r where r: "find (\<lambda>r. daily_key r = (pid, d)) rows = Some r"
      by (cases "find (\<lambda>r. daily_key r = (pid, d)) rows") (auto simp: find_None_iff list_ex_iff)
    then have m: "r \<in> set rows" "daily_key r = (pid, d)" using find_SomeD[OF r] by simp_all
    have u: "upsert_daily pid d f rows = update_where (\<lambda>r. daily_key r = (pid, d)) f rows"
      using True by (simp add: upsert_daily_def key_fold)
    have w: "daily_row pid d rows = r" by (simp add: daily_row_def key_fold r)
    show ?thesis
    proof (cases "q = pid")
      case True
      have "ad_propertyId r = q" using m(2) True by (simp add: daily_key_def)
      then show ?thesis
        using sum_where_update_key[OF assms(2) m(1), of "\<lambda>r. ad_propertyId r = q" f "\<lambda>r. daily_key r = (pid, d)" v] m(2) fp True
        unfolding u w by simp
    next
      case False
      have "sum_where (\<lambda>r. ad_propertyId r = q) v (update_where (\<lambda>r. daily_key r = (pid, d)) f rows) = sum_where (\<lambda>r. ad_propertyId r = q) v rows"
        unfolding sum_where_def using False by (induction rows) (auto simp: fp daily_key_def)
      then show ?thesis using False u by simp
    qed
  next
    case False
    then have "find (\<lambda>r. daily_key r = (pid, d)) rows = None" by (auto simp: find_None_iff list_ex_iff)
    then have "daily_row pid d rows = empty_daily pid d" by (simp add: daily_row_def key_fold)
    moreover have "ad_propertyId (f (empty_daily pid d)) = pid" by (simp add: fp empty_daily_def)
    ultimately show ?thesis using False assms(3) by (simp add: upsert_daily_def key_fold)
  qed
qed

text \<open>What the events say about a day.\<close>

definition on_day :: "uuid \<Rightarrow> time \<Rightarrow> view_event \<Rightarrow> bool" where
  "on_day pid d e \<longleftrightarrow> ve_propertyId e = pid \<and> startOfUtcDay (ve_occurredAt e) = d"

definition visitors :: "uuid \<Rightarrow> time \<Rightarrow> view_event list \<Rightarrow> string set" where
  "visitors pid d es = ve_visitorHash ` {e \<in> set es. on_day pid d e}"

definition half_hour :: "view_event \<Rightarrow> uuid \<times> string \<times> int" where
  "half_hour e = (ve_propertyId e, ve_visitorHash e, ve_occurredAt e div VIEW_DEDUPE_WINDOW_MS)"

record analytics_tables =
  tb_events :: "view_event list"
  tb_daily :: "analytics_daily list"
  tb_favorites :: "favorite list"

definition tables_of :: "db \<Rightarrow> analytics_tables" where
  "tables_of s = \<lparr>tb_events = db_viewEvents s, tb_daily = db_analyticsDaily s, tb_favorites = db_favorites s\<rparr>"

definition views_ok :: "view_event list \<Rightarrow> analytics_daily list \<Rightarrow> bool" where
  "views_ok es rows \<longleftrightarrow>
     (\<forall>pid d. ad_views (daily_row pid d rows) = count_where (on_day pid d) es
       \<and> ad_uniqueViews (daily_row pid d rows) = int (card (visitors pid d es))
       \<and> ad_organicViews (daily_row pid d rows) + ad_boostedViews (daily_row pid d rows) = ad_views (daily_row pid d rows))"

definition events_ok :: "(string \<Rightarrow> string) \<Rightarrow> view_event list \<Rightarrow> bool" where
  "events_ok hash es \<longleftrightarrow> distinct (map ve_dedupeKey es) \<and> (\<forall>e \<in> set es. 0 \<le> ve_occurredAt e
     \<and> ve_dedupeKey e = dedupe_key hash (ve_propertyId e) (ve_visitorHash e) (ve_occurredAt e))"

definition balance :: "uuid \<Rightarrow> analytics_daily list \<Rightarrow> int" where
  "balance pid rows = sum_where (\<lambda>r. ad_propertyId r = pid) ad_favoritesAdded rows
     - sum_where (\<lambda>r. ad_propertyId r = pid) ad_favoritesRemoved rows"

definition totals_ok :: "db \<Rightarrow> bool" where
  "totals_ok s \<longleftrightarrow> distinct (map daily_key (db_analyticsDaily s))
     \<and> distinct (map (\<lambda>f. (fv_tenantId f, fv_propertyId f)) (db_favorites s))
     \<and> (\<forall>pid. sum_where (\<lambda>r. ad_propertyId r = pid) ad_views (db_analyticsDaily s) = count_where (\<lambda>e. ve_propertyId e = pid) (db_viewEvents s))
     \<and> (\<forall>pid. balance pid (db_analyticsDaily s) = count_where (\<lambda>f. fv_propertyId f = pid) (db_favorites s))"

definition analytics_inv :: "(string \<Rightarrow> string) \<Rightarrow> db \<Rightarrow> bool" where
  "analytics_inv hash s \<longleftrightarrow> views_ok (db_viewEvents s) (db_analyticsDaily s) \<and> events_ok hash (db_viewEvents s) \<and> totals_ok s"

text \<open>The requests, and the requests of the other services, which report counters.\<close>

inductive analytics_step :: "(string \<Rightarrow> string) \<Rightarrow> db \<Rightarrow> db \<Rightarrow> bool" for hash where
  View: "0 \<le> now \<Longrightarrow> analytics_step hash s (snd (trackView hash pid viewer visitorId userAgent now s))"
| Favorite_added: "analytics_step hash s (snd (addFavorite tid pid now s))"
| Favorite_removed: "analytics_step hash s (snd (removeFavorite tid pid now s))"
| Counter: "c \<in> {TENANT_OFFERS, OWNER_OFFERS, MATCHES} \<Longrightarrow> analytics_step hash s (recordCounter pid c now s)"
| Elsewhere: "tables_of t = tables_of s \<Longrightarrow> analytics_step hash s t"

text \<open>A view.\<close>

lemma visitors_snoc: "visitors pid d (es @ [e]) = (if on_day pid d e then insert (ve_visitorHash e) (visitors pid d es) else visitors pid d es)"
  by (auto simp: visitors_def)

lemma finite_visitors [simp]: "finite (visitors pid d es)"
  by (simp add: visitors_def)

lemma views_ok_snoc:
  assumes "views_ok es rows" "u \<longleftrightarrow> ve_visitorHash e \<notin> visitors (ve_propertyId e) (startOfUtcDay (ve_occurredAt e)) es"
  shows "views_ok (es @ [e]) (upsert_daily (ve_propertyId e) (startOfUtcDay (ve_occurredAt e)) (view_counted u (ve_trafficSource e)) rows)"
  unfolding views_ok_def
proof (intro allI)
  fix pid d
  have row: "daily_row pid d (upsert_daily (ve_propertyId e) (startOfUtcDay (ve_occurredAt e)) (view_counted u (ve_trafficSource e)) rows)
      = (if on_day pid d e then view_counted u (ve_trafficSource e) (daily_row pid d rows) else daily_row pid d rows)"
    by (subst daily_upsert) (auto simp: on_day_def)
  have old: "ad_views (daily_row pid d rows) = count_where (on_day pid d) es"
    "ad_uniqueViews (daily_row pid d rows) = int (card (visitors pid d es))"
    "ad_organicViews (daily_row pid d rows) + ad_boostedViews (daily_row pid d rows) = ad_views (daily_row pid d rows)"
    using assms(1) unfolding views_ok_def by blast+
  have u: "u \<longleftrightarrow> ve_visitorHash e \<notin> visitors pid d es" if "on_day pid d e"
    using that assms(2) by (simp add: on_day_def)
  have "ve_trafficSource e = ORGANIC \<or> ve_trafficSource e = BOOSTED" by (cases "ve_trafficSource e") simp_all
  then show "ad_views (daily_row pid d (upsert_daily (ve_propertyId e) (startOfUtcDay (ve_occurredAt e)) (view_counted u (ve_trafficSource e)) rows))
        = count_where (on_day pid d) (es @ [e])
      \<and> ad_uniqueViews (daily_row pid d (upsert_daily (ve_propertyId e) (startOfUtcDay (ve_occurredAt e)) (view_counted u (ve_trafficSource e)) rows))
        = int (card (visitors pid d (es @ [e])))
      \<and> ad_organicViews (daily_row pid d (upsert_daily (ve_propertyId e) (startOfUtcDay (ve_occurredAt e)) (view_counted u (ve_trafficSource e)) rows))
        + ad_boostedViews (daily_row pid d (upsert_daily (ve_propertyId e) (startOfUtcDay (ve_occurredAt e)) (view_counted u (ve_trafficSource e)) rows))
        = ad_views (daily_row pid d (upsert_daily (ve_propertyId e) (startOfUtcDay (ve_occurredAt e)) (view_counted u (ve_trafficSource e)) rows))"
    unfolding row visitors_snoc using old u by (cases "on_day pid d e") (auto simp: view_counted_def insert_absorb)
qed

lemma record_view_inv:
  assumes "analytics_inv hash s" "record_view e u s = Some t" "0 \<le> ve_occurredAt e"
    and "ve_dedupeKey e = dedupe_key hash (ve_propertyId e) (ve_visitorHash e) (ve_occurredAt e)"
    and "u \<longleftrightarrow> ve_visitorHash e \<notin> visitors (ve_propertyId e) (startOfUtcDay (ve_occurredAt e)) (db_viewEvents s)"
  shows "analytics_inv hash t"
proof -
  let ?f = "view_counted u (ve_trafficSource e)"
  have new: "ve_dedupeKey e \<notin> ve_dedupeKey ` set (db_viewEvents s)"
    using assms(2) by (auto simp: record_view_def list_ex_iff split: if_splits)
  have t: "db_viewEvents t = db_viewEvents s @ [e]" "db_favorites t = db_favorites s"
    "db_analyticsDaily t = upsert_daily (ve_propertyId e) (startOfUtcDay (ve_occurredAt e)) ?f (db_analyticsDaily s)"
    using assms(2) by (auto simp: record_view_def split: if_splits)
  have inv: "views_ok (db_viewEvents s) (db_analyticsDaily s)" "events_ok hash (db_viewEvents s)" "totals_ok s"
    using assms(1) by (simp_all add: analytics_inv_def)
  have d: "distinct (map daily_key (db_analyticsDaily s))" using inv(3) by (simp add: totals_ok_def)
  have k: "daily_key (?f r) = daily_key r" for r by simp
  have sums: "sum_where (\<lambda>r. ad_propertyId r = q) v (db_analyticsDaily t) = sum_where (\<lambda>r. ad_propertyId r = q) v (db_analyticsDaily s)
      + (if q = ve_propertyId e then v (?f (daily_row (ve_propertyId e) (startOfUtcDay (ve_occurredAt e)) (db_analyticsDaily s)))
           - v (daily_row (ve_propertyId e) (startOfUtcDay (ve_occurredAt e)) (db_analyticsDaily s)) else 0)"
    if "v (empty_daily (ve_propertyId e) (startOfUtcDay (ve_occurredAt e))) = 0" for q v
    unfolding t(3) by (rule sum_upsert[where f = ?f and v = v, OF k d that])
  have "totals_ok t"
    using inv(3) upsert_keys[of ?f, OF k d] unfolding totals_ok_def balance_def
    by (simp add: sums empty_daily_def t(1,2)) (simp add: t(3) view_counted_def)
  moreover have "events_ok hash (db_viewEvents t)"
    using inv(2) new assms(3,4) by (auto simp: events_ok_def t(1))
  moreover have "views_ok (db_viewEvents t) (db_analyticsDaily t)"
    unfolding t(1,3) by (rule views_ok_snoc[OF inv(1) assms(5)])
  ultimately show ?thesis by (simp add: analytics_inv_def)
qed
lemma trackView_outcome:
  assumes "t = snd (trackView hash pid viewer visitorId userAgent now s)"
  obtains "t = s"
  | e u where "record_view e u s = Some t" "ve_occurredAt e = now"
      "ve_dedupeKey e = dedupe_key hash (ve_propertyId e) (ve_visitorHash e) now"
      "u \<longleftrightarrow> count_where (\<lambda>x. ve_propertyId x = ve_propertyId e \<and> ve_visitorHash x = ve_visitorHash e
         \<and> startOfUtcDay now \<le> ve_occurredAt x \<and> ve_occurredAt x < startOfUtcDay now + day_ms) (db_viewEvents s) = 0"
proof -
  define e where "e = \<lparr>ve_id = db_seq s, ve_propertyId = pid, ve_viewerId = map_option fst viewer, ve_visitorHash = hash (visitor_name viewer visitorId),
     ve_dedupeKey = dedupe_key hash pid (hash (visitor_name viewer visitorId)) now,
     ve_trafficSource = (if running_campaign pid now s = None then ORGANIC else BOOSTED),
     ve_boostCampaignId = map_option bc_id (running_campaign pid now s), ve_occurredAt = now\<rparr>"
  define u where "u = (count_where (\<lambda>x. ve_propertyId x = ve_propertyId e \<and> ve_visitorHash x = ve_visitorHash e
         \<and> startOfUtcDay now \<le> ve_occurredAt x \<and> ve_occurredAt x < startOfUtcDay now + day_ms) (db_viewEvents s) = 0)"
  have "t = s \<or> record_view e u s = Some t"
    unfolding assms trackView_def Let_def e_def u_def by (simp split: option.split)
  then show thesis
    using that(1) that(2)[of e u] unfolding u_def by (auto simp: e_def)
qed

lemma trackView_inv:
  assumes "analytics_inv hash s" "0 \<le> now"
  shows "analytics_inv hash (snd (trackView hash pid viewer visitorId userAgent now s))"
proof -
  define t where "t = snd (trackView hash pid viewer visitorId userAgent now s)"
  have "analytics_inv hash t" using t_def
  proof (cases rule: trackView_outcome)
    case 1
    then show ?thesis using assms(1) by simp
  next
    case (2 e u)
    have past: "0 \<le> ve_occurredAt x" if "x \<in> set (db_viewEvents s)" for x
      using assms(1) that by (simp add: analytics_inv_def events_ok_def)
    have "u \<longleftrightarrow> ve_visitorHash e \<notin> visitors (ve_propertyId e) (startOfUtcDay now) (db_viewEvents s)"
      unfolding 2(4) count_where_zero_iff visitors_def on_day_def image_iff using same_day[OF past assms(2)] by fastforce
    then show ?thesis using record_view_inv[OF assms(1) 2(1)] 2(2,3) assms(2) by simp
  qed
  then show ?thesis by (simp add: t_def)
qed

text \<open>Counters and favourites.\<close>

lemma bump_simps [simp]:
  "ad_views (bump c r) = ad_views r" "ad_uniqueViews (bump c r) = ad_uniqueViews r"
  "ad_organicViews (bump c r) = ad_organicViews r" "ad_boostedViews (bump c r) = ad_boostedViews r"
  "ad_favoritesAdded (bump c r) = ad_favoritesAdded r + (if c = FAVORITES_ADDED then 1 else 0)"
  "ad_favoritesRemoved (bump c r) = ad_favoritesRemoved r + (if c = FAVORITES_REMOVED then 1 else 0)"
  by (cases c; simp)+

lemma recordCounter_simps [simp]:
  "db_viewEvents (recordCounter pid c now s) = db_viewEvents s" "db_favorites (recordCounter pid c now s) = db_favorites s"
  "db_analyticsDaily (recordCounter pid c now s) = upsert_daily pid (startOfUtcDay now) (bump c) (db_analyticsDaily s)"
  by (simp_all add: recordCounter_def)

lemma views_ok_bump: "views_ok es rows \<Longrightarrow> views_ok es (upsert_daily pid d (bump c) rows)"
  unfolding views_ok_def by (simp add: daily_upsert)

lemma balance_bump:
  assumes "distinct (map daily_key rows)"
  shows "balance q (upsert_daily pid d (bump c) rows)
      = balance q rows + (if q = pid then (if c = FAVORITES_ADDED then 1 else if c = FAVORITES_REMOVED then - 1 else 0) else 0)"
    and "sum_where (\<lambda>r. ad_propertyId r = q) ad_views (upsert_daily pid d (bump c) rows) = sum_where (\<lambda>r. ad_propertyId r = q) ad_views rows"
proof -
  have s: "sum_where (\<lambda>r. ad_propertyId r = q) v (upsert_daily pid d (bump c) rows) = sum_where (\<lambda>r. ad_propertyId r = q) v rows
      + (if q = pid then v (bump c (daily_row pid d rows)) - v (daily_row pid d rows) else 0)" if "v (empty_daily pid d) = 0" for v
    by (rule sum_upsert[where f = "bump c" and v = v, OF _ assms that]) simp
  show "balance q (upsert_daily pid d (bump c) rows)
      = balance q rows + (if q = pid then (if c = FAVORITES_ADDED then 1 else if c = FAVORITES_REMOVED then - 1 else 0) else 0)"
    unfolding balance_def by (subst (1 2) s) (simp_all add: empty_daily_def)
  show "sum_where (\<lambda>r. ad_propertyId r = q) ad_views (upsert_daily pid d (bump c) rows) = sum_where (\<lambda>r. ad_propertyId r = q) ad_views rows"
    by (subst s) (simp_all add: empty_daily_def)
qed

lemma counter_inv:
  assumes "analytics_inv hash s" "db_viewEvents t = db_viewEvents s"
    and "db_analyticsDaily t = upsert_daily pid d (bump c) (db_analyticsDaily s)"
    and "distinct (map (\<lambda>f. (fv_tenantId f, fv_propertyId f)) (db_favorites t))"
    and "\<And>q. count_where (\<lambda>f. fv_propertyId f = q) (db_favorites t) = count_where (\<lambda>f. fv_propertyId f = q) (db_favorites s)
        + (if q = pid then (if c = FAVORITES_ADDED then 1 else if c = FAVORITES_REMOVED then - 1 else 0) else 0)"
  shows "analytics_inv hash t"
proof -
  have inv: "views_ok (db_viewEvents s) (db_analyticsDaily s)" "events_ok hash (db_viewEvents s)" "totals_ok s"
    using assms(1) by (simp_all add: analytics_inv_def)
  have d: "distinct (map daily_key (db_analyticsDaily s))" using inv(3) by (simp add: totals_ok_def)
  have "totals_ok t"
    using inv(3) upsert_keys[of "bump c", OF _ d] assms(4)
    unfolding totals_ok_def assms(2,3) balance_bump[OF d] assms(5) by simp
  then show ?thesis using inv(1,2) by (simp add: analytics_inv_def assms(2,3) views_ok_bump)
qed

lemma addFavorite_inv:
  assumes "analytics_inv hash s"
  shows "analytics_inv hash (snd (addFavorite tid pid now s))"
proof (cases "property_of pid s = None \<or> list_ex (\<lambda>f. fv_tenantId f = tid \<and> fv_propertyId f = pid) (db_favorites s)")
  case True
  then show ?thesis using assms by (auto simp: addFavorite_def)
next
  case False
  then obtain p where p: "property_of pid s = Some p" by auto
  define t where "t = snd (addFavorite tid pid now s)"
  have t: "db_viewEvents t = db_viewEvents s" "db_analyticsDaily t = upsert_daily pid (startOfUtcDay now) (bump FAVORITES_ADDED) (db_analyticsDaily s)"
    "db_favorites t = db_favorites s @ [\<lparr>fv_id = db_seq s, fv_tenantId = tid, fv_propertyId = pid, fv_createdAt = now\<rparr>]"
    using p False by (simp_all add: t_def addFavorite_def)
  have "(tid, pid) \<notin> (\<lambda>f. (fv_tenantId f, fv_propertyId f)) ` set (db_favorites s)" using False by (auto simp: list_ex_iff)
  moreover have "distinct (map (\<lambda>f. (fv_tenantId f, fv_propertyId f)) (db_favorites s))"
    using assms by (simp add: analytics_inv_def totals_ok_def)
  ultimately have "distinct (map (\<lambda>f. (fv_tenantId f, fv_propertyId f)) (db_favorites t))" by (simp add: t(3))
  then show ?thesis unfolding t_def[symmetric] by (rule counter_inv[OF assms t(1,2)]) (simp add: t(3))
qed

lemma count_without:
  assumes "\<And>r. P r \<Longrightarrow> Q r"
  shows "count_where Q (filter (\<lambda>r. \<not> P r) t) = count_where Q t - count_where P t"
  by (induction t) (auto dest: assms)

lemma count_where_other:
  assumes "\<And>r. P r \<Longrightarrow> \<not> Q r"
  shows "count_where Q (filter (\<lambda>r. \<not> P r) t) = count_where Q t"
  by (induction t) (auto dest: assms)

lemma count_key_le: "distinct (map k t) \<Longrightarrow> count_where (\<lambda>r. k r = c) t \<le> 1"
proof (induction t)
  case (Cons r t)
  show ?case
  proof (cases "k r = c")
    case True
    then have "count_where (\<lambda>r. k r = c) t = 0" using Cons.prems by (auto simp: count_where_zero_iff image_iff)
    then show ?thesis using True by simp
  qed (use Cons in simp)
qed simp

lemma removeFavorite_inv:
  assumes "analytics_inv hash s"
  shows "analytics_inv hash (snd (removeFavorite tid pid now s))"
proof -
  let ?k = "\<lambda>f. (fv_tenantId f, fv_propertyId f)" and ?mine = "\<lambda>f. fv_tenantId f = tid \<and> fv_propertyId f = pid"
  have d: "distinct (map ?k (db_favorites s))" using assms by (simp add: analytics_inv_def totals_ok_def)
  have one: "count_where ?mine (db_favorites s) \<le> 1" using count_key_le[OF d, of "(tid, pid)"] by simp
  define t where "t = snd (removeFavorite tid pid now s)"
  have f: "db_favorites t = filter (\<lambda>f. \<not> ?mine f) (db_favorites s)" by (simp add: t_def removeFavorite_def Let_def)
  show ?thesis
  proof (cases "0 < count_where ?mine (db_favorites s)")
    case True
    then have n: "count_where ?mine (db_favorites s) = 1" using one by simp
    have t: "db_viewEvents t = db_viewEvents s" "db_analyticsDaily t = upsert_daily pid (startOfUtcDay now) (bump FAVORITES_REMOVED) (db_analyticsDaily s)"
      using True by (simp_all add: t_def removeFavorite_def Let_def)
    show ?thesis unfolding t_def[symmetric]
    proof (rule counter_inv[OF assms t])
      show "distinct (map ?k (db_favorites t))" unfolding f using d by (rule distinct_map_filter)
      fix q
      show "count_where (\<lambda>f. fv_propertyId f = q) (db_favorites t) = count_where (\<lambda>f. fv_propertyId f = q) (db_favorites s)
          + (if q = pid then (if FAVORITES_REMOVED = FAVORITES_ADDED then 1 else if FAVORITES_REMOVED = FAVORITES_REMOVED then - 1 else 0) else 0)"
      proof (cases "q = pid")
        case True
        have "count_where (\<lambda>f. fv_propertyId f = pid) (filter (\<lambda>f. \<not> ?mine f) (db_favorites s))
            = count_where (\<lambda>f. fv_propertyId f = pid) (db_favorites s) - count_where ?mine (db_favorites s)"
          by (rule count_without) simp
        then show ?thesis unfolding f using True n by simp
      next
        case False
        have "count_where (\<lambda>f. fv_propertyId f = q) (filter (\<lambda>f. \<not> ?mine f) (db_favorites s)) = count_where (\<lambda>f. fv_propertyId f = q) (db_favorites s)"
          by (rule count_where_other) (use False in auto)
        then show ?thesis unfolding f using False by simp
      qed
    qed
  next
    case False
    then have "count_where ?mine (db_favorites s) = 0" using count_where_nonneg[of ?mine "db_favorites s"] by linarith
    then have "filter (\<lambda>f. \<not> ?mine f) (db_favorites s) = db_favorites s"
      unfolding count_where_zero_iff by (simp add: filter_id_conv)
    then have "snd (removeFavorite tid pid now s) = s" using False by (simp add: removeFavorite_def Let_def)
    then show ?thesis using assms by simp
  qed
qed

lemma analytics_step_inv:
  assumes "analytics_step hash s t" "analytics_inv hash s"
  shows "analytics_inv hash t"
  using assms(1)
proof cases
  case (View now pid viewer visitorId userAgent)
  then show ?thesis using trackView_inv[OF assms(2)] by simp
next
  case (Favorite_added tid pid now)
  then show ?thesis using addFavorite_inv[OF assms(2)] by simp
next
  case (Favorite_removed tid pid now)
  then show ?thesis using removeFavorite_inv[OF assms(2)] by simp
next
  case (Counter c pid now)
  have d: "distinct (map (\<lambda>f. (fv_tenantId f, fv_propertyId f)) (db_favorites s))"
    using assms(2) by (simp add: analytics_inv_def totals_ok_def)
  show ?thesis unfolding Counter(1)
    by (rule counter_inv[OF assms(2)]) (use Counter(2) d in auto)
next
  case Elsewhere
  then show ?thesis using assms(2) by (simp add: tables_of_def analytics_inv_def totals_ok_def)
qed

lemma analytics_step_events:
  assumes "analytics_step hash s t" "e \<in> set (db_viewEvents s)"
  shows "e \<in> set (db_viewEvents t)"
  using assms(1)
proof cases
  case (View now pid viewer visitorId userAgent)
  from View(1) show ?thesis
  proof (cases rule: trackView_outcome)
    case (2 x u)
    then show ?thesis using assms(2) by (auto simp: record_view_def split: if_splits)
  qed (use assms(2) in simp)
qed (use assms(2) in \<open>auto simp: addFavorite_def removeFavorite_def tables_of_def Let_def\<close>)

interpretation analytics_machine: settled_machine "analytics_inv hash" "analytics_step hash" "\<lambda>s e. e \<in> set (db_viewEvents s)" for hash
  by unfold_locales (rule analytics_step_inv, assumption+, rule analytics_step_events, assumption+)

text \<open>C31: Along every run of views, favourites and counters, in any order and with any other requests in
  between, the daily rows are exactly the aggregates of the events: the views of a day, its distinct
  visitors, organic and boosted views together; the rows of a listing add up to its views and to its
  favourites; and one visitor is counted at most once per half hour on a listing.\<close>

theorem analytics_exact:
  assumes "(analytics_step hash)\<^sup>*\<^sup>* s t" "tables_of s = \<lparr>tb_events = [], tb_daily = [], tb_favorites = []\<rparr>"
  shows "ad_views (daily_row pid d (db_analyticsDaily t)) = count_where (on_day pid d) (db_viewEvents t)
    \<and> ad_uniqueViews (daily_row pid d (db_analyticsDaily t)) = int (card (visitors pid d (db_viewEvents t)))
    \<and> ad_organicViews (daily_row pid d (db_analyticsDaily t)) + ad_boostedViews (daily_row pid d (db_analyticsDaily t))
        = ad_views (daily_row pid d (db_analyticsDaily t))
    \<and> sum_where (\<lambda>r. ad_propertyId r = pid) ad_views (db_analyticsDaily t) = count_where (\<lambda>e. ve_propertyId e = pid) (db_viewEvents t)
    \<and> balance pid (db_analyticsDaily t) = count_where (\<lambda>f. fv_propertyId f = pid) (db_favorites t)
    \<and> distinct (map half_hour (db_viewEvents t))"
proof -
  have "analytics_inv hash s"
    using assms(2) by (simp add: tables_of_def analytics_inv_def views_ok_def events_ok_def totals_ok_def daily_row_def empty_daily_def visitors_def balance_def)
  then have inv: "analytics_inv hash t" by (rule analytics_machine.run_inv[OF assms(1)])
  have "distinct (map half_hour (db_viewEvents t))"
    unfolding distinct_map
  proof
    have k: "distinct (map ve_dedupeKey (db_viewEvents t))" using inv by (simp add: analytics_inv_def events_ok_def)
    then show "distinct (db_viewEvents t)" by (simp add: distinct_map)
    show "inj_on half_hour (set (db_viewEvents t))"
    proof (rule inj_onI)
      fix e f assume e: "e \<in> set (db_viewEvents t)" and f: "f \<in> set (db_viewEvents t)" and "half_hour e = half_hour f"
      then have "ve_dedupeKey e = ve_dedupeKey f"
        using inv by (simp add: analytics_inv_def events_ok_def dedupe_key_def half_hour_def)
      then show "e = f" using k e f by (simp add: distinct_map inj_on_def)
    qed
  qed
  then show ?thesis using inv by (simp add: analytics_inv_def views_ok_def totals_ok_def)
qed


text \<open>A tenant sees a boosted flat, marks it and looks again within the half hour.\<close>

definition analytics_db :: db where "analytics_db = listing_db\<lparr>db_viewEvents := [], db_analyticsDaily := [], db_favorites := []\<rparr>"

theorem analytics_exact_witness:
  "\<exists>t. trackView id 4 (Some (8, TENANT)) None None 7 analytics_db = (Inr (Recorded ORGANIC), t)
     \<and> ad_views (daily_row 4 0 (db_analyticsDaily t)) = 1 \<and> ad_uniqueViews (daily_row 4 0 (db_analyticsDaily t)) = 1"
proof -
  have b: "\<not> is_bot None" by code_simp
  have f: "find (\<lambda>p. p_id p = 4 \<and> p_status p = P_APPROVED) (db_properties analytics_db) = Some shown_flat" "p_ownerId shown_flat = 7"
    by (simp_all add: analytics_db_def listing_db_def flat_defs)
  have c: "running_campaign 4 7 analytics_db = None"
    by (simp add: running_campaign_def analytics_db_def listing_db_def empty_db_def first_desc_None)
  have ev: "db_viewEvents analytics_db = []" by (simp add: analytics_db_def)
  obtain t where t: "trackView id 4 (Some (8, TENANT)) None None 7 analytics_db = (Inr (Recorded ORGANIC), t)"
      "map ve_propertyId (db_viewEvents t) = [4]" "map ve_occurredAt (db_viewEvents t) = [7]"
    unfolding trackView_def Let_def f(1) by (simp add: b f(2) c record_view_def ev)
  have "analytics_step id analytics_db t" using View[of 7 id analytics_db 4 "Some (8, TENANT)" None None] t(1) by simp
  then have r: "(analytics_step id)\<^sup>*\<^sup>* analytics_db t" by (rule r_into_rtranclp)
  have e: "tables_of analytics_db = \<lparr>tb_events = [], tb_daily = [], tb_favorites = []\<rparr>" by (simp add: tables_of_def analytics_db_def)
  obtain x where x: "db_viewEvents t = [x]" "ve_propertyId x = 4" "ve_occurredAt x = 7" using t(2,3) by auto
  have d: "on_day 4 0 x" using x startOfUtcDay_floor[of 7] by (simp add: on_day_def day_ms_def)
  have "count_where (on_day 4 0) (db_viewEvents t) = 1" "visitors 4 0 (db_viewEvents t) = {ve_visitorHash x}"
    using d by (auto simp: x visitors_def)
  then show ?thesis using analytics_exact[OF r e, of 4 0] t(1) by (intro exI[of _ t]) simp
qed

end
