(* ===== verification/Community.thy ===== *)
theory Community
  imports Leases
begin

text \<open>
  The small services around the market: the mutual reviews of the parties of a contract
  (\<open>reviews/user-reviews.service.ts\<close>), the requests for a partner's service
  (\<open>partner-leads/partner-leads.service.ts\<close>), the inbox of notifications
  (\<open>notifications/notifications.service.ts\<close>) and the regions (\<open>regions/regions.service.ts\<close>).
\<close>

section \<open>Mutual reviews\<close>

record review_dto =
  rt_overallRating :: int
  rt_communicationRating :: int
  rt_responsivenessRating :: int
  rt_propertyAccuracyRating :: "int option"
  rt_commitmentRating :: "int option"

text \<open>What the validation of the request lets through.\<close>

definition in_scale :: "int \<Rightarrow> bool" where "in_scale x \<longleftrightarrow> 1 \<le> x \<and> x \<le> 5"

definition scale_or_absent :: "int option \<Rightarrow> bool" where "scale_or_absent x = (case x of None \<Rightarrow> True | Some y \<Rightarrow> in_scale y)"

definition review_dto_ok :: "review_dto \<Rightarrow> bool" where
  "review_dto_ok dto \<longleftrightarrow> in_scale (rt_overallRating dto) \<and> in_scale (rt_communicationRating dto) \<and> in_scale (rt_responsivenessRating dto)
     \<and> scale_or_absent (rt_propertyAccuracyRating dto) \<and> scale_or_absent (rt_commitmentRating dto)"

record review_context =
  cx_contractStatus :: lease_status
  cx_direction :: review_direction
  cx_revieweeId :: uuid
  cx_revieweeName :: string

definition contractContext :: "uuid \<Rightarrow> uuid \<Rightarrow> db \<Rightarrow> http_error + review_context" where
  "contractContext userId contractId s =
     (case find (\<lambda>c. lc_id c = contractId) (db_leaseContracts s) of
        None \<Rightarrow> Inl (NotFound ''LEASE_NOT_FOUND'')
      | Some c \<Rightarrow>
        (case party_of c s of
           None \<Rightarrow> Inl (Internal ''FOREIGN_KEY'')
         | Some m \<Rightarrow>
             if userId = mc_tenantId m then
               Inr \<lparr>cx_contractStatus = lc_status c, cx_direction = TENANT_TO_LANDLORD, cx_revieweeId = mc_ownerId m,
                    cx_revieweeName = user_name (mc_ownerId m) s\<rparr>
             else if userId = mc_ownerId m then
               Inr \<lparr>cx_contractStatus = lc_status c, cx_direction = LANDLORD_TO_TENANT, cx_revieweeId = mc_tenantId m,
                    cx_revieweeName = user_name (mc_tenantId m) s\<rparr>
             else Inl (Forbidden ''NOT_A_PARTY_TO_THIS_CONTRACT'')))"

definition validateDirection :: "review_direction \<Rightarrow> review_dto \<Rightarrow> http_error option" where
  "validateDirection direction dto =
     (if direction = TENANT_TO_LANDLORD \<and> (rt_propertyAccuracyRating dto = None \<or> rt_commitmentRating dto \<noteq> None)
      then Some (BadRequest ''TENANT_REVIEW_REQUIRES_PROPERTY_ACCURACY'')
      else if direction = LANDLORD_TO_TENANT \<and> (rt_commitmentRating dto = None \<or> rt_propertyAccuracyRating dto \<noteq> None)
      then Some (BadRequest ''LANDLORD_REVIEW_REQUIRES_COMMITMENT'') else None)"

definition review_by :: "uuid \<Rightarrow> uuid \<Rightarrow> db \<Rightarrow> user_review option" where
  "review_by contractId userId s = find (\<lambda>x. ux_leaseContractId x = contractId \<and> ux_reviewerId x = userId) (db_userReviews s)"

text \<open>The insert; its unique index turns a second review into the same conflict as the check before it.\<close>

definition insert_review :: "user_review \<Rightarrow> db \<Rightarrow> user_review result" where
  "insert_review x s =
     (if review_by (ux_leaseContractId x) (ux_reviewerId x) s \<noteq> None then (Inl (Conflict ''USER_REVIEW_ALREADY_SUBMITTED''), s)
      else (Inr x, s\<lparr>db_seq := db_seq s + 1, db_userReviews := db_userReviews s @ [x]\<rparr>))"

definition review_check :: "uuid \<Rightarrow> uuid \<Rightarrow> review_dto \<Rightarrow> db \<Rightarrow> http_error + review_context" where
  "review_check userId contractId dto s =
     (case contractContext userId contractId s of
        Inl e \<Rightarrow> Inl e
      | Inr c \<Rightarrow>
          if cx_contractStatus c \<noteq> LC_APPROVED then Inl (Conflict ''USER_REVIEW_REQUIRES_APPROVED_CONTRACT'')
          else case validateDirection (cx_direction c) dto of
            Some e \<Rightarrow> Inl e
          | None \<Rightarrow> if review_by contractId userId s \<noteq> None then Inl (Conflict ''USER_REVIEW_ALREADY_SUBMITTED'') else Inr c)"

definition review_of_dto :: "uuid \<Rightarrow> uuid \<Rightarrow> uuid \<Rightarrow> review_dto \<Rightarrow> review_context \<Rightarrow> time \<Rightarrow> user_review" where
  "review_of_dto rid userId contractId dto c now =
     \<lparr>ux_id = rid, ux_leaseContractId = contractId, ux_reviewerId = userId, ux_revieweeId = cx_revieweeId c, ux_direction = cx_direction c,
      ux_overallRating = rt_overallRating dto, ux_communicationRating = rt_communicationRating dto,
      ux_responsivenessRating = rt_responsivenessRating dto, ux_propertyAccuracyRating = rt_propertyAccuracyRating dto,
      ux_commitmentRating = rt_commitmentRating dto, ux_createdAt = now\<rparr>"

definition create_user_review :: "uuid \<Rightarrow> uuid \<Rightarrow> review_dto \<Rightarrow> time \<Rightarrow> db \<Rightarrow> user_review result" where
  "create_user_review userId contractId dto now s =
     (case review_check userId contractId dto s of
        Inl e \<Rightarrow> (Inl e, s)
      | Inr c \<Rightarrow>
          (case insert_review (review_of_dto (db_seq s) userId contractId dto c now) s of
             (Inl e, s1) \<Rightarrow> (Inl e, s1)
           | (Inr x, s1) \<Rightarrow>
               (Inr x, notifyUser (cx_revieweeId c) USER_REVIEW_RECEIVED (Some (''/contracts/'', Some contractId)) now s1)))"

record rating_summary =
  ra_total :: int
  ra_overallRating :: "real option"
  ra_communicationRating :: "real option"
  ra_responsivenessRating :: "real option"
  ra_propertyAccuracyRating :: "real option"
  ra_commitmentRating :: "real option"

text \<open>\<open>_avg\<close> skips the nulls and is null without values; the average is shown with one decimal.\<close>

definition average_shown :: "int list \<Rightarrow> real option" where
  "average_shown xs = (if xs = [] then None else Some (to_fixed 1 (of_int (sum_list xs) / of_nat (length xs))))"

definition summary_of :: "uuid \<Rightarrow> db \<Rightarrow> rating_summary" where
  "summary_of revieweeId s =
     (let xs = filter (\<lambda>x. ux_revieweeId x = revieweeId) (db_userReviews s)
      in \<lparr>ra_total = int (length xs), ra_overallRating = average_shown (map ux_overallRating xs),
          ra_communicationRating = average_shown (map ux_communicationRating xs),
          ra_responsivenessRating = average_shown (map ux_responsivenessRating xs),
          ra_propertyAccuracyRating = average_shown (map the (filter (\<lambda>v. v \<noteq> None) (map ux_propertyAccuracyRating xs))),
          ra_commitmentRating = average_shown (map the (filter (\<lambda>v. v \<noteq> None) (map ux_commitmentRating xs)))\<rparr>)"

definition summaryForUser :: "uuid \<Rightarrow> db \<Rightarrow> http_error + (uuid \<times> string \<times> user_role \<times> rating_summary)" where
  "summaryForUser userId s =
     (case find (\<lambda>u. u_id u = userId) (db_users s) of
        None \<Rightarrow> Inl (NotFound ''USER_NOT_FOUND'')
      | Some u \<Rightarrow> if u_deletedAt u \<noteq> None then Inl (NotFound ''USER_NOT_FOUND'')
                  else Inr (u_id u, u_fullName u, u_role u, summary_of (u_id u) s))"

record contract_review_status =
  cr_eligible :: bool
  cr_submitted :: bool
  cr_direction :: review_direction
  cr_revieweeId :: uuid
  cr_revieweeName :: string
  cr_review :: "user_review option"
  cr_receivedSummary :: rating_summary

definition statusForContract :: "uuid \<Rightarrow> uuid \<Rightarrow> db \<Rightarrow> http_error + contract_review_status" where
  "statusForContract userId contractId s =
     (case contractContext userId contractId s of
        Inl e \<Rightarrow> Inl e
      | Inr c \<Rightarrow> Inr
          \<lparr>cr_eligible = (cx_contractStatus c = LC_APPROVED), cr_submitted = (review_by contractId userId s \<noteq> None),
           cr_direction = cx_direction c, cr_revieweeId = cx_revieweeId c, cr_revieweeName = cx_revieweeName c,
           cr_review = review_by contractId userId s, cr_receivedSummary = summary_of (cx_revieweeId c) s\<rparr>)"

section \<open>Requests for a partner's service\<close>

definition lead_check :: "uuid \<Rightarrow> partner_service \<Rightarrow> bool \<Rightarrow> db \<Rightarrow> http_error + unit" where
  "lead_check userId service consent s =
     (if \<not> consent then Inl (BadRequest ''PARTNER_LEAD_CONSENT_REQUIRED'')
      else if list_ex (\<lambda>l. pl_userId l = userId \<and> pl_serviceType l = service \<and> pl_status l = LEAD_PENDING) (db_partnerLeads s)
      then Inl (Conflict ''PARTNER_LEAD_ALREADY_PENDING'') else Inr ())"

definition lead_write :: "uuid \<Rightarrow> partner_service \<Rightarrow> time \<Rightarrow> db \<Rightarrow> partner_lead result" where
  "lead_write userId service now s =
     (let l = \<lparr>pl_id = db_seq s, pl_userId = userId, pl_serviceType = service, pl_consentedAt = Some now, pl_status = LEAD_PENDING,
               pl_createdAt = now\<rparr>
      in (Inr l, emit (SocketQueueItem ''partner-lead'' (pl_id l)) (s\<lparr>db_seq := db_seq s + 1, db_partnerLeads := db_partnerLeads s @ [l]\<rparr>)))"

definition create_lead :: "uuid \<Rightarrow> partner_service \<Rightarrow> bool \<Rightarrow> time \<Rightarrow> db \<Rightarrow> partner_lead result" where
  "create_lead userId service consent now s =
     (case lead_check userId service consent s of Inl e \<Rightarrow> (Inl e, s) | Inr _ \<Rightarrow> lead_write userId service now s)"

section \<open>The inbox\<close>

definition list_notifications :: "uuid \<Rightarrow> db \<Rightarrow> notification list \<times> nat" where
  "list_notifications userId s =
     (let rows = take 20 (sort_key (\<lambda>n. - n_createdAt n) (filter (\<lambda>n. n_userId n = userId) (db_notifications s)))
      in (rows, length (filter (\<lambda>n. \<not> n_isRead n) rows)))"

definition markRead :: "uuid \<Rightarrow> uuid \<Rightarrow> db \<Rightarrow> db" where
  "markRead userId nid s =
     s\<lparr>db_notifications := update_where (\<lambda>n. n_id n = nid \<and> n_userId n = userId) (\<lambda>n. n\<lparr>n_isRead := True\<rparr>) (db_notifications s)\<rparr>"

definition markAllRead :: "uuid \<Rightarrow> db \<Rightarrow> db" where
  "markAllRead userId s =
     s\<lparr>db_notifications := update_where (\<lambda>n. n_userId n = userId \<and> \<not> n_isRead n) (\<lambda>n. n\<lparr>n_isRead := True\<rparr>) (db_notifications s)\<rparr>"

section \<open>Regions\<close>

datatype city_node = City_Node city "district list"
datatype governorate_node = Governorate_Node governorate "city_node list"
datatype country_node = Country_Node country "governorate_node list"

text \<open>The tree of regions over the rows that a filter of each level keeps, each level by id.\<close>

definition region_tree ::
    "(country \<Rightarrow> bool) \<Rightarrow> (governorate \<Rightarrow> bool) \<Rightarrow> (city \<Rightarrow> bool) \<Rightarrow> (district \<Rightarrow> bool) \<Rightarrow> db \<Rightarrow> country_node list" where
  "region_tree fn fg fc fd s =
     map (\<lambda>n. Country_Node n
       (map (\<lambda>g. Governorate_Node g
         (map (\<lambda>c. City_Node c
           (sort_key (\<lambda>d. int (ds_id d)) (filter (\<lambda>d. fd d \<and> ds_cityId d = ct_id c) (db_districts s))))
         (sort_key (\<lambda>c. int (ct_id c)) (filter (\<lambda>c. fc c \<and> ct_governorateId c = gv_id g) (db_cities s)))))
       (sort_key (\<lambda>g. int (gv_id g)) (filter (\<lambda>g. fg g \<and> gv_countryId g = cn_id n) (db_governorates s)))))
     (sort_key (\<lambda>n. int (cn_id n)) (filter fn (db_countries s)))"

definition getAllRegions :: "db \<Rightarrow> country_node list" where
  "getAllRegions s = region_tree (\<lambda>_. True) (\<lambda>_. True) (\<lambda>_. True) (\<lambda>_. True) s"

definition getActiveRegions :: "db \<Rightarrow> country_node list" where
  "getActiveRegions s = region_tree cn_status gv_status ct_status ds_status s"

text \<open>An update of a row that is not there fails.\<close>

definition toggleCountryStatus :: "uuid \<Rightarrow> bool \<Rightarrow> db \<Rightarrow> unit result" where
  "toggleCountryStatus i status s =
     (if find (\<lambda>r. cn_id r = i) (db_countries s) = None then (Inl (Internal ''RECORD_NOT_FOUND''), s)
      else (Inr (), s\<lparr>db_countries := update_where (\<lambda>r. cn_id r = i) (\<lambda>r. r\<lparr>cn_status := status\<rparr>) (db_countries s)\<rparr>))"

definition toggleGovernorateStatus :: "uuid \<Rightarrow> bool \<Rightarrow> db \<Rightarrow> unit result" where
  "toggleGovernorateStatus i status s =
     (if find (\<lambda>r. gv_id r = i) (db_governorates s) = None then (Inl (Internal ''RECORD_NOT_FOUND''), s)
      else (Inr (), s\<lparr>db_governorates := update_where (\<lambda>r. gv_id r = i) (\<lambda>r. r\<lparr>gv_status := status\<rparr>) (db_governorates s)\<rparr>))"

definition toggleCityStatus :: "uuid \<Rightarrow> bool \<Rightarrow> db \<Rightarrow> unit result" where
  "toggleCityStatus i status s =
     (if find (\<lambda>r. ct_id r = i) (db_cities s) = None then (Inl (Internal ''RECORD_NOT_FOUND''), s)
      else (Inr (), s\<lparr>db_cities := update_where (\<lambda>r. ct_id r = i) (\<lambda>r. r\<lparr>ct_status := status\<rparr>) (db_cities s)\<rparr>))"

definition toggleDistrictStatus :: "uuid \<Rightarrow> bool \<Rightarrow> db \<Rightarrow> unit result" where
  "toggleDistrictStatus i status s =
     (if find (\<lambda>r. ds_id r = i) (db_districts s) = None then (Inl (Internal ''RECORD_NOT_FOUND''), s)
      else (Inr (), s\<lparr>db_districts := update_where (\<lambda>r. ds_id r = i) (\<lambda>r. r\<lparr>ds_status := status\<rparr>) (db_districts s)\<rparr>))"

text \<open>New rows take the defaults of the schema: a district starts disabled, the other levels enabled.\<close>

definition createCountry :: "string \<Rightarrow> string \<Rightarrow> string \<Rightarrow> string option \<Rightarrow> db \<Rightarrow> uuid result" where
  "createCountry nameAr nameEn code flag s =
     (case js_or flag None of
        None \<Rightarrow> (Inl (BadRequest ''FLAG_REQUIRED''), s)
      | Some img \<Rightarrow>
          if list_ex (\<lambda>n. cn_code n = code) (db_countries s) then (Inl (Internal ''UNIQUE''), s)
          else (Inr (db_seq s), s\<lparr>db_seq := db_seq s + 1, db_countries := db_countries s @
                 [\<lparr>cn_id = db_seq s, cn_nameAr = nameAr, cn_nameEn = nameEn, cn_code = code, cn_image = img, cn_status = True\<rparr>]\<rparr>))"

definition createGovernorate :: "uuid \<Rightarrow> string \<Rightarrow> string \<Rightarrow> db \<Rightarrow> uuid result" where
  "createGovernorate countryId nameAr nameEn s =
     (if find (\<lambda>n. cn_id n = countryId) (db_countries s) = None then (Inl (Internal ''FOREIGN_KEY''), s)
      else (Inr (db_seq s), s\<lparr>db_seq := db_seq s + 1, db_governorates := db_governorates s @
              [\<lparr>gv_id = db_seq s, gv_countryId = countryId, gv_nameAr = nameAr, gv_nameEn = nameEn, gv_status = True\<rparr>]\<rparr>))"

definition createCity :: "uuid \<Rightarrow> string \<Rightarrow> string \<Rightarrow> db \<Rightarrow> uuid result" where
  "createCity governorateId nameAr nameEn s =
     (if find (\<lambda>g. gv_id g = governorateId) (db_governorates s) = None then (Inl (Internal ''FOREIGN_KEY''), s)
      else (Inr (db_seq s), s\<lparr>db_seq := db_seq s + 1, db_cities := db_cities s @
              [\<lparr>ct_id = db_seq s, ct_governorateId = governorateId, ct_nameAr = nameAr, ct_nameEn = nameEn, ct_status = True\<rparr>]\<rparr>))"

definition createDistrict :: "uuid \<Rightarrow> string \<Rightarrow> string \<Rightarrow> db \<Rightarrow> uuid result" where
  "createDistrict cityId nameAr nameEn s =
     (if find (\<lambda>c. ct_id c = cityId) (db_cities s) = None then (Inl (Internal ''FOREIGN_KEY''), s)
      else (Inr (db_seq s), s\<lparr>db_seq := db_seq s + 1, db_districts := db_districts s @
              [\<lparr>ds_id = db_seq s, ds_cityId = cityId, ds_nameAr = nameAr, ds_nameEn = nameEn, ds_status = False\<rparr>]\<rparr>))"

section \<open>What the services promise\<close>

text \<open>A review between the two parties of an approved contract, with the marks its direction asks for.\<close>

definition directed_review :: "match_connection \<Rightarrow> user_review \<Rightarrow> bool" where
  "directed_review m x \<longleftrightarrow>
     (if ux_direction x = TENANT_TO_LANDLORD
      then ux_reviewerId x = mc_tenantId m \<and> ux_revieweeId x = mc_ownerId m \<and> ux_propertyAccuracyRating x \<noteq> None \<and> ux_commitmentRating x = None
      else ux_reviewerId x = mc_ownerId m \<and> ux_revieweeId x = mc_tenantId m \<and> ux_commitmentRating x \<noteq> None \<and> ux_propertyAccuracyRating x = None)"

definition marks_ok :: "user_review \<Rightarrow> bool" where
  "marks_ok x \<longleftrightarrow> in_scale (ux_overallRating x) \<and> in_scale (ux_communicationRating x) \<and> in_scale (ux_responsivenessRating x)
     \<and> scale_or_absent (ux_propertyAccuracyRating x) \<and> scale_or_absent (ux_commitmentRating x)"

definition fair_review :: "db \<Rightarrow> user_review \<Rightarrow> bool" where
  "fair_review s x \<longleftrightarrow> marks_ok x \<and> (\<exists>c \<in> set (db_leaseContracts s). \<exists>m \<in> set (db_matchConnections s).
     lc_id c = ux_leaseContractId x \<and> lc_status c = LC_APPROVED \<and> mc_id m = lc_matchConnectionId c \<and> directed_review m x)"

definition review_key :: "user_review \<Rightarrow> uuid \<times> uuid" where "review_key x = (ux_leaseContractId x, ux_reviewerId x)"

definition reviews_inv :: "db \<Rightarrow> bool" where
  "reviews_inv s \<longleftrightarrow> distinct (map review_key (db_userReviews s)) \<and> (\<forall>x \<in> set (db_userReviews s). fair_review s x)"

text \<open>What the other services keep: approved contracts stay as they are, and matches keep their parties.\<close>

definition contracts_kept :: "db \<Rightarrow> db \<Rightarrow> bool" where
  "contracts_kept s t \<longleftrightarrow> (\<forall>c \<in> set (db_leaseContracts s). lc_status c = LC_APPROVED \<longrightarrow> c \<in> set (db_leaseContracts t))
     \<and> (\<forall>m \<in> set (db_matchConnections s). \<exists>n \<in> set (db_matchConnections t).
          mc_id n = mc_id m \<and> mc_tenantId n = mc_tenantId m \<and> mc_ownerId n = mc_ownerId m)"

inductive review_step :: "db \<Rightarrow> db \<Rightarrow> bool" where
  Review: "review_dto_ok dto \<Longrightarrow> review_step s (snd (create_user_review userId contractId dto now s))"
| Elsewhere: "db_userReviews t = db_userReviews s \<Longrightarrow> contracts_kept s t \<Longrightarrow> review_step s t"

lemma fair_kept: "contracts_kept s t \<Longrightarrow> fair_review s x \<Longrightarrow> fair_review t x"
proof -
  assume k: "contracts_kept s t" and "fair_review s x"
  then obtain c m where cm: "marks_ok x" "c \<in> set (db_leaseContracts s)" "m \<in> set (db_matchConnections s)"
      "lc_id c = ux_leaseContractId x" "lc_status c = LC_APPROVED" "mc_id m = lc_matchConnectionId c" "directed_review m x"
    unfolding fair_review_def by blast
  then have c: "c \<in> set (db_leaseContracts t)" using k unfolding contracts_kept_def by blast
  obtain n where n: "n \<in> set (db_matchConnections t)" "mc_id n = mc_id m" "mc_tenantId n = mc_tenantId m" "mc_ownerId n = mc_ownerId m"
    using k cm(3) unfolding contracts_kept_def by blast
  have "directed_review n x" using cm(7) n(3,4) by (simp add: directed_review_def)
  then show "fair_review t x" using cm c n unfolding fair_review_def by (intro conjI bexI[of _ c] bexI[of _ n]) simp_all
qed

lemma contractContextD:
  assumes "contractContext userId contractId s = Inr cx"
  obtains c m where "c \<in> set (db_leaseContracts s)" "lc_id c = contractId" "m \<in> set (db_matchConnections s)"
    "mc_id m = lc_matchConnectionId c" "cx_contractStatus cx = lc_status c"
    "(cx_direction cx = TENANT_TO_LANDLORD \<and> userId = mc_tenantId m \<and> cx_revieweeId cx = mc_ownerId m)
     \<or> (cx_direction cx = LANDLORD_TO_TENANT \<and> userId = mc_ownerId m \<and> cx_revieweeId cx = mc_tenantId m)"
proof -
  obtain c where c: "find (\<lambda>c. lc_id c = contractId) (db_leaseContracts s) = Some c"
    using assms by (auto simp: contractContext_def split: option.splits)
  obtain m where m: "find (\<lambda>m. mc_id m = lc_matchConnectionId c) (db_matchConnections s) = Some m"
    using assms c by (auto simp: contractContext_def party_of_def split: option.splits)
  have "cx_contractStatus cx = lc_status c"
    "(cx_direction cx = TENANT_TO_LANDLORD \<and> userId = mc_tenantId m \<and> cx_revieweeId cx = mc_ownerId m)
     \<or> (cx_direction cx = LANDLORD_TO_TENANT \<and> userId = mc_ownerId m \<and> cx_revieweeId cx = mc_tenantId m)"
    using assms by (auto simp: contractContext_def party_of_def c m split: if_splits)
  with find_SomeD[OF c] find_SomeD[OF m] show thesis by (intro that[of c m]) simp_all
qed

lemma create_outcome:
  assumes "t = snd (create_user_review userId contractId dto now s)"
  obtains "t = s"
  | cx where "contractContext userId contractId s = Inr cx" "cx_contractStatus cx = LC_APPROVED"
      "validateDirection (cx_direction cx) dto = None" "review_by contractId userId s = None"
      "db_userReviews t = db_userReviews s @ [review_of_dto (db_seq s) userId contractId dto cx now]"
      "db_leaseContracts t = db_leaseContracts s" "db_matchConnections t = db_matchConnections s"
proof (cases "review_check userId contractId dto s")
  case (Inl e)
  then show thesis using assms that(1) by (simp add: create_user_review_def)
next
  case (Inr cx)
  then have c: "contractContext userId contractId s = Inr cx" "cx_contractStatus cx = LC_APPROVED"
    "validateDirection (cx_direction cx) dto = None" "review_by contractId userId s = None"
    by (auto simp: review_check_def split: sum.splits if_splits option.splits)
  have "insert_review (review_of_dto (db_seq s) userId contractId dto cx now) s
      = (Inr (review_of_dto (db_seq s) userId contractId dto cx now),
         s\<lparr>db_seq := db_seq s + 1, db_userReviews := db_userReviews s @ [review_of_dto (db_seq s) userId contractId dto cx now]\<rparr>)"
    using c(4) by (simp add: insert_review_def review_of_dto_def)
  then show thesis using assms Inr by (intro that(2)[OF c]) (simp_all add: create_user_review_def)
qed

lemma create_inv:
  assumes "reviews_inv s" "review_dto_ok dto" "t = snd (create_user_review userId contractId dto now s)"
  shows "reviews_inv t"
  using assms(3)
proof (cases rule: create_outcome)
  case 1
  then show ?thesis using assms(1) by simp
next
  case (2 cx)
  let ?x = "review_of_dto (db_seq s) userId contractId dto cx now"
  have k: "contracts_kept s t" unfolding contracts_kept_def 2(6,7) by blast
  obtain c m where cm: "c \<in> set (db_leaseContracts s)" "lc_id c = contractId" "m \<in> set (db_matchConnections s)"
    "mc_id m = lc_matchConnectionId c" "cx_contractStatus cx = lc_status c"
    "(cx_direction cx = TENANT_TO_LANDLORD \<and> userId = mc_tenantId m \<and> cx_revieweeId cx = mc_ownerId m)
     \<or> (cx_direction cx = LANDLORD_TO_TENANT \<and> userId = mc_ownerId m \<and> cx_revieweeId cx = mc_tenantId m)"
    by (rule contractContextD[OF 2(1)])
  have "directed_review m ?x"
    using cm(6) 2(3) by (auto simp: directed_review_def review_of_dto_def validateDirection_def split: if_splits)
  moreover have "marks_ok ?x" using assms(2) by (simp add: marks_ok_def review_of_dto_def review_dto_ok_def)
  ultimately have "fair_review s ?x"
    unfolding fair_review_def using cm(1-5) 2(2) by (intro conjI bexI[of _ c] bexI[of _ m]) (simp_all add: review_of_dto_def)
  moreover have "review_key ?x \<notin> review_key ` set (db_userReviews s)"
    using 2(4) by (auto simp: review_by_def find_None_iff review_key_def review_of_dto_def)
  ultimately show ?thesis
    using assms(1) fair_kept[OF k] by (auto simp: reviews_inv_def 2(5))
qed

lemma review_step_inv:
  assumes "review_step s t" "reviews_inv s"
  shows "reviews_inv t"
  using assms(1)
proof cases
  case (Review dto userId contractId now)
  then show ?thesis using create_inv[OF assms(2) Review(2) Review(1)] by simp
next
  case Elsewhere
  then show ?thesis using assms(2) fair_kept by (auto simp: reviews_inv_def)
qed

lemma review_step_final:
  assumes "review_step s t" "x \<in> set (db_userReviews s)"
  shows "x \<in> set (db_userReviews t)"
  using assms(1)
proof cases
  case (Review dto userId contractId now)
  from Review(1) show ?thesis by (cases rule: create_outcome) (use assms(2) in auto)
qed (use assms(2) in simp)

interpretation review_machine: settled_machine reviews_inv review_step "\<lambda>s x. x \<in> set (db_userReviews s)"
  by unfold_locales (rule review_step_inv, assumption+, rule review_step_final, assumption+)

text \<open>Averages.\<close>

lemma average_in_scale:
  assumes "\<forall>x \<in> set xs. in_scale x" "average_shown xs = Some a"
  shows "1 \<le> a \<and> a \<le> 5"
proof -
  have n: "xs \<noteq> []" "a = to_fixed 1 (of_int (sum_list xs) / of_nat (length xs))"
    using assms(2) by (auto simp: average_shown_def split: if_splits)
  have "int (length xs) \<le> sum_list xs \<and> sum_list xs \<le> 5 * int (length xs)"
    using assms(1) by (induction xs) (auto simp: in_scale_def)
  then have "real_of_int (int (length xs)) \<le> of_int (sum_list xs)" "of_int (sum_list xs) \<le> (of_int (5 * int (length xs)) :: real)"
    by (simp_all only: of_int_le_iff)
  moreover have "0 < real (length xs)" using n(1) by simp
  ultimately have "of_int 1 \<le> of_int (sum_list xs) / real (length xs)" "of_int (sum_list xs) / real (length xs) \<le> of_int 5"
    by (simp_all add: field_simps)
  then show ?thesis using to_fixed_bounds[of 1 "of_int (sum_list xs) / real (length xs)" 5 1] n(2) by simp
qed

definition shown_in_scale :: "real option \<Rightarrow> bool" where
  "shown_in_scale r = (case r of None \<Rightarrow> True | Some a \<Rightarrow> 1 \<le> a \<and> a \<le> 5)"

lemma average_shown_in_scale: "(\<And>x. x \<in> set xs \<Longrightarrow> in_scale x) \<Longrightarrow> shown_in_scale (average_shown xs)"
  using average_in_scale[of xs] by (auto simp: shown_in_scale_def split: option.split)


text \<open>The tenant of an approved contract rates the landlord.\<close>

definition tenant_marks :: review_dto where
  "tenant_marks = \<lparr>rt_overallRating = 4, rt_communicationRating = 5, rt_responsivenessRating = 3, rt_propertyAccuracyRating = Some 5,
     rt_commitmentRating = None\<rparr>"


section \<open>Leads and notifications\<close>

text \<open>In sequence a user has one waiting lead per service; two requests that both pass the check leave two.\<close>

definition waiting_leads :: "uuid \<Rightarrow> partner_service \<Rightarrow> db \<Rightarrow> int" where
  "waiting_leads userId service s =
     count_where (\<lambda>l. pl_userId l = userId \<and> pl_serviceType l = service \<and> pl_status l = LEAD_PENDING) (db_partnerLeads s)"

lemma lead_check_iff: "lead_check u sv True s = Inr () \<longleftrightarrow> waiting_leads u sv s = 0"
  by (auto simp: lead_check_def waiting_leads_def count_where_zero_iff list_ex_iff)

lemma lead_write_count: "waiting_leads u sv (snd (lead_write u sv now s)) = waiting_leads u sv s + 1"
  by (simp add: lead_write_def waiting_leads_def Let_def)

lemma create_lead_once: "waiting_leads u sv s \<le> 1 \<Longrightarrow> waiting_leads u sv (snd (create_lead u sv consent now s)) \<le> 1"
proof (cases "lead_check u sv consent s")
  case (Inr x)
  assume "waiting_leads u sv s \<le> 1"
  have "consent" using Inr by (simp add: lead_check_def split: if_splits)
  then have "waiting_leads u sv s = 0" using Inr lead_check_iff[of u sv s] by simp
  then show ?thesis using Inr lead_write_count[of u sv now s] by (simp add: create_lead_def)
qed (simp add: create_lead_def)

lemma concurrent_leads:
  "lead_check u sv True s = Inr () \<Longrightarrow> waiting_leads u sv (snd (lead_write u sv now' (snd (lead_write u sv now s)))) = 2"
  by (simp add: lead_write_count lead_check_iff)

text \<open>Marking is confined to the rows of the user and never makes a row unread; the badge counts the
  twenty newest rows only.\<close>

lemma marking_is_scoped:
  "filter (\<lambda>n. n_userId n \<noteq> u) (db_notifications (markRead u nid s)) = filter (\<lambda>n. n_userId n \<noteq> u) (db_notifications s)"
  "filter (\<lambda>n. n_userId n \<noteq> u) (db_notifications (markAllRead u s)) = filter (\<lambda>n. n_userId n \<noteq> u) (db_notifications s)"
proof -
  have other: "filter (\<lambda>n. n_userId n \<noteq> u) (update_where P (\<lambda>n. n\<lparr>n_isRead := True\<rparr>) t) = filter (\<lambda>n. n_userId n \<noteq> u) t"
    if "\<And>n. P n \<Longrightarrow> n_userId n = u" for P and t :: "notification list"
    by (induction t) (auto dest: that)
  show "filter (\<lambda>n. n_userId n \<noteq> u) (db_notifications (markRead u nid s)) = filter (\<lambda>n. n_userId n \<noteq> u) (db_notifications s)"
    using other[of "\<lambda>n. n_id n = nid \<and> n_userId n = u" "db_notifications s"] by (simp add: markRead_def)
  show "filter (\<lambda>n. n_userId n \<noteq> u) (db_notifications (markAllRead u s)) = filter (\<lambda>n. n_userId n \<noteq> u) (db_notifications s)"
    using other[of "\<lambda>n. n_userId n = u \<and> \<not> n_isRead n" "db_notifications s"] by (simp add: markAllRead_def)
qed

lemma badge_after_marking_all: "snd (list_notifications u (markAllRead u s)) = 0"
proof -
  define t where "t = db_notifications (markAllRead u s)"
  have t: "t = update_where (\<lambda>n. n_userId n = u \<and> \<not> n_isRead n) (\<lambda>n. n\<lparr>n_isRead := True\<rparr>) (db_notifications s)"
    by (simp add: t_def markAllRead_def)
  have "\<forall>n \<in> set t. n_userId n = u \<longrightarrow> n_isRead n" unfolding t ball_update_where by simp
  then have "\<forall>n \<in> set (take 20 (sort_key (\<lambda>n. - n_createdAt n) (filter (\<lambda>n. n_userId n = u) t))). n_isRead n"
    by (auto dest!: in_set_takeD)
  then show ?thesis by (simp add: list_notifications_def t_def[symmetric] Let_def filter_empty_conv)
qed

lemma badge_bound: "snd (list_notifications u s) \<le> 20"
  unfolding list_notifications_def Let_def snd_conv by (rule order_trans[OF length_filter_le]) simp

text \<open>The public tree of regions: an enabled row under a disabled one is not in it.\<close>

definition tree_cities :: "country_node list \<Rightarrow> city list" where
  "tree_cities ns = concat (map (\<lambda>n. case n of Country_Node _ gs \<Rightarrow>
     concat (map (\<lambda>g. case g of Governorate_Node _ cs \<Rightarrow> map (\<lambda>c. case c of City_Node x _ \<Rightarrow> x) cs) gs)) ns)"

lemma active_cities:
  "c \<in> set (tree_cities (getActiveRegions s)) \<longleftrightarrow> c \<in> set (db_cities s) \<and> ct_status c
     \<and> (\<exists>g \<in> set (db_governorates s). gv_status g \<and> gv_id g = ct_governorateId c
          \<and> (\<exists>n \<in> set (db_countries s). cn_status n \<and> cn_id n = gv_countryId g))"
  by (auto simp: tree_cities_def getActiveRegions_def region_tree_def) metis+

end
