(* ===== verification/Dashboard.thy ===== *)
theory Dashboard
  imports Schema
begin

text \<open>
  The statistics of the administrators, \<open>getStats\<close> in \<open>admin/admin.service.ts\<close>: revenue, counts of the
  moderated subjects, and the chart of the months.
\<close>

section \<open>The dashboard\<close>

text \<open>The server runs in UTC. A bar of the chart is named after the month alone.\<close>

record month_bar =
  mb_month :: int
  mb_revenue :: real
  mb_transactions :: int

fun add_bar :: "payment_transaction \<Rightarrow> month_bar list \<Rightarrow> month_bar list" where
  "add_bar t [] = [\<lparr>mb_month = getUTCMonth (pt_createdAt t), mb_revenue = pt_amount t, mb_transactions = 1\<rparr>]"
| "add_bar t (b # bs) =
     (if mb_month b = getUTCMonth (pt_createdAt t)
      then b\<lparr>mb_revenue := mb_revenue b + pt_amount t, mb_transactions := mb_transactions b + 1\<rparr> # bs
      else b # add_bar t bs)"

record admin_stats =
  ax_totalRevenue :: real
  ax_totalTransactions :: int
  ax_activeListings :: int
  ax_pendingModeration :: int
  ax_monthlyRevenue :: "month_bar list"
  ax_moderationDistribution :: "(string \<times> int) list"

definition moderation_count :: "property_status \<Rightarrow> verification_status \<Rightarrow> request_status \<Rightarrow> db \<Rightarrow> int" where
  "moderation_count ps vs rs s =
     count_where (\<lambda>p. p_status p = ps) (db_properties s) + count_where (\<lambda>v. iv_status v = vs) (db_identityVerifications s)
       + count_where (\<lambda>r. tr_status r = rs) (db_tenantRequests s) + count_where (\<lambda>v. pr_status v = vs) (db_propertyReviews s)"

definition recent_transactions :: "time \<Rightarrow> db \<Rightarrow> payment_transaction list" where
  "recent_transactions now s =
     sort_key pt_createdAt (filter (\<lambda>t. pt_status t = PAY_SUCCESS \<and> setUTCFullYear now (getUTCFullYear now - 1) \<le> pt_createdAt t) (db_payments s))"

definition getStats :: "time \<Rightarrow> db \<Rightarrow> admin_stats" where
  "getStats now s =
     \<lparr>ax_totalRevenue = sum_list (map pt_amount (filter (\<lambda>t. pt_status t = PAY_SUCCESS) (db_payments s))),
      ax_totalTransactions = count_where (\<lambda>t. pt_status t = PAY_SUCCESS) (db_payments s),
      ax_activeListings = count_where (\<lambda>p. p_status p = P_APPROVED) (db_properties s),
      ax_pendingModeration = moderation_count P_PENDING VS_PENDING TR_PENDING s,
      ax_monthlyRevenue = fold add_bar (recent_transactions now s) [],
      ax_moderationDistribution =
        [(''approved'', moderation_count P_APPROVED VS_APPROVED TR_APPROVED s), (''pending'', moderation_count P_PENDING VS_PENDING TR_PENDING s),
         (''rejected'', moderation_count P_REJECTED VS_REJECTED TR_REJECTED s)]\<rparr>"

text \<open>
  The chart has one bar per month name, and its bars together are the revenue of the window. The
  window reaches back a year to the day, so the month of today collects the end of the same month of
  last year as well.
\<close>

lemma add_bar_sum: "sum_list (map mb_revenue (add_bar t bs)) = sum_list (map mb_revenue bs) + pt_amount t"
  by (induction bs) auto

lemma add_bar_months: "set (map mb_month (add_bar t bs)) = insert (getUTCMonth (pt_createdAt t)) (set (map mb_month bs))"
  by (induction bs) auto

lemma add_bar_distinct: "distinct (map mb_month bs) \<Longrightarrow> distinct (map mb_month (add_bar t bs))"
  by (induction bs) (use add_bar_months in auto)

lemma chart_sums:
  "distinct (map mb_month (ax_monthlyRevenue (getStats now s)))
   \<and> sum_list (map mb_revenue (ax_monthlyRevenue (getStats now s))) = sum_list (map pt_amount (recent_transactions now s))"
proof -
  have "distinct (map mb_month bs) \<Longrightarrow> distinct (map mb_month (fold add_bar ts bs))
      \<and> sum_list (map mb_revenue (fold add_bar ts bs)) = sum_list (map mb_revenue bs) + sum_list (map pt_amount ts)" for ts bs
    by (induction ts arbitrary: bs) (simp_all add: add_bar_distinct add_bar_sum)
  from this[of "[]"] show ?thesis by (simp add: getStats_def)
qed

lemma chart_merges_years:
  assumes "getUTCMonth (pt_createdAt a) = getUTCMonth (pt_createdAt b)"
  shows "fold add_bar [a, b] [] = [\<lparr>mb_month = getUTCMonth (pt_createdAt b), mb_revenue = pt_amount a + pt_amount b, mb_transactions = 2\<rparr>]"
  using assms by simp

end
