(* ===== verification/Semantic.thy ===== *)
theory Semantic
  imports Moderation
begin

text \<open>
  The semantic search of listings: \<open>properties/semantic-match-reasons.ts\<close>, which reads wishes out of a
  text in Arabic or English, and \<open>semanticSearch\<close> of \<open>properties/properties.service.ts\<close>. A text is
  the list of its code points; letters and digits are those of Latin-1 and of the Arabic block. The
  embedding providers and the vector database are parameters.
\<close>

section \<open>Texts\<close>

type_synonym utext = "int list"

definition utf :: "string \<Rightarrow> utext" where "utf s = map of_char s"

text \<open>\<open>\p{L}\<close> and \<open>\p{N}\<close>, white space and \<open>toLowerCase\<close>.\<close>

definition is_word :: "int \<Rightarrow> bool" where
  "is_word c \<longleftrightarrow> list_ex (\<lambda>(a, b). a \<le> c \<and> c \<le> b)
     [(48, 57), (65, 90), (97, 122), (170, 170), (178, 179), (181, 181), (185, 186), (188, 190), (192, 214), (216, 246), (248, 255),
      (1568, 1610), (1632, 1641), (1646, 1647), (1649, 1747), (1749, 1749), (1765, 1766), (1774, 1788), (1791, 1791)]"

definition is_space :: "int \<Rightarrow> bool" where "is_space c \<longleftrightarrow> c = 32 \<or> 9 \<le> c \<and> c \<le> 13 \<or> c = 160"

definition ulower :: "utext \<Rightarrow> utext" where
  "ulower t = map (\<lambda>c. if 65 \<le> c \<and> c \<le> 90 \<or> 192 \<le> c \<and> c \<le> 222 \<and> c \<noteq> 215 then c + 32 else c) t"

text \<open>The folding of Arabic variants: alef forms, alef maksura, teh marbuta and the kashida.\<close>

definition fold_letter :: "int \<Rightarrow> int" where
  "fold_letter c = (if c \<in> {1570, 1571, 1573, 1649} then 1575 else if c = 1609 then 1610 else if c = 1577 then 1607 else c)"

text \<open>Every run of other characters becomes one space, and the ends are trimmed; the code's last
  replacement then finds no run of spaces.\<close>

function squeeze :: "utext \<Rightarrow> utext" where
  "squeeze [] = []"
| "squeeze (c # cs) = (if is_word c then c # squeeze cs else 32 # squeeze (dropWhile (\<lambda>c. \<not> is_word c) cs))"
  by pat_completeness auto
termination by (relation "measure length") (auto intro: le_less_trans[OF length_dropWhile_le])

definition utrim :: "utext \<Rightarrow> utext" where
  "utrim t = rev (dropWhile is_space (rev (dropWhile is_space t)))"

definition normalizeSemanticReasonText :: "utext \<Rightarrow> utext" where
  "normalizeSemanticReasonText t = utrim (squeeze (filter (\<lambda>c. c \<noteq> 1600) (map fold_letter (ulower t))))"

fun u_includes :: "utext \<Rightarrow> utext \<Rightarrow> bool" where
  "u_includes [] x \<longleftrightarrow> x = []"
| "u_includes (c # cs) x \<longleftrightarrow> take (length x) (c # cs) = x \<or> u_includes cs x"

definition containsTerm :: "utext \<Rightarrow> utext \<Rightarrow> bool" where
  "containsTerm query phrase =
     (let q = normalizeSemanticReasonText query; t = normalizeSemanticReasonText phrase
      in t \<noteq> [] \<and> u_includes ([32] @ q @ [32]) ([32] @ t @ [32]))"

section \<open>Wishes in a text\<close>

fun PROPERTY_TYPE_TERMS :: "property_type \<Rightarrow> utext list" where
  "PROPERTY_TYPE_TERMS APARTMENT = [utf ''apartment'', utf ''flat'', [1588, 1602, 1577], [1588, 1602, 1607]]"
| "PROPERTY_TYPE_TERMS VILLA = [utf ''villa'', [1601, 1610, 1604, 1575]]"
| "PROPERTY_TYPE_TERMS STUDIO = [utf ''studio'', [1575, 1587, 1578, 1608, 1583, 1610, 1608], [1575, 1587, 1578, 1583, 1610, 1608]]"

definition wordCounts :: "(int \<times> utext) list" where
  "wordCounts = [(1, [1594, 1585, 1601, 1607]),
     (2, [1594, 1585, 1601, 1578, 1610, 1606]),
     (2, [1594, 1585, 1601, 1578, 1575, 1606]),
     (2, [1575, 1579, 1606, 1610, 1606, 32, 1594, 1585, 1601]),
     (2, [1575, 1579, 1606, 1578, 1610, 1606, 32, 1594, 1585, 1601]),
     (3, [1579, 1604, 1575, 1579, 32, 1594, 1585, 1601]),
     (4, [1575, 1585, 1576, 1593, 32, 1594, 1585, 1601]),
     (5, [1582, 1605, 1587, 32, 1594, 1585, 1601])]"

definition room_words :: "utext list" where
  "room_words = [utf ''bedrooms'', utf ''bedroom'', utf ''rooms'', utf ''room'', [1594, 1585, 1601, 1607], [1594, 1585, 1601]]"

text \<open>Arabic digits from zero to k as Latin ones.\<close>

definition westernize :: "int \<Rightarrow> utext \<Rightarrow> utext" where
  "westernize k t = map (\<lambda>c. if 1632 \<le> c \<and> c \<le> 1632 + k then c - 1632 + 48 else c) t"

text \<open>The expression for a number of rooms: a digit from one to five at the start or after a space, then a
  word for rooms that ends there.\<close>

definition room_phrase :: "utext \<Rightarrow> bool" where
  "room_phrase t \<longleftrightarrow> (let r = dropWhile is_space t in
     list_ex (\<lambda>w. take (length w) r = w \<and> (drop (length w) r = [] \<or> is_space (hd (drop (length w) r)))) room_words)"

fun first_count :: "bool \<Rightarrow> utext \<Rightarrow> int option" where
  "first_count b [] = None"
| "first_count b (c # cs) =
     (if b \<and> 49 \<le> c \<and> c \<le> 53 \<and> room_phrase cs then Some (c - 48) else first_count (is_space c) cs)"

definition requestedBedroomCount :: "utext \<Rightarrow> int option" where
  "requestedBedroomCount query =
     (let n = westernize 5 (normalizeSemanticReasonText query)
      in case first_count True n of
           Some k \<Rightarrow> Some k
         | None \<Rightarrow> map_option fst (find (\<lambda>(k, phrase). containsTerm n phrase) wordCounts))"

text \<open>The expression for an upper limit of the rent: one of the phrases, whose words may stand apart,
  followed by three to seven digits.\<close>

definition rent_phrases :: "utext list list" where
  "rent_phrases = [[[1576, 1581, 1583], [1575, 1602, 1589, 1610]],
     [[1581, 1583], [1575, 1602, 1589, 1610]],
     [[1604, 1575], [1610, 1586, 1610, 1583], [1593, 1606]],
     [[1581, 1578, 1609]],
     [[1575, 1602, 1604], [1605, 1606]],
     [utf ''maximum''],
     [utf ''max''],
     [utf ''up'', utf ''to''],
     [utf ''under'']]"

fun after_words :: "utext list \<Rightarrow> utext \<Rightarrow> utext option" where
  "after_words [] t = Some t"
| "after_words (w # ws) t =
     (if take (length w) t = w then after_words ws (dropWhile is_space (drop (length w) t)) else None)"

definition digits_value :: "utext \<Rightarrow> int" where "digits_value ds = foldl (\<lambda>a d. 10 * a + (d - 48)) 0 ds"

definition rent_after :: "utext \<Rightarrow> utext list \<Rightarrow> int option" where
  "rent_after t phrase =
     (case after_words phrase t of
        None \<Rightarrow> None
      | Some r \<Rightarrow> let ds = takeWhile (\<lambda>c. 48 \<le> c \<and> c \<le> 57) r in if 3 \<le> length ds then Some (digits_value (take 7 ds)) else None)"

fun first_some :: "('a \<Rightarrow> 'b option) \<Rightarrow> 'a list \<Rightarrow> 'b option" where
  "first_some f [] = None"
| "first_some f (x # xs) = (case f x of None \<Rightarrow> first_some f xs | Some y \<Rightarrow> Some y)"

fun first_rent :: "utext \<Rightarrow> int option" where
  "first_rent [] = None"
| "first_rent (c # cs) = (case first_some (rent_after (c # cs)) rent_phrases of None \<Rightarrow> first_rent cs | Some v \<Rightarrow> Some v)"

definition requestedMaximumRent :: "utext \<Rightarrow> int option" where
  "requestedMaximumRent query = first_rent (westernize 9 (normalizeSemanticReasonText query))"

definition unfurnished_terms :: "utext list" where
  "unfurnished_terms = [utf ''unfurnished'', utf ''not furnished'', [1594, 1610, 1585, 32, 1605, 1601, 1585, 1608, 1588], [1594, 1610, 1585, 32, 1605, 1601, 1585, 1608, 1588, 1577], [1594, 1610, 1585, 32, 1605, 1601, 1585, 1608, 1588, 1607], [1576, 1583, 1608, 1606, 32, 1601, 1585, 1588]]"

definition furnished_terms :: "utext list" where
  "furnished_terms = [utf ''furnished'', [1605, 1601, 1585, 1608, 1588], [1605, 1601, 1585, 1608, 1588, 1577], [1605, 1601, 1585, 1608, 1588, 1607]]"

definition detectFurnishingPreference :: "utext \<Rightarrow> bool option" where
  "detectFurnishingPreference query =
     (if list_ex (containsTerm query) unfurnished_terms then Some False
      else if list_ex (containsTerm query) furnished_terms then Some True else None)"

text \<open>A city's two names, if the listing has one, and the district.\<close>

definition propertyLocationMatches :: "utext \<Rightarrow> (utext \<times> utext) option \<times> utext \<Rightarrow> bool" where
  "propertyLocationMatches query place =
     list_ex (containsTerm query) (filter (\<lambda>v. utrim v \<noteq> [])
       ((case fst place of None \<Rightarrow> [] | Some (ar, en) \<Rightarrow> [ar, en]) @ [snd place]))"

definition propertyTypeMatches :: "utext \<Rightarrow> property_type \<Rightarrow> bool" where
  "propertyTypeMatches query ty \<longleftrightarrow> list_ex (containsTerm query) (PROPERTY_TYPE_TERMS ty)"

definition detectPropertyTypePreference :: "utext \<Rightarrow> property_type option" where
  "detectPropertyTypePreference query =
     find (propertyTypeMatches (normalizeSemanticReasonText query)) [APARTMENT, VILLA, STUDIO]"

datatype match_reason_code =
  LOCATION_MENTION_MATCH | PROPERTY_TYPE_MENTION_MATCH | BEDROOM_MENTION_MATCH | FURNISHING_MENTION_MATCH | MATCHES_SEARCH_INTENT

definition MAX_SEMANTIC_MATCH_REASONS :: nat where "MAX_SEMANTIC_MATCH_REASONS = 3"

definition buildSemanticMatchReasons ::
    "utext \<Rightarrow> (utext \<times> utext) option \<times> utext \<Rightarrow> property_type \<Rightarrow> int \<Rightarrow> bool \<Rightarrow> match_reason_code list" where
  "buildSemanticMatchReasons query place ty bedrooms furnished =
     (let n = normalizeSemanticReasonText query
      in take MAX_SEMANTIC_MATCH_REASONS
           ((if propertyLocationMatches n place then [LOCATION_MENTION_MATCH] else [])
            @ (if propertyTypeMatches n ty then [PROPERTY_TYPE_MENTION_MATCH] else [])
            @ (case requestedBedroomCount n of None \<Rightarrow> [] | Some k \<Rightarrow> if k \<le> bedrooms then [BEDROOM_MENTION_MATCH] else [])
            @ (if furnished \<and> detectFurnishingPreference n = Some True then [FURNISHING_MENTION_MATCH] else [])
            @ [MATCHES_SEARCH_INTENT]))"

section \<open>The search\<close>

definition DEFAULT_SEMANTIC_MIN_SIMILARITY :: real where "DEFAULT_SEMANTIC_MIN_SIMILARITY = 65 / 100"

text \<open>A match of the vector database: the id of the vector, the listing, and the distance if it is a
  finite number.\<close>

record vector_match =
  vm_vectorId :: "string \<times> uuid"
  vm_propertyId :: uuid
  vm_distance :: "real option"

fun semantic_matches :: "uuid list \<Rightarrow> vector_match list \<Rightarrow> (uuid \<times> real) list" where
  "semantic_matches seen [] = []"
| "semantic_matches seen (m # ms) =
     (case vm_distance m of
        None \<Rightarrow> semantic_matches seen ms
      | Some d \<Rightarrow>
          if vm_vectorId m \<noteq> (''property:'', vm_propertyId m) \<or> 1 - d < - 1 \<or> 1 < 1 - d \<or> vm_propertyId m \<in> set seen
          then semantic_matches seen ms
          else (vm_propertyId m, to_fixed 4 (1 - d)) # semantic_matches (vm_propertyId m # seen) ms)"

record wishes =
  ws_furnishing :: "bool option"
  ws_propertyType :: "property_type option"
  ws_bedrooms :: "int option"
  ws_rent :: "int option"

definition wishes_of :: "utext \<Rightarrow> wishes" where
  "wishes_of query = \<lparr>ws_furnishing = detectFurnishingPreference query, ws_propertyType = detectPropertyTypePreference query,
     ws_bedrooms = requestedBedroomCount query, ws_rent = requestedMaximumRent query\<rparr>"

definition city_of :: "property \<Rightarrow> db \<Rightarrow> city option" where
  "city_of p s = find (\<lambda>c. ct_id c = p_cityId p) (db_cities s)"

definition place_of :: "property \<Rightarrow> db \<Rightarrow> (utext \<times> utext) option \<times> utext" where
  "place_of p s = (map_option (\<lambda>c. (utf (ct_nameAr c), utf (ct_nameEn c))) (city_of p s), utf (p_district p))"

definition listed :: "db \<Rightarrow> property list" where "listed s = filter (\<lambda>p. p_status p = P_APPROVED) (db_properties s)"

definition matched_locations :: "utext \<Rightarrow> db \<Rightarrow> property list" where
  "matched_locations query s = filter (\<lambda>p. propertyLocationMatches query (place_of p s)) (listed s)"

text \<open>The listings that satisfy the explicit wishes, queried only when a narrowing one is found.\<close>

definition in_matched_location :: "property list \<Rightarrow> db \<Rightarrow> property \<Rightarrow> bool" where
  "in_matched_location located s p \<longleftrightarrow>
     (let names = (\<lambda>f. filter (\<lambda>n. n \<noteq> []) (concat (map (\<lambda>l. case city_of l s of None \<Rightarrow> [] | Some c \<Rightarrow> [f c]) located)))
      in (case city_of p s of None \<Rightarrow> False
          | Some c \<Rightarrow> ct_nameAr c \<in> set (names ct_nameAr) \<or> ct_nameEn c \<in> set (names ct_nameEn))
         \<or> p_district p \<in> set (map p_district located))"

definition exact_properties :: "utext \<Rightarrow> db \<Rightarrow> property list" where
  "exact_properties query s =
     (let w = wishes_of query; located = matched_locations query s
      in if ws_furnishing w = None \<and> ws_bedrooms w = None \<and> ws_rent w = None \<and> located = [] then []
         else filter (\<lambda>p. (case ws_furnishing w of None \<Rightarrow> True | Some b \<Rightarrow> p_isFurnished p = b)
                \<and> (case ws_propertyType w of None \<Rightarrow> True | Some ty \<Rightarrow> p_propertyType p = ty)
                \<and> (case ws_bedrooms w of None \<Rightarrow> True | Some k \<Rightarrow> k \<le> p_bedrooms p)
                \<and> (case ws_rent w of None \<Rightarrow> True | Some r \<Rightarrow> p_rentAmount p \<le> of_int r)
                \<and> (located = [] \<or> in_matched_location located s p)) (listed s))"

definition direct_text :: "utext \<Rightarrow> db \<Rightarrow> property list" where
  "direct_text query s =
     filter (\<lambda>p. (u_includes (ulower (utf (p_title p))) (ulower query) \<or> u_includes (ulower (utf (p_description p))) (ulower query))
              \<and> (u_includes (utf (p_title p)) query \<or> u_includes (utf (p_description p)) query)) (listed s)"

record semantic_item = property_summary +
  si_semanticSimilarity :: real
  si_matchReasons :: "match_reason_code list"

definition semantic_item_of :: "string \<Rightarrow> utext \<Rightarrow> db \<Rightarrow> property \<Rightarrow> real \<Rightarrow> semantic_item" where
  "semantic_item_of lang query s p sim =
     property_summary.extend (transformPropertyToSummary lang (detail_of s p))
       (semantic_item.fields sim (buildSemanticMatchReasons query (place_of p s) (p_propertyType p) (p_bedrooms p) (p_isFurnished p)))"

text \<open>The conditions of the loop over the ranked matches.\<close>

definition keeps_match :: "real \<Rightarrow> utext \<Rightarrow> db \<Rightarrow> property \<Rightarrow> real \<Rightarrow> bool" where
  "keeps_match minSimilarity query s p sim \<longleftrightarrow>
     (let w = wishes_of query
      in (case ws_furnishing w of None \<Rightarrow> True | Some b \<Rightarrow> p_isFurnished p = b)
         \<and> (case ws_propertyType w of None \<Rightarrow> True | Some ty \<Rightarrow> p_propertyType p = ty)
         \<and> (matched_locations query s = [] \<or> propertyLocationMatches query (place_of p s))
         \<and> (p_id p \<in> set (map p_id (direct_text query s)) \<or> p_id p \<in> set (map p_id (exact_properties query s))
            \<or> minSimilarity \<le> sim))"

definition ranked_matches :: "(uuid \<times> real) list \<Rightarrow> utext \<Rightarrow> db \<Rightarrow> (uuid \<times> real) list" where
  "ranked_matches vectors query s =
     (if direct_text query s \<noteq> [] then map (\<lambda>p. (p_id p, 1)) (direct_text query s)
      else vectors @ map (\<lambda>p. (p_id p, 0)) (filter (\<lambda>p. p_id p \<notin> set (map fst vectors)) (exact_properties query s)))"

definition hydrated :: "(uuid \<times> real) list \<Rightarrow> utext \<Rightarrow> db \<Rightarrow> property list" where
  "hydrated vectors query s =
     (if direct_text query s \<noteq> [] then direct_text query s
      else filter (\<lambda>p. p_id p \<in> set (map fst vectors)) (listed s) @ exact_properties query s)"

definition semantic_items :: "real \<Rightarrow> string \<Rightarrow> utext \<Rightarrow> (uuid \<times> real) list \<Rightarrow> db \<Rightarrow> semantic_item list" where
  "semantic_items minSimilarity lang query vectors s =
     concat (map (\<lambda>(pid, sim). case find (\<lambda>p. p_id p = pid) (hydrated vectors query s) of
         None \<Rightarrow> [] | Some p \<Rightarrow> if keeps_match minSimilarity query s p sim then [semantic_item_of lang query s p sim] else [])
       (ranked_matches vectors query s))"

record semantic_page =
  sg_items :: "semantic_item list"
  sg_total :: nat
  sg_pageSize :: nat
  sg_noRelevantMatch :: bool

definition noRelevantSemanticMatch :: "nat \<Rightarrow> semantic_page" where
  "noRelevantSemanticMatch limit = \<lparr>sg_items = [], sg_total = 0, sg_pageSize = limit, sg_noRelevantMatch = True\<rparr>"

definition semantic_order :: "semantic_item list \<Rightarrow> semantic_item list" where
  "semantic_order = sort_key (\<lambda>i. (if ps_isBoosted i then 0 :: int else 1, - si_semanticSimilarity i))"

definition semanticSearch ::
    "(utext \<Rightarrow> (embedding_provider \<times> real list) option) \<Rightarrow> (embedding_provider \<times> real list \<Rightarrow> vector_match list option) \<Rightarrow> real
      \<Rightarrow> string \<Rightarrow> utext \<Rightarrow> nat \<Rightarrow> db \<Rightarrow> http_error + semantic_page" where
  "semanticSearch embedding vectors minSimilarity lang query limit s =
     (case embedding query of
        None \<Rightarrow> Inl (Internal ''SEMANTIC_SEARCH_UNAVAILABLE'')
      | Some v \<Rightarrow>
        (case vectors v of
           None \<Rightarrow> Inl (Internal ''SEMANTIC_SEARCH_UNAVAILABLE'')
         | Some found \<Rightarrow>
             let ms = semantic_matches [] found; w = wishes_of query
             in if ms = [] \<and> ws_furnishing w = None \<and> ws_propertyType w = None \<and> ws_bedrooms w = None \<and> ws_rent w = None
                then Inr (noRelevantSemanticMatch limit)
                else
                  let items = take limit (semantic_order (semantic_items minSimilarity lang query ms s))
                  in if items \<noteq> []
                     then Inr \<lparr>sg_items = items, sg_total = length items, sg_pageSize = limit, sg_noRelevantMatch = False\<rparr>
                     else Inr (noRelevantSemanticMatch limit)))"

section \<open>What the search shows\<close>

lemma u_includes_iff: "u_includes t x \<longleftrightarrow> (\<exists>a b. t = a @ x @ b)"
proof (induction t)
  case (Cons c t)
  have "take (length x) (c # t) = x \<longleftrightarrow> (\<exists>b. c # t = x @ b)" by (metis append_eq_conv_conj append_take_drop_id)
  then show ?case using Cons by (auto simp: Cons_eq_append_conv)
qed auto

text \<open>A normalised text has no alef maksura, so a phrase with one is never found in it.\<close>

lemma set_squeeze: "set (squeeze t) \<subseteq> insert 32 (set t)"
  by (induction t rule: squeeze.induct) (auto dest: set_dropWhileD)

lemma normalized_letters: "set (normalizeSemanticReasonText t) \<subseteq> insert 32 (set (map fold_letter (ulower t)))"
proof -
  have "set (utrim x) \<subseteq> set x" for x by (auto simp: utrim_def dest!: set_dropWhileD)
  then show ?thesis unfolding normalizeSemanticReasonText_def using set_squeeze by fastforce
qed

lemma no_alef_maksura: "1609 \<notin> set (normalizeSemanticReasonText t)"
proof -
  have "fold_letter c \<noteq> 1609" for c by (auto simp: fold_letter_def)
  then show ?thesis using normalized_letters[of t] by auto
qed

lemma hatta_unseen: "\<not> u_includes (normalizeSemanticReasonText t) [1581, 1578, 1609]"
  using no_alef_maksura[of t] by (auto simp: u_includes_iff)

text \<open>The shown items.\<close>

lemma semantic_item_simps [simp]:
  "ps_id (semantic_item_of lang q s p sim) = p_id p" "ps_status (semantic_item_of lang q s p sim) = p_status p"
  "ps_isFurnished (semantic_item_of lang q s p sim) = p_isFurnished p"
  "ps_propertyType (semantic_item_of lang q s p sim) = p_propertyType p"
  "ps_rentAmount (semantic_item_of lang q s p sim) = p_rentAmount p"
  "si_semanticSimilarity (semantic_item_of lang q s p sim) = sim"
  by (simp_all add: semantic_item_of_def transformPropertyToSummary_def property_summary.defs semantic_item.defs Let_def)

lemma hydrated_listed: "p \<in> set (hydrated vectors q s) \<Longrightarrow> p \<in> set (listed s)"
  by (auto simp: hydrated_def direct_text_def exact_properties_def Let_def split: if_splits)

lemma semantic_itemsE:
  assumes "i \<in> set (semantic_items m lang q vectors s)"
  obtains p sim where "i = semantic_item_of lang q s p sim" "p \<in> set (listed s)" "keeps_match m q s p sim"
    "(p_id p, sim) \<in> set (ranked_matches vectors q s)"
proof -
  obtain pid sim where x: "(pid, sim) \<in> set (ranked_matches vectors q s)"
    "i \<in> set (case find (\<lambda>p. p_id p = pid) (hydrated vectors q s) of
         None \<Rightarrow> [] | Some p \<Rightarrow> if keeps_match m q s p sim then [semantic_item_of lang q s p sim] else [])"
    using assms unfolding semantic_items_def by auto
  then have "find (\<lambda>p. p_id p = pid) (hydrated vectors q s) \<noteq> None"
    by (cases "find (\<lambda>p. p_id p = pid) (hydrated vectors q s)") simp_all
  then obtain p where f: "find (\<lambda>p. p_id p = pid) (hydrated vectors q s) = Some p" by blast
  then have "keeps_match m q s p sim" "i = semantic_item_of lang q s p sim" using x(2) by (simp_all split: if_splits)
  then show thesis using that[of p sim] x(1) hydrated_listed[of p vectors q s] find_SomeD[OF f] by simp
qed

lemma semantic_matches_distinct:
  "distinct (map fst (semantic_matches seen ms)) \<and> set (map fst (semantic_matches seen ms)) \<inter> set seen = {}"
proof (induction ms arbitrary: seen)
  case (Cons m ms)
  show ?case using Cons.IH[of seen] Cons.IH[of "vm_propertyId m # seen"] by (auto split: option.split)
qed simp

lemma ranked_distinct:
  assumes "distinct (map fst vectors)" "distinct (map p_id (db_properties s))"
  shows "distinct (map fst (ranked_matches vectors q s))"
proof -
  have l: "distinct (map p_id (listed s))" unfolding listed_def using assms(2) by (rule distinct_map_filter)
  have d: "distinct (map p_id (direct_text q s))" unfolding direct_text_def using l by (rule distinct_map_filter)
  have e: "distinct (map p_id (exact_properties q s))"
    unfolding exact_properties_def Let_def using l by (auto intro: distinct_map_filter)
  let ?E = "map p_id (filter (\<lambda>p. p_id p \<notin> set (map fst vectors)) (exact_properties q s))"
  have E: "distinct ?E" using e by (rule distinct_map_filter)
  have "V \<inter> set (map p_id (filter (\<lambda>p. p_id p \<notin> V) xs)) = {}" for V xs by auto
  then have "set (map fst vectors) \<inter> set ?E = {}" .
  then have "distinct (map fst vectors @ ?E)" using assms(1) E unfolding distinct_append by (intro conjI)
  moreover have "map fst (ranked_matches vectors q s) = (if direct_text q s \<noteq> [] then map p_id (direct_text q s) else map fst vectors @ ?E)"
    by (simp add: ranked_matches_def comp_def)
  ultimately show ?thesis using d by presburger
qed

lemma items_ids: "map ps_id (semantic_items m lang q vectors s)
    = map fst (filter (\<lambda>(pid, sim). case find (\<lambda>p. p_id p = pid) (hydrated vectors q s) of None \<Rightarrow> False | Some p \<Rightarrow> keeps_match m q s p sim)
        (ranked_matches vectors q s))"
proof -
  have "map ps_id (concat (map (\<lambda>(pid, sim). case find (\<lambda>p. p_id p = pid) t of
         None \<Rightarrow> [] | Some p \<Rightarrow> if keeps_match m q s p sim then [semantic_item_of lang q s p sim] else []) xs))
    = map fst (filter (\<lambda>(pid, sim). case find (\<lambda>p. p_id p = pid) t of None \<Rightarrow> False | Some p \<Rightarrow> keeps_match m q s p sim) xs)" for t xs
  proof (induction xs)
    case (Cons x xs)
    obtain pid sim where x: "x = (pid, sim)" by (cases x)
    show ?case
    proof (cases "find (\<lambda>p. p_id p = pid) t")
      case (Some p)
      then have "p_id p = pid" using find_SomeD[OF Some] by simp
      then show ?thesis using Cons Some x by simp
    qed (use Cons x in simp)
  qed simp
  then show ?thesis unfolding semantic_items_def .
qed

lemma semanticSearch_items:
  assumes "semanticSearch embedding vectors m lang q limit s = Inr page"
  obtains ms where "distinct (map fst ms)" "sg_items page = take limit (semantic_order (semantic_items m lang q ms s))"
  | "sg_items page = []"
proof -
  obtain v found where v: "embedding q = Some v" "vectors v = Some found"
    using assms by (auto simp: semanticSearch_def split: option.splits)
  define ms where "ms = semantic_matches [] found"
  have d: "distinct (map fst ms)" using semantic_matches_distinct[of "[]" found] by (simp add: ms_def)
  have "sg_items page = [] \<or> sg_items page = take limit (semantic_order (semantic_items m lang q ms s))"
    using assms v unfolding semanticSearch_def by (auto simp: ms_def[symmetric] noRelevantSemanticMatch_def Let_def split: if_splits)
  then show thesis using that d by blast
qed

text \<open>C33: Whatever the embedding service and the vector database answer, a semantic search shows approved
  listings only, each at most once and at most as many as asked for, boosted ones first and then by
  similarity, and every one of them fits the furnishing, the property type and the place that the text names.\<close>

theorem semantic_search_sound:
  assumes "distinct (map p_id (db_properties s))" "semanticSearch embedding vectors m lang q limit s = Inr page"
  shows "length (sg_items page) \<le> limit \<and> distinct (map ps_id (sg_items page))
    \<and> sorted_wrt (\<lambda>i j. (ps_isBoosted j \<longrightarrow> ps_isBoosted i)
        \<and> (ps_isBoosted i = ps_isBoosted j \<longrightarrow> si_semanticSimilarity j \<le> si_semanticSimilarity i)) (sg_items page)
    \<and> (\<forall>i \<in> set (sg_items page). ps_status i = P_APPROVED
        \<and> (\<forall>b. detectFurnishingPreference q = Some b \<longrightarrow> ps_isFurnished i = b)
        \<and> (\<forall>ty. detectPropertyTypePreference q = Some ty \<longrightarrow> ps_propertyType i = ty)
        \<and> (matched_locations q s \<noteq> [] \<longrightarrow>
             (\<exists>p \<in> set (matched_locations q s). ps_id i = p_id p)))"
  using assms(2)
proof (cases rule: semanticSearch_items)
  case (1 ms)
  let ?I = "semantic_items m lang q ms s" and ?k = "\<lambda>i. (if ps_isBoosted i then 0 :: int else 1, - si_semanticSimilarity i)"
  have "distinct (map ps_id ?I)"
    unfolding items_ids using ranked_distinct[OF 1(1) assms(1)] by (rule distinct_map_filter)
  then have "distinct (map ps_id (semantic_order ?I))"
    unfolding semantic_order_def by (simp add: distinct_map)
  then have d: "distinct (map ps_id (sg_items page))" unfolding 1(2) take_map[symmetric] by (rule distinct_take)
  have "sorted_wrt (\<lambda>i j. ?k i \<le> ?k j) (semantic_order ?I)"
    unfolding semantic_order_def using sorted_sort_key[of ?k ?I] unfolding sorted_map .
  then have "sorted_wrt (\<lambda>i j. ?k i \<le> ?k j) (sg_items page)" unfolding 1(2) by (rule sorted_wrt_take)
  then have o: "sorted_wrt (\<lambda>i j. (ps_isBoosted j \<longrightarrow> ps_isBoosted i)
        \<and> (ps_isBoosted i = ps_isBoosted j \<longrightarrow> si_semanticSimilarity j \<le> si_semanticSimilarity i)) (sg_items page)"
    by (rule sorted_wrt_mono_rel[rotated]) (auto split: if_splits)
  have "ps_status i = P_APPROVED
        \<and> (\<forall>b. detectFurnishingPreference q = Some b \<longrightarrow> ps_isFurnished i = b)
        \<and> (\<forall>ty. detectPropertyTypePreference q = Some ty \<longrightarrow> ps_propertyType i = ty)
        \<and> (matched_locations q s \<noteq> [] \<longrightarrow> (\<exists>p \<in> set (matched_locations q s). ps_id i = p_id p))" if "i \<in> set (sg_items page)" for i
  proof -
    have "i \<in> set ?I" using that in_set_takeD[of i limit] unfolding 1(2) semantic_order_def by fastforce
    then obtain p sim where p: "i = semantic_item_of lang q s p sim" "p \<in> set (listed s)" "keeps_match m q s p sim"
      by (rule semantic_itemsE)
    then show ?thesis
      by (auto simp: keeps_match_def wishes_of_def Let_def listed_def matched_locations_def split: option.splits)
  qed
  then show ?thesis using d o 1(2) by simp
qed simp

text \<open>The upper limit of the rent that is read out of a text binds only the listings that are added
  from the database: a listing that the vector database returned above the threshold of similarity is
  shown although its rent is above the limit.\<close>

theorem rent_limit_ignored:
  assumes "requestedMaximumRent q = Some r" "of_int r < p_rentAmount p"
    and "p \<in> set (db_properties s)" "p_status p = P_APPROVED" "distinct (map p_id (db_properties s))"
    and "embedding q = Some v" "vectors v = Some found" "(p_id p, sim) \<in> set (semantic_matches [] found)" "m \<le> sim"
    and "detectFurnishingPreference q = None" "detectPropertyTypePreference q = None" "matched_locations q s = []" "direct_text q s = []"
    and "length (semantic_items m lang q (semantic_matches [] found) s) \<le> limit"
  shows "\<exists>page i. semanticSearch embedding vectors m lang q limit s = Inr page \<and> i \<in> set (sg_items page)
    \<and> ps_id i = p_id p \<and> of_int r < ps_rentAmount i"
proof -
  let ?ms = "semantic_matches [] found"
  have l: "p \<in> set (listed s)" using assms(3,4) by (simp add: listed_def)
  have "p \<in> set (hydrated ?ms q s)" using assms(8,13) l by (force simp: hydrated_def)
  moreover have "x = p" if "x \<in> set (hydrated ?ms q s)" "p_id x = p_id p" for x
    using distinct_keyD[OF assms(5), of x p] hydrated_listed[OF that(1)] that(2) assms(3) by (simp add: listed_def)
  ultimately have f: "find (\<lambda>x. p_id x = p_id p) (hydrated ?ms q s) = Some p"
    by (cases "find (\<lambda>x. p_id x = p_id p) (hydrated ?ms q s)") (auto simp: find_None_iff dest!: find_SomeD)
  have k: "keeps_match m q s p sim" using assms(9-12) by (simp add: keeps_match_def wishes_of_def)
  have "(p_id p, sim) \<in> set (ranked_matches ?ms q s)" using assms(8,13) by (simp add: ranked_matches_def)
  then have i: "semantic_item_of lang q s p sim \<in> set (semantic_items m lang q ?ms s)"
    unfolding semantic_items_def using f k by force
  let ?J = "semantic_order (semantic_items m lang q ?ms s)"
  have j: "take limit ?J = ?J" using assms(14) by (simp add: semantic_order_def)
  have "semantic_item_of lang q s p sim \<in> set ?J" using i by (simp add: semantic_order_def)
  then have ne: "?J \<noteq> []" by auto
  then have l0: "limit \<noteq> 0" using j by (metis take_0)
  have "semanticSearch embedding vectors m lang q limit s
      = Inr \<lparr>sg_items = ?J, sg_total = length ?J, sg_pageSize = limit, sg_noRelevantMatch = False\<rparr>"
    using assms(1) j ne l0 by (simp add: semanticSearch_def assms(6,7) wishes_of_def Let_def)
  then show ?thesis using \<open>_ \<in> set ?J\<close> assms(2) by (intro exI conjI) (assumption, auto)
qed


text \<open>The limit that a text asks for is found after \<open>bi-hadd aqsa\<close> and is not found after \<open>hatta\<close>, whose
  last letter the normalisation has replaced.\<close>

definition limit_text :: utext where "limit_text = [1588, 1602, 1577, 32, 1576, 1581, 1583, 32, 1571, 1602, 1589, 1609, 32, 54, 48, 48, 48]"
definition hatta_text :: utext where "hatta_text = [1588, 1602, 1577, 32, 1581, 1578, 1609, 32, 54, 48, 48, 48]"

lemma limit_examples: "requestedMaximumRent limit_text = Some 6000" "requestedMaximumRent hatta_text = None"
  by code_simp+

text \<open>Two flats, the cheaper one within the limit.\<close>

definition rent_text :: utext where "rent_text = utf ''quiet max 6000''"

definition dear_flat :: property where
  "dear_flat = (default_property 4 7 0)\<lparr>p_status := P_APPROVED, p_rentAmount := 9000, p_title := ''Flat'', p_description := ''Two rooms'', p_district := ''Maadi''\<rparr>"

definition semantic_db :: db where "semantic_db = empty_db\<lparr>db_properties := [dear_flat]\<rparr>"

definition near_match :: vector_match where
  "near_match = \<lparr>vm_vectorId = (''property:'', 4), vm_propertyId = 4, vm_distance = Some 0\<rparr>"

lemma rent_text_wishes:
  "requestedMaximumRent rent_text = Some 6000" "detectFurnishingPreference rent_text = None"
  "detectPropertyTypePreference rent_text = None" "\<not> containsTerm rent_text (utf ''Maadi'')"
  "\<not> u_includes (utf ''Flat'') rent_text" "\<not> u_includes (utf ''Two rooms'') rent_text"
  by code_simp+

lemma dear_flat_simps [simp]:
  "p_id dear_flat = 4" "p_rentAmount dear_flat = 9000" "p_status dear_flat = P_APPROVED" "p_district dear_flat = ''Maadi''"
  "p_title dear_flat = ''Flat''" "p_description dear_flat = ''Two rooms''"
  "db_properties semantic_db = [dear_flat]" "db_cities semantic_db = []"
  by (simp_all add: dear_flat_def default_property_def semantic_db_def empty_db_def)

lemma semantic_db_facts:
  "matched_locations rent_text semantic_db = []" "direct_text rent_text semantic_db = []"
  "semantic_matches [] [near_match] = [(4, to_fixed 4 1)]" "to_fixed 4 1 = 1"
proof -
  have l: "listed semantic_db = [dear_flat]" by (simp add: listed_def)
  show "matched_locations rent_text semantic_db = []"
    using rent_text_wishes(4)
    by (simp add: matched_locations_def l propertyLocationMatches_def place_of_def city_of_def)
  show "direct_text rent_text semantic_db = []"
    using rent_text_wishes(5,6) by (simp add: direct_text_def l)
  show "semantic_matches [] [near_match] = [(4, to_fixed 4 1)]" by (simp add: near_match_def)
  show "to_fixed 4 1 = 1" using js_round_of_int[of 10000] by (simp add: to_fixed_def)
qed

theorem rent_limit_ignored_witness:
  "\<exists>page i. semanticSearch (\<lambda>_. Some (COHERE, [1])) (\<lambda>_. Some [near_match]) DEFAULT_SEMANTIC_MIN_SIMILARITY ''en'' rent_text 10 semantic_db = Inr page
     \<and> i \<in> set (sg_items page) \<and> ps_id i = 4 \<and> 6000 < ps_rentAmount i"
proof -
  have s: "(p_id dear_flat, 1) \<in> set (semantic_matches [] [near_match])" unfolding semantic_db_facts(3,4) by simp
  have e: "length (exact_properties rent_text semantic_db) \<le> 1" by (simp add: exact_properties_def Let_def listed_def)
  have r: "length (ranked_matches (semantic_matches [] [near_match]) rent_text semantic_db) \<le> 10"
    unfolding ranked_matches_def semantic_db_facts(3) using semantic_db_facts(2) order_trans[OF length_filter_le e, of "\<lambda>p. p_id p \<noteq> 4"] by simp
  have "length (map ps_id (semantic_items DEFAULT_SEMANTIC_MIN_SIMILARITY ''en'' rent_text (semantic_matches [] [near_match]) semantic_db)) \<le> 10"
    unfolding items_ids length_map by (rule order_trans[OF length_filter_le r])
  then have n: "length (semantic_items DEFAULT_SEMANTIC_MIN_SIMILARITY ''en'' rent_text (semantic_matches [] [near_match]) semantic_db) \<le> 10"
    unfolding length_map .
  show ?thesis
    using rent_limit_ignored[OF rent_text_wishes(1), of dear_flat semantic_db "\<lambda>_. Some (COHERE, [1])" "(COHERE, [1])"
        "\<lambda>_. Some [near_match]" "[near_match]" 1 DEFAULT_SEMANTIC_MIN_SIMILARITY "''en''" 10] s n
    by (simp add: rent_text_wishes(2,3) semantic_db_facts(1,2) DEFAULT_SEMANTIC_MIN_SIMILARITY_def)
qed

theorem semantic_search_sound_witness:
  "\<exists>page. semanticSearch (\<lambda>_. Some (COHERE, [1])) (\<lambda>_. Some [near_match]) DEFAULT_SEMANTIC_MIN_SIMILARITY ''en'' rent_text 10 semantic_db = Inr page
     \<and> distinct (map ps_id (sg_items page))"
proof -
  have d: "distinct (map p_id (db_properties semantic_db))" by simp
  have "\<exists>page. semanticSearch (\<lambda>_. Some (COHERE, [1])) (\<lambda>_. Some [near_match]) DEFAULT_SEMANTIC_MIN_SIMILARITY ''en'' rent_text 10 semantic_db = Inr page"
    by (simp add: semanticSearch_def Let_def del: semantic_matches.simps split: if_split)
  then obtain page where p: "semanticSearch (\<lambda>_. Some (COHERE, [1])) (\<lambda>_. Some [near_match]) DEFAULT_SEMANTIC_MIN_SIMILARITY ''en'' rent_text 10 semantic_db = Inr page" ..
  from semantic_search_sound[OF d p] p show ?thesis by blast
qed

end
