(* ===== verification/Routes.thy ===== *)
theory Routes
  imports Administration
begin

text \<open>
  The HTTP routes: the decorators of every controller (\<open>*.controller.ts\<close>) as a table of methods,
  paths, guards, roles, capabilities and handlers, the dispatch of a request to a route, and the run
  of its guards (\<open>Accounts\<close>). The rate limiter and the reading of the bearer token out of the
  authorization header are library code and parameters. Express compares the fixed segments of a path
  without case; a path of the model is in lower case and split at its slashes.
\<close>

section \<open>The table of routes\<close>

datatype http_method = GET | POST | PATCH | DELETE

datatype segment = Lit string | Par

datatype guard =
  G_JWT | G_OPTIONAL_JWT | G_ADMIN_OPTIONAL_JWT | G_ROLES | G_CAPABILITIES | G_VERIFIED | G_BROWSE | G_THROTTLE

text \<open>Guards of the controller come before those of the method; roles and capabilities of the method
  override those of the controller; the last component names the handler.\<close>

datatype route = Route
  (rt_method: http_method)
  (rt_path: "segment list")
  (rt_guards: "guard list")
  (rt_roles: "user_role list option")
  (rt_caps: "capability list option")
  (rt_public: bool)
  (rt_handler: string)

definition catalog_routes :: "route list" where
  "catalog_routes =
    [Route GET [Lit ''commercial-config'', Lit ''catalog''] [] None None False ''CommercialCatalogController.getCatalog'']"

definition admin_catalog_routes :: "route list" where
  "admin_catalog_routes =
    [Route GET [Lit ''admin'', Lit ''commercial-config''] [G_JWT, G_ROLES, G_CAPABILITIES] (Some [ADMIN]) (Some [COMMERCIAL_MANAGE]) False ''AdminCommercialConfigController.getCatalog'',
     Route PATCH [Lit ''admin'', Lit ''commercial-config'', Lit ''plans'', Par] [G_JWT, G_ROLES, G_CAPABILITIES] (Some [ADMIN]) (Some [COMMERCIAL_MANAGE]) False ''AdminCommercialConfigController.updatePlan'',
     Route PATCH [Lit ''admin'', Lit ''commercial-config'', Lit ''products'', Par] [G_JWT, G_ROLES, G_CAPABILITIES] (Some [ADMIN]) (Some [COMMERCIAL_MANAGE]) False ''AdminCommercialConfigController.updateProduct'']"

definition auth_routes :: "route list" where
  "auth_routes =
    [Route POST [Lit ''auth'', Lit ''login''] [] None None False ''AuthController.signIn'',
     Route POST [Lit ''auth'', Lit ''forgot-password''] [] None None False ''AuthController.forgotPassword'',
     Route POST [Lit ''auth'', Lit ''request-reactivation''] [] None None True ''AuthController.requestReactivation'',
     Route POST [Lit ''auth'', Lit ''register''] [] None None False ''AuthController.signUp'',
     Route POST [Lit ''auth'', Lit ''verify-email''] [] None None False ''AuthController.verifyEmail'',
     Route POST [Lit ''auth'', Lit ''resend-email-verification''] [] None None False ''AuthController.resendEmailVerification'',
     Route GET [Lit ''auth'', Lit ''me''] [G_JWT] None None False ''AuthController.getMe'',
     Route POST [Lit ''auth'', Lit ''socket-ticket''] [G_JWT] None None False ''AuthController.socketTicket'',
     Route PATCH [Lit ''auth'', Lit ''profile''] [G_JWT] None None False ''AuthController.updateProfile'',
     Route DELETE [Lit ''auth'', Lit ''account''] [G_JWT] None None False ''AuthController.deleteAccount'',
     Route POST [Lit ''auth'', Lit ''refresh''] [] None None False ''AuthController.refresh'',
     Route POST [Lit ''auth'', Lit ''forgot-password''] [] None None True ''AuthController.forgetPassword'',
     Route POST [Lit ''auth'', Lit ''forget-password''] [] None None True ''AuthController.forgetPassword'',
     Route POST [Lit ''auth'', Lit ''reset-password''] [] None None True ''AuthController.resetPassword'']"

definition admin_view_routes :: "route list" where
  "admin_view_routes =
    [Route GET [Lit ''admin'', Lit ''session''] [G_JWT, G_ROLES] (Some [ADMIN]) None False ''AdminController.getSession'',
     Route GET [Lit ''admin'', Lit ''queues''] [G_JWT, G_ROLES] (Some [ADMIN]) None False ''AdminController.getQueues'',
     Route GET [Lit ''admin'', Lit ''kyc'', Par] [G_JWT, G_ROLES, G_CAPABILITIES] (Some [ADMIN]) (Some [KYC_REVIEW]) False ''AdminController.getKyc'']"

definition admin_review_routes :: "route list" where
  "admin_review_routes =
    [Route POST [Lit ''admin'', Lit ''kyc'', Par, Lit ''review''] [G_JWT, G_ROLES, G_CAPABILITIES] (Some [ADMIN]) (Some [KYC_REVIEW]) False ''AdminController.reviewKyc'',
     Route POST [Lit ''admin'', Lit ''properties'', Par, Lit ''review''] [G_JWT, G_ROLES, G_CAPABILITIES] (Some [ADMIN]) (Some [PROPERTY_APPROVE, PROPERTY_REJECT]) False ''AdminController.reviewProperty'',
     Route POST [Lit ''admin'', Lit ''users'', Par, Lit ''suspend''] [G_JWT, G_ROLES, G_CAPABILITIES] (Some [ADMIN]) (Some [USER_SUSPEND]) False ''AdminController.suspendUser'',
     Route POST [Lit ''admin'', Lit ''users'', Par, Lit ''unsuspend''] [G_JWT, G_ROLES, G_CAPABILITIES] (Some [ADMIN]) (Some [USER_SUSPEND]) False ''AdminController.unsuspendUser'',
     Route GET [Lit ''admin'', Lit ''properties'', Par] [G_JWT, G_ROLES, G_CAPABILITIES] (Some [ADMIN]) (Some [PROPERTY_APPROVE, PROPERTY_REJECT]) False ''AdminController.getPropertyReviewDetail'',
     Route POST [Lit ''admin'', Lit ''requests'', Par, Lit ''review''] [G_JWT, G_ROLES, G_CAPABILITIES] (Some [ADMIN]) (Some [REQUEST_APPROVE, REQUEST_REJECT]) False ''AdminController.reviewRequest'',
     Route GET [Lit ''admin'', Lit ''requests'', Par] [G_JWT, G_ROLES, G_CAPABILITIES] (Some [ADMIN]) (Some [REQUEST_APPROVE, REQUEST_REJECT]) False ''AdminController.getRequestReviewDetail'',
     Route POST [Lit ''admin'', Lit ''reviews'', Par, Lit ''review''] [G_JWT, G_ROLES, G_CAPABILITIES] (Some [ADMIN]) (Some [REVIEW_MODERATE]) False ''AdminController.reviewUserReview'',
     Route GET [Lit ''admin'', Lit ''reviews'', Par] [G_JWT, G_ROLES, G_CAPABILITIES] (Some [ADMIN]) (Some [REVIEW_MODERATE]) False ''AdminController.getReviewDetail'']"

definition admin_account_routes :: "route list" where
  "admin_account_routes =
    [Route GET [Lit ''admin'', Lit ''login-history''] [G_JWT, G_ROLES, G_CAPABILITIES] (Some [ADMIN]) (Some [AUDIT_VIEW]) False ''AdminController.getLoginHistory'',
     Route GET [Lit ''admin'', Lit ''audit-log''] [G_JWT, G_ROLES, G_CAPABILITIES] (Some [ADMIN]) (Some [AUDIT_VIEW]) False ''AdminController.getAuditLog'',
     Route POST [Lit ''admin'', Lit ''register''] [G_ADMIN_OPTIONAL_JWT] None None False ''AdminController.registerAdmin'',
     Route GET [Lit ''admin'', Lit ''team''] [G_JWT, G_ROLES] (Some [ADMIN]) None False ''AdminController.getTeam'',
     Route PATCH [Lit ''admin'', Lit ''team'', Par] [G_JWT, G_ROLES, G_CAPABILITIES] (Some [ADMIN]) (Some [ADMIN_MANAGE]) False ''AdminController.updateTeamMember'',
     Route POST [Lit ''admin'', Lit ''team'', Par, Lit ''reset-password''] [G_JWT, G_ROLES, G_CAPABILITIES] (Some [ADMIN]) (Some [ADMIN_MANAGE]) False ''AdminController.resetPassword'',
     Route GET [Lit ''admin'', Lit ''stats''] [G_JWT, G_ROLES] (Some [ADMIN]) None False ''AdminController.getStats'',
     Route GET [Lit ''admin'', Lit ''users''] [G_JWT, G_ROLES, G_CAPABILITIES] (Some [ADMIN]) (Some [USER_SUSPEND, USER_DELETE]) False ''AdminController.listUsers'',
     Route DELETE [Lit ''admin'', Lit ''users'', Par] [G_JWT, G_ROLES, G_CAPABILITIES] (Some [ADMIN]) (Some [USER_DELETE]) False ''AdminController.deleteUser'',
     Route GET [Lit ''admin'', Lit ''reactivations''] [G_JWT, G_ROLES, G_CAPABILITIES] (Some [ADMIN]) (Some [USER_REACTIVATE]) False ''AdminController.listReactivations'',
     Route POST [Lit ''admin'', Lit ''reactivations'', Par, Lit ''approve''] [G_JWT, G_ROLES, G_CAPABILITIES] (Some [ADMIN]) (Some [USER_REACTIVATE]) False ''AdminController.approveReactivation'',
     Route POST [Lit ''admin'', Lit ''reactivations'', Par, Lit ''reject''] [G_JWT, G_ROLES, G_CAPABILITIES] (Some [ADMIN]) (Some [USER_REACTIVATE]) False ''AdminController.rejectReactivation'']"

definition property_post_route :: "route list" where
  "property_post_route =
    [Route POST [Lit ''landlord'', Lit ''properties''] [G_JWT, G_ROLES, G_VERIFIED] (Some [LANDLORD]) None False ''PropertiesController.create'']"

definition property_browse_routes :: "route list" where
  "property_browse_routes =
    [Route GET [Lit ''properties''] [] None None False ''PropertiesController.getAllProperties'',
     Route GET [Lit ''tenant-requests''] [G_OPTIONAL_JWT, G_BROWSE] None None False ''PropertiesController.getAllTenantRequests'',
     Route GET [Lit ''properties'', Lit ''search'', Lit ''semantic''] [] None None False ''PropertiesController.semanticSearch'',
     Route GET [Lit ''landlord'', Lit ''properties''] [G_JWT, G_ROLES] (Some [LANDLORD]) None False ''PropertiesController.getMyProperties'',
     Route POST [Lit ''landlord'', Lit ''properties'', Par, Lit ''boost''] [G_JWT, G_ROLES] (Some [LANDLORD]) None False ''PropertiesController.boostProperty'',
     Route PATCH [Lit ''properties'', Par, Lit ''archive''] [G_JWT, G_ROLES] (Some [LANDLORD]) None False ''PropertiesController.archiveOwnProperty'',
     Route PATCH [Lit ''properties'', Par, Lit ''unarchive''] [G_JWT, G_ROLES] (Some [LANDLORD]) None False ''PropertiesController.unarchiveOwnProperty'',
     Route POST [Lit ''landlord'', Lit ''properties'', Par, Lit ''archive''] [G_JWT, G_ROLES] (Some [LANDLORD]) None False ''PropertiesController.archiveLandlordProperty'',
     Route GET [Lit ''properties'', Lit ''me''] [G_JWT, G_ROLES] (Some [LANDLORD]) None False ''PropertiesController.getMyPropertiesAlias'',
     Route GET [Lit ''properties'', Par] [G_JWT] None None False ''PropertiesController.getPropertyById'']"

definition property_stream_route :: "route list" where
  "property_stream_route =
    [Route POST [Lit ''landlord'', Lit ''properties'', Lit ''draft'', Lit ''optimize-description'', Lit ''stream''] [G_JWT, G_ROLES, G_VERIFIED, G_THROTTLE] (Some [LANDLORD]) None False ''PropertiesController.optimizeDescriptionStream'']"

definition property_patch_route :: "route list" where
  "property_patch_route =
    [Route PATCH [Lit ''landlord'', Lit ''properties'', Par] [G_JWT, G_ROLES, G_VERIFIED] (Some [LANDLORD]) None False ''PropertiesController.update'']"

definition property_delete_route :: "route list" where
  "property_delete_route =
    [Route DELETE [Lit ''landlord'', Lit ''properties'', Par] [G_JWT, G_ROLES] (Some [LANDLORD]) None False ''PropertiesController.remove'']"

definition verification_routes :: "route list" where
  "verification_routes =
    [Route GET [Lit ''verification'', Lit ''me''] [G_JWT, G_ROLES] (Some [TENANT, LANDLORD]) None False ''VerificationController.getMyVerification'',
     Route POST [Lit ''verification'', Lit ''submit''] [G_JWT, G_ROLES] (Some [TENANT, LANDLORD]) None False ''VerificationController.submit'']"

definition tenant_request_routes :: "route list" where
  "tenant_request_routes =
    [Route GET [Lit ''tenant'', Lit ''requests''] [G_JWT, G_ROLES] (Some [TENANT]) None False ''TenantRequestsController.findMine'',
     Route POST [Lit ''tenant'', Lit ''requests''] [G_JWT, G_ROLES, G_VERIFIED] (Some [TENANT]) None False ''TenantRequestsController.create'',
     Route POST [Lit ''tenant'', Lit ''requests'', Lit ''extract''] [G_JWT, G_ROLES, G_VERIFIED] (Some [TENANT]) None False ''TenantRequestsController.extract'',
     Route POST [Lit ''tenant'', Lit ''requests'', Par, Lit ''close''] [G_JWT, G_ROLES] (Some [TENANT]) None False ''TenantRequestsController.close'']"

definition offer_routes :: "route list" where
  "offer_routes =
    [Route GET [Lit ''landlord'', Lit ''requests''] [G_JWT, G_ROLES, G_VERIFIED] (Some [LANDLORD]) None False ''OffersController.browseRequests'',
     Route GET [Lit ''landlord'', Lit ''requests'', Par, Lit ''property-scores''] [G_JWT, G_ROLES, G_VERIFIED] (Some [LANDLORD]) None False ''OffersController.getPropertyScoresForRequest'',
     Route GET [Lit ''landlord'', Lit ''offers''] [G_JWT, G_ROLES] (Some [LANDLORD]) None False ''OffersController.getSentOffers'',
     Route POST [Lit ''landlord'', Lit ''offers''] [G_JWT, G_ROLES, G_VERIFIED] (Some [LANDLORD]) None False ''OffersController.createOffer'',
     Route GET [Lit ''tenant'', Lit ''offers''] [G_JWT, G_ROLES] (Some [TENANT]) None False ''OffersController.getReceivedOffers'',
     Route POST [Lit ''tenant'', Lit ''offers'', Par, Lit ''view''] [G_JWT, G_ROLES] (Some [TENANT]) None False ''OffersController.viewOffer'',
     Route POST [Lit ''tenant'', Lit ''offers'', Par, Lit ''accept''] [G_JWT, G_ROLES, G_VERIFIED] (Some [TENANT]) None False ''OffersController.acceptOffer'',
     Route POST [Lit ''tenant'', Lit ''offers'', Par, Lit ''reject''] [G_JWT, G_ROLES] (Some [TENANT]) None False ''OffersController.rejectOffer'']"

definition message_routes :: "route list" where
  "message_routes =
    [Route GET [Lit ''matches''] [G_JWT, G_ROLES] (Some [TENANT, LANDLORD]) None False ''MessagesController.list'',
     Route GET [Lit ''matches'', Par, Lit ''messages''] [G_JWT, G_ROLES] (Some [TENANT, LANDLORD]) None False ''MessagesController.get'',
     Route POST [Lit ''matches'', Par, Lit ''messages''] [G_JWT, G_ROLES] (Some [TENANT, LANDLORD]) None False ''MessagesController.send'',
     Route POST [Lit ''matches'', Par, Lit ''agreement''] [G_JWT, G_ROLES] (Some [TENANT, LANDLORD]) None False ''MessagesController.confirmAgreement'',
     Route PATCH [Lit ''matches'', Lit ''messages'', Par] [G_JWT, G_ROLES] (Some [TENANT, LANDLORD]) None False ''MessagesController.update'',
     Route DELETE [Lit ''matches'', Lit ''messages'', Par] [G_JWT, G_ROLES] (Some [TENANT, LANDLORD]) None False ''MessagesController.delete'']"

definition payment_routes :: "route list" where
  "payment_routes =
    [Route POST [Lit ''payments'', Lit ''checkout''] [G_JWT, G_ROLES] (Some [LANDLORD]) None False ''PaymentsController.checkout'',
     Route GET [Lit ''payments'', Par] [G_JWT] None None False ''PaymentsController.getTransaction'',
     Route POST [Lit ''payments'', Lit ''webhook'', Lit ''paymob''] [] None None False ''PaymentsController.webhook'']"

definition review_routes :: "route list" where
  "review_routes =
    [Route POST [Lit ''reviews''] [G_JWT, G_ROLES, G_VERIFIED] (Some [TENANT]) None False ''ReviewsController.create'',
     Route GET [Lit ''properties'', Par, Lit ''reviews''] [] None None False ''ReviewsController.findForProperty'']"

definition contract_review_routes :: "route list" where
  "contract_review_routes =
    [Route GET [Lit ''contracts'', Par, Lit ''user-review''] [G_JWT, G_ROLES, G_VERIFIED] (Some [TENANT, LANDLORD]) None False ''ContractUserReviewsController.status'',
     Route POST [Lit ''contracts'', Par, Lit ''user-review''] [G_JWT, G_ROLES, G_VERIFIED] (Some [TENANT, LANDLORD]) None False ''ContractUserReviewsController.create'']"

definition review_summary_routes :: "route list" where
  "review_summary_routes =
    [Route GET [Lit ''users'', Par, Lit ''reviews'', Lit ''summary''] [G_JWT] None None False ''UserReviewSummaryController.summary'']"

definition legal_routes :: "route list" where
  "legal_routes =
    [Route POST [Lit ''legal-chat''] [G_JWT, G_THROTTLE] None None False ''LegalSupportController.chat'',
     Route POST [Lit ''legal-chat'', Lit ''stream''] [G_JWT, G_THROTTLE] None None False ''LegalSupportController.stream'']"

definition region_routes :: "route list" where
  "region_routes =
    [Route GET [Lit ''regions'', Lit ''active''] [] None None False ''RegionsController.getActive'',
     Route GET [Lit ''regions''] [G_JWT, G_ROLES] (Some [ADMIN]) None False ''RegionsController.getRegions'',
     Route PATCH [Lit ''regions'', Lit ''countries'', Par, Lit ''status''] [G_JWT, G_ROLES] (Some [ADMIN]) None False ''RegionsController.toggleCountryStatus'',
     Route PATCH [Lit ''regions'', Lit ''governorates'', Par, Lit ''status''] [G_JWT, G_ROLES] (Some [ADMIN]) None False ''RegionsController.toggleGovernorateStatus'',
     Route PATCH [Lit ''regions'', Lit ''cities'', Par, Lit ''status''] [G_JWT, G_ROLES] (Some [ADMIN]) None False ''RegionsController.toggleCityStatus'',
     Route PATCH [Lit ''regions'', Lit ''districts'', Par, Lit ''status''] [G_JWT, G_ROLES] (Some [ADMIN]) None False ''RegionsController.toggleDistrictStatus'']"

definition region_country_route :: "route list" where
  "region_country_route =
    [Route POST [Lit ''regions'', Lit ''countries''] [G_JWT, G_ROLES] (Some [ADMIN]) None False ''RegionsController.createCountry'']"

definition region_create_routes :: "route list" where
  "region_create_routes =
    [Route POST [Lit ''regions'', Lit ''governorates''] [G_JWT, G_ROLES] (Some [ADMIN]) None False ''RegionsController.createGovernorate'',
     Route POST [Lit ''regions'', Lit ''cities''] [G_JWT, G_ROLES] (Some [ADMIN]) None False ''RegionsController.createCity'',
     Route POST [Lit ''regions'', Lit ''districts''] [G_JWT, G_ROLES] (Some [ADMIN]) None False ''RegionsController.createDistrict'']"

definition support_entry_routes :: "route list" where
  "support_entry_routes =
    [Route POST [Lit ''support'', Lit ''tickets''] [G_JWT, G_ROLES] (Some [TENANT, LANDLORD]) None False ''CustomerSupportController.createTicket'',
     Route POST [Lit ''support'', Lit ''ai-chat'', Lit ''stream''] [G_JWT, G_ROLES, G_THROTTLE] (Some [TENANT, LANDLORD]) None False ''CustomerSupportController.streamAiChat'']"

definition support_ticket_routes :: "route list" where
  "support_ticket_routes =
    [Route GET [Lit ''support'', Lit ''my-tickets''] [G_JWT, G_ROLES] (Some [TENANT, LANDLORD]) None False ''CustomerSupportController.getMyTickets'',
     Route GET [Lit ''support'', Lit ''tickets'', Par] [G_JWT, G_ROLES] (Some [TENANT, LANDLORD]) None False ''CustomerSupportController.getTicketDetail'',
     Route POST [Lit ''support'', Lit ''tickets'', Par, Lit ''reply''] [G_JWT, G_ROLES] (Some [TENANT, LANDLORD]) None False ''CustomerSupportController.userReply'',
     Route GET [Lit ''admin'', Lit ''tickets''] [G_JWT, G_ROLES] (Some [ADMIN]) None False ''CustomerSupportController.getAdminQueue'',
     Route POST [Lit ''admin'', Lit ''tickets'', Par, Lit ''reply''] [G_JWT, G_ROLES] (Some [ADMIN]) None False ''CustomerSupportController.adminReply'',
     Route POST [Lit ''admin'', Lit ''tickets'', Par, Lit ''assign''] [G_JWT, G_ROLES] (Some [ADMIN]) None False ''CustomerSupportController.assignTicket'',
     Route POST [Lit ''admin'', Lit ''tickets'', Par, Lit ''status''] [G_JWT, G_ROLES] (Some [ADMIN]) None False ''CustomerSupportController.updateStatus'',
     Route GET [Lit ''admin'', Lit ''tickets'', Par] [G_JWT, G_ROLES] (Some [ADMIN]) None False ''CustomerSupportController.getAdminTicketDetail'']"

definition quota_routes :: "route list" where
  "quota_routes =
    [Route GET [Lit ''quota''] [G_JWT] None None False ''QuotaController.getMyQuota'']"

definition notification_routes :: "route list" where
  "notification_routes =
    [Route GET [Lit ''notifications''] [G_JWT] None None False ''NotificationsController.list'',
     Route POST [Lit ''notifications'', Lit ''read-all''] [G_JWT] None None False ''NotificationsController.markAllRead'',
     Route POST [Lit ''notifications'', Par, Lit ''read''] [G_JWT] None None False ''NotificationsController.markRead'',
     Route POST [Lit ''notifications'', Lit ''device-token''] [G_JWT] None None False ''NotificationsController.registerDeviceToken'',
     Route POST [Lit ''notifications'', Lit ''device-token'', Lit ''remove''] [G_JWT] None None False ''NotificationsController.removeDeviceToken'']"

definition favorite_routes :: "route list" where
  "favorite_routes =
    [Route GET [Lit ''tenant'', Lit ''favorites''] [G_JWT, G_ROLES] (Some [TENANT]) None False ''FavoritesController.getFavorites'',
     Route POST [Lit ''tenant'', Lit ''favorites''] [G_JWT, G_ROLES] (Some [TENANT]) None False ''FavoritesController.addFavorite'',
     Route DELETE [Lit ''tenant'', Lit ''favorites'', Par] [G_JWT, G_ROLES] (Some [TENANT]) None False ''FavoritesController.removeFavorite'']"

definition match_contract_routes :: "route list" where
  "match_contract_routes =
    [Route GET [Lit ''matches'', Par, Lit ''contract''] [G_JWT, G_ROLES] (Some [TENANT, LANDLORD]) None False ''LeaseContractsController.getForMatch'',
     Route GET [Lit ''matches'', Par, Lit ''contract'', Lit ''prefill''] [G_JWT, G_ROLES] (Some [TENANT, LANDLORD]) None False ''LeaseContractsController.getPrefill'',
     Route POST [Lit ''matches'', Par, Lit ''contract'', Lit ''draft''] [G_JWT, G_ROLES, G_VERIFIED] (Some [TENANT, LANDLORD]) None False ''LeaseContractsController.saveDraft'',
     Route POST [Lit ''matches'', Par, Lit ''contract'', Lit ''send-for-review''] [G_JWT, G_ROLES] (Some [TENANT, LANDLORD]) None False ''LeaseContractsController.sendForReview'',
     Route POST [Lit ''matches'', Par, Lit ''contract'', Lit ''approve''] [G_JWT, G_ROLES] (Some [TENANT, LANDLORD]) None False ''LeaseContractsController.approve'',
     Route POST [Lit ''matches'', Par, Lit ''contract'', Lit ''reject''] [G_JWT, G_ROLES] (Some [TENANT, LANDLORD]) None False ''LeaseContractsController.reject'']"

definition contract_routes :: "route list" where
  "contract_routes =
    [Route GET [Lit ''contracts''] [G_JWT, G_ROLES] (Some [TENANT, LANDLORD]) None False ''LeaseContractByIdController.list'',
     Route GET [Lit ''contracts'', Par] [G_JWT, G_ROLES] (Some [TENANT, LANDLORD]) None False ''LeaseContractByIdController.getById'',
     Route GET [Lit ''contracts'', Par, Lit ''pdf''] [G_JWT, G_ROLES] (Some [TENANT, LANDLORD]) None False ''LeaseContractByIdController.downloadPdf'',
     Route POST [Lit ''contracts'', Par, Lit ''review'', Lit ''request-changes''] [G_JWT, G_ROLES, G_VERIFIED] (Some [TENANT, LANDLORD]) None False ''LeaseContractByIdController.requestChanges'',
     Route POST [Lit ''contracts'', Par, Lit ''review'', Lit ''confirm''] [G_JWT, G_ROLES, G_VERIFIED] (Some [TENANT, LANDLORD]) None False ''LeaseContractByIdController.confirmReview'']"

definition lead_routes :: "route list" where
  "lead_routes =
    [Route POST [Lit ''partner-leads''] [G_JWT, G_ROLES] (Some [TENANT, LANDLORD]) None False ''PartnerLeadsController.create'']"

definition listing_offer_routes :: "route list" where
  "listing_offer_routes =
    [Route POST [Lit ''tenant'', Lit ''listing-offers''] [G_JWT, G_ROLES, G_VERIFIED] (Some [TENANT]) None False ''TenantOffersController.create'',
     Route GET [Lit ''tenant'', Lit ''listing-offers''] [G_JWT, G_ROLES] (Some [TENANT]) None False ''TenantOffersController.listMine'',
     Route POST [Lit ''tenant'', Lit ''listing-offers'', Par, Lit ''accept''] [G_JWT, G_ROLES, G_VERIFIED] (Some [TENANT]) None False ''TenantOffersController.acceptCounter'',
     Route POST [Lit ''tenant'', Lit ''listing-offers'', Par, Lit ''withdraw''] [G_JWT, G_ROLES] (Some [TENANT]) None False ''TenantOffersController.withdraw'',
     Route GET [Lit ''landlord'', Lit ''listing-offers''] [G_JWT, G_ROLES] (Some [LANDLORD]) None False ''TenantOffersController.received'',
     Route POST [Lit ''landlord'', Lit ''listing-offers'', Par, Lit ''accept''] [G_JWT, G_ROLES, G_VERIFIED] (Some [LANDLORD]) None False ''TenantOffersController.accept'',
     Route POST [Lit ''landlord'', Lit ''listing-offers'', Par, Lit ''decline''] [G_JWT, G_ROLES] (Some [LANDLORD]) None False ''TenantOffersController.decline'',
     Route POST [Lit ''landlord'', Lit ''listing-offers'', Par, Lit ''counter''] [G_JWT, G_ROLES] (Some [LANDLORD]) None False ''TenantOffersController.counter'']"

definition upload_routes :: "route list" where
  "upload_routes =
    [Route POST [Lit ''uploads'', Lit ''chat''] [G_JWT] None None False ''UploadsController.uploadChatAttachment'']"

definition analytics_routes :: "route list" where
  "analytics_routes =
    [Route POST [Lit ''properties'', Par, Lit ''views''] [G_OPTIONAL_JWT] None None False ''PropertyAnalyticsController.trackView'',
     Route GET [Lit ''landlord'', Lit ''properties'', Par, Lit ''analytics''] [G_JWT, G_ROLES] (Some [LANDLORD]) None False ''PropertyAnalyticsController.getAnalytics'']"

definition storage_routes :: "route list" where
  "storage_routes =
    [Route GET [Lit ''storage'', Lit ''private'', Par] [] None None False ''PrivateStorageController.read'']"

text \<open>The controllers in the order of the modules.\<close>

definition controllers :: "route list list" where
  "controllers =
    [[Route GET [] [] None None False ''AppController.getHello''],
     catalog_routes,
     admin_catalog_routes,
     auth_routes,
     admin_view_routes @ admin_review_routes @ admin_account_routes,
     property_post_route @ property_browse_routes @ property_stream_route @ property_patch_route @ property_delete_route,
     verification_routes,
     tenant_request_routes,
     offer_routes,
     message_routes,
     payment_routes,
     review_routes,
     contract_review_routes,
     review_summary_routes,
     legal_routes,
     region_routes @ region_country_route @ region_create_routes,
     support_entry_routes @ support_ticket_routes,
     quota_routes,
     notification_routes,
     favorite_routes,
     match_contract_routes,
     contract_routes,
     lead_routes,
     listing_offer_routes,
     upload_routes,
     analytics_routes,
     storage_routes]"

definition all_routes :: "route list" where "all_routes = concat controllers"

section \<open>Dispatch\<close>

record http_request =
  rq_method :: http_method
  rq_path :: "string list"
  rq_authorization :: "string option"

fun path_matches :: "segment list \<Rightarrow> string list \<Rightarrow> bool" where
  "path_matches [] [] = True"
| "path_matches (Lit l # ps) (x # xs) = (if x = l then path_matches ps xs else False)"
| "path_matches (Par # ps) (x # xs) = path_matches ps xs"
| "path_matches _ _ = False"

definition route_matches :: "http_request \<Rightarrow> route \<Rightarrow> bool" where
  "route_matches rq r = (if rt_method r = rq_method rq then path_matches (rt_path r) (rq_path rq) else False)"

text \<open>The first route in the order of registration answers.\<close>

definition dispatch :: "route list \<Rightarrow> http_request \<Rightarrow> route option" where
  "dispatch rs rq = find (route_matches rq) rs"

section \<open>Guards of a route\<close>

definition refuse_unless :: "bool \<Rightarrow> http_error \<Rightarrow> request_user option \<Rightarrow> http_error + request_user option" where
  "refuse_unless b e u = (if b then Inr u else Inl e)"

text \<open>\<open>TenantRequestBrowseGuard\<close>: guests, landlords and administrators.\<close>

definition tenantRequestBrowseGuard :: "request_user option \<Rightarrow> bool" where
  "tenantRequestBrowseGuard u = (case u of None \<Rightarrow> True | Some x \<Rightarrow> ru_role x \<noteq> TENANT)"

fun run_guard :: "auth_env \<Rightarrow> (string option \<Rightarrow> string option) \<Rightarrow> (route \<Rightarrow> request_user option \<Rightarrow> bool) \<Rightarrow> http_request \<Rightarrow> time \<Rightarrow> db
    \<Rightarrow> route \<Rightarrow> guard \<Rightarrow> request_user option \<Rightarrow> http_error + request_user option" where
  "run_guard env bearer slow rq now s r G_JWT u =
     (if rt_public r then Inr u else jwtAuthGuard env False (bearer (rq_authorization rq)) now s)"
| "run_guard env bearer slow rq now s r G_OPTIONAL_JWT u =
     (if js_or (rq_authorization rq) None = None then Inr u
      else optionalJwtAuthGuard env (rq_authorization rq) (bearer (rq_authorization rq)) now s)"
| "run_guard env bearer slow rq now s r G_ADMIN_OPTIONAL_JWT u =
     (case jwtAuthGuard env False (bearer (rq_authorization rq)) now s of Inl _ \<Rightarrow> Inr None | Inr v \<Rightarrow> Inr v)"
| "run_guard env bearer slow rq now s r G_ROLES u = refuse_unless (rolesGuard (rt_roles r) u) (Forbidden '''') u"
| "run_guard env bearer slow rq now s r G_CAPABILITIES u =
     (case capabilitiesGuard (rt_caps r) u s of Inl e \<Rightarrow> Inl e | Inr b \<Rightarrow> refuse_unless b (Forbidden '''') u)"
| "run_guard env bearer slow rq now s r G_VERIFIED u =
     (case verifiedGuard u s of Inl e \<Rightarrow> Inl e | Inr b \<Rightarrow> refuse_unless b (Forbidden '''') u)"
| "run_guard env bearer slow rq now s r G_BROWSE u = refuse_unless (tenantRequestBrowseGuard u) (Forbidden '''') u"
| "run_guard env bearer slow rq now s r G_THROTTLE u = refuse_unless (\<not> slow r u) (TooManyRequests 0) u"

fun run_guards :: "auth_env \<Rightarrow> (string option \<Rightarrow> string option) \<Rightarrow> (route \<Rightarrow> request_user option \<Rightarrow> bool) \<Rightarrow> http_request \<Rightarrow> time \<Rightarrow> db
    \<Rightarrow> route \<Rightarrow> guard list \<Rightarrow> request_user option \<Rightarrow> http_error + request_user option" where
  "run_guards env bearer slow rq now s r [] u = Inr u"
| "run_guards env bearer slow rq now s r (g # gs) u =
     (case run_guard env bearer slow rq now s r g u of
        Inl e \<Rightarrow> Inl e | Inr v \<Rightarrow> run_guards env bearer slow rq now s r gs v)"

text \<open>A request reaches the handler of its route with the user that the guards leave, or is refused.\<close>

definition admit :: "auth_env \<Rightarrow> (string option \<Rightarrow> string option) \<Rightarrow> (route \<Rightarrow> request_user option \<Rightarrow> bool) \<Rightarrow> http_request \<Rightarrow> time \<Rightarrow> db
    \<Rightarrow> http_error + route \<times> request_user option" where
  "admit env bearer slow rq now s =
     (case dispatch all_routes rq of
        None \<Rightarrow> Inl (NotFound '''')
      | Some r \<Rightarrow>
        (case run_guards env bearer slow rq now s r (rt_guards r) None of
           Inl e \<Rightarrow> Inl e | Inr u \<Rightarrow> Inr (r, u)))"

section \<open>Two handlers of the auth controller\<close>

text \<open>The stub of \<open>forgot-password\<close> answers without a look at the database.\<close>

definition forgotPassword :: "db \<Rightarrow> unit result" where "forgotPassword s = (Inr (), s)"

definition password_route :: "auth_env \<Rightarrow> string \<Rightarrow> string \<Rightarrow> string \<Rightarrow> time \<Rightarrow> db \<Rightarrow> unit result" where
  "password_route env path email rawToken now s =
     (case dispatch all_routes \<lparr>rq_method = POST, rq_path = [''auth'', path], rq_authorization = None\<rparr> of
        None \<Rightarrow> (Inl (NotFound ''''), s)
      | Some r \<Rightarrow>
          if rt_handler r = ''AuthController.forgotPassword'' then forgotPassword s
          else if rt_handler r = ''AuthController.forgetPassword'' then forgetPassword env email rawToken now s
          else (Inl (NotFound ''''), s))"

section \<open>What the guards leave\<close>

text \<open>A user of a token that is current and of an account that may act.\<close>

definition signed_in :: "auth_env \<Rightarrow> (string option \<Rightarrow> string option) \<Rightarrow> http_request \<Rightarrow> time \<Rightarrow> db \<Rightarrow> request_user \<Rightarrow> bool" where
  "signed_in env bearer rq now s x \<longleftrightarrow>
     (\<exists>t p row. bearer (rq_authorization rq) = Some t \<and> au_verifyAccess env t now = Some p
        \<and> x = \<lparr>ru_userId = tp_sub p, ru_email = tp_email p, ru_role = tp_role p\<rparr>
        \<and> findById (tp_sub p) s = Some row \<and> tp_tokenVersion p = Some (u_tokenVersion row)
        \<and> u_isActive row \<and> u_deletedAt row = None \<and> \<not> isSuspensionActive row now)"

lemma jwt_signed_in:
  "jwtAuthGuard env False (bearer (rq_authorization rq)) now s = Inr u
    \<Longrightarrow> \<exists>x. u = Some x \<and> signed_in env bearer rq now s x"
  by (auto simp: jwtAuthGuard_def validate_def signed_in_def split: option.splits if_splits)

lemma run_guard_user:
  assumes "run_guard env bearer slow rq now s r g u = Inr v"
  shows "v = u \<or> v = None \<and> g = G_ADMIN_OPTIONAL_JWT \<or> (\<exists>x. v = Some x \<and> signed_in env bearer rq now s x)"
  using assms jwt_signed_in[of env bearer rq now s v]
  by (cases g) (auto simp: refuse_unless_def optionalJwtAuthGuard_def split: if_splits sum.splits)

lemma run_guards_user:
  "run_guards env bearer slow rq now s r gs u = Inr v \<Longrightarrow> (\<forall>x. u = Some x \<longrightarrow> signed_in env bearer rq now s x)
    \<Longrightarrow> \<forall>x. v = Some x \<longrightarrow> signed_in env bearer rq now s x"
proof (induction gs arbitrary: u)
  case (Cons g gs)
  obtain w where w: "run_guard env bearer slow rq now s r g u = Inr w" "run_guards env bearer slow rq now s r gs w = Inr v"
    using Cons.prems(1) by (auto split: sum.splits)
  show ?case by (rule Cons.IH[OF w(2)]) (use run_guard_user[OF w(1)] Cons.prems(2) in auto)
qed simp

text \<open>Every guard but the three of the token leaves the user as he is.\<close>

definition plain :: "guard \<Rightarrow> bool" where
  "plain g = (case g of G_JWT \<Rightarrow> False | G_OPTIONAL_JWT \<Rightarrow> False | G_ADMIN_OPTIONAL_JWT \<Rightarrow> False | _ \<Rightarrow> True)"

lemma plain_guard:
  "plain g \<Longrightarrow> run_guard env bearer slow rq now s r g u = Inr v \<Longrightarrow> v = u"
  by (cases g) (auto simp: plain_def refuse_unless_def split: if_splits sum.splits)

lemma plain_guards:
  "list_all plain gs \<Longrightarrow> run_guards env bearer slow rq now s r gs u = Inr v
    \<Longrightarrow> v = u \<and> (\<forall>g \<in> set gs. run_guard env bearer slow rq now s r g u = Inr u)"
proof (induction gs)
  case (Cons g gs)
  obtain w where w: "run_guard env bearer slow rq now s r g u = Inr w" "run_guards env bearer slow rq now s r gs w = Inr v"
    using Cons.prems(2) by (auto split: sum.splits)
  have "w = u" using plain_guard[OF _ w(1)] Cons.prems(1) by simp
  then show ?case using Cons.IH Cons.prems(1) w by simp
qed simp

text \<open>A route whose guards begin with the token leaves a signed-in user, of whom the other guards hold.\<close>

definition private_route :: "route \<Rightarrow> bool" where
  "private_route r = (case rt_guards r of g # gs \<Rightarrow> g = G_JWT \<and> list_all plain gs \<and> \<not> rt_public r | [] \<Rightarrow> False)"

lemma private_route_user:
  assumes "run_guards env bearer slow rq now s r (rt_guards r) None = Inr u" "private_route r"
  obtains x where "u = Some x" "signed_in env bearer rq now s x"
    "\<And>g. g \<in> set (rt_guards r) \<Longrightarrow> g \<noteq> G_JWT \<Longrightarrow> run_guard env bearer slow rq now s r g (Some x) = Inr (Some x)"
proof -
  obtain gs where gs: "rt_guards r = G_JWT # gs" "list_all plain gs" "\<not> rt_public r"
    using assms(2) by (auto simp: private_route_def split: list.splits)
  obtain w where w: "run_guard env bearer slow rq now s r G_JWT None = Inr w" "run_guards env bearer slow rq now s r gs w = Inr u"
    using assms(1) gs(1) by (auto split: sum.splits simp del: run_guard.simps)
  obtain x where x: "w = Some x" "signed_in env bearer rq now s x"
    using w(1) gs(3) jwt_signed_in[of env bearer rq now s w] by auto
  show thesis using that[of x] x plain_guards[OF gs(2) w(2)] gs(1) by auto
qed

lemma admitD:
  assumes "admit env bearer slow rq now s = Inr (r, u)"
  shows "r \<in> set all_routes" "route_matches rq r" "run_guards env bearer slow rq now s r (rt_guards r) None = Inr u"
  using assms unfolding admit_def dispatch_def
  by (auto split: option.splits sum.splits dest: find_SomeD)

section \<open>Administration\<close>

definition administrative :: "route \<Rightarrow> bool" where
  "administrative r = (case rt_path r of Lit a # _ \<Rightarrow> a = ''admin'' | _ \<Rightarrow> False)"

text \<open>The routes that change tickets and regions with no capability.\<close>

definition ticket_writes :: "string list" where
  "ticket_writes = [''CustomerSupportController.adminReply'', ''CustomerSupportController.assignTicket'', ''CustomerSupportController.updateStatus'']"

definition admin_route_ok :: "route \<Rightarrow> bool" where
  "admin_route_ok r =
     (if administrative r then
        if rt_handler r = ''AdminController.registerAdmin'' then True
        else private_route r \<and> rt_roles r = Some [ADMIN] \<and> G_ROLES \<in> set (rt_guards r)
          \<and> (case rt_caps r of Some cs \<Rightarrow> cs \<noteq> [] \<and> G_CAPABILITIES \<in> set (rt_guards r)
             | None \<Rightarrow> rt_method r = GET \<or> rt_handler r \<in> set ticket_writes)
      else True)"

lemmas route_tables = controllers_def catalog_routes_def admin_catalog_routes_def auth_routes_def admin_view_routes_def admin_review_routes_def
  admin_account_routes_def property_post_route_def property_browse_routes_def property_stream_route_def
  property_patch_route_def property_delete_route_def verification_routes_def tenant_request_routes_def offer_routes_def
  message_routes_def payment_routes_def review_routes_def contract_review_routes_def review_summary_routes_def
  legal_routes_def region_routes_def region_country_route_def region_create_routes_def support_entry_routes_def
  support_ticket_routes_def quota_routes_def notification_routes_def favorite_routes_def match_contract_routes_def
  contract_routes_def lead_routes_def listing_offer_routes_def upload_routes_def analytics_routes_def storage_routes_def

lemma admin_routes_ok: "list_all admin_route_ok all_routes"
  by code_simp

text \<open>The handlers that a request without a session reaches.\<close>

definition guest_handlers :: "string list" where
  "guest_handlers = [''AppController.getHello'', ''CommercialCatalogController.getCatalog'', ''AuthController.signIn'',
     ''AuthController.forgotPassword'', ''AuthController.requestReactivation'', ''AuthController.signUp'', ''AuthController.verifyEmail'',
     ''AuthController.resendEmailVerification'', ''AuthController.refresh'', ''AuthController.forgetPassword'', ''AuthController.resetPassword'',
     ''AdminController.registerAdmin'', ''PropertiesController.getAllProperties'', ''PropertiesController.getAllTenantRequests'',
     ''PropertiesController.semanticSearch'', ''PaymentsController.webhook'', ''ReviewsController.findForProperty'',
     ''RegionsController.getActive'', ''PropertyAnalyticsController.trackView'', ''PrivateStorageController.read'']"

lemma guest_routes: "list_all (\<lambda>r. if private_route r then True else rt_handler r \<in> set guest_handlers) all_routes"
  by code_simp


section \<open>Order of registration\<close>

text \<open>Whether some request fits both paths.\<close>

fun paths_overlap :: "segment list \<Rightarrow> segment list \<Rightarrow> bool" where
  "paths_overlap [] [] = True"
| "paths_overlap (Lit a # ps) (Lit b # qs) = (if a = b then paths_overlap ps qs else False)"
| "paths_overlap (Par # ps) (q # qs) = paths_overlap ps qs"
| "paths_overlap (Lit a # ps) (Par # qs) = paths_overlap ps qs"
| "paths_overlap _ _ = False"

definition may_overlap :: "segment list \<Rightarrow> segment list \<Rightarrow> bool" where
  "may_overlap ps qs = (if length ps = length qs then paths_overlap ps qs else False)"

lemma path_matches_length: "path_matches ps xs \<Longrightarrow> length ps = length xs"
  by (induction ps xs rule: path_matches.induct) (auto split: if_splits)

lemma path_matches_overlap: "path_matches ps xs \<Longrightarrow> path_matches qs xs \<Longrightarrow> paths_overlap ps qs"
proof (induction ps arbitrary: xs qs)
  case Nil
  then show ?case by (cases xs; cases qs; cases "hd qs") auto
next
  case (Cons p ps)
  obtain x ys where x: "xs = x # ys" using Cons.prems(1) by (cases p; cases xs) auto
  obtain q rs where q: "qs = q # rs" using Cons.prems(2) x by (cases qs) auto
  show ?case using Cons.IH[of ys rs] Cons.prems by (cases p; cases q) (auto simp: x q split: if_splits)
qed

lemma path_matches_may_overlap: "path_matches ps xs \<Longrightarrow> path_matches qs xs \<Longrightarrow> may_overlap ps qs"
  by (simp add: may_overlap_def path_matches_overlap path_matches_length)

text \<open>No path of a group overlaps one of a later group.\<close>

fun apart :: "segment list list list \<Rightarrow> bool" where
  "apart [] = True"
| "apart (g # gs) = (if (\<lambda>later. list_all (\<lambda>p. list_all (\<lambda>q. \<not> may_overlap p q) later) g) (concat gs) then apart gs else False)"

definition paths_with :: "http_method \<Rightarrow> route list \<Rightarrow> segment list list" where
  "paths_with m rs = map rt_path (filter (\<lambda>r. rt_method r = m) rs)"

lemma get_apart: "apart (map (paths_with GET) controllers)"
  by code_simp

lemma post_apart: "apart (map (paths_with POST) controllers)"
  by code_simp

lemma patch_apart: "apart (map (paths_with PATCH) controllers)"
  by code_simp

lemma delete_apart: "apart (map (paths_with DELETE) controllers)"
  by code_simp


lemma paths_overlap_par [simp]: "paths_overlap (q # qs) (Par # ps) \<longleftrightarrow> paths_overlap qs ps"
  by (cases q) auto

lemma paths_overlap_sym: "paths_overlap p q \<Longrightarrow> paths_overlap q p"
  by (induction p q rule: paths_overlap.induct) (auto split: if_splits)

lemma may_overlap_sym: "may_overlap p q \<longleftrightarrow> may_overlap q p"
  by (auto simp: may_overlap_def intro: paths_overlap_sym)

lemma apart_nth:
  "apart gs \<Longrightarrow> i < j \<Longrightarrow> j < length gs \<Longrightarrow> p \<in> set (gs ! i) \<Longrightarrow> q \<in> set (gs ! j) \<Longrightarrow> \<not> may_overlap p q"
proof (induction gs arbitrary: i j)
  case (Cons g gs)
  obtain j' where j: "j = Suc j'" using Cons.prems(2) by (cases j) auto
  show ?case
  proof (cases i)
    case 0
    have "gs ! j' \<in> set gs" "q \<in> set (gs ! j')" using Cons.prems(3,5) j by simp_all
    then have "q \<in> set (concat gs)" by auto
    then show ?thesis using Cons.prems(1,4) 0 by (auto simp: list_all_iff split: if_splits)
  next
    case (Suc i')
    then show ?thesis using Cons.IH[of i' j'] Cons.prems j by (auto split: if_splits)
  qed
qed simp

lemma methods_apart: "apart (map (paths_with m) controllers)"
  by (cases m) (simp_all only: get_apart post_apart patch_apart delete_apart)

lemma one_controller:
  assumes "c \<in> set controllers" "d \<in> set controllers" "a \<in> set c" "b \<in> set d" "route_matches rq a" "route_matches rq b"
  shows "c = d"
proof -
  obtain i j where i: "i < length controllers" "controllers ! i = c" and j: "j < length controllers" "controllers ! j = d"
    using assms(1,2) by (auto simp: in_set_conv_nth)
  define m where "m = rq_method rq"
  define cs where "cs = map (paths_with m) controllers"
  have l: "length cs = length controllers" by (simp add: cs_def)
  have a: "rt_path a \<in> set (cs ! i)" and b: "rt_path b \<in> set (cs ! j)"
    using assms(3-6) i j by (auto simp: cs_def m_def paths_with_def route_matches_def split: if_splits)
  have o: "may_overlap (rt_path a) (rt_path b)"
    using assms(5,6) by (auto simp: route_matches_def split: if_splits intro: path_matches_may_overlap)
  have p: "apart cs" unfolding cs_def by (rule methods_apart)
  have "\<not> i < j" using apart_nth[OF p _ _ a b] o j(1) l by auto
  moreover have "\<not> j < i" using apart_nth[OF p _ _ b a] o i(1) l may_overlap_sym by auto
  ultimately show ?thesis using i(2) j(2) by (metis linorder_neqE_nat)
qed

lemma find_concat_same:
  "\<forall>c \<in> set cs. find P c = None \<or> find P c = Some v \<Longrightarrow> \<exists>c \<in> set cs. find P c = Some v \<Longrightarrow> find P (concat cs) = Some v"
proof (induction cs)
  case (Cons c cs)
  have "find P (xs @ ys) = (case find P xs of None \<Rightarrow> find P ys | Some x \<Rightarrow> Some x)" for xs ys by (induction xs) auto
  then show ?case using Cons by (auto split: option.splits)
qed simp

lemma find_controller:
  assumes "c \<in> set controllers" "find (route_matches rq) c = Some r" "d \<in> set controllers"
  shows "find (route_matches rq) d = None \<or> find (route_matches rq) d = Some r"
proof (cases "find (route_matches rq) d")
  case (Some q)
  have "c = d" using one_controller[OF assms(1,3), of r q rq] find_SomeD[OF assms(2)] find_SomeD[OF Some] by simp
  then show ?thesis using assms(2) by simp
qed simp

text \<open>C36: The order in which the controllers are registered does not matter: whatever order the modules
  are loaded in, every request is answered by the same route, because no request fits routes of two
  controllers.\<close>

theorem dispatch_order_irrelevant:
  assumes "set cs = set controllers"
  shows "dispatch (concat cs) rq = dispatch all_routes rq"
proof (cases "\<exists>c \<in> set controllers. find (route_matches rq) c \<noteq> None")
  case True
  then obtain c r where c: "c \<in> set controllers" "find (route_matches rq) c = Some r" by auto
  have "find (route_matches rq) (concat ds) = Some r" if "set ds = set controllers" for ds
    using find_concat_same[of ds "route_matches rq" r] find_controller[OF c] c that by auto
  then show ?thesis using assms by (simp add: dispatch_def all_routes_def)
next
  case False
  then have "\<forall>c \<in> set controllers. \<forall>r \<in> set c. \<not> route_matches rq r" by (auto simp: find_None_iff)
  then have "find (route_matches rq) (concat ds) = None" if "set ds = set controllers" for ds
    using that by (auto simp: find_None_iff)
  then show ?thesis using assms by (simp add: dispatch_def all_routes_def)
qed

theorem dispatch_order_irrelevant_witness:
  "dispatch (concat (rev controllers)) \<lparr>rq_method = GET, rq_path = [''properties'', ''me''], rq_authorization = None\<rparr>
    = dispatch all_routes \<lparr>rq_method = GET, rq_path = [''properties'', ''me''], rq_authorization = None\<rparr>"
  by (rule dispatch_order_irrelevant) (rule set_rev)

text \<open>C34: Of the routes under \<open>admin\<close>, only the registration of an administrator lets a request through
  without the current token of an active account with the role of an administrator; where the route
  asks for capabilities the administrator holds one of them, and every route there that writes asks for
  one, but for those of the tickets.\<close>

theorem admin_routes_guarded:
  assumes "admit env bearer slow rq now s = Inr (r, user)" "administrative r" "rt_handler r \<noteq> ''AdminController.registerAdmin''"
  shows "\<exists>x row. user = Some x \<and> signed_in env bearer rq now s x \<and> ru_role x = ADMIN \<and> findById (ru_userId x) s = Some row
    \<and> (\<forall>cs. rt_caps r = Some cs \<longrightarrow> (\<exists>c \<in> set cs. c \<in> set (capabilitiesFor (u_adminRole row))))
    \<and> (rt_method r \<noteq> GET \<longrightarrow> rt_handler r \<notin> set ticket_writes \<longrightarrow> rt_caps r \<noteq> None)"
proof -
  have ok: "admin_route_ok r" using admin_routes_ok admitD(1)[OF assms(1)] by (simp add: list_all_iff)
  have r: "private_route r" "rt_roles r = Some [ADMIN]" "G_ROLES \<in> set (rt_guards r)"
    "case rt_caps r of Some cs \<Rightarrow> cs \<noteq> [] \<and> G_CAPABILITIES \<in> set (rt_guards r)
             | None \<Rightarrow> rt_method r = GET \<or> rt_handler r \<in> set ticket_writes"
    using ok assms(2,3) by (simp_all add: admin_route_ok_def)
  obtain x where x: "user = Some x" "signed_in env bearer rq now s x"
    "\<And>g. g \<in> set (rt_guards r) \<Longrightarrow> g \<noteq> G_JWT \<Longrightarrow> run_guard env bearer slow rq now s r g (Some x) = Inr (Some x)"
    using private_route_user[OF admitD(3)[OF assms(1)] r(1)] by blast
  obtain row where row: "findById (ru_userId x) s = Some row" using x(2) by (auto simp: signed_in_def)
  have role: "ru_role x = ADMIN" using x(3)[OF r(3)] r(2) by (simp add: refuse_unless_def rolesGuard_def split: if_splits)
  have "\<exists>c \<in> set cs. c \<in> set (capabilitiesFor (u_adminRole row))" if "rt_caps r = Some cs" for cs
    using x(3)[of G_CAPABILITIES] r(4) that row
    by (cases cs) (auto simp: capabilitiesGuard_def Let_def list_ex_iff split: if_splits)
  then show ?thesis using x(1,2) row role r(4) by (auto split: option.splits)
qed





section \<open>What the table leaves open\<close>

text \<open>Writes of an administrator that ask for no capability: tickets and regions.\<close>

definition unguarded_writes :: "string \<Rightarrow> (http_method \<times> string list \<times> string) list" where
  "unguarded_writes i =
     [(POST, [''admin'', ''tickets'', i, ''reply''], ''CustomerSupportController.adminReply''),
      (POST, [''admin'', ''tickets'', i, ''assign''], ''CustomerSupportController.assignTicket''),
      (POST, [''admin'', ''tickets'', i, ''status''], ''CustomerSupportController.updateStatus''),
      (PATCH, [''regions'', ''countries'', i, ''status''], ''RegionsController.toggleCountryStatus''),
      (PATCH, [''regions'', ''governorates'', i, ''status''], ''RegionsController.toggleGovernorateStatus''),
      (PATCH, [''regions'', ''cities'', i, ''status''], ''RegionsController.toggleCityStatus''),
      (PATCH, [''regions'', ''districts'', i, ''status''], ''RegionsController.toggleDistrictStatus''),
      (POST, [''regions'', ''countries''], ''RegionsController.createCountry''),
      (POST, [''regions'', ''governorates''], ''RegionsController.createGovernorate''),
      (POST, [''regions'', ''cities''], ''RegionsController.createCity''),
      (POST, [''regions'', ''districts''], ''RegionsController.createDistrict'')]"

lemma dispatch_in:
  assumes "c \<in> set controllers" "find (route_matches rq) c = Some r"
  shows "dispatch all_routes rq = Some r"
  unfolding dispatch_def all_routes_def
  by (rule find_concat_same) (use assms find_controller[OF assms] in blast)+

lemma own_controllers:
  "support_entry_routes @ support_ticket_routes \<in> set controllers"
  "region_routes @ region_country_route @ region_create_routes \<in> set controllers"
  "admin_view_routes @ admin_review_routes @ admin_account_routes \<in> set controllers"
  "property_post_route @ property_browse_routes @ property_stream_route @ property_patch_route @ property_delete_route \<in> set controllers"
  "auth_routes \<in> set controllers"
  by (simp_all add: controllers_def)

definition administrator_only :: "string \<Rightarrow> route \<Rightarrow> bool" where
  "administrator_only h r = (if rt_handler r = h then rt_guards r = [G_JWT, G_ROLES] \<and> rt_roles r = Some [ADMIN] \<and> \<not> rt_public r else False)"

lemma unguarded_found:
  "list_all (\<lambda>(m, path, h). list_ex (\<lambda>c. case find (route_matches \<lparr>rq_method = m, rq_path = path, rq_authorization = a\<rparr>) c of
       None \<Rightarrow> False | Some r \<Rightarrow> administrator_only h r)
      [support_entry_routes @ support_ticket_routes, region_routes @ region_country_route @ region_create_routes])
    (unguarded_writes i)"
  by code_simp

lemma unguarded_dispatch:
  assumes "(m, path, h) \<in> set (unguarded_writes i)"
  obtains r where "dispatch all_routes \<lparr>rq_method = m, rq_path = path, rq_authorization = a\<rparr> = Some r" "administrator_only h r"
proof -
  obtain c r where "c \<in> set controllers" "find (route_matches \<lparr>rq_method = m, rq_path = path, rq_authorization = a\<rparr>) c = Some r"
    "administrator_only h r"
    using unguarded_found[of a i] assms own_controllers(1,2) by (fastforce simp: list_all_iff list_ex_iff split: option.splits)
  then show thesis using that dispatch_in by blast
qed

text \<open>C37: An administrator whose role holds no capability at all, one who may only read, is let
  through to the replies to tickets, their assignment and status, and to every change of the regions.\<close>

theorem read_only_admin_writes:
  assumes "bearer (Some header) = Some t" "au_verifyAccess env t now = Some p" "tp_role p = ADMIN"
    and "findById (tp_sub p) s = Some row" "tp_tokenVersion p = Some (u_tokenVersion row)"
    and "u_isActive row" "u_deletedAt row = None" "\<not> isSuspensionActive row now" "u_adminRole row = Some READ_ONLY"
    and "(m, path, h) \<in> set (unguarded_writes i)"
  shows "capabilitiesFor (u_adminRole row) = []
    \<and> (\<exists>r x. admit env bearer slow \<lparr>rq_method = m, rq_path = path, rq_authorization = Some header\<rparr> now s = Inr (r, Some x)
         \<and> rt_handler r = h \<and> ru_userId x = tp_sub p)"
proof -
  let ?rq = "\<lparr>rq_method = m, rq_path = path, rq_authorization = Some header\<rparr>"
  obtain r where r: "dispatch all_routes ?rq = Some r" "administrator_only h r"
    using unguarded_dispatch[OF assms(10), of "Some header"] by blast
  have r': "rt_handler r = h" "rt_guards r = [G_JWT, G_ROLES]" "rt_roles r = Some [ADMIN]" "\<not> rt_public r"
    using r(2) by (simp_all add: administrator_only_def split: if_splits)
  have j: "jwtAuthGuard env False (bearer (Some header)) now s = Inr (Some \<lparr>ru_userId = tp_sub p, ru_email = tp_email p, ru_role = ADMIN\<rparr>)"
    using assms(1-8) by (simp add: jwtAuthGuard_def validate_def)
  have "admit env bearer slow ?rq now s = Inr (r, Some \<lparr>ru_userId = tp_sub p, ru_email = tp_email p, ru_role = ADMIN\<rparr>)"
    by (simp add: admit_def r(1) r' j rolesGuard_def refuse_unless_def)
  then show ?thesis using r'(1) assms(9) by (simp add: capabilitiesFor_def role_or_super_def)
qed

definition reading_admin :: user where "reading_admin = root_admin\<lparr>u_adminRole := Some READ_ONLY\<rparr>"
definition admin_token :: token_payload where
  "admin_token = \<lparr>tp_sub = 9, tp_email = ''r'', tp_role = ADMIN, tp_tokenVersion = Some 0\<rparr>"

definition office_db :: db where "office_db = empty_db\<lparr>db_users := [reading_admin]\<rparr>"

lemma reading_admin_simps [simp]:
  "findById 9 office_db = Some reading_admin" "u_tokenVersion reading_admin = 0" "u_isActive reading_admin"
  "u_deletedAt reading_admin = None" "\<not> isSuspensionActive reading_admin now" "u_adminRole reading_admin = Some READ_ONLY"
  by (simp_all add: findById_def office_db_def reading_admin_def root_admin_def new_user_def isSuspensionActive_def empty_db_def)

theorem read_only_admin_writes_witness:
  "\<exists>r x. admit (env_for admin_token) id (\<lambda>_ _. False)
      \<lparr>rq_method = POST, rq_path = [''admin'', ''tickets'', ''5'', ''status''], rq_authorization = Some ''token''\<rparr> 10 office_db = Inr (r, Some x)
    \<and> rt_handler r = ''CustomerSupportController.updateStatus'' \<and> ru_userId x = 9"
  using read_only_admin_writes[of id "''token''" "''token''" "env_for admin_token" 10 admin_token office_db reading_admin
      POST "[''admin'', ''tickets'', ''5'', ''status'']" "''CustomerSupportController.updateStatus''" "''5''" "\<lambda>_ _. False"]
  by (simp add: env_for_def admin_token_def unguarded_writes_def)

lemma queues_dispatch:
  "\<exists>r. dispatch all_routes \<lparr>rq_method = GET, rq_path = [''admin'', ''queues''], rq_authorization = a\<rparr> = Some r
     \<and> administrative r \<and> rt_handler r = ''AdminController.getQueues'' \<and> rt_guards r = [G_JWT, G_ROLES] \<and> rt_roles r = Some [ADMIN] \<and> \<not> rt_public r"
proof -
  have "case find (route_matches \<lparr>rq_method = GET, rq_path = [''admin'', ''queues''], rq_authorization = a\<rparr>) (admin_view_routes @ admin_review_routes @ admin_account_routes) of
       None \<Rightarrow> False
     | Some r \<Rightarrow> administrative r \<and> administrator_only ''AdminController.getQueues'' r"
    by code_simp
  then show ?thesis using dispatch_in[OF own_controllers(3)] by (fastforce simp: administrator_only_def split: option.splits if_splits)
qed

theorem admin_routes_guarded_witness:
  "\<exists>r x. admit (env_for admin_token) id (\<lambda>_ _. False)
      \<lparr>rq_method = GET, rq_path = [''admin'', ''queues''], rq_authorization = Some ''token''\<rparr> 10 office_db = Inr (r, Some x) \<and> ru_role x = ADMIN"
proof -
  let ?rq = "\<lparr>rq_method = GET, rq_path = [''admin'', ''queues''], rq_authorization = Some ''token''\<rparr>"
  let ?x = "\<lparr>ru_userId = 9, ru_email = ''r'', ru_role = ADMIN\<rparr>"
  obtain r where r: "dispatch all_routes ?rq = Some r" "administrative r" "rt_handler r = ''AdminController.getQueues''"
    "rt_guards r = [G_JWT, G_ROLES]" "rt_roles r = Some [ADMIN]" "\<not> rt_public r"
    using queues_dispatch by blast
  have j: "jwtAuthGuard (env_for admin_token) False (Some ''token'') 10 office_db = Inr (Some ?x)"
    by (simp add: jwtAuthGuard_def validate_def env_for_def admin_token_def)
  have a: "admit (env_for admin_token) id (\<lambda>_ _. False) ?rq 10 office_db = Inr (r, Some ?x)"
    by (simp add: admit_def r j rolesGuard_def refuse_unless_def)
  from admin_routes_guarded[OF a r(2)] r(3) a show ?thesis by auto
qed

lemma browse_dispatch:
  "\<exists>r. dispatch all_routes \<lparr>rq_method = GET, rq_path = [''properties''], rq_authorization = a\<rparr> = Some r \<and> rt_guards r = []"
proof -
  have "case find (route_matches \<lparr>rq_method = GET, rq_path = [''properties''], rq_authorization = a\<rparr>)
      (property_post_route @ property_browse_routes @ property_stream_route @ property_patch_route @ property_delete_route) of
       None \<Rightarrow> False | Some r \<Rightarrow> rt_guards r = []"
    by code_simp
  then show ?thesis using dispatch_in[OF own_controllers(4)] by (fastforce split: option.splits)
qed


text \<open>A request to \<open>auth/forgot-password\<close> always gets the answer of the stub, which stores no token
  and sends no mail: the handler that does both is registered for the same path later and is reached
  under its other name only.\<close>

theorem forgot_password_unanswered:
  "password_route env ''forgot-password'' email rawToken now s = (Inr (), s)
    \<and> password_route env ''forget-password'' email rawToken now s = forgetPassword env email rawToken now s"
proof -
  let ?rq = "\<lambda>path. \<lparr>rq_method = POST, rq_path = [''auth'', path], rq_authorization = None\<rparr>"
  have "map_option rt_handler (find (route_matches (?rq ''forgot-password'')) auth_routes) = Some ''AuthController.forgotPassword''"
    "map_option rt_handler (find (route_matches (?rq ''forget-password'')) auth_routes) = Some ''AuthController.forgetPassword''"
    by code_simp+
  then obtain r1 r2 where "dispatch all_routes (?rq ''forgot-password'') = Some r1" "rt_handler r1 = ''AuthController.forgotPassword''"
    "dispatch all_routes (?rq ''forget-password'') = Some r2" "rt_handler r2 = ''AuthController.forgetPassword''"
    using dispatch_in[OF own_controllers(5)] by auto
  then show ?thesis by (auto simp: password_route_def forgotPassword_def)
qed

end
