(* ===== verification/Storage.thy ===== *)
theory Storage
  imports Verification Listings
begin

text \<open>
  Files: \<open>storage/local-private-object-storage.service.ts\<close> (identity documents and contracts, read by
  temporary links), \<open>properties/property-image-storage.service.ts\<close> with the two handlers of
  \<open>properties/properties.controller.ts\<close> that upload pictures before they write a listing, and
  \<open>uploads/chat-upload-storage.service.ts\<close>. A file system is a map from paths, lists of names below the
  root, to nodes; directories are created on demand. Random names are arguments.
\<close>

section \<open>Paths\<close>

type_synonym path = "string list"

datatype node = FileNode "int list" | DirNode | LinkNode path

text \<open>\<open>split('/')\<close>.\<close>

fun split_slash :: "string \<Rightarrow> string list" where
  "split_slash [] = [[]]"
| "split_slash (c # cs) =
     (if c = CHR ''/'' then [] # split_slash cs
      else case split_slash cs of [] \<Rightarrow> [[c]] | p # ps \<Rightarrow> (c # p) # ps)"

text \<open>\<open>path.resolve\<close> of a base and names, and \<open>path.relative\<close>, on POSIX.\<close>

definition resolve_step :: "path \<Rightarrow> string \<Rightarrow> path" where
  "resolve_step p x = (if x = [] \<or> x = ''.'' then p else if x = ''..'' then butlast p else p @ [x])"

definition path_resolve :: "path \<Rightarrow> string list \<Rightarrow> path" where
  "path_resolve base xs = foldl resolve_step base xs"

fun path_relative :: "path \<Rightarrow> path \<Rightarrow> path" where
  "path_relative (a # as) (b # bs) = (if a = b then path_relative as bs else map (\<lambda>_. ''..'') (a # as) @ b # bs)"
| "path_relative as bs = map (\<lambda>_. ''..'') as @ bs"

definition has_prefix :: "string \<Rightarrow> string \<Rightarrow> bool" where "has_prefix p s \<longleftrightarrow> take (length p) s = p"
definition has_suffix :: "string \<Rightarrow> string \<Rightarrow> bool" where "has_suffix e s \<longleftrightarrow> length e \<le> length s \<and> drop (length s - length e) s = e"

section \<open>Private objects\<close>

text \<open>The prefix of the keys: \<open>NODE_ENV\<close> in lower case, other characters than letters, digits, underscores
  and dashes folded into one dash, and no dash at the ends.\<close>

definition env_char :: "char \<Rightarrow> bool" where
  "env_char c \<longleftrightarrow> c \<in> set ''abcdefghijklmnopqrstuvwxyz0123456789_-''"

fun fold_runs :: "(char \<Rightarrow> bool) \<Rightarrow> char \<Rightarrow> bool \<Rightarrow> string \<Rightarrow> string" where
  "fold_runs ok d b [] = []"
| "fold_runs ok d b (c # cs) =
     (if ok c then c # fold_runs ok d False cs else if b then fold_runs ok d True cs else d # fold_runs ok d True cs)"

definition trim_dashes :: "string \<Rightarrow> string" where
  "trim_dashes s = rev (dropWhile (\<lambda>c. c = CHR ''-'') (rev (dropWhile (\<lambda>c. c = CHR ''-'') s)))"

definition environmentPrefix :: "string option \<Rightarrow> string" where
  "environmentPrefix nodeEnv =
     (let n = trim_dashes (fold_runs env_char CHR ''-'' False (js_lower (case nodeEnv of None \<Rightarrow> ''development'' | Some v \<Rightarrow> v)))
      in if n = [] then ''development'' else n)"

definition extensionFor :: "string \<Rightarrow> string" where
  "extensionFor contentType =
     (let t = js_lower contentType
      in if t = ''image/jpeg'' then ''.jpg'' else if t = ''image/png'' then ''.png'' else if t = ''image/webp'' then ''.webp''
         else if t = ''application/pdf'' then ''.pdf'' else ''.bin'')"

definition contentTypeFor :: "string \<Rightarrow> string" where
  "contentTypeFor key =
     (if has_suffix ''.png'' key then ''image/png'' else if has_suffix ''.webp'' key then ''image/webp''
      else if has_suffix ''.pdf'' key then ''application/pdf'' else ''image/jpeg'')"

definition drive_letter :: "string \<Rightarrow> bool" where
  "drive_letter key =
     (case key of c # d # _ \<Rightarrow> d = CHR '':'' \<and> js_lower_char c \<in> set ''abcdefghijklmnopqrstuvwxyz'' | _ \<Rightarrow> False)"

definition resolveObjectPath :: "path \<Rightarrow> string \<Rightarrow> string \<Rightarrow> path option" where
  "resolveObjectPath base envPrefix key =
     (if key = [] \<or> \<not> list_ex (\<lambda>cat. has_prefix (envPrefix @ ''/'' @ cat @ ''/'') key) [''identity'', ''contracts'']
         \<or> CHR 0x00 \<in> set key \<or> CHR 0x5C \<in> set key \<or> has_prefix ''/'' key \<or> drive_letter key
      then None
      else let parts = split_slash key
           in if list_ex (\<lambda>x. x = [] \<or> x = ''.'' \<or> x = ''..'') parts then None
              else let p = path_resolve base parts; r = path_relative base p
                   in if r = [] \<or> (hd r = ''..'' \<and> 1 < length r) then None else Some p)"

record object_storage =
  st_root :: path
  st_nodeEnv :: "string option"
  st_files :: "path \<Rightarrow> node option"
  st_tokens :: "string \<Rightarrow> (string \<times> time) option"

definition object_path :: "string \<Rightarrow> object_storage \<Rightarrow> path option" where
  "object_path key s = resolveObjectPath (st_root s) (environmentPrefix (st_nodeEnv s)) key"

text \<open>The upload writes with the flag that refuses an existing file.\<close>

definition upload_object :: "string option \<Rightarrow> string \<Rightarrow> int list \<Rightarrow> string \<Rightarrow> object_storage \<Rightarrow> (string, object_storage) outcome" where
  "upload_object category contentType data uuid s =
     (if data = [] then (Inl (Internal ''Private object data must not be empty''), s)
      else let key = environmentPrefix (st_nodeEnv s) @ ''/'' @ (case category of None \<Rightarrow> ''identity'' | Some c \<Rightarrow> c) @ ''/''
                       @ uuid @ extensionFor contentType
           in case object_path key s of
                None \<Rightarrow> (Inl (Internal ''Invalid private object key''), s)
              | Some p \<Rightarrow>
                  if st_files s p \<noteq> None then (Inl (Internal ''EEXIST''), s)
                  else (Inr key, s\<lparr>st_files := (st_files s)(p \<mapsto> FileNode data)\<rparr>))"

definition removeExpiredTemporaryReadTokens :: "time \<Rightarrow> object_storage \<Rightarrow> object_storage" where
  "removeExpiredTemporaryReadTokens now s =
     s\<lparr>st_tokens := (\<lambda>t. case st_tokens s t of None \<Rightarrow> None | Some (k, e) \<Rightarrow> if e \<le> now then None else Some (k, e))\<rparr>"

text \<open>The seconds are None where the number is not a finite integer.\<close>

definition createTemporaryReadUrl :: "string \<Rightarrow> int option \<Rightarrow> string \<Rightarrow> time \<Rightarrow> object_storage \<Rightarrow> (string, object_storage) outcome" where
  "createTemporaryReadUrl key expiresInSeconds token now s =
     (case expiresInSeconds of
        None \<Rightarrow> (Inl (Internal ''Temporary read expiration must be a positive integer''), s)
      | Some secs \<Rightarrow>
          if secs \<le> 0 then (Inl (Internal ''Temporary read expiration must be a positive integer''), s)
          else (case object_path key s of
            None \<Rightarrow> (Inl (Internal ''Invalid private object key''), s)
          | Some p \<Rightarrow>
              (case st_files s p of
                 None \<Rightarrow> (Inl (Internal ''Private object does not exist''), s)
               | Some (FileNode d) \<Rightarrow>
                   let s1 = removeExpiredTemporaryReadTokens now s
                   in (Inr (''/api/storage/private/'' @ token), s1\<lparr>st_tokens := (st_tokens s1)(token \<mapsto> (key, now + secs * 1000))\<rparr>)
               | Some _ \<Rightarrow> (Inl (Internal ''Private object is not a regular file''), s))))"

definition hex_dash :: "char \<Rightarrow> bool" where "hex_dash c \<longleftrightarrow> js_lower_char c \<in> set ''0123456789abcdef-''"

definition readTemporaryObject :: "string \<Rightarrow> time \<Rightarrow> object_storage \<Rightarrow> (int list \<times> string, object_storage) outcome" where
  "readTemporaryObject token now s =
     (let s1 = removeExpiredTemporaryReadTokens now s
      in if \<not> (length token = 36 \<and> list_all hex_dash token) then (Inl (Internal ''Invalid temporary read token''), s1)
         else (case st_tokens s1 token of
           None \<Rightarrow> (Inl (Internal ''Temporary read token is invalid or expired''), s1)
         | Some (key, _) \<Rightarrow>
             (case object_path key s1 of
                None \<Rightarrow> (Inl (Internal ''Invalid private object key''), s1)
              | Some p \<Rightarrow>
                  (case st_files s1 p of
                     None \<Rightarrow> (Inl (Internal ''Private object does not exist''), s1)
                   | Some (FileNode d) \<Rightarrow> (Inr (d, contentTypeFor key), s1)
                   | Some _ \<Rightarrow> (Inl (Internal ''Private object is not a regular file''), s1)))))"

definition delete_object :: "string \<Rightarrow> object_storage \<Rightarrow> (unit, object_storage) outcome" where
  "delete_object key s =
     (case object_path key s of
        None \<Rightarrow> (Inl (Internal ''Invalid private object key''), s)
      | Some p \<Rightarrow>
          (case st_files s p of
             None \<Rightarrow> (Inr (), s)
           | Some DirNode \<Rightarrow> (Inl (Internal ''EPERM''), s)
           | Some _ \<Rightarrow> (Inr (), s\<lparr>st_files := (st_files s)(p := None)\<rparr>)))"

text \<open>The route of the links: every failure is a 404.\<close>

definition read_private :: "string \<Rightarrow> time \<Rightarrow> object_storage \<Rightarrow> (int list \<times> string, object_storage) outcome" where
  "read_private token now s =
     (case readTemporaryObject token now s of (Inl _, t) \<Rightarrow> (Inl (NotFound ''''), t) | (Inr x, t) \<Rightarrow> (Inr x, t))"

section \<open>Pictures of listings\<close>

record upload_file =
  uf_mimetype :: string
  uf_size :: int
  uf_buffer :: "int list"
  uf_originalname :: string

definition MAX_PROPERTY_IMAGE_SIZE :: int where "MAX_PROPERTY_IMAGE_SIZE = 5 * 1024 * 1024"
definition MAX_PROPERTY_IMAGES :: nat where "MAX_PROPERTY_IMAGES = 10"
definition PROPERTY_IMAGE_MIME_TYPES :: "string list" where
  "PROPERTY_IMAGE_MIME_TYPES = [''image/jpeg'', ''image/png'', ''image/webp'']"

definition signatureMatches :: "int list \<Rightarrow> string \<Rightarrow> bool" where
  "signatureMatches b mimetype =
     (if mimetype = ''image/jpeg'' then 3 \<le> length b \<and> take 3 b = [0xFF, 0xD8, 0xFF]
      else if mimetype = ''image/png'' then take 8 b = [0x89, 0x50, 0x4E, 0x47, 0x0D, 0x0A, 0x1A, 0x0A]
      else 12 \<le> length b \<and> take 4 b = map of_char ''RIFF'' \<and> take 4 (drop 8 b) = map of_char ''WEBP'')"

definition validate_picture :: "upload_file \<Rightarrow> http_error option" where
  "validate_picture f =
     (if uf_size f \<le> 0 \<or> uf_size f \<noteq> int (length (uf_buffer f)) then Some (BadRequest ''INVALID_IMAGE_DATA'')
      else if uf_mimetype f \<notin> set PROPERTY_IMAGE_MIME_TYPES then Some (BadRequest ''UNSUPPORTED_IMAGE_TYPE'')
      else if MAX_PROPERTY_IMAGE_SIZE < uf_size f then Some (BadRequest ''IMAGE_TOO_LARGE'')
      else if \<not> signatureMatches (uf_buffer f) (uf_mimetype f) then Some (BadRequest ''IMAGE_CONTENT_MISMATCH'')
      else None)"

definition picture_extension :: "string \<Rightarrow> string" where
  "picture_extension mimetype =
     (if mimetype = ''image/png'' then ''.png'' else if mimetype = ''image/webp'' then ''.webp'' else ''.jpg'')"

text \<open>The directory \<open>public/properties\<close> by file name.\<close>

type_synonym folder = "string \<Rightarrow> int list option"

text \<open>\<open>String.replace\<close> of the first occurrence by nothing.\<close>

fun remove_first :: "string \<Rightarrow> string \<Rightarrow> string" where
  "remove_first pat [] = []"
| "remove_first pat (c # cs) = (if has_prefix pat (c # cs) then drop (length pat) (c # cs) else c # remove_first pat cs)"

definition picture_name :: "string \<Rightarrow> bool" where
  "picture_name n \<longleftrightarrow> list_all hex_dash (take 36 n) \<and> length (take 36 n) = 36
     \<and> js_lower (drop 36 n) \<in> set [''.jpg'', ''.png'', ''.webp'']"

definition delete_picture :: "string \<Rightarrow> folder \<Rightarrow> folder" where
  "delete_picture url d = (let n = remove_first ''/public/properties/'' url in if picture_name n then d(n := None) else d)"

text \<open>A write that refuses an existing file; \<open>disk\<close> says whether the disk takes the file.\<close>

definition put_picture :: "(string \<Rightarrow> bool) \<Rightarrow> string \<times> upload_file \<Rightarrow> folder \<Rightarrow> (string, folder) outcome" where
  "put_picture disk x d =
     (let n = fst x @ picture_extension (uf_mimetype (snd x))
      in if d n \<noteq> None \<or> \<not> disk n then (Inl (Internal ''EEXIST''), d)
         else (Inr (''/public/properties/'' @ n), d(n \<mapsto> uf_buffer (snd x))))"

text \<open>Uploads in order, undone in reverse order at the first failure; the code has this twice.\<close>

definition undo_all :: "('k \<Rightarrow> 's \<Rightarrow> 's) \<Rightarrow> 'k list \<Rightarrow> 's \<Rightarrow> 's" where
  "undo_all del ks s = fold del (rev ks) s"

fun put_all :: "('f \<Rightarrow> 's \<Rightarrow> ('k, 's) outcome) \<Rightarrow> ('k \<Rightarrow> 's \<Rightarrow> 's) \<Rightarrow> 'f list \<Rightarrow> 'k list \<Rightarrow> 's \<Rightarrow> ('k list, 's) outcome" where
  "put_all put del [] ks s = (Inr ks, s)"
| "put_all put del (f # fs) ks s =
     (case put f s of
        (Inl e, t) \<Rightarrow> (Inl e, undo_all del ks t)
      | (Inr k, t) \<Rightarrow> put_all put del fs (ks @ [k]) t)"

definition deleteMany :: "string list \<Rightarrow> folder \<Rightarrow> folder" where
  "deleteMany urls d = undo_all delete_picture urls d"

definition uploadMany :: "(string \<Rightarrow> bool) \<Rightarrow> string list \<Rightarrow> upload_file list \<Rightarrow> folder \<Rightarrow> (string list, folder) outcome" where
  "uploadMany disk uuids files d =
     (if files = [] then (Inl (BadRequest ''NO_IMAGE''), d)
      else if MAX_PROPERTY_IMAGES < length files then (Inl (BadRequest ''TOO_MANY_IMAGES''), d)
      else case find (\<lambda>f. validate_picture f \<noteq> None) files of
        Some f \<Rightarrow> (Inl (the (validate_picture f)), d)
      | None \<Rightarrow> put_all (put_picture disk) delete_picture (zip uuids files) [] d)"

text \<open>The handlers: pictures first, and away again when the service throws.\<close>

definition post_property :: "(string \<Rightarrow> bool) \<Rightarrow> string list \<Rightarrow> string \<Rightarrow> uuid \<Rightarrow> property_dto \<Rightarrow> upload_file list \<Rightarrow> time
    \<Rightarrow> folder \<times> db \<Rightarrow> (property_detail, folder \<times> db) outcome" where
  "post_property disk uuids lang ownerId dto files now ds =
     (case uploadMany disk uuids files (fst ds) of
        (Inl e, d) \<Rightarrow> (Inl e, d, snd ds)
      | (Inr urls, d) \<Rightarrow>
          (case create_property lang ownerId dto urls now (snd ds) of
             (Inl e, s) \<Rightarrow> (Inl e, deleteMany urls d, s)
           | (Inr x, s) \<Rightarrow> (Inr x, d, s)))"

definition patch_property :: "(string \<Rightarrow> bool) \<Rightarrow> string list \<Rightarrow> string \<Rightarrow> uuid \<Rightarrow> uuid \<Rightarrow> property_dto \<Rightarrow> uuid list \<Rightarrow> upload_file list \<Rightarrow> time
    \<Rightarrow> folder \<times> db \<Rightarrow> (property_detail, folder \<times> db) outcome" where
  "patch_property disk uuids lang ownerId pid dto existingImageIds files now ds =
     (case if files \<noteq> [] then uploadMany disk uuids files (fst ds) else (Inr [], fst ds) of
        (Inl e, d) \<Rightarrow> (Inl e, d, snd ds)
      | (Inr urls, d) \<Rightarrow>
          (case update_listing lang ownerId pid dto existingImageIds urls now (snd ds) of
             (Inl e, s) \<Rightarrow> (Inl e, deleteMany urls d, s)
           | (Inr (x, removed), s) \<Rightarrow> (Inr x, deleteMany removed d, s)))"

section \<open>Attachments of chats\<close>

datatype chat_attachment_type = IMAGE | VIDEO | AUDIO

definition MAX_IMAGE_BYTES :: int where "MAX_IMAGE_BYTES = 10 * 1024 * 1024"
definition MAX_AV_BYTES :: int where "MAX_AV_BYTES = 25 * 1024 * 1024"

definition EXT_BY_MIME :: "string \<Rightarrow> string option" where
  "EXT_BY_MIME = map_of
     [(''image/jpeg'', ''.jpg''), (''image/png'', ''.png''), (''image/webp'', ''.webp''), (''image/gif'', ''.gif''),
      (''video/mp4'', ''.mp4''), (''video/webm'', ''.webm''), (''video/quicktime'', ''.mov''), (''audio/webm'', ''.webm''),
      (''audio/ogg'', ''.ogg''), (''audio/mpeg'', ''.mp3''), (''audio/mp4'', ''.m4a''), (''audio/wav'', ''.wav'')]"

definition classify :: "string \<Rightarrow> chat_attachment_type option" where
  "classify mimetype =
     (if has_prefix ''image/'' mimetype then Some IMAGE else if has_prefix ''video/'' mimetype then Some VIDEO
      else if has_prefix ''audio/'' mimetype then Some AUDIO else None)"

record stored_attachment =
  sa_url :: string
  sa_type :: chat_attachment_type
  sa_name :: string
  sa_sizeBytes :: int

definition store_attachment :: "string \<Rightarrow> upload_file \<Rightarrow> folder \<Rightarrow> (stored_attachment, folder) outcome" where
  "store_attachment uuid f d =
     (let mime = js_lower (js_trim (takeWhile (\<lambda>c. c \<noteq> CHR '';'') (uf_mimetype f)))
      in case (classify mime, EXT_BY_MIME mime) of
           (Some ty, Some ext) \<Rightarrow>
             if (if ty = IMAGE then MAX_IMAGE_BYTES else MAX_AV_BYTES) < uf_size f then (Inl (BadRequest ''FILE_TOO_LARGE''), d)
             else let n = uuid @ ext
                  in (Inr \<lparr>sa_url = ''/public/uploads/chat/'' @ n, sa_type = ty,
                           sa_name = (if uf_originalname f = [] then n else take 200 (uf_originalname f)), sa_sizeBytes = uf_size f\<rparr>,
                      d(n \<mapsto> uf_buffer f))
         | _ \<Rightarrow> (Inl (BadRequest ''UNSUPPORTED_FILE_TYPE''), d))"

text \<open>\<open>path.basename\<close>; a name of two dots or one leaves the directory and is refused.\<close>

definition base_name :: "string \<Rightarrow> string" where
  "base_name url = (case rev (filter (\<lambda>x. x \<noteq> []) (split_slash url)) of [] \<Rightarrow> [] | x # _ \<Rightarrow> x)"

definition deleteByUrl :: "string option \<Rightarrow> folder \<Rightarrow> folder" where
  "deleteByUrl url d =
     (case js_or url None of
        None \<Rightarrow> d
      | Some u \<Rightarrow>
          if \<not> has_prefix ''/public/uploads/chat/'' u then d
          else let n = base_name u
               in if path_resolve [''chat''] [n] \<noteq> [''chat'', n] then d else d(n := None))"

section \<open>Uploads that can be undone\<close>

text \<open>A store whose refused upload changes nothing and whose upload is undone by its deletion. An upload
  of several files that fails then leaves the store as it was.\<close>

locale undoable_put =
  fixes put :: "'f \<Rightarrow> 's \<Rightarrow> ('k, 's) outcome" and del :: "'k \<Rightarrow> 's \<Rightarrow> 's" and fit :: "'f \<Rightarrow> bool"
  assumes refused: "put f s = (Inl e, t) \<Longrightarrow> t = s"
    and undone: "fit f \<Longrightarrow> put f s = (Inr k, t) \<Longrightarrow> del k t = s"
begin

lemma put_all_undo:
  "put_all put del fs ks s = (r, t) \<Longrightarrow> list_all fit fs \<Longrightarrow>
    (\<forall>e. r = Inl e \<longrightarrow> t = undo_all del ks s) \<and> (\<forall>ks'. r = Inr ks' \<longrightarrow> undo_all del ks' t = undo_all del ks s)"
proof (induction fs arbitrary: ks s)
  case (Cons f fs)
  obtain q u where q: "put f s = (q, u)" by (cases "put f s")
  show ?case
  proof (cases q)
    case (Inl e)
    then show ?thesis using Cons.prems(1) q refused[of f s e u] by auto
  next
    case (Inr k)
    have "put_all put del fs (ks @ [k]) u = (r, t)" using Cons.prems(1) q Inr by simp
    then have "(\<forall>e. r = Inl e \<longrightarrow> t = undo_all del (ks @ [k]) u) \<and> (\<forall>ks'. r = Inr ks' \<longrightarrow> undo_all del ks' t = undo_all del (ks @ [k]) u)"
      using Cons.IH Cons.prems(2) by simp
    moreover have "undo_all del (ks @ [k]) u = undo_all del ks s"
      using undone[of f s k u] q Inr Cons.prems(2) by (simp add: undo_all_def)
    ultimately show ?thesis by simp
  qed
qed (auto)

lemma failed_uploads_undone: "put_all put del fs [] s = (Inl e, t) \<Longrightarrow> list_all fit fs \<Longrightarrow> t = s"
  using put_all_undo[of fs "[]" s "Inl e" t] by (simp add: undo_all_def)

lemma uploads_undone: "put_all put del fs [] s = (Inr ks, t) \<Longrightarrow> list_all fit fs \<Longrightarrow> undo_all del ks t = s"
  using put_all_undo[of fs "[]" s "Inr ks" t] by (simp add: undo_all_def)

end

definition uuid_text :: "string \<Rightarrow> bool" where "uuid_text u \<longleftrightarrow> length u = 36 \<and> list_all hex_dash u"

lemma picture_extension_cases: "picture_extension m \<in> {''.jpg'', ''.png'', ''.webp''}"
  by (simp add: picture_extension_def)

lemma picture_name_of: "uuid_text u \<Longrightarrow> picture_name (u @ picture_extension m)"
  using picture_extension_cases[of m]
  by (auto simp: picture_name_def uuid_text_def js_lower_def js_lower_char_def)

lemma remove_first_prefix: "pat \<noteq> [] \<Longrightarrow> remove_first pat (pat @ n) = n"
  by (cases pat) (auto simp: has_prefix_def)

interpretation pictures: undoable_put "put_picture disk" delete_picture "\<lambda>x. uuid_text (fst x)" for disk :: "string \<Rightarrow> bool"
proof
  show "t = s" if "put_picture disk f s = (Inl e, t)" for f s e t
    using that by (simp add: put_picture_def Let_def split: if_splits)
  show "delete_picture k t = s" if "uuid_text (fst f)" "put_picture disk f s = (Inr k, t)" for f s k t
  proof -
    let ?n = "fst f @ picture_extension (uf_mimetype (snd f))"
    have k: "k = ''/public/properties/'' @ ?n" "t = s(?n \<mapsto> uf_buffer (snd f))" "s ?n = None"
      using that(2) by (simp_all add: put_picture_def Let_def split: if_splits)
    have "remove_first ''/public/properties/'' k = ?n" unfolding k(1) by (rule remove_first_prefix) simp
    then show ?thesis using picture_name_of[OF that(1)] k(2,3) by (auto simp: delete_picture_def)
  qed
qed

text \<open>The three documents of an identity go into the private storage.\<close>

definition put_document :: "string \<times> int list \<times> string \<Rightarrow> object_storage \<Rightarrow> (string, object_storage) outcome" where
  "put_document x s = (case x of (contentType, data, uuid) \<Rightarrow> upload_object None contentType data uuid s)"

definition drop_document :: "string \<Rightarrow> object_storage \<Rightarrow> object_storage" where
  "drop_document key s = snd (delete_object key s)"

lemma object_path_files [simp]: "object_path key (s\<lparr>st_files := f\<rparr>) = object_path key s"
  by (simp add: object_path_def)

lemma upload_objectE:
  assumes "upload_object cat ct data uuid s = (Inr k, t)"
  obtains p where "object_path k s = Some p" "st_files s p = None" "t = s\<lparr>st_files := (st_files s)(p \<mapsto> FileNode data)\<rparr>"
    "k = environmentPrefix (st_nodeEnv s) @ ''/'' @ (case cat of None \<Rightarrow> ''identity'' | Some c \<Rightarrow> c) @ ''/'' @ uuid @ extensionFor ct"
proof -
  define key where "key = environmentPrefix (st_nodeEnv s) @ ''/'' @ (case cat of None \<Rightarrow> ''identity'' | Some c \<Rightarrow> c) @ ''/'' @ uuid @ extensionFor ct"
  have u: "data \<noteq> [] \<and> (case object_path key s of None \<Rightarrow> (Inl (Internal ''Invalid private object key''), s)
      | Some p \<Rightarrow> if st_files s p \<noteq> None then (Inl (Internal ''EEXIST''), s)
                  else (Inr key, s\<lparr>st_files := (st_files s)(p \<mapsto> FileNode data)\<rparr>)) = (Inr k, t)"
    using assms unfolding upload_object_def Let_def key_def[symmetric] by (simp split: if_splits)
  then obtain p where "object_path key s = Some p" by (cases "object_path key s") auto
  then show thesis using that[of p, folded key_def] u by (auto split: if_splits)
qed

interpretation documents: undoable_put put_document drop_document "\<lambda>_. True"
proof
  show "t = s" if "put_document f s = (Inl e, t)" for f s e t
    using that by (auto simp: put_document_def upload_object_def Let_def split: prod.splits if_splits option.splits)
  show "drop_document k t = s" if "put_document f s = (Inr k, t)" for f s k t
  proof -
    obtain ct data uuid where f: "f = (ct, data, uuid)" by (cases f)
    have w: "upload_object None ct data uuid s = (Inr k, t)" using that by (simp add: put_document_def f)
    obtain p where p: "object_path k s = Some p" "st_files s p = None" "t = s\<lparr>st_files := (st_files s)(p \<mapsto> FileNode data)\<rparr>"
      using upload_objectE[OF w] by metis
    have "(st_files s)(p := None) = st_files s" using p(2) by auto
    then show ?thesis using p(1) by (simp add: p(3) drop_document_def delete_object_def)
  qed
qed

lemma uploadMany_failed:
  assumes "uploadMany disk uuids files d = (Inl e, t)" "list_all uuid_text uuids"
  shows "t = d"
proof -
  have "list_all (\<lambda>x. uuid_text (fst x)) (zip uuids files)" using assms(2) by (auto simp: list_all_iff dest: set_zip_leftD)
  then show ?thesis
    using assms(1) pictures.failed_uploads_undone[of disk "zip uuids files" d e t]
    by (auto simp: uploadMany_def split: if_splits option.splits)
qed

lemma uploadMany_undone:
  assumes "uploadMany disk uuids files d = (Inr urls, t)" "list_all uuid_text uuids"
  shows "deleteMany urls t = d"
proof -
  have "list_all (\<lambda>x. uuid_text (fst x)) (zip uuids files)" using assms(2) by (auto simp: list_all_iff dest: set_zip_leftD)
  then show ?thesis
    using assms(1) pictures.uploads_undone[of disk "zip uuids files" d urls t]
    by (auto simp: uploadMany_def deleteMany_def split: if_splits option.splits)
qed



text \<open>Two pictures whose names collide: the second upload fails and the first picture goes again.\<close>

definition tiny_jpeg :: upload_file where
  "tiny_jpeg = \<lparr>uf_mimetype = ''image/jpeg'', uf_size = 3, uf_buffer = [0xFF, 0xD8, 0xFF], uf_originalname = ''a.jpg''\<rparr>"

definition sample_uuid :: string where "sample_uuid = replicate 36 CHR ''a''"

lemma sample_uuid_text: "uuid_text sample_uuid"
  by (simp add: uuid_text_def sample_uuid_def hex_dash_def js_lower_char_def list_all_iff)


section \<open>Where the private objects lie\<close>

lemma split_slash_nonempty [simp]: "split_slash s \<noteq> []"
  by (cases s) (auto split: list.splits)

lemma split_slash_append: "CHR ''/'' \<notin> set a \<Longrightarrow> split_slash (a @ CHR ''/'' # b) = a # split_slash b"
  by (induction a) auto

lemma path_resolve_plain: "list_all (\<lambda>x. x \<noteq> [] \<and> x \<noteq> ''.'' \<and> x \<noteq> ''..'') xs \<Longrightarrow> path_resolve p xs = p @ xs"
  by (induction xs arbitrary: p) (simp_all add: path_resolve_def resolve_step_def)

lemma set_fold_runs: "set (fold_runs ok d b s) \<subseteq> {c. ok c} \<union> {d}"
  by (induction s arbitrary: b) auto

lemma set_trim_dashes: "set (trim_dashes s) \<subseteq> set s"
  by (auto simp: trim_dashes_def dest!: set_dropWhileD)

lemma environmentPrefix_plain: "CHR ''/'' \<notin> set (environmentPrefix v)"
proof -
  have "\<not> env_char CHR ''/''" by (simp add: env_char_def)
  then have "CHR ''/'' \<notin> set (fold_runs env_char CHR ''-'' False s)" for s
    using set_fold_runs[of env_char "CHR ''-''" False s] by auto
  then have "CHR ''/'' \<notin> set (trim_dashes (fold_runs env_char CHR ''-'' False s))" for s
    using set_trim_dashes by blast
  then show ?thesis by (auto simp: environmentPrefix_def Let_def)
qed

text \<open>The area of a server: below its base, its environment and one of the two categories.\<close>

definition in_area :: "object_storage \<Rightarrow> path \<Rightarrow> bool" where
  "in_area s p \<longleftrightarrow> (\<exists>cat rest. cat \<in> {''identity'', ''contracts''} \<and> rest \<noteq> []
     \<and> list_all (\<lambda>x. x \<noteq> [] \<and> x \<noteq> ''.'' \<and> x \<noteq> ''..'') rest \<and> p = st_root s @ [environmentPrefix (st_nodeEnv s), cat] @ rest)"

lemma object_path_in_area:
  assumes "object_path key s = Some p"
  shows "in_area s p"
proof -
  let ?e = "environmentPrefix (st_nodeEnv s)"
  have r: "list_ex (\<lambda>cat. has_prefix (?e @ ''/'' @ cat @ ''/'') key) [''identity'', ''contracts'']"
    "list_all (\<lambda>x. x \<noteq> [] \<and> x \<noteq> ''.'' \<and> x \<noteq> ''..'') (split_slash key)" "p = path_resolve (st_root s) (split_slash key)"
    using assms by (auto simp: object_path_def resolveObjectPath_def Let_def list_all_iff list_ex_iff split: if_splits)
  from r(1) obtain cat where c0: "cat \<in> set [''identity'', ''contracts'']" and c1: "has_prefix (?e @ ''/'' @ cat @ ''/'') key"
    unfolding list_ex_iff by blast
  have c: "cat \<in> {''identity'', ''contracts''}" using c0 by simp
  define rest where "rest = drop (length (?e @ ''/'' @ cat @ ''/'')) key"
  have "take (length (?e @ ''/'' @ cat @ ''/'')) key = ?e @ ''/'' @ cat @ ''/''" using c1 by (simp only: has_prefix_def)
  then have "key = (?e @ ''/'' @ cat @ ''/'') @ rest" unfolding rest_def by (metis append_take_drop_id)
  then have "key = ?e @ CHR ''/'' # cat @ CHR ''/'' # rest" by simp
  moreover have "CHR ''/'' \<notin> set cat" using c by auto
  ultimately have k: "split_slash key = ?e # cat # split_slash rest"
    using split_slash_append[OF environmentPrefix_plain, of "st_nodeEnv s" "cat @ CHR ''/'' # rest"] split_slash_append[of cat rest] by simp
  then have "p = st_root s @ [?e, cat] @ split_slash rest" using r(2,3) path_resolve_plain[OF r(2)] by simp
  then show ?thesis unfolding in_area_def using c r(2) k by (intro exI[of _ cat] exI[of _ "split_slash rest"]) simp
qed

section \<open>Runs of calls\<close>

datatype storage_call =
    C_Upload "string option" string "int list" string
  | C_Issue string "int option" string time
  | C_Read string time
  | C_Delete string

fun perform :: "storage_call \<Rightarrow> object_storage \<Rightarrow> object_storage" where
  "perform (C_Upload cat ct data uuid) s = snd (upload_object cat ct data uuid s)"
| "perform (C_Issue key secs token now) s = snd (createTemporaryReadUrl key secs token now s)"
| "perform (C_Read token now) s = snd (readTemporaryObject token now s)"
| "perform (C_Delete key) s = snd (delete_object key s)"

definition perform_all :: "storage_call list \<Rightarrow> object_storage \<Rightarrow> object_storage" where
  "perform_all cs s = fold perform cs s"

lemma prune_frame [simp]:
  "st_root (removeExpiredTemporaryReadTokens now s) = st_root s"
  "st_nodeEnv (removeExpiredTemporaryReadTokens now s) = st_nodeEnv s"
  "st_files (removeExpiredTemporaryReadTokens now s) = st_files s"
  "object_path key (removeExpiredTemporaryReadTokens now s) = object_path key s"
  by (simp_all add: removeExpiredTemporaryReadTokens_def object_path_def)

lemma pruned_token: "st_tokens (removeExpiredTemporaryReadTokens now s) t = Some (k, e) \<longleftrightarrow> st_tokens s t = Some (k, e) \<and> now < e"
  by (auto simp: removeExpiredTemporaryReadTokens_def split: option.splits)

text \<open>What a call does to the storage: nothing, a change of one file in the area, or of the links.\<close>

lemma upload_effect:
  "snd (upload_object cat ct data uuid s) = s
    \<or> (\<exists>p. in_area s p \<and> snd (upload_object cat ct data uuid s) = s\<lparr>st_files := (st_files s)(p \<mapsto> FileNode data)\<rparr>)"
  unfolding upload_object_def Let_def by (auto intro: object_path_in_area split: option.split)

lemma issue_effect:
  "snd (createTemporaryReadUrl key secs token now s) = s
    \<or> (\<exists>n. secs = Some n \<and> 0 < n \<and> snd (createTemporaryReadUrl key secs token now s)
         = (let s1 = removeExpiredTemporaryReadTokens now s in s1\<lparr>st_tokens := (st_tokens s1)(token \<mapsto> (key, now + n * 1000))\<rparr>))"
  unfolding createTemporaryReadUrl_def Let_def by (auto split: option.split node.split)

lemma read_effect: "snd (readTemporaryObject token now s) = removeExpiredTemporaryReadTokens now s"
  unfolding readTemporaryObject_def Let_def by (auto split: option.split node.split prod.split)

lemma delete_effect:
  "snd (delete_object key s) = s \<or> (\<exists>p. in_area s p \<and> snd (delete_object key s) = s\<lparr>st_files := (st_files s)(p := None)\<rparr>)"
  unfolding delete_object_def by (auto intro: object_path_in_area split: option.split node.split)

lemma perform_effect:
  "st_root (perform c s) = st_root s \<and> st_nodeEnv (perform c s) = st_nodeEnv s
    \<and> (st_files (perform c s) p \<noteq> st_files s p \<longrightarrow> in_area s p)"
proof (cases c)
  case (C_Upload cat ct data uuid)
  show ?thesis using upload_effect[of cat ct data uuid s] unfolding C_Upload perform.simps by (auto split: if_splits)
next
  case (C_Issue key secs token now)
  show ?thesis using issue_effect[of key secs token now s] unfolding C_Issue perform.simps by (auto simp: Let_def)
next
  case (C_Read token now)
  show ?thesis unfolding C_Read perform.simps read_effect by simp
next
  case (C_Delete key)
  show ?thesis using delete_effect[of key s] unfolding C_Delete perform.simps by (auto split: if_splits)
qed

lemmas perform_frame = perform_effect[THEN conjunct1] perform_effect[THEN conjunct2, THEN conjunct1]
lemmas perform_files = perform_effect[THEN conjunct2, THEN conjunct2, rule_format]

lemma perform_all_area:
  "st_root (perform_all cs s) = st_root s \<and> st_nodeEnv (perform_all cs s) = st_nodeEnv s
    \<and> (\<forall>p. st_files (perform_all cs s) p \<noteq> st_files s p \<longrightarrow> in_area s p)"
proof (induction cs arbitrary: s)
  case (Cons c cs)
  let ?t = "perform c s" and ?u = "perform_all cs (perform c s)"
  have u: "perform_all (c # cs) s = ?u" by (simp add: perform_all_def)
  have a: "in_area ?t p = in_area s p" for p by (simp only: in_area_def perform_frame)
  have h: "st_root ?u = st_root ?t \<and> st_nodeEnv ?u = st_nodeEnv ?t \<and> (\<forall>p. st_files ?u p \<noteq> st_files ?t p \<longrightarrow> in_area ?t p)"
    by (rule Cons.IH)
  have "in_area s p" if "st_files ?u p \<noteq> st_files s p" for p
  proof (cases "st_files ?t p = st_files s p")
    case True
    then show ?thesis using that h a by metis
  next
    case False
    then show ?thesis by (rule perform_files)
  qed
  then show ?case unfolding u using h perform_frame[of c s] by metis
qed (simp add: perform_all_def)

lemma readE:
  assumes "fst (readTemporaryObject token now s) = Inr (d, ty)"
  obtains key e p where "st_tokens s token = Some (key, e)" "now < e" "object_path key s = Some p"
    "st_files s p = Some (FileNode d)" "ty = contentTypeFor key"
  using assms that
  by (auto simp: readTemporaryObject_def Let_def pruned_token split: option.splits node.splits if_splits)


definition issued :: "storage_call list \<Rightarrow> object_storage \<Rightarrow> bool" where
  "issued cs s \<longleftrightarrow> (\<forall>token key e. st_tokens s token = Some (key, e) \<longrightarrow>
     (\<exists>secs t. C_Issue key (Some secs) token t \<in> set cs \<and> 0 < secs \<and> e = t + secs * 1000))"

lemma issued_perform:
  assumes "issued cs s"
  shows "issued (cs @ [c]) (perform c s)"
proof -
  have keep: "issued (cs @ [c]) t" if "\<And>x k e. st_tokens t x = Some (k, e) \<Longrightarrow> st_tokens s x = Some (k, e)" for t
    using assms that unfolding issued_def by fastforce
  show ?thesis
  proof (cases c)
    case (C_Upload cat ct data uuid)
    show ?thesis by (rule keep) (use upload_effect[of cat ct data uuid s] in \<open>auto simp: C_Upload\<close>)
  next
    case (C_Issue key secs token now)
    show ?thesis
    proof (cases "perform c s = s")
      case True
      then show ?thesis by (simp add: keep)
    next
      case False
      then obtain n where n: "secs = Some n" "0 < n"
        "perform c s = (let s1 = removeExpiredTemporaryReadTokens now s in s1\<lparr>st_tokens := (st_tokens s1)(token \<mapsto> (key, now + n * 1000))\<rparr>)"
        using issue_effect[of key secs token now s] unfolding C_Issue perform.simps by metis
      show ?thesis unfolding issued_def
      proof (intro allI impI)
        fix x k e
        assume x: "st_tokens (perform c s) x = Some (k, e)"
        show "\<exists>secs t. C_Issue k (Some secs) x t \<in> set (cs @ [c]) \<and> 0 < secs \<and> e = t + secs * 1000"
        proof (cases "x = token")
          case True
          then have "k = key" "e = now + n * 1000" using x by (simp_all add: n(3) Let_def)
          then show ?thesis using True n(1,2) C_Issue by auto
        next
          case False
          then have "st_tokens s x = Some (k, e)" using x by (simp add: n(3) Let_def pruned_token)
          then show ?thesis using assms unfolding issued_def by fastforce
        qed
      qed
    qed
  next
    case (C_Read token now)
    show ?thesis by (rule keep) (simp add: C_Read read_effect pruned_token)
  next
    case (C_Delete key)
    show ?thesis by (rule keep) (use delete_effect[of key s] in \<open>auto simp: C_Delete\<close>)
  qed
qed

lemma issued_run: "issued [] s \<Longrightarrow> issued cs (perform_all cs s)"
  by (induction cs rule: rev_induct) (simp_all add: perform_all_def issued_perform)

text \<open>C38: Whatever keys the private storage is called with, traversals, absolute paths and keys of another
  environment included, it creates and deletes files only below its base directory in the folder of its own
  environment and there in one of the two categories; no file elsewhere is ever changed.\<close>

theorem private_objects_confined:
  assumes "st_files (perform_all cs s) p \<noteq> st_files s p"
  shows "\<exists>cat rest. cat \<in> {''identity'', ''contracts''} \<and> rest \<noteq> [] \<and> ''..'' \<notin> set rest
    \<and> p = st_root s @ [environmentPrefix (st_nodeEnv s), cat] @ rest"
proof -
  have "in_area s p" using perform_all_area[of cs s] assms by blast
  then show ?thesis unfolding in_area_def list_all_iff by blast
qed

text \<open>C39: A temporary link gives out an object only if it was issued for the key of that object, and only
  before the seconds it was issued for are over; what it gives out is the content of a regular file in
  the area of the storage, never the target of a symbolic link.\<close>

theorem temporary_link_safe:
  assumes "st_tokens s = Map.empty" "fst (read_private token now (perform_all cs s)) = Inr (d, ty)"
  shows "\<exists>key secs t p. C_Issue key (Some secs) token t \<in> set cs \<and> 0 < secs \<and> now < t + secs * 1000
    \<and> object_path key s = Some p \<and> in_area s p \<and> st_files (perform_all cs s) p = Some (FileNode d) \<and> ty = contentTypeFor key"
proof -
  let ?t = "perform_all cs s"
  have "fst (readTemporaryObject token now ?t) = Inr (d, ty)"
    using assms(2) by (auto simp: read_private_def split: prod.splits sum.splits)
  then obtain key e p where k: "st_tokens ?t token = Some (key, e)" "now < e" "object_path key ?t = Some p"
    "st_files ?t p = Some (FileNode d)" "ty = contentTypeFor key"
    by (rule readE)
  have "issued cs ?t" by (rule issued_run) (simp add: issued_def assms(1))
  then obtain secs t where i: "C_Issue key (Some secs) token t \<in> set cs" "0 < secs" "e = t + secs * 1000"
    using k(1) unfolding issued_def by blast
  have "object_path key s = Some p" using k(3) perform_all_area[of cs s] by (simp add: object_path_def)
  then show ?thesis using i k(2,4,5) object_path_in_area by blast
qed

lemma has_suffix_rev: "has_suffix e k \<longleftrightarrow> take (length e) (rev k) = rev e"
proof -
  have "take (length e) (rev k) = rev (drop (length k - length e) k)" by (rule take_rev)
  moreover have "length (take (length e) (rev k)) = length e \<longleftrightarrow> length e \<le> length k" by (auto simp: min_def)
  ultimately show ?thesis unfolding has_suffix_def by (metis length_rev rev_rev_ident)
qed

lemma contentTypeFor_extension:
  "contentTypeFor (x @ extensionFor ct)
    = (if js_lower ct \<in> {''image/png'', ''image/webp'', ''application/pdf''} then js_lower ct else ''image/jpeg'')"
proof -
  have "contentTypeFor (x @ ''.jpg'') = ''image/jpeg''" "contentTypeFor (x @ ''.png'') = ''image/png''"
    "contentTypeFor (x @ ''.webp'') = ''image/webp''" "contentTypeFor (x @ ''.pdf'') = ''application/pdf''"
    "contentTypeFor (x @ ''.bin'') = ''image/jpeg''"
    by (simp_all add: contentTypeFor_def has_suffix_rev)
  then show ?thesis by (simp add: extensionFor_def Let_def)
qed

lemma link_of_file:
  assumes "object_path key s1 = Some p" "st_files s1 p = Some (FileNode data)" "uuid_text token" "0 < secs" "later < now + secs * 1000"
  obtains s2 where "createTemporaryReadUrl key (Some secs) token now s1 = (Inr (''/api/storage/private/'' @ token), s2)"
    "st_files s2 = st_files s1" "fst (read_private token later s2) = Inr (data, contentTypeFor key)"
proof -
  define r where "r = removeExpiredTemporaryReadTokens now s1"
  define s2 where "s2 = r\<lparr>st_tokens := (st_tokens r)(token \<mapsto> (key, now + secs * 1000))\<rparr>"
  have g: "object_path key s2 = Some p" "st_files s2 p = Some (FileNode data)" "st_files s2 = st_files s1"
    using assms(1,2) by (simp_all add: s2_def r_def object_path_def removeExpiredTemporaryReadTokens_def)
  have i: "createTemporaryReadUrl key (Some secs) token now s1 = (Inr (''/api/storage/private/'' @ token), s2)"
    using assms(1,2,4) by (simp add: createTemporaryReadUrl_def Let_def s2_def r_def)
  have "st_tokens (removeExpiredTemporaryReadTokens later s2) token = Some (key, now + secs * 1000)"
    using assms(5) by (simp add: pruned_token s2_def)
  then have "readTemporaryObject token later s2 = (Inr (data, contentTypeFor key), removeExpiredTemporaryReadTokens later s2)"
    using assms(3) g by (simp add: readTemporaryObject_def Let_def uuid_text_def)
  then show thesis using that[OF i g(3)] by (simp add: read_private_def)
qed

text \<open>What is uploaded is read back: a link that is issued for the key of an upload gives out the
  uploaded bytes for the whole of its time, with the content type of the upload if it is PNG, WebP or PDF
  and as JPEG otherwise, even when the upload was not a picture.\<close>

theorem stored_object_read_back:
  assumes "upload_object cat ct data uuid s = (Inr key, s1)" "uuid_text token" "0 < secs" "later < now + secs * 1000"
  shows "\<exists>s2. createTemporaryReadUrl key (Some secs) token now s1 = (Inr (''/api/storage/private/'' @ token), s2)
    \<and> fst (read_private token later s2)
      = Inr (data, if js_lower ct \<in> {''image/png'', ''image/webp'', ''application/pdf''} then js_lower ct else ''image/jpeg'')"
proof -
  obtain p where p: "object_path key s = Some p" "st_files s p = None" "s1 = s\<lparr>st_files := (st_files s)(p \<mapsto> FileNode data)\<rparr>"
    "key = environmentPrefix (st_nodeEnv s) @ ''/'' @ (case cat of None \<Rightarrow> ''identity'' | Some c \<Rightarrow> c) @ ''/'' @ uuid @ extensionFor ct"
    using upload_objectE[OF assms(1)] by metis
  have ty: "contentTypeFor key = (if js_lower ct \<in> {''image/png'', ''image/webp'', ''application/pdf''} then js_lower ct else ''image/jpeg'')"
    unfolding p(4) append.assoc[symmetric] by (rule contentTypeFor_extension)
  have f: "object_path key s1 = Some p" "st_files s1 p = Some (FileNode data)" using p(1) by (simp_all add: p(3))
  show ?thesis unfolding ty[symmetric] using link_of_file[OF f assms(2-4)] by metis
qed

text \<open>A server in production that keeps one picture of an identity card.\<close>

definition sample_storage :: object_storage where
  "sample_storage = \<lparr>st_root = [''data''], st_nodeEnv = Some ''Production'', st_files = Map.empty, st_tokens = Map.empty\<rparr>"

definition sample_key :: string where "sample_key = ''production/identity/'' @ sample_uuid @ ''.png''"

definition sample_calls :: "storage_call list" where
  "sample_calls = [C_Upload None ''image/png'' [1, 2, 3] sample_uuid, C_Issue sample_key (Some 60) sample_uuid 1000]"

lemma sample_uuid_unfold: "sample_uuid = ''aaaaaaaaaaaaaaaaaaaaaaaaaaaaaaaaaaaa''"
  by (simp add: sample_uuid_def numeral_eq_Suc)

lemma sample_path: "object_path sample_key sample_storage = Some ([''data'', ''production'', ''identity''] @ [sample_uuid @ ''.png''])"
proof -
  have e: "environmentPrefix (Some ''Production'') = ''production''" by code_simp
  have "resolveObjectPath [''data''] ''production'' sample_key = Some ([''data'', ''production'', ''identity''] @ [sample_uuid @ ''.png''])"
    unfolding sample_key_def sample_uuid_unfold by code_simp
  then show ?thesis by (simp add: object_path_def sample_storage_def e)
qed

lemma sample_upload:
  "upload_object None ''image/png'' [1, 2, 3] sample_uuid sample_storage
     = (Inr sample_key, sample_storage\<lparr>st_files := [[''data'', ''production'', ''identity''] @ [sample_uuid @ ''.png''] \<mapsto> FileNode [1, 2, 3]]\<rparr>)"
proof -
  have e: "environmentPrefix (Some ''Production'') = ''production''" and x: "extensionFor ''image/png'' = ''.png''" by code_simp+
  have k: "environmentPrefix (st_nodeEnv sample_storage) @ ''/'' @ ''identity'' @ ''/'' @ sample_uuid @ extensionFor ''image/png'' = sample_key"
    by (simp add: sample_storage_def e x sample_key_def)
  have f: "st_files sample_storage = Map.empty" by (simp add: sample_storage_def)
  have "([1, 2, 3] :: int list) \<noteq> []" by simp
  then show ?thesis
    unfolding upload_object_def Let_def option.case if_False k sample_path f by simp
qed

lemma sample_run:
  "st_files (perform_all sample_calls sample_storage) = [[''data'', ''production'', ''identity''] @ [sample_uuid @ ''.png''] \<mapsto> FileNode [1, 2, 3]]"
  "fst (read_private sample_uuid 2000 (perform_all sample_calls sample_storage)) = Inr ([1, 2, 3], ''image/png'')"
proof -
  have c: "contentTypeFor sample_key = ''image/png''" by (simp add: contentTypeFor_def has_suffix_rev sample_key_def)
  let ?p = "[''data'', ''production'', ''identity''] @ [sample_uuid @ ''.png'']"
  let ?s1 = "snd (upload_object None ''image/png'' [1, 2, 3] sample_uuid sample_storage)"
  have f: "object_path sample_key ?s1 = Some ?p" "st_files ?s1 ?p = Some (FileNode [1, 2, 3])"
    using sample_path by (simp_all add: sample_upload)
  obtain s2 where s2: "createTemporaryReadUrl sample_key (Some 60) sample_uuid 1000 ?s1 = (Inr (''/api/storage/private/'' @ sample_uuid), s2)"
    "st_files s2 = st_files ?s1" "fst (read_private sample_uuid 2000 s2) = Inr ([1, 2, 3], ''image/png'')"
    by (rule link_of_file[OF f sample_uuid_text, of 60 2000 1000]) (simp_all add: c)
  have r: "perform_all sample_calls sample_storage = s2" by (simp add: perform_all_def sample_calls_def s2(1))
  show "fst (read_private sample_uuid 2000 (perform_all sample_calls sample_storage)) = Inr ([1, 2, 3], ''image/png'')"
    unfolding r by (rule s2(3))
  show "st_files (perform_all sample_calls sample_storage) = [[''data'', ''production'', ''identity''] @ [sample_uuid @ ''.png''] \<mapsto> FileNode [1, 2, 3]]"
    unfolding r s2(2) by (simp add: sample_upload)
qed

theorem private_objects_confined_witness:
  "\<exists>cat rest. cat \<in> {''identity'', ''contracts''} \<and> rest \<noteq> []
     \<and> [''data'', ''production'', ''identity''] @ [sample_uuid @ ''.png''] = [''data'', environmentPrefix (Some ''Production''), cat] @ rest"
proof -
  have "st_files (perform_all sample_calls sample_storage) ([''data'', ''production'', ''identity''] @ [sample_uuid @ ''.png''])
      \<noteq> st_files sample_storage ([''data'', ''production'', ''identity''] @ [sample_uuid @ ''.png''])"
    unfolding sample_run(1) by (simp add: sample_storage_def)
  from private_objects_confined[OF this] show ?thesis by (auto simp: sample_storage_def)
qed

theorem temporary_link_safe_witness:
  "\<exists>key secs t. C_Issue key (Some secs) sample_uuid t \<in> set sample_calls \<and> 2000 < t + secs * 1000 \<and> ''image/png'' = contentTypeFor key"
proof -
  have "st_tokens sample_storage = Map.empty" by (simp add: sample_storage_def)
  from temporary_link_safe[OF this sample_run(2)] show ?thesis by blast
qed

theorem stored_object_read_back_witness:
  "\<exists>s2. createTemporaryReadUrl sample_key (Some 60) sample_uuid 1000 (snd (upload_object None ''image/png'' [1, 2, 3] sample_uuid sample_storage))
       = (Inr (''/api/storage/private/'' @ sample_uuid), s2)
     \<and> fst (read_private sample_uuid 2000 s2) = Inr ([1, 2, 3], ''image/png'')"
proof -
  have l: "js_lower ''image/png'' = ''image/png''" by code_simp
  show ?thesis using stored_object_read_back[OF sample_upload sample_uuid_text, of 60 2000 1000] by (simp add: l sample_upload)
qed

text \<open>Attachments: what is stored is removed by its address and nothing else is; an address outside the
  folder removes nothing.\<close>

lemma base_name_plain: "CHR ''/'' \<notin> set n \<Longrightarrow> n \<noteq> [] \<Longrightarrow> base_name (''/public/uploads/chat/'' @ n) = n"
proof -
  assume n: "CHR ''/'' \<notin> set n" "n \<noteq> []"
  have "split_slash n = [n]" using n(1) by (induction n) auto
  then have "split_slash (''/public/uploads/chat/'' @ n) = [[], ''public'', ''uploads'', ''chat'', n]" by simp
  then show ?thesis using n(2) by (simp add: base_name_def)
qed

lemma attachment_removed:
  assumes "store_attachment uuid f d = (Inr a, t)" "uuid_text uuid" "\<And>ext. d (uuid @ ext) = None"
  shows "deleteByUrl (Some (sa_url a)) t = d"
proof -
  obtain ty ext where e: "EXT_BY_MIME (js_lower (js_trim (takeWhile (\<lambda>c. c \<noteq> CHR '';'') (uf_mimetype f)))) = Some ext"
    "sa_url a = ''/public/uploads/chat/'' @ uuid @ ext" "t = d(uuid @ ext \<mapsto> uf_buffer f)"
    using assms(1) by (auto simp: store_attachment_def Let_def split: option.splits if_splits)
  have "ext \<in> {''.jpg'', ''.png'', ''.webp'', ''.gif'', ''.mp4'', ''.webm'', ''.mov'', ''.ogg'', ''.mp3'', ''.m4a'', ''.wav''}"
    using map_of_SomeD[OF e(1)[unfolded EXT_BY_MIME_def]] by auto
  then have x: "CHR ''/'' \<notin> set ext" by auto
  have u: "CHR ''/'' \<notin> set uuid" "4 < length (uuid @ ext)"
    using assms(2) by (auto simp: uuid_text_def list_all_iff hex_dash_def js_lower_char_def)
  then have b: "base_name (sa_url a) = uuid @ ext" unfolding e(2) using x by (intro base_name_plain) auto
  have "x \<notin> {[], ''.'', ''..''}" if "4 < length x" for x :: string using that by auto
  then have "uuid @ ext \<notin> {[], ''.'', ''..''}" using u(2) .
  then have r: "path_resolve [''chat''] [uuid @ ext] = [''chat'', uuid @ ext]" by (simp add: path_resolve_def resolve_step_def)
  have p: "has_prefix ''/public/uploads/chat/'' (sa_url a)" by (simp add: e(2) has_prefix_def)
  have "t(uuid @ ext := None) = d" using assms(3)[of ext] by (auto simp: e(3))
  then show ?thesis using b r p e(2) by (simp add: deleteByUrl_def js_or.simps Let_def)
qed

end
