(* ===== verification/Spec2Isabelle.thy ===== *)
theory Spec2Isabelle
  imports Payments TenantOffers Messages Leases Administration Offers Moderation Verification Analytics Community Dashboard Semantic Routes Storage
begin

text \<open>
  A verification library for the PropMatch backend, a rental marketplace between landlords and
  tenants (NestJS services over a PostgreSQL database).

  \<^bold>\<open>How the code is modelled.\<close> Every service of \<open>src/\<close> is a stateless class over one database, so
  the state of the model is one record \<open>db\<close> (theory \<open>Schema\<close>) with a list of rows for every table
  of \<open>prisma/schema.prisma\<close> that the services use, a counter that fresh ids are drawn from, and the
  list of effects that leave the process (socket events, mails, vector index updates). An operation
  of a service is a function from its arguments, the current time \<open>now\<close> and the database to a result
  and the next database; its result is \<open>Inl\<close> of the HTTP error that the code throws or \<open>Inr\<close> of the
  answer. Writes made before an exception outside a transaction stay; \<open>transaction\<close> undoes them.
  Where a guard of the code only makes sense between a read and a later write, the operation is also
  given as the two parts, composed into the whole the way the code runs them.
  Dates are the integers of \<open>Date\<close>, floats are reals, texts are characters of Latin-1; Arabic error
  texts are replaced by names.

  \<^item> \<open>Prelude\<close>: errors, tables (\<open>update_where\<close>, \<open>count_where\<close> as \<open>updateMany\<close> and its count),
    the string and rounding functions of JavaScript, the interfaces \<open>credit_pool\<close> and
    \<open>settled_machine\<close>.
  \<^item> \<open>JsDate\<close>: the UTC calendar of \<open>Date\<close>, with the getters inverse to the constructor.
  \<^item> \<open>Schema\<close>: the enums, rows and the database; \<open>notifyUser\<close> and \<open>notifyUsers\<close> of
    \<open>realtime/realtime.service.ts\<close>.
  \<^item> \<open>Catalog\<close>: \<open>payments/pricing.catalog.ts\<close> and \<open>commercial-config/commercial-config.service.ts\<close>.
  \<^item> \<open>Quota\<close>: \<open>quota/quota.service.ts\<close>: periods, allowances, consumption of plan and add-on
    credits, boosts, listing capacity.
  \<^item> \<open>Paymob\<close>: \<open>payments/providers/paymob.service.ts\<close>; the provider and HMAC are parameters.
  \<^item> \<open>Payments\<close>: \<open>payments/payments.service.ts\<close>: checkout, webhook, settlement, reconciliation.
  \<^item> \<open>TenantOffers\<close>: \<open>tenant-offers/tenant-offers.service.ts\<close>: the negotiation on a listing.
  \<^item> \<open>Messages\<close>: \<open>messages/messages.service.ts\<close> and \<open>messages/crypto.util.ts\<close>: conversations of a
    match and the agreement that closes the market around a listing.
  \<^item> \<open>Leases\<close>: \<open>lease-contracts/lease-contracts.service.ts\<close>: the contract of a match.
  \<^item> \<open>Support\<close>: \<open>customer-support/customer-support.service.ts\<close>: tickets, replies, the queue of the
    administrators and the hand-over of the external assistant.
  \<^item> \<open>Accounts\<close>: \<open>auth/auth.service.ts\<close>, \<open>users/users.service.ts\<close>, the guards of the routes and the
    handshake of the sockets.
  \<^item> \<open>Administration\<close>: the accounts part of \<open>admin/admin.service.ts\<close>.
  \<^item> \<open>Routes\<close>: the decorators of every \<open>*.controller.ts\<close> as a table of routes with guards, roles and
    capabilities, the dispatch of a request and the run of the guards of \<open>Accounts\<close>.
  \<^item> \<open>Listings\<close>: \<open>properties/properties.service.ts\<close> and its mapper: creation, edits, archiving,
    removal, boosts, the pages and the hybrid search.
  \<^item> \<open>Semantic\<close>: \<open>properties/semantic-match-reasons.ts\<close> and \<open>semanticSearch\<close>, on code points.
  \<^item> \<open>Matching\<close>: \<open>matching/matching.worker.ts\<close>, \<open>offers/match-score.util.ts\<close> and the requests of the
    tenants (\<open>tenant-requests/tenant-requests.service.ts\<close>).
  \<^item> \<open>Offers\<close>: \<open>offers/offers.service.ts\<close>: the offers of owners on requests.
  \<^item> \<open>Moderation\<close>: the queues, details and decisions of \<open>admin/admin.service.ts\<close>, the reviews of
    listings (\<open>reviews/reviews.service.ts\<close>) and the indexing of an approved listing.
  \<^item> \<open>Verification\<close>: \<open>verification/\<close>: the check of the identity documents and their upload.
  \<^item> \<open>Storage\<close>: \<open>storage/local-private-object-storage.service.ts\<close>, the pictures of listings with the
    handlers that upload them, and the attachments of chats.
  \<^item> \<open>Analytics\<close>: \<open>property-analytics/\<close> and \<open>favorites/\<close>: views, daily counters and favourites.
  \<^item> \<open>Community\<close>: mutual reviews (\<open>reviews/user-reviews.service.ts\<close>), partner leads, the inbox of
    notifications and the regions.
  \<^item> \<open>Dashboard\<close>: \<open>getStats\<close> of \<open>admin/admin.service.ts\<close>, for a server that runs in UTC.

  The components meet in the database: an accepted offer creates the CONNECTED match that
  \<open>Messages\<close> and \<open>Leases\<close> require, an agreement closes the offers of \<open>TenantOffers\<close>, a paid
  order writes the quota rows and grants that \<open>Quota\<close> consumes, an approval of \<open>Moderation\<close> makes a
  listing of \<open>Listings\<close> visible to \<open>Semantic\<close> and \<open>Analytics\<close>. The operations that a client
  calls are behind \<open>Routes\<close>, whose guards read the accounts that \<open>Administration\<close> changes.

  \<^bold>\<open>What the lemmas show.\<close> For the components that keep state, an invariant of their tables that
  the operations keep, the effect of the operations on their branches, and the step relation of
  whole requests in any order (\<open>payment_step\<close>, \<open>offer_step\<close>, \<open>lease_step\<close>) with what stays true
  along every run: settled payments, closed offers and approved contracts never change
  (\<open>settled_machine\<close>, interpreted in each component), credits are spent exactly
  (\<open>credit_pool\<close>, interpreted in \<open>Quota\<close>), the contract rows refine the abstract \<open>deal\<close>, a
  submission, listing, request or review is decided once (\<open>single_decision\<close>, interpreted four times in
  \<open>Moderation\<close>), uploads that fail are undone (\<open>undoable_put\<close>, interpreted twice in \<open>Storage\<close>). Further:
  the queues starve nobody; every stored identity document is accounted for; private files stay in their
  area and their links expire; the daily figures are the aggregates of the events; mutual reviews are
  fair; matching scores are within bounds and agree between card and notification; searches show approved
  listings that fit the wishes of the text; without a live session only the
  public routes are reached, and the order in which controllers are registered does not matter. The
  theorems about the two parts of an operation state what an interleaved request can break.

  \<^bold>\<open>Bounds.\<close> No definition runs on fuel: every loop of the modelled code goes over a finite list
  of rows, and all recursions are structural or have a termination measure.

  \<^bold>\<open>Not modelled.\<close> The delivery of mail, of push notifications and of socket messages (an operation
  leaves them as effects), the HTTP clients of the vector database, of the embedding providers and of the
  payment provider (parameters), texts written or read by language models (\<open>legal-support\<close>, the
  extraction of requests, the optimizer of descriptions, the stream of the support assistant), the
  rendering of PDF documents and their fixed text, signatures of tokens and hashes of passwords
  (parameters), the rate limiter, request validation by decorators where an operation does not depend on
  it, module wiring, seeds, scripts and the agent skills of the repository.
\<close>

end
